(* ===== verification/Prelude.thy ===== *)
theory Prelude
  imports Main "HOL-Library.Finite_Map" "HOL-Library.Multiset"
begin

text \<open>
  Shared vocabulary of the development: the types that stand for Go's basic types, the
  result type of fallible calls, the collections of rewrite rules the component theories
  fill, and lemmas on lists and finite maps that several components use.

  A Go \<open>string\<close> or \<open>[]byte\<close> is a list of bytes, which is what HOL's \<open>string\<close>
  is. A Go \<open>map\<close> is a finite map (\<open>fmap\<close>). An instant or a duration is a number of
  nanoseconds (\<open>int\<close>); the code adds and compares instants only, far from the limits of
  64-bit nanoseconds. A call that returns \<open>(T, error)\<close> yields \<open>'e + T\<close>, with
  \<open>Inl\<close> for the error; a call that returns only an \<open>error\<close> yields \<open>'e option\<close>,
  with \<open>None\<close> for \<open>nil\<close>.
\<close>

section \<open>Types\<close>

type_synonym bytes = string
type_synonym time = int
type_synonym duration = int

abbreviation (input) nanosecond :: duration where "nanosecond \<equiv> 1"
definition Second :: duration where "Second = 1000000000"
definition Minute :: duration where "Minute = 60 * Second"

lemma Second_pos [simp]: "0 < Second"
  by (simp add: Second_def)

lemma Minute_pos [simp]: "0 < Minute"
  by (simp add: Minute_def)

section \<open>Rule collections\<close>

text \<open>
  \<open>wire\<close> holds the definitions of the wire constants (message types, field names, states),
  \<open>guards\<close> the facts that turn the guards of a handler into propositions.
\<close>

named_theorems wire
named_theorems guards

section \<open>Results of fallible calls\<close>

text \<open>\<open>then_do\<close> is Go's \<open>if err != nil { return err }\<close> between two fallible calls.\<close>

fun then_do :: "'e + 'a \<Rightarrow> ('a \<Rightarrow> 'e + 'b) \<Rightarrow> 'e + 'b" where
  "then_do (Inl e) f = Inl e"
| "then_do (Inr a) f = f a"

lemma then_do_Inr: "then_do r f = Inr b \<longleftrightarrow> (\<exists>a. r = Inr a \<and> f a = Inr b)"
  by (cases r) auto

fun wrap_err :: "('e \<Rightarrow> 'f) \<Rightarrow> 'e + 'a \<Rightarrow> 'f + 'a" where
  "wrap_err w (Inl e) = Inl (w e)"
| "wrap_err w (Inr a) = Inr a"

lemma wrap_err_Inr [simp]: "wrap_err w r = Inr a \<longleftrightarrow> r = Inr a"
  by (cases r) auto

section \<open>Lists\<close>

lemma find_split:
  assumes "find P xs = Some x"
  shows "\<exists>ys zs. xs = ys @ x # zs \<and> P x \<and> (\<forall>y\<in>set ys. \<not> P y)"
  using assms
proof (induction xs)
  case Nil
  then show ?case by simp
next
  case (Cons a xs)
  show ?case
  proof (cases "P a")
    case True
    with Cons.prems show ?thesis by (intro exI [of _ "[]"] exI [of _ xs]) auto
  next
    case False
    with Cons obtain ys zs where "xs = ys @ x # zs" "P x" "\<forall>y\<in>set ys. \<not> P y" by auto
    with False show ?thesis by (intro exI [of _ "a # ys"] exI [of _ zs]) auto
  qed
qed

lemma find_app: "P x \<Longrightarrow> \<forall>y\<in>set ys. \<not> P y \<Longrightarrow> find P (ys @ x # zs) = Some x"
  by (induction ys) auto

lemma find_None_set: "find P xs = None \<longleftrightarrow> (\<forall>x\<in>set xs. \<not> P x)"
  by (induction xs) auto

lemma find_Some_set: "find P xs = Some x \<Longrightarrow> x \<in> set xs \<and> P x"
  by (auto dest: find_split)

lemma length_filter_append1:
  "length (filter P (xs @ [x])) = length (filter P xs) + (if P x then 1 else 0)"
  by simp

section \<open>Finite maps\<close>

text \<open>The number of entries of a Go map, \<open>len(m)\<close>.\<close>

definition fmlen :: "('k, 'v) fmap \<Rightarrow> nat" where
  "fmlen m = fcard (fmdom m)"

lemma fmlen_empty [simp]: "fmlen fmempty = 0"
  by (simp add: fmlen_def)

lemma fmlen_upd: "fmlen (fmupd k v m) = (if k |\<in>| fmdom m then fmlen m else Suc (fmlen m))"
proof (cases "k |\<in>| fmdom m")
  case True
  then have "finsert k (fmdom m) = fmdom m" by blast
  with True show ?thesis by (simp add: fmlen_def)
next
  case False
  then show ?thesis by (simp add: fmlen_def fcard_finsert_disjoint)
qed

lemma fmlen_upd_le: "fmlen (fmupd k v m) \<le> Suc (fmlen m)"
  by (simp add: fmlen_upd)

lemma fmlen_drop_le: "fmlen (fmdrop k m) \<le> fmlen m"
proof -
  have "fmdom (fmdrop k m) |\<subseteq>| fmdom m" by auto
  then show ?thesis by (simp add: fmlen_def fcard_mono)
qed

lemma fmlen_filter_le: "fmlen (fmfilter P m) \<le> fmlen m"
proof -
  have "fmdom (fmfilter P m) |\<subseteq>| fmdom m" by auto
  then show ?thesis by (simp add: fmlen_def fcard_mono)
qed

text \<open>The entries whose value satisfies a predicate: a \<open>for k, v := range m\<close> with a test.\<close>

definition fmselect :: "('v \<Rightarrow> bool) \<Rightarrow> ('k, 'v) fmap \<Rightarrow> ('k, 'v) fmap" where
  "fmselect P m = fmfilter (\<lambda>k. case fmlookup m k of None \<Rightarrow> False | Some v \<Rightarrow> P v) m"

lemma fmlookup_select:
  "fmlookup (fmselect P m) k =
     (case fmlookup m k of None \<Rightarrow> None | Some v \<Rightarrow> if P v then Some v else None)"
  by (auto simp: fmselect_def split: option.splits)

lemma fmselect_empty [simp]: "fmselect P fmempty = fmempty"
  by (rule fmap_ext) (simp add: fmlookup_select)

lemma fmselect_upd:
  "fmselect P (fmupd k v m) = (if P v then fmupd k v (fmselect P m) else fmdrop k (fmselect P m))"
  by (rule fmap_ext) (auto simp: fmlookup_select split: option.splits)

lemma fmselect_drop: "fmselect P (fmdrop k m) = fmdrop k (fmselect P m)"
  by (rule fmap_ext) (auto simp: fmlookup_select split: option.splits)

lemma fmdom_select_iff: "k |\<in>| fmdom (fmselect P m) \<longleftrightarrow> (\<exists>v. fmlookup m k = Some v \<and> P v)"
  by (auto simp: fmlookup_dom_iff fmlookup_select split: option.splits if_splits)

end
