(* ===== verification/GoLib.thy ===== *)
theory GoLib
  imports Prelude
begin

text \<open>
  The functions of Go's standard library that the modelled code calls: byte searches
  (\<open>bytes.IndexByte\<close>, \<open>bytes.Index\<close>, \<open>bytes.TrimRight\<close>), anchored regular expressions
  (\<open>regexp\<close>), and the contract of \<open>sort.Slice\<close> as a locale, with the insertion sort that
  Go runs on short slices as its instance. Go's \<open>-1\<close> for "not found" is \<open>None\<close>.
\<close>

section \<open>Byte searches\<close>

text \<open>\<open>bytes.HasPrefix\<close> and \<open>bytes.Index\<close>: the least offset at which \<open>sep\<close> occurs.\<close>

fun has_prefix :: "bytes \<Rightarrow> bytes \<Rightarrow> bool" where
  "has_prefix [] s = True"
| "has_prefix (p # ps) [] = False"
| "has_prefix (p # ps) (c # cs) = (p = c \<and> has_prefix ps cs)"

lemma has_prefix_iff: "has_prefix p s \<longleftrightarrow> (\<exists>t. s = p @ t)"
  by (induction p s rule: has_prefix.induct) auto

lemma has_prefix_append [simp]: "has_prefix p (p @ t)"
  by (auto simp: has_prefix_iff)

lemma has_prefix_length: "has_prefix p s \<Longrightarrow> length p \<le> length s"
  by (auto simp: has_prefix_iff)

fun bytes_Index :: "bytes \<Rightarrow> bytes \<Rightarrow> nat option" where
  "bytes_Index [] sep = (if sep = [] then Some 0 else None)"
| "bytes_Index (c # cs) sep =
     (if has_prefix sep (c # cs) then Some 0 else map_option Suc (bytes_Index cs sep))"

text \<open>The characteristic property: the offset is an occurrence and no earlier one is.\<close>

lemma bytes_Index_Some:
  "bytes_Index s sep = Some i \<longleftrightarrow>
     i \<le> length s \<and> has_prefix sep (drop i s) \<and> (\<forall>j<i. \<not> has_prefix sep (drop j s))"
proof (induction s arbitrary: i)
  case Nil
  show ?case by (cases sep) auto
next
  case (Cons c cs)
  show ?case
  proof (cases "has_prefix sep (c # cs)")
    case True
    then show ?thesis by (cases i) auto
  next
    case False
    then show ?thesis
      using Cons.IH by (cases i) (auto simp: All_less_Suc2)
  qed
qed

lemma bytes_Index_None:
  "bytes_Index s sep = None \<longleftrightarrow> (\<forall>j\<le>length s. \<not> has_prefix sep (drop j s))"
proof (induction s)
  case Nil
  show ?case by (cases sep) auto
next
  case (Cons c cs)
  have "(\<forall>j\<le>length (c # cs). \<not> has_prefix sep (drop j (c # cs))) \<longleftrightarrow>
      \<not> has_prefix sep (c # cs) \<and> (\<forall>j\<le>length cs. \<not> has_prefix sep (drop j cs))"
    by (auto simp: less_Suc_eq_le [symmetric] All_less_Suc2)
  then show ?case using Cons.IH by auto
qed

definition bytes_IndexByte :: "bytes \<Rightarrow> char \<Rightarrow> nat option" where
  "bytes_IndexByte s c = bytes_Index s [c]"

lemma has_prefix_single: "has_prefix [c] s \<longleftrightarrow> s \<noteq> [] \<and> hd s = c"
  by (cases s) auto

lemma bytes_IndexByte_append:
  "c \<notin> set s \<Longrightarrow> bytes_IndexByte (s @ c # t) c = Some (length s)"
  by (induction s) (auto simp: bytes_IndexByte_def)

lemma bytes_IndexByte_Some:
  assumes "bytes_IndexByte s c = Some i"
  shows "i < length s" and "s = take i s @ c # drop (Suc i) s" and "c \<notin> set (take i s)"
proof -
  have p: "has_prefix [c] (drop i s)" and m: "\<forall>j<i. \<not> has_prefix [c] (drop j s)"
    using assms by (auto simp: bytes_IndexByte_def bytes_Index_Some)
  from p show l: "i < length s"
    by (cases "i < length s") (auto simp: has_prefix_single)
  from p l have "s ! i = c"
    by (simp add: has_prefix_single hd_drop_conv_nth)
  with l show "s = take i s @ c # drop (Suc i) s"
    using id_take_nth_drop [OF l] by simp
  show "c \<notin> set (take i s)"
  proof
    assume "c \<in> set (take i s)"
    then obtain j where j: "j < i" "j < length s" "s ! j = c"
      by (auto simp: in_set_conv_nth)
    with m show False by (auto simp: has_prefix_single hd_drop_conv_nth)
  qed
qed

text \<open>\<open>bytes.TrimRight(s, cutset)\<close> for a cutset of one byte.\<close>

definition bytes_TrimRight :: "bytes \<Rightarrow> char \<Rightarrow> bytes" where
  "bytes_TrimRight s c = rev (dropWhile (\<lambda>x. x = c) (rev s))"

lemma bytes_TrimRight_iff:
  assumes "t = [] \<or> last t \<noteq> c"
  shows "bytes_TrimRight s c = t \<longleftrightarrow> (\<exists>n. s = t @ replicate n c)"
proof
  assume l: "bytes_TrimRight s c = t"
  have split: "rev s = takeWhile (\<lambda>x. x = c) (rev s) @ dropWhile (\<lambda>x. x = c) (rev s)"
    by simp
  define w where "w = takeWhile (\<lambda>x. x = c) (rev s)"
  have "\<forall>x\<in>set w. x = c" by (auto simp: w_def dest: set_takeWhileD)
  then have "rev w = replicate (length w) c"
    by (metis length_rev replicate_length_same set_rev)
  moreover have "s = rev (dropWhile (\<lambda>x. x = c) (rev s)) @ rev w"
    by (metis rev_append rev_rev_ident split w_def)
  ultimately show "\<exists>n. s = t @ replicate n c"
    using l by (auto simp: bytes_TrimRight_def)
next
  assume "\<exists>n. s = t @ replicate n c"
  then obtain n where "s = t @ replicate n c" ..
  moreover have "dropWhile (\<lambda>x. x = c) (replicate n c @ rev t) = rev t"
  proof (cases t rule: rev_cases)
    case Nil
    then show ?thesis by (induction n) auto
  next
    case (snoc ys y)
    then have "y \<noteq> c" using assms by simp
    then show ?thesis using snoc by (induction n) auto
  qed
  ultimately show "bytes_TrimRight s c = t"
    by (simp add: bytes_TrimRight_def)
qed

section \<open>Regular expressions\<close>

text \<open>
  The operators the code's only pattern uses: character classes, sequence and bounded
  repetition. \<open>re_rest r s\<close> lists what can be left of \<open>s\<close> after \<open>r\<close> has matched a prefix;
  a pattern anchored with \<open>^\<close> and \<open>$\<close> matches \<open>s\<close> when nothing can be left. A class of
  ASCII characters matches no byte of a multi-byte rune, so matching bytes is matching runes.
\<close>

datatype re = Class "char \<Rightarrow> bool" | Sequence re re | Repeat nat nat re

fun rep_rest :: "(string \<Rightarrow> string list) \<Rightarrow> nat \<Rightarrow> nat \<Rightarrow> string \<Rightarrow> string list" where
  "rep_rest f m 0 s = (if m = 0 then [s] else [])"
| "rep_rest f m (Suc n) s =
     (if m = 0 then [s] else []) @ concat (map (rep_rest f (m - 1) n) (f s))"

primrec re_rest :: "re \<Rightarrow> string \<Rightarrow> string list" where
  "re_rest (Class p) s = (case s of [] \<Rightarrow> [] | c # cs \<Rightarrow> if p c then [cs] else [])"
| "re_rest (Sequence a b) s = concat (map (re_rest b) (re_rest a s))"
| "re_rest (Repeat m n r) s = rep_rest (re_rest r) m n s"

definition re_match :: "re \<Rightarrow> string \<Rightarrow> bool" where
  "re_match r s = ([] \<in> set (re_rest r s))"

lemma class_rest_iff: "t \<in> set (re_rest (Class p) s) \<longleftrightarrow> (\<exists>c. p c \<and> s = c # t)"
  by (cases s) auto

lemma rep_class_rest_iff:
  "t \<in> set (rep_rest (re_rest (Class p)) m n s) \<longleftrightarrow>
     (\<exists>u. s = u @ t \<and> m \<le> length u \<and> length u \<le> n \<and> (\<forall>c\<in>set u. p c))"
proof (induction n arbitrary: m s)
  case 0
  show ?case by auto
next
  case (Suc n)
  show ?case
  proof (cases s)
    case Nil
    then show ?thesis by auto
  next
    case (Cons c cs)
    have "(\<exists>u. c # cs = u @ t \<and> m \<le> length u \<and> length u \<le> Suc n \<and> (\<forall>x\<in>set u. p x)) \<longleftrightarrow>
        (m = 0 \<and> t = c # cs) \<or>
        (p c \<and> (\<exists>v. cs = v @ t \<and> m - 1 \<le> length v \<and> length v \<le> n \<and> (\<forall>x\<in>set v. p x)))"
      (is "?L \<longleftrightarrow> ?R")
    proof
      assume ?L
      then obtain u where u: "c # cs = u @ t" "m \<le> length u" "length u \<le> Suc n"
        "\<forall>x\<in>set u. p x" by blast
      show ?R
      proof (cases u)
        case Nil
        with u show ?thesis by simp
      next
        case (Cons d v)
        with u show ?thesis by (auto intro!: exI [of _ v])
      qed
    next
      assume ?R
      then show ?L
      proof
        assume "m = 0 \<and> t = c # cs"
        then show ?L by (intro exI [of _ "[]"]) simp
      next
        assume "p c \<and> (\<exists>v. cs = v @ t \<and> m - 1 \<le> length v \<and> length v \<le> n \<and> (\<forall>x\<in>set v. p x))"
        then obtain v where "p c" "cs = v @ t" "m - 1 \<le> length v" "length v \<le> n"
          "\<forall>x\<in>set v. p x" by blast
        then show ?L by (intro exI [of _ "c # v"]) auto
      qed
    qed
    then show ?thesis using Suc.IH [of "m - 1" cs] Cons by auto
  qed
qed

section \<open>Sorting\<close>

text \<open>
  \<open>sort.Slice(x, less)\<close> permutes the slice so that it is ordered by \<open>less\<close>; the order of
  equal elements is not specified. The modelled calls order by an integer key, largest
  first, so the contract is stated for such a \<open>less\<close>.
\<close>

locale slice_sorter =
  fixes srt :: "('a \<Rightarrow> 'a \<Rightarrow> bool) \<Rightarrow> 'a list \<Rightarrow> 'a list"
  assumes sort_perm: "mset (srt lt xs) = mset xs"
    and sort_order: "sorted_wrt (\<lambda>a b. key b \<le> key a) (srt (\<lambda>a b. key b < (key a :: int)) xs)"
begin

lemma sort_set [simp]: "set (srt lt xs) = set xs"
  by (metis set_mset_mset sort_perm)

text \<open>The first element that satisfies a test has the largest key among those that do.\<close>

lemma find_sorted_max:
  assumes "find P (srt (\<lambda>a b. key b < (key a :: int)) xs) = Some x"
    and "y \<in> set xs" and "P y"
  shows "key y \<le> key x"
proof -
  from assms(1) obtain ys zs where s: "srt (\<lambda>a b. key b < key a) xs = ys @ x # zs"
    and "\<forall>z\<in>set ys. \<not> P z" by (auto dest: find_split)
  with assms(2,3) have "y = x \<or> y \<in> set zs"
    by (metis Un_iff set_ConsD set_append sort_set)
  moreover have "\<forall>z\<in>set zs. key z \<le> key x"
    using sort_order [of key xs] by (simp add: s sorted_wrt_append)
  ultimately show ?thesis by auto
qed

lemma find_sorted_None:
  "find P (srt lt xs) = None \<longleftrightarrow> (\<forall>x\<in>set xs. \<not> P x)"
  by (simp add: find_None_set)

end

text \<open>
  Go's \<open>sort.Slice\<close> runs \<open>insertionSort_func\<close> on slices of at most twelve elements: element
  \<open>i\<close> moves left while it is less than its left neighbour. Seen from the sorted prefix,
  it is inserted after the last element it is not less than.
\<close>

fun insert_less :: "('a \<Rightarrow> 'a \<Rightarrow> bool) \<Rightarrow> 'a \<Rightarrow> 'a list \<Rightarrow> 'a list" where
  "insert_less lt x [] = [x]"
| "insert_less lt x (y # rs) = (if lt x y then y # insert_less lt x rs else x # y # rs)"

definition insertion_sort :: "('a \<Rightarrow> 'a \<Rightarrow> bool) \<Rightarrow> 'a list \<Rightarrow> 'a list" where
  "insertion_sort lt xs = rev (fold (insert_less lt) xs [])"

lemma mset_insert_less [simp]: "mset (insert_less lt x xs) = add_mset x (mset xs)"
  by (induction xs) auto

lemma set_insert_less [simp]: "set (insert_less lt x xs) = insert x (set xs)"
  by (metis mset_insert_less set_mset_add_mset_insert set_mset_mset)

lemma mset_fold_insert_less: "mset (fold (insert_less lt) xs acc) = mset xs + mset acc"
  by (induction xs arbitrary: acc) auto

lemma sorted_insert_less:
  fixes key :: "'a \<Rightarrow> int"
  assumes "sorted_wrt (\<lambda>a b. key a \<le> key b) xs"
  shows "sorted_wrt (\<lambda>a b. key a \<le> key b) (insert_less (\<lambda>a b. key b < key a) x xs)"
  using assms by (induction xs) fastforce+

lemma sorted_fold_insert_less:
  fixes key :: "'a \<Rightarrow> int"
  assumes "sorted_wrt (\<lambda>a b. key a \<le> key b) acc"
  shows "sorted_wrt (\<lambda>a b. key a \<le> key b) (fold (insert_less (\<lambda>a b. key b < key a)) xs acc)"
  using assms by (induction xs arbitrary: acc) (auto intro: sorted_insert_less)

interpretation go_sort: slice_sorter insertion_sort
proof unfold_locales
  fix lt and xs :: "'a list"
  show "mset (insertion_sort lt xs) = mset xs"
    by (simp add: insertion_sort_def mset_fold_insert_less)
next
  fix key :: "'a \<Rightarrow> int" and xs
  show "sorted_wrt (\<lambda>a b. key b \<le> key a) (insertion_sort (\<lambda>a b. key b < key a) xs)"
    by (simp add: insertion_sort_def sorted_wrt_rev sorted_fold_insert_less)
qed

end
