(* ===== verification/Policy.thy ===== *)
theory Policy
  imports GoLib "HOL-Library.Char_ord"
begin

text \<open>
  \<open>pkg/admin\<close>: agent identifiers (\<open>validation.go\<close>), communication policies and their
  evaluation (\<open>policy.go\<close>, \<open>types.go\<close>). \<open>Evaluate\<close> sorts with \<open>sort.Slice\<close>, whose order on
  equal priorities is unspecified, so it takes the sorting function as an argument and its
  properties are proved for every function that meets the contract \<open>slice_sorter\<close>.
\<close>

section \<open>Agent identifiers\<close>

definition alnum_class :: "char \<Rightarrow> bool" where
  "alnum_class c =
     ((CHR ''a'' \<le> c \<and> c \<le> CHR ''z'') \<or> (CHR ''A'' \<le> c \<and> c \<le> CHR ''Z'') \<or>
      (CHR ''0'' \<le> c \<and> c \<le> CHR ''9''))"

definition middle_class :: "char \<Rightarrow> bool" where
  "middle_class c = (alnum_class c \<or> c = CHR ''.'' \<or> c = CHR ''_'' \<or> c = CHR ''-'')"

text \<open>\<open>^[a-zA-Z0-9][a-zA-Z0-9._-]{0,62}[a-zA-Z0-9]$\<close>\<close>

definition agentIDPattern :: re where
  "agentIDPattern =
     Sequence (Class alnum_class) (Sequence (Repeat 0 62 (Class middle_class)) (Class alnum_class))"

definition IsValidAgentID :: "string \<Rightarrow> bool" where
  "IsValidAgentID s = re_match agentIDPattern s"

text \<open>The naming rules of the doc comment.\<close>

definition agent_id_rules :: "string \<Rightarrow> bool" where
  "agent_id_rules s \<longleftrightarrow>
     2 \<le> length s \<and> length s \<le> 64 \<and> alnum_class (hd s) \<and> alnum_class (last s) \<and>
     (\<forall>c\<in>set s. middle_class c)"

lemma IsValidAgentID_split:
  "IsValidAgentID s \<longleftrightarrow>
     (\<exists>a u z. s = a # u @ [z] \<and> alnum_class a \<and> alnum_class z \<and>
        length u \<le> 62 \<and> (\<forall>c\<in>set u. middle_class c))"
proof -
  have "IsValidAgentID s \<longleftrightarrow>
      (\<exists>r1 r2. r1 \<in> set (re_rest (Class alnum_class) s) \<and>
        r2 \<in> set (rep_rest (re_rest (Class middle_class)) 0 62 r1) \<and>
        [] \<in> set (re_rest (Class alnum_class) r2))"
    by (auto simp: IsValidAgentID_def re_match_def agentIDPattern_def simp del: re_rest.simps(1)
      split: list.splits)
  also have "\<dots> \<longleftrightarrow> (\<exists>a u z. s = a # u @ [z] \<and> alnum_class a \<and> alnum_class z \<and>
        length u \<le> 62 \<and> (\<forall>c\<in>set u. middle_class c))"
    unfolding class_rest_iff rep_class_rest_iff by auto
  finally show ?thesis .
qed

lemma IsValidAgentID_rules: "IsValidAgentID s \<longleftrightarrow> agent_id_rules s"
proof
  assume "IsValidAgentID s"
  then show "agent_id_rules s"
    unfolding IsValidAgentID_split agent_id_rules_def by (auto simp: middle_class_def)
next
  assume r: "agent_id_rules s"
  then obtain a t where s: "s = a # t"
    by (cases s) (auto simp: agent_id_rules_def)
  with r have "t \<noteq> []" by (auto simp: agent_id_rules_def)
  then obtain u z where t: "t = u @ [z]" by (cases t rule: rev_cases) auto
  show "IsValidAgentID s"
    unfolding IsValidAgentID_split
    using r by (intro exI [of _ a] exI [of _ u] exI [of _ z]) (auto simp: agent_id_rules_def s t)
qed

text \<open>Bytes that would let an identifier escape its place in a stream name or a policy.\<close>

lemma middle_class_safe:
  "middle_class c \<Longrightarrow> c \<notin> {CHR 0x00, CHR 0x0A, CHR 0x0D, CHR '' '', CHR ''*'', CHR ''/'', CHR '':''}"
  by (auto simp: middle_class_def alnum_class_def less_eq_char_def)

lemma valid_id_safe:
  "IsValidAgentID s \<Longrightarrow> c \<in> set s \<Longrightarrow>
     c \<notin> {CHR 0x00, CHR 0x0A, CHR 0x0D, CHR '' '', CHR ''*'', CHR ''/'', CHR '':''}"
  unfolding IsValidAgentID_rules agent_id_rules_def using middle_class_safe by blast

lemma valid_id_nonempty [guards]: "IsValidAgentID s \<Longrightarrow> s \<noteq> ''''"
  by (auto simp: IsValidAgentID_rules agent_id_rules_def)

section \<open>Policies (types.go)\<close>

type_synonym PolicyAction = string
type_synonym PolicyDirection = string

definition PolicyActionAllow :: PolicyAction where [wire]: "PolicyActionAllow = ''allow''"
definition PolicyActionDeny :: PolicyAction where [wire]: "PolicyActionDeny = ''deny''"
definition DirectionUnidirectional :: PolicyDirection where
  [wire]: "DirectionUnidirectional = ''unidirectional''"
definition DirectionBidirectional :: PolicyDirection where
  [wire]: "DirectionBidirectional = ''bidirectional''"
definition Wildcard :: string where [wire]: "Wildcard = ''*''"

record CommunicationPolicy =
  PolicyID :: string
  PolicyOrgID :: string
  SourceID :: string
  TargetID :: string
  Direction :: PolicyDirection
  Action :: PolicyAction
  Priority :: int
  PolicyCreatedBy :: string
  PolicyCreatedAt :: time

section \<open>Evaluation (policy.go)\<close>

definition matches :: "CommunicationPolicy \<Rightarrow> string \<Rightarrow> string \<Rightarrow> bool" where
  "matches p source target =
     (let srcMatch = SourceID p = Wildcard \<or> SourceID p = source;
          tgtMatch = TargetID p = Wildcard \<or> TargetID p = target
      in if srcMatch \<and> tgtMatch then True
         else if Direction p = DirectionBidirectional then
           (let revSrc = SourceID p = Wildcard \<or> SourceID p = target;
                revTgt = TargetID p = Wildcard \<or> TargetID p = source
            in revSrc \<and> revTgt)
         else False)"

definition Evaluate ::
  "((CommunicationPolicy \<Rightarrow> CommunicationPolicy \<Rightarrow> bool) \<Rightarrow> CommunicationPolicy list
      \<Rightarrow> CommunicationPolicy list)
    \<Rightarrow> CommunicationPolicy list \<Rightarrow> string \<Rightarrow> string \<Rightarrow> PolicyAction" where
  "Evaluate sort_Slice policies source target =
     (let sorted = sort_Slice (\<lambda>pi pj. Priority pi > Priority pj) policies
      in case find (\<lambda>p. matches p source target) sorted of
           Some p \<Rightarrow> Action p
         | None \<Rightarrow> PolicyActionDeny)"

text \<open>
  What a policy set is meant to decide: \<open>a\<close> is the action of some matching policy of the
  highest priority among the matching ones, or deny when none matches.
\<close>

definition policy_decides :: "CommunicationPolicy list \<Rightarrow> string \<Rightarrow> string \<Rightarrow> PolicyAction \<Rightarrow> bool" where
  "policy_decides policies source target a \<longleftrightarrow>
     (if (\<exists>p\<in>set policies. matches p source target)
      then (\<exists>p\<in>set policies. matches p source target \<and> Action p = a \<and>
              (\<forall>q\<in>set policies. matches q source target \<longrightarrow> Priority q \<le> Priority p))
      else a = PolicyActionDeny)"

text \<open>Matching policies of equal priority agree: the condition under which the set is unambiguous.\<close>

definition unambiguous :: "CommunicationPolicy list \<Rightarrow> string \<Rightarrow> string \<Rightarrow> bool" where
  "unambiguous policies source target \<longleftrightarrow>
     (\<forall>p\<in>set policies. \<forall>q\<in>set policies.
        matches p source target \<and> matches q source target \<and> Priority p = Priority q \<longrightarrow>
        Action p = Action q)"

lemma policy_decides_unique:
  assumes "unambiguous ps s t" and "policy_decides ps s t a" and "policy_decides ps s t b"
  shows "a = b"
proof (cases "\<exists>p\<in>set ps. matches p s t")
  case True
  then obtain p q where
    "p \<in> set ps" "matches p s t" "Action p = a" "\<forall>r\<in>set ps. matches r s t \<longrightarrow> Priority r \<le> Priority p"
    "q \<in> set ps" "matches q s t" "Action q = b" "\<forall>r\<in>set ps. matches r s t \<longrightarrow> Priority r \<le> Priority q"
    using assms(2,3) by (auto simp: policy_decides_def)
  then show ?thesis using assms(1) unfolding unambiguous_def by (metis order_antisym)
next
  case False
  then show ?thesis using assms(2,3) by (simp add: policy_decides_def)
qed

lemma policy_decides_max:
  "policy_decides ps s t a \<Longrightarrow> p \<in> set ps \<Longrightarrow> matches p s t \<Longrightarrow>
     \<exists>q\<in>set ps. matches q s t \<and> Action q = a \<and> Priority p \<le> Priority q"
  by (auto simp: policy_decides_def split: if_splits)

lemma matches_swap:
  "Direction p = DirectionBidirectional \<Longrightarrow> matches p s t = matches p t s"
  by (auto simp: matches_def Let_def)

context slice_sorter
begin

lemma first_match_max:
  assumes "find P (srt (\<lambda>a b. key a > (key b :: int)) xs) = Some x"
  shows "x \<in> set xs \<and> P x \<and> (\<forall>y\<in>set xs. P y \<longrightarrow> key y \<le> key x)"
  using find_Some_set [OF assms] find_sorted_max [OF assms] by auto

end

lemma Evaluate_decides:
  assumes "slice_sorter srt"
  shows "policy_decides ps s t (Evaluate srt ps s t)"
proof (cases "find (\<lambda>p. matches p s t) (srt (\<lambda>pi pj. Priority pi > Priority pj) ps)")
  case None
  then have "\<not> (\<exists>p\<in>set ps. matches p s t)"
    by (simp add: slice_sorter.find_sorted_None [OF assms])
  with None show ?thesis by (simp add: Evaluate_def policy_decides_def)
next
  case (Some p)
  then have "p \<in> set ps \<and> matches p s t \<and> (\<forall>q\<in>set ps. matches q s t \<longrightarrow> Priority q \<le> Priority p)"
    by (rule slice_sorter.first_match_max [OF assms])
  with Some show ?thesis by (auto simp: Evaluate_def policy_decides_def)
qed

lemma Evaluate_eqI:
  assumes "slice_sorter srt" and "unambiguous ps s t" and "policy_decides ps s t a"
  shows "Evaluate srt ps s t = a"
  using policy_decides_unique [OF assms(2) Evaluate_decides [OF assms(1)] assms(3)] .

lemma policy_decides_set_eq:
  "set ps = set qs \<Longrightarrow> policy_decides ps s t a = policy_decides qs s t a"
  by (simp add: policy_decides_def)

lemma unambiguous_set_eq: "set ps = set qs \<Longrightarrow> unambiguous ps s t = unambiguous qs s t"
  by (simp add: unambiguous_def)

end
