(* ===== verification/Auth.thy ===== *)
theory Auth
  imports Policy "HOL-Library.Word"
begin

unbundle bit_operations_syntax

text \<open>
  \<open>internal/gateway/auth.go\<close>, \<open>internal/gateway/policy.go\<close> and \<open>authenticateAgent\<close> of
  \<open>gateway.go\<close>: who may call a tool. The two interfaces \<open>AgentAuthenticator\<close> and
  \<open>PolicyEnforcer\<close> are functions of the world \<open>'w\<close> they consult: the admin store for the embedded
  implementations, the admin server for the HTTP ones. The store's queries, the hash, the URL
  parser, the transport of a request and the JSON decoders are arguments.
\<close>

section \<open>API keys (pkg/admin/types.go)\<close>

type_synonym Role = string

definition RoleAdmin :: Role where [wire]: "RoleAdmin = ''admin''"
definition RoleOperator :: Role where [wire]: "RoleOperator = ''operator''"
definition RoleViewer :: Role where [wire]: "RoleViewer = ''viewer''"
definition RoleAgent :: Role where [wire]: "RoleAgent = ''agent''"

text \<open>\<open>RevokedAt\<close> is \<open>None\<close> for the zero time, which marks an active key.\<close>

record APIKey =
  K_ID :: string
  K_OrgID :: string
  K_Name :: string
  KeyHash :: string
  K_Role :: Role
  K_AgentID :: string
  K_CreatedBy :: string
  K_CreatedAt :: time
  RevokedAt :: "time option"

section \<open>Requests to the admin server\<close>

record HTTPRequest =
  req_Method :: string
  req_URL :: string
  req_Authorization :: string

record HTTPResponse =
  StatusCode :: int
  resp_Body :: bytes

definition StatusOK :: int where "StatusOK = 200"
definition StatusUnauthorized :: int where "StatusUnauthorized = 401"

text \<open>
  \<open>url.Parse\<close> yields a scheme and a host; \<open>http.NewRequestWithContext\<close> fails or not; \<open>Do\<close>
  sends the request to the server in its current state.
\<close>

record 'w http_lib =
  url_Parse :: "string \<Rightarrow> string + (string \<times> string)"
  NewRequestErr :: "string \<Rightarrow> string \<Rightarrow> string option"
  Do :: "'w \<Rightarrow> HTTPRequest \<Rightarrow> string + HTTPResponse"
  decode_auth :: "bytes \<Rightarrow> string + (bool \<times> string)"
  decode_action :: "bytes \<Rightarrow> string + string"

definition io_LimitReader :: "bytes \<Rightarrow> nat \<Rightarrow> bytes" where
  "io_LimitReader b n = take n b"

text \<open>\<open>url.QueryEscape\<close>: letters, digits and \<open>- _ . ~\<close> stay, a blank becomes a plus.\<close>

definition unreserved :: "char \<Rightarrow> bool" where
  "unreserved c \<longleftrightarrow> alnum_class c \<or> c = CHR ''-'' \<or> c = CHR ''_'' \<or> c = CHR ''.'' \<or> c = CHR ''~''"

definition upperhex :: string where "upperhex = ''0123456789ABCDEF''"

definition escape_char :: "char \<Rightarrow> string" where
  "escape_char c =
     (if unreserved c then [c]
      else if c = CHR '' '' then ''+''
      else [CHR ''%'', upperhex ! (of_char c div 16), upperhex ! (of_char c mod 16)])"

definition url_QueryEscape :: "string \<Rightarrow> string" where
  "url_QueryEscape s = concat (map escape_char s)"

section \<open>Authenticators\<close>

datatype auth_error = KeyNotFound string | KeyRevoked | RoleNotAgent string | BuildRequest string
  | HTTPRequestFailed string | Unauthorized | AuthStatus int | DecodeResponse string
  | KeyInvalid

type_synonym 'w AgentAuthenticator = "'w \<Rightarrow> string \<Rightarrow> auth_error + string"

definition EmbeddedAuthenticator ::
  "(string \<Rightarrow> string) \<Rightarrow> ('w \<Rightarrow> string \<Rightarrow> string + APIKey) \<Rightarrow> 'w AgentAuthenticator" where
  "EmbeddedAuthenticator sha256_hex GetAPIKeyByHash w rawKey =
     (let hash = sha256_hex rawKey
      in case GetAPIKeyByHash w hash of
           Inl err \<Rightarrow> Inl (KeyNotFound err)
         | Inr k \<Rightarrow>
             if RevokedAt k \<noteq> None then Inl KeyRevoked
             else if K_Role k \<noteq> RoleAgent then Inl (RoleNotAgent (K_Role k))
             else Inr (K_AgentID k))"

definition maxAuthResponseBytes :: nat where "maxAuthResponseBytes = 4 * 1024"

definition HTTPAuthenticator :: "'w http_lib \<Rightarrow> string \<Rightarrow> 'w AgentAuthenticator" where
  "HTTPAuthenticator lib baseURL w rawKey =
     (let endpoint = baseURL @ ''/api/v1/auth''
      in case NewRequestErr lib ''POST'' endpoint of
           Some err \<Rightarrow> Inl (BuildRequest err)
         | None \<Rightarrow>
             (case Do lib w \<lparr>req_Method = ''POST'', req_URL = endpoint,
                             req_Authorization = ''Bearer '' @ rawKey\<rparr> of
                Inl err \<Rightarrow> Inl (HTTPRequestFailed err)
              | Inr resp \<Rightarrow>
                  if StatusCode resp = StatusUnauthorized then Inl Unauthorized
                  else if StatusCode resp \<noteq> StatusOK then Inl (AuthStatus (StatusCode resp))
                  else
                    (case decode_auth lib (io_LimitReader (resp_Body resp) maxAuthResponseBytes) of
                       Inl err \<Rightarrow> Inl (DecodeResponse err)
                     | Inr (valid, agentID) \<Rightarrow>
                         if \<not> valid then Inl KeyInvalid else Inr agentID)))"

section \<open>authenticateAgent (gateway.go)\<close>

text \<open>\<open>subtle.ConstantTimeCompare\<close>: 1 when the bytes agree, without an early exit.\<close>

definition ConstantTimeCompare :: "bytes \<Rightarrow> bytes \<Rightarrow> int" where
  "ConstantTimeCompare x y =
     (if length x \<noteq> length y then 0
      else if fold (\<lambda>(a, b) v. v OR (of_char a XOR of_char b)) (zip x y) (0 :: 8 word) = 0
      then 1 else 0)"

datatype auth_refusal = AuthenticationFailed auth_error | NotBound

definition authenticateAgent ::
  "'w AgentAuthenticator option \<Rightarrow> 'w \<Rightarrow> string \<Rightarrow> string \<Rightarrow> auth_refusal option" where
  "authenticateAgent auth w claimedAgent rawKey =
     (case auth of
        None \<Rightarrow> None
      | Some authenticate \<Rightarrow>
          (case authenticate w rawKey of
             Inl err \<Rightarrow> Some (AuthenticationFailed err)
           | Inr boundID \<Rightarrow>
               if ConstantTimeCompare boundID claimedAgent \<noteq> 1 then Some NotBound else None))"

lemma fold_or_zero:
  "fold (\<lambda>x v. v OR f x) xs (v :: 8 word) = 0 \<longleftrightarrow> v = 0 \<and> (\<forall>x\<in>set xs. f x = 0)"
  by (induction xs arbitrary: v) (auto simp: or_eq_0_iff)

lemma unat_of_char: "unat (of_char c :: 8 word) = of_char c"
proof -
  have "unat (of_nat (of_char c) :: 8 word) = of_char c"
    by (simp add: unsigned_of_nat take_bit_nat_eq_self_iff del: of_nat_of_char)
  then show ?thesis by (simp only: of_nat_of_char)
qed

lemma xor_zero_iff: "(a :: 8 word) XOR b = 0 \<longleftrightarrow> a = b"
proof
  assume z: "a XOR b = 0"
  have "a = (a XOR b) XOR b" by (simp add: xor.assoc)
  with z show "a = b" by simp
qed simp

lemma of_char_8_inject: "(of_char a :: 8 word) XOR of_char b = 0 \<longleftrightarrow> a = b"
  unfolding xor_zero_iff using unat_of_char [of a] unat_of_char [of b] by (metis of_char_eq_iff)

lemma ConstantTimeCompare_eq: "ConstantTimeCompare x y = 1 \<longleftrightarrow> x = y"
proof -
  have "x = y" if "length x = length y" "\<forall>p\<in>set (zip x y). fst p = snd p"
    using that by (induction x y rule: list_induct2) auto
  moreover have "fst p = snd p" if "p \<in> set (zip x x)" for p
    using that by (auto simp: in_set_zip)
  moreover have "fold (\<lambda>(a, b) v. v OR (of_char a XOR of_char b)) ps (0 :: 8 word) = 0 \<longleftrightarrow>
      (\<forall>p\<in>set ps. fst p = snd p)" for ps :: "(char \<times> char) list"
    using fold_or_zero [of "\<lambda>p. of_char (fst p) XOR of_char (snd p)" ps 0]
    by (simp add: case_prod_unfold of_char_8_inject)
  ultimately show ?thesis by (auto simp: ConstantTimeCompare_def)
qed

section \<open>Policy enforcers (internal/gateway/policy.go)\<close>

definition PolicyTargetOrchestrator :: string where
  [wire]: "PolicyTargetOrchestrator = ''orchestrator''"

datatype policy_error = ListPoliciesErr string | PolicyBuildRequest string | HTTPEvaluate string
  | EvaluateStatus int | PolicyDecode string | InvalidBaseURL string

text \<open>
  A \<open>PolicyEnforcer\<close>; \<open>PolicyQuerier\<close> is present when the value also satisfies that interface.
\<close>

record 'w PolicyEnforcer =
  Allowed :: "'w \<Rightarrow> string \<Rightarrow> string \<Rightarrow> policy_error + bool"
  PolicyQuerier :: "('w \<Rightarrow> string \<Rightarrow> policy_error + CommunicationPolicy list) option"

type_synonym slice_sort = "(CommunicationPolicy \<Rightarrow> CommunicationPolicy \<Rightarrow> bool) \<Rightarrow>
  CommunicationPolicy list \<Rightarrow> CommunicationPolicy list"

type_synonym 'w policy_lister = "'w \<Rightarrow> string \<Rightarrow> string + CommunicationPolicy list"

definition embedded_Allowed :: "slice_sort \<Rightarrow> 'w policy_lister \<Rightarrow> string
    \<Rightarrow> 'w \<Rightarrow> string \<Rightarrow> string \<Rightarrow> policy_error + bool" where
  "embedded_Allowed srt ListPolicies org w source target =
     (case ListPolicies w org of
        Inl err \<Rightarrow> Inl (ListPoliciesErr err)
      | Inr policies \<Rightarrow> Inr (Evaluate srt policies source target = PolicyActionAllow))"

definition embedded_ListPoliciesFor :: "'w policy_lister \<Rightarrow> string
    \<Rightarrow> 'w \<Rightarrow> string \<Rightarrow> policy_error + CommunicationPolicy list" where
  "embedded_ListPoliciesFor ListPolicies org w agentID =
     (case ListPolicies w org of
        Inl err \<Rightarrow> Inl (ListPoliciesErr err)
      | Inr all \<Rightarrow>
          Inr (filter (\<lambda>p. SourceID p = agentID \<or> TargetID p = agentID \<or>
                          SourceID p = ''*'' \<or> TargetID p = ''*'') all))"

definition EmbeddedEnforcer :: "slice_sort \<Rightarrow> 'w policy_lister \<Rightarrow> string \<Rightarrow> 'w PolicyEnforcer" where
  "EmbeddedEnforcer srt ListPolicies org =
     \<lparr>Allowed = embedded_Allowed srt ListPolicies org,
      PolicyQuerier = Some (embedded_ListPoliciesFor ListPolicies org)\<rparr>"

definition maxEvaluateResponseBytes :: nat where "maxEvaluateResponseBytes = 4 * 1024"

definition http_Allowed :: "'w http_lib \<Rightarrow> string \<Rightarrow> string \<Rightarrow> 'w \<Rightarrow> string \<Rightarrow> string
    \<Rightarrow> policy_error + bool" where
  "http_Allowed lib baseURL token w source target =
     (let endpoint = baseURL @ ''/api/v1/evaluate?source='' @ url_QueryEscape source @
                     ''&target='' @ url_QueryEscape target
      in case NewRequestErr lib ''GET'' endpoint of
           Some err \<Rightarrow> Inl (PolicyBuildRequest err)
         | None \<Rightarrow>
             (case Do lib w \<lparr>req_Method = ''GET'', req_URL = endpoint,
                             req_Authorization = ''Bearer '' @ token\<rparr> of
                Inl err \<Rightarrow> Inl (HTTPEvaluate err)
              | Inr resp \<Rightarrow>
                  if StatusCode resp \<noteq> StatusOK then Inl (EvaluateStatus (StatusCode resp))
                  else
                    (case decode_action lib (io_LimitReader (resp_Body resp) maxEvaluateResponseBytes) of
                       Inl err \<Rightarrow> Inl (PolicyDecode err)
                     | Inr action \<Rightarrow> Inr (action = PolicyActionAllow))))"

definition HTTPEnforcer :: "'w http_lib \<Rightarrow> string \<Rightarrow> string \<Rightarrow> 'w PolicyEnforcer" where
  "HTTPEnforcer lib baseURL token =
     \<lparr>Allowed = http_Allowed lib baseURL token, PolicyQuerier = None\<rparr>"

text \<open>The constructors check the base URL; the authenticator reuses the enforcer's check.\<close>

definition check_baseURL :: "'w http_lib \<Rightarrow> string \<Rightarrow> policy_error + string" where
  "check_baseURL lib baseURL =
     (case url_Parse lib baseURL of
        Inl err \<Rightarrow> Inl (InvalidBaseURL baseURL)
      | Inr (scheme, host) \<Rightarrow>
          if (scheme \<noteq> ''https'' \<and> scheme \<noteq> ''http'') \<or> host = ''''
          then Inl (InvalidBaseURL baseURL)
          else Inr (bytes_TrimRight baseURL (CHR ''/'')))"

definition NewHTTPEnforcer :: "'w http_lib \<Rightarrow> string \<Rightarrow> string \<Rightarrow> policy_error + 'w PolicyEnforcer" where
  "NewHTTPEnforcer lib baseURL token =
     (case check_baseURL lib baseURL of
        Inl err \<Rightarrow> Inl err
      | Inr base \<Rightarrow> Inr (HTTPEnforcer lib base token))"

definition NewHTTPAuthenticator :: "'w http_lib \<Rightarrow> string \<Rightarrow> policy_error + 'w AgentAuthenticator" where
  "NewHTTPAuthenticator lib baseURL =
     (case check_baseURL lib baseURL of
        Inl err \<Rightarrow> Inl err
      | Inr base \<Rightarrow> Inr (HTTPAuthenticator lib base))"

section \<open>The contracts a gateway relies on\<close>

text \<open>\<open>bound w k a\<close>: in the world \<open>w\<close> the raw key \<open>k\<close> is a valid credential of agent \<open>a\<close>.\<close>

locale key_check =
  fixes authenticate :: "'w AgentAuthenticator" and bound :: "'w \<Rightarrow> string \<Rightarrow> string \<Rightarrow> bool"
  assumes accepts_iff: "authenticate w k = Inr a \<longleftrightarrow> bound w k a"
begin

lemma authenticated_iff:
  "authenticateAgent (Some authenticate) w claimed k = None \<longleftrightarrow> bound w k claimed"
proof (cases "authenticate w k")
  case (Inl e)
  then show ?thesis using accepts_iff [of w k claimed] by (simp add: authenticateAgent_def)
next
  case (Inr b)
  then show ?thesis using accepts_iff [of w k claimed]
    by (auto simp: authenticateAgent_def ConstantTimeCompare_eq)
qed

lemma bound_unique: "bound w k a \<Longrightarrow> bound w k b \<Longrightarrow> a = b"
  using accepts_iff by (metis sum.inject(2))

end

locale policy_oracle =
  fixes enf :: "'w PolicyEnforcer" and permits :: "'w \<Rightarrow> string \<Rightarrow> string \<Rightarrow> bool"
  assumes allowed_iff: "Allowed enf w s t = Inr True \<longleftrightarrow> permits w s t"

text \<open>Both together: the front door of every tool.\<close>

locale access_control = key_check authenticate bound + policy_oracle enf permits
  for authenticate :: "'w AgentAuthenticator" and bound and enf :: "'w PolicyEnforcer" and permits
begin

lemma admitted:
  assumes "authenticateAgent (Some authenticate) w a k = None" and "Allowed enf w a t = Inr True"
  shows "bound w k a \<and> permits w a t"
  using assms by (simp add: authenticated_iff allowed_iff)

end

text \<open>The embedded implementations meet the contracts with the store's own content.\<close>

definition key_binds :: "(string \<Rightarrow> string) \<Rightarrow> ('w \<Rightarrow> string \<Rightarrow> string + APIKey)
    \<Rightarrow> 'w \<Rightarrow> string \<Rightarrow> string \<Rightarrow> bool" where
  "key_binds sha get w rawKey a \<longleftrightarrow>
     (\<exists>k. get w (sha rawKey) = Inr k \<and> RevokedAt k = None \<and> K_Role k = RoleAgent \<and> K_AgentID k = a)"

definition policy_permits :: "slice_sort \<Rightarrow> 'w policy_lister \<Rightarrow> string
    \<Rightarrow> 'w \<Rightarrow> string \<Rightarrow> string \<Rightarrow> bool" where
  "policy_permits srt list org w s t \<longleftrightarrow>
     (\<exists>ps. list w org = Inr ps \<and> Evaluate srt ps s t = PolicyActionAllow)"

interpretation embedded_keys: key_check "EmbeddedAuthenticator sha get" "key_binds sha get"
  by unfold_locales (auto simp: EmbeddedAuthenticator_def key_binds_def split: sum.split)

interpretation embedded_access: access_control "EmbeddedAuthenticator sha get" "key_binds sha get"
  "EmbeddedEnforcer srt list org" "policy_permits srt list org"
  by unfold_locales (auto simp: EmbeddedEnforcer_def embedded_Allowed_def policy_permits_def split: sum.split)

text \<open>The HTTP implementations meet them with what the admin server answers.\<close>

definition server_vouches :: "'w http_lib \<Rightarrow> string \<Rightarrow> 'w \<Rightarrow> string \<Rightarrow> string \<Rightarrow> bool" where
  "server_vouches lib base w rawKey a \<longleftrightarrow>
     NewRequestErr lib ''POST'' (base @ ''/api/v1/auth'') = None \<and>
     (\<exists>resp. Do lib w \<lparr>req_Method = ''POST'', req_URL = base @ ''/api/v1/auth'',
                       req_Authorization = ''Bearer '' @ rawKey\<rparr> = Inr resp \<and>
        StatusCode resp = StatusOK \<and>
        decode_auth lib (take maxAuthResponseBytes (resp_Body resp)) = Inr (True, a))"

definition server_permits :: "'w http_lib \<Rightarrow> string \<Rightarrow> string \<Rightarrow> 'w \<Rightarrow> string \<Rightarrow> string \<Rightarrow> bool" where
  "server_permits lib base token w s t \<longleftrightarrow>
     (let endpoint = base @ ''/api/v1/evaluate?source='' @ url_QueryEscape s @
                     ''&target='' @ url_QueryEscape t
      in NewRequestErr lib ''GET'' endpoint = None \<and>
         (\<exists>resp. Do lib w \<lparr>req_Method = ''GET'', req_URL = endpoint,
                           req_Authorization = ''Bearer '' @ token\<rparr> = Inr resp \<and>
            StatusCode resp = StatusOK \<and>
            decode_action lib (take maxEvaluateResponseBytes (resp_Body resp)) = Inr PolicyActionAllow))"

interpretation http_access: access_control "HTTPAuthenticator lib base" "server_vouches lib base"
  "HTTPEnforcer lib base token" "server_permits lib base token"
proof unfold_locales
  fix w k a s t
  show "HTTPAuthenticator lib base w k = Inr a \<longleftrightarrow> server_vouches lib base w k a"
    by (auto simp: HTTPAuthenticator_def server_vouches_def io_LimitReader_def StatusOK_def
        StatusUnauthorized_def Let_def split: sum.split option.split)
  show "Allowed (HTTPEnforcer lib base token) w s t = Inr True \<longleftrightarrow> server_permits lib base token w s t"
    by (simp add: HTTPEnforcer_def http_Allowed_def server_permits_def io_LimitReader_def Let_def
        split: sum.split option.split)
qed

section \<open>No injection into the evaluate query\<close>

lemma unreserved_safe: "unreserved c \<Longrightarrow>
    c \<notin> {CHR ''&'', CHR ''='', CHR ''?'', CHR ''#'', CHR '' '', CHR ''%'', CHR ''+''}"
  by (auto simp: unreserved_def alnum_class_def less_eq_char_def)

lemma upperhex_nth: "i < 16 \<Longrightarrow> upperhex ! i \<in> set upperhex"
  by (rule nth_mem) (simp add: upperhex_def)

lemma upperhex_safe: "c \<in> set upperhex \<Longrightarrow> c \<notin> {CHR ''&'', CHR ''='', CHR ''?'', CHR ''#'', CHR '' ''}"
  by (auto simp: upperhex_def)

lemma escape_char_safe:
  assumes "c \<in> set (escape_char x)"
  shows "c \<notin> {CHR ''&'', CHR ''='', CHR ''?'', CHR ''#'', CHR '' ''}"
proof -
  define h where "h = upperhex ! (of_char x div 16)"
  define l where "l = upperhex ! (of_char x mod 16)"
  have "(of_char x :: nat) div 16 < 16" using nat_of_char_less_256 [of x] by linarith
  then have hl: "h \<in> set upperhex" "l \<in> set upperhex"
    by (simp_all add: upperhex_nth h_def l_def)
  consider "unreserved x" "c = x" | "c = CHR ''+''" | "c = CHR ''%''" | "c = h" | "c = l"
    using assms by (auto simp: escape_char_def h_def [symmetric] l_def [symmetric] split: if_splits)
  then show ?thesis
    using unreserved_safe [of x] upperhex_safe [OF hl(1)] upperhex_safe [OF hl(2)] by cases simp_all
qed

lemma QueryEscape_safe:
  "c \<in> set (url_QueryEscape s) \<Longrightarrow> c \<notin> {CHR ''&'', CHR ''='', CHR ''?'', CHR ''#'', CHR '' ''}"
  using escape_char_safe by (auto simp: url_QueryEscape_def)

text \<open>\<open>url.QueryUnescape\<close>, which the server applies to each value: \<open>None\<close> for a malformed escape.\<close>

definition unhex :: "char \<Rightarrow> nat option" where
  "unhex c =
     (if CHR ''0'' \<le> c \<and> c \<le> CHR ''9'' then Some (of_char c - 48)
      else if CHR ''a'' \<le> c \<and> c \<le> CHR ''f'' then Some (of_char c - 87)
      else if CHR ''A'' \<le> c \<and> c \<le> CHR ''F'' then Some (of_char c - 55) else None)"

fun url_QueryUnescape :: "string \<Rightarrow> string option" where
  "url_QueryUnescape [] = Some []"
| "url_QueryUnescape (c # cs) =
     (if c = CHR ''%'' then
        (case cs of
           h # l # rest \<Rightarrow>
             (case (unhex h, unhex l) of
                (Some a, Some b) \<Rightarrow> map_option ((#) (char_of (16 * a + b))) (url_QueryUnescape rest)
              | _ \<Rightarrow> None)
         | _ \<Rightarrow> None)
      else map_option ((#) (if c = CHR ''+'' then CHR '' '' else c)) (url_QueryUnescape cs))"

lemma unhex_upperhex:
  assumes "n < 16" shows "unhex (upperhex ! n) = Some n"
proof -
  have "\<forall>n\<in>set [0..<16]. unhex (upperhex ! n) = Some n"
    by (simp add: upt_rec numeral_eq_Suc upperhex_def unhex_def less_eq_char_def)
  then show ?thesis using assms by simp
qed

lemma Unescape_escape_char:
  "url_QueryUnescape (escape_char c @ t) = map_option ((#) c) (url_QueryUnescape t)"
proof -
  consider "unreserved c" | "c = CHR '' ''" | "\<not> unreserved c" "c \<noteq> CHR '' ''" by blast
  then show ?thesis
  proof cases
    case 1
    then show ?thesis using unreserved_safe [OF 1] by (simp add: escape_char_def)
  next
    case 2
    then have "\<not> unreserved c" using unreserved_safe [of c] by auto
    with 2 show ?thesis by (simp add: escape_char_def)
  next
    case 3
    have "(of_char c :: nat) div 16 < 16" using nat_of_char_less_256 [of c] by linarith
    then have "unhex (upperhex ! (of_char c div 16)) = Some (of_char c div 16)"
      "unhex (upperhex ! (of_char c mod 16)) = Some (of_char c mod 16)"
      by (simp_all add: unhex_upperhex)
    then show ?thesis using 3 by (simp add: escape_char_def)
  qed
qed

lemma Unescape_Escape: "url_QueryUnescape (url_QueryEscape s) = Some s"
  by (induction s) (simp_all add: url_QueryEscape_def Unescape_escape_char)

text \<open>The request behind an answer of the HTTP enforcer.\<close>

lemma http_Allowed_request:
  assumes "http_Allowed lib base token w s t = Inr b"
  shows "\<exists>resp. Do lib w \<lparr>req_Method = ''GET'', req_URL = base @ ''/api/v1/evaluate?source='' @
      url_QueryEscape s @ ''&target='' @ url_QueryEscape t, req_Authorization = ''Bearer '' @ token\<rparr> = Inr resp \<and>
    StatusCode resp = StatusOK"
  using assms by (auto simp: http_Allowed_def Let_def split: option.splits sum.splits if_splits)

end
