(* ===== verification/Pending.thy ===== *)
theory Pending
  imports Prelude
begin

text \<open>
  \<open>internal/gateway/pending.go\<close>: the map from task ids to delivery tokens. Each method holds the
  mutex for its whole body, so each is one atomic function on the map. The gateway relies on
  it through the contract \<open>token_store\<close>: a token that was stored can be redeemed once.
\<close>

section \<open>The map and its operations\<close>

record pendingEntry =
  topic :: string
  msgID :: string
  storedAt :: time

type_synonym PendingMap = "(string, pendingEntry) fmap"

definition NewPendingMap :: PendingMap where
  "NewPendingMap = fmempty"

definition Store :: "time \<Rightarrow> string \<Rightarrow> string \<Rightarrow> string \<Rightarrow> PendingMap \<Rightarrow> PendingMap" where
  "Store now taskID tp mid pm = fmupd taskID \<lparr>topic = tp, msgID = mid, storedAt = now\<rparr> pm"

definition Load :: "string \<Rightarrow> PendingMap \<Rightarrow> (string \<times> string) option" where
  "Load taskID pm =
     (case fmlookup pm taskID of None \<Rightarrow> None | Some e \<Rightarrow> Some (topic e, msgID e))"

definition Delete :: "string \<Rightarrow> PendingMap \<Rightarrow> PendingMap" where
  "Delete taskID pm = fmdrop taskID pm"

definition LoadAndDelete :: "string \<Rightarrow> PendingMap \<Rightarrow> (string \<times> string) option \<times> PendingMap" where
  "LoadAndDelete taskID pm =
     (case fmlookup pm taskID of
        None \<Rightarrow> (None, pm)
      | Some e \<Rightarrow> (Some (topic e, msgID e), fmdrop taskID pm))"

definition task_topic :: "string \<Rightarrow> string" where
  "task_topic agentID = ''agent.tasks.'' @ agentID"

definition CountByAgent :: "string \<Rightarrow> PendingMap \<Rightarrow> nat" where
  "CountByAgent agentID pm = fmlen (fmselect (\<lambda>e. topic e = task_topic agentID) pm)"

definition evict :: "time \<Rightarrow> duration \<Rightarrow> PendingMap \<Rightarrow> PendingMap" where
  "evict now ttl pm = fmselect (\<lambda>e. \<not> storedAt e < now + (- ttl)) pm"

section \<open>The cleanup goroutine\<close>

text \<open>
  \<open>StartCleanup\<close> runs its body once: the first TTL stays. The goroutine sweeps at the ticks of a
  ticker of period \<open>ttl/2\<close> (for which \<open>time.NewTicker\<close> panics unless it is positive).
\<close>

definition StartCleanup :: "duration \<Rightarrow> duration option \<Rightarrow> duration option" where
  "StartCleanup ttl running = (case running of None \<Rightarrow> Some ttl | Some t \<Rightarrow> Some t)"

definition tick :: "time \<Rightarrow> duration \<Rightarrow> nat \<Rightarrow> time" where
  "tick start ttl n = start + (int n + 1) * (ttl div 2)"

definition cleanup_run :: "time \<Rightarrow> duration \<Rightarrow> nat \<Rightarrow> PendingMap \<Rightarrow> PendingMap" where
  "cleanup_run start ttl n pm = fold (\<lambda>k. evict (tick start ttl k) ttl) [0..<n] pm"

lemma fmlookup_evict:
  "fmlookup (evict now ttl pm) k =
     (case fmlookup pm k of None \<Rightarrow> None
      | Some e \<Rightarrow> if storedAt e < now - ttl then None else Some e)"
  by (auto simp: evict_def fmlookup_select split: option.split)

lemma cleanup_run_Suc:
  "cleanup_run start ttl (Suc n) pm = evict (tick start ttl n) ttl (cleanup_run start ttl n pm)"
  by (simp add: cleanup_run_def)

lemma tick_mono: "0 \<le> ttl \<Longrightarrow> m \<le> n \<Longrightarrow> tick start ttl m \<le> tick start ttl n"
  by (simp add: tick_def mult_right_mono)

lemma cleanup_run_lookup:
  assumes "0 \<le> ttl" and "fmlookup pm k = Some e"
  shows "fmlookup (cleanup_run start ttl n pm) k =
    (if n \<noteq> 0 \<and> storedAt e + ttl < tick start ttl (n - 1) then None else Some e)"
proof (induction n)
  case 0
  then show ?case using assms by (simp add: cleanup_run_def)
next
  case (Suc n)
  show ?case
  proof (cases "n \<noteq> 0 \<and> storedAt e + ttl < tick start ttl (n - 1)")
    case True
    then have "storedAt e + ttl < tick start ttl n"
      using tick_mono [OF assms(1), of "n - 1" n start] by simp
    with True Suc.IH show ?thesis by (simp add: cleanup_run_Suc fmlookup_evict)
  next
    case False
    then have "fmlookup (cleanup_run start ttl n pm) k = Some e" using Suc.IH by (simp split: if_splits)
    then show ?thesis by (auto simp: cleanup_run_Suc fmlookup_evict)
  qed
qed

text \<open>The tick that evicts an entry: the first one later than \<open>storedAt + ttl\<close>.\<close>

lemma first_tick_after:
  assumes "2 \<le> ttl" and "start \<le> s"
  obtains n where "s + ttl < tick start ttl n" and "tick start ttl n \<le> s + ttl + ttl div 2"
    and "n \<noteq> 0 \<Longrightarrow> tick start ttl (n - 1) \<le> s + ttl"
proof -
  define w where "w = ttl div 2"
  have w: "0 < w" using assms(1) by (simp add: w_def)
  define n where "n = nat ((s + ttl - start) div w)"
  have d: "0 \<le> (s + ttl - start) div w"
    using assms w by (simp add: pos_imp_zdiv_nonneg_iff)
  have split: "s + ttl - start = w * int n + (s + ttl - start) mod w"
    using d by (simp add: n_def)
  have r: "0 \<le> (s + ttl - start) mod w" "(s + ttl - start) mod w < w"
    using w by simp_all
  have t: "\<And>m. tick start ttl m = start + w * int m + w"
    by (simp add: tick_def w_def algebra_simps)
  show thesis
  proof (rule that [of n])
    show "s + ttl < tick start ttl n" using split r t [of n] by linarith
    show "tick start ttl n \<le> s + ttl + ttl div 2"
      using split r t [of n] by (simp add: w_def [symmetric])
    show "tick start ttl (n - 1) \<le> s + ttl" if "n \<noteq> 0"
    proof -
      have "int (n - 1) = int n - 1" using that by simp
      then have "tick start ttl (n - 1) = start + w * int n"
        using t [of "n - 1"] by (simp add: algebra_simps)
      then show ?thesis using split r by linarith
    qed
  qed
qed

section \<open>Redeeming tokens\<close>

datatype ('k, 'v) token_op = Put 'k 'v | Take 'k

text \<open>
  \<open>run_tokens\<close> performs a sequence of operations, in the order in which the mutex admits them,
  and lists the keys whose token a \<open>Take\<close> obtained.
\<close>

fun run_tokens :: "('k \<Rightarrow> 'v \<Rightarrow> 'm \<Rightarrow> 'm) \<Rightarrow> ('k \<Rightarrow> 'm \<Rightarrow> 'r option \<times> 'm)
    \<Rightarrow> ('k, 'v) token_op list \<Rightarrow> 'm \<Rightarrow> 'k list \<times> 'm" where
  "run_tokens put get [] m = ([], m)"
| "run_tokens put get (Put k v # ops) m = run_tokens put get ops (put k v m)"
| "run_tokens put get (Take k # ops) m =
     (let (r, m') = get k m; (ks, m'') = run_tokens put get ops m'
      in ((case r of None \<Rightarrow> ks | Some _ \<Rightarrow> k # ks), m''))"

fun puts_of :: "'k \<Rightarrow> ('k, 'v) token_op list \<Rightarrow> nat" where
  "puts_of k [] = 0"
| "puts_of k (Put j v # ops) = (if j = k then Suc (puts_of k ops) else puts_of k ops)"
| "puts_of k (Take j # ops) = puts_of k ops"

locale token_store =
  fixes put :: "'k \<Rightarrow> 'v \<Rightarrow> 'm \<Rightarrow> 'm"
    and get :: "'k \<Rightarrow> 'm \<Rightarrow> 'r option \<times> 'm"
    and held :: "'k \<Rightarrow> 'm \<Rightarrow> 'r option"
  assumes put_held: "held j (put k v m) \<noteq> None \<longleftrightarrow> j = k \<or> held j m \<noteq> None"
    and get_value: "fst (get k m) = held k m"
    and get_held: "held j (snd (get k m)) = (if j = k then None else held j m)"
begin

lemma redeemed_at_most_stored:
  "count_list (fst (run_tokens put get ops m)) k \<le>
     puts_of k ops + (if held k m = None then 0 else 1)"
proof (induction ops arbitrary: m)
  case Nil
  then show ?case by simp
next
  case (Cons a ops)
  show ?case
  proof (cases a)
    case (Put j v)
    have "held k (put j v m) = None \<longleftrightarrow> j \<noteq> k \<and> held k m = None"
      using put_held [of k j v m] by auto
    then show ?thesis using Cons.IH [of "put j v m"] Put by (auto split: if_splits)
  next
    case (Take j)
    obtain r m' where g: "get j m = (r, m')" by (cases "get j m")
    then have r: "r = held j m" and m': "held k m' = (if k = j then None else held k m)"
      using get_value [of j m] get_held [of k j m] by simp_all
    show ?thesis
      using Cons.IH [of m'] by (auto simp: Take g r m' split: prod.split option.splits if_splits)
  qed
qed

lemma no_second_redemption:
  "fst (get k (snd (get k m))) = None"
  using get_value [of k "snd (get k m)"] get_held [of k k m] by simp

end

lemma LoadAndDelete_fst: "fst (LoadAndDelete taskID pm) = Load taskID pm"
  by (simp add: LoadAndDelete_def Load_def split: option.split)

lemma LoadAndDelete_snd: "snd (LoadAndDelete taskID pm) = fmdrop taskID pm"
  by (auto simp: LoadAndDelete_def fmap_ext split: option.split intro!: fmap_ext)

interpretation pending: token_store
  "\<lambda>taskID (now, tp, mid). Store now taskID tp mid" LoadAndDelete Load
proof unfold_locales
  fix j k and v :: "time \<times> string \<times> string" and m :: PendingMap
  show "Load j ((case v of (now, tp, mid) \<Rightarrow> Store now k tp mid) m) \<noteq> None \<longleftrightarrow>
      j = k \<or> Load j m \<noteq> None"
    by (cases v) (auto simp: Load_def Store_def split: option.splits)
  show "fst (LoadAndDelete k m) = Load k m" by (rule LoadAndDelete_fst)
  show "Load j (snd (LoadAndDelete k m)) = (if j = k then None else Load j m)"
    by (simp add: LoadAndDelete_snd Load_def)
qed

section \<open>Counting\<close>

lemma CountByAgent_Store:
  assumes "taskID |\<notin>| fmdom pm"
  shows "CountByAgent a (Store now taskID tp mid pm) =
    CountByAgent a pm + (if tp = task_topic a then 1 else 0)"
proof -
  have "taskID |\<notin>| fmdom (fmselect P pm)" for P
    using assms by (auto simp: fmdom_select_iff dest: fmdomI)
  moreover have "fmdrop taskID (fmselect P pm) = fmselect P pm" for P
    using assms by (intro fmap_ext) (auto simp: fmlookup_select fmdom_notD split: option.split)
  ultimately show ?thesis
    by (simp add: CountByAgent_def Store_def fmselect_upd fmlen_upd)
qed

lemma CountByAgent_Store_le: "CountByAgent a (Store now taskID tp mid pm) \<le> Suc (CountByAgent a pm)"
  by (simp add: CountByAgent_def Store_def fmselect_upd fmlen_upd_le le_SucI [OF fmlen_drop_le])

lemma CountByAgent_Store_other:
  "tp \<noteq> task_topic a \<Longrightarrow> CountByAgent a (Store now taskID tp mid pm) \<le> CountByAgent a pm"
  by (simp add: CountByAgent_def Store_def fmselect_upd fmlen_drop_le)

lemma CountByAgent_LoadAndDelete: "CountByAgent a (snd (LoadAndDelete taskID pm)) \<le> CountByAgent a pm"
  by (simp add: LoadAndDelete_snd CountByAgent_def fmselect_drop fmlen_drop_le)

lemma CountByAgent_evict: "CountByAgent a (evict now ttl pm) \<le> CountByAgent a pm"
proof -
  have "fmselect P (evict now ttl pm) = fmselect (\<lambda>e. \<not> storedAt e < now - ttl) (fmselect P pm)" for P
    by (rule fmap_ext) (auto simp: fmlookup_select fmlookup_evict split: option.splits)
  then show ?thesis by (simp add: CountByAgent_def fmselect_def [of _ "fmselect _ _"] fmlen_filter_le)
qed

end
