(* ===== verification/Limiter.thy ===== *)
theory Limiter
  imports Prelude
begin

text \<open>
  \<open>internal/gateway/limiter.go\<close> and the \<open>AgentLimits\<close> of \<open>pkg/admin/types.go\<close>: the interface
  \<open>LimitEnforcer\<close> (a record of operations over an enforcer state), the no-op enforcer, and the
  embedded enforcer with its cache of limits and its per-agent sliding window of send times.
  The admin store is an argument: a state \<open>'st\<close> and the function that reads limits from it.
\<close>

section \<open>Limits\<close>

record AgentLimits =
  L_ID :: string
  L_OrgID :: string
  L_AgentID :: string
  MaxBodyBytes :: int
  MaxSendPerMin :: int
  MaxPendingTasks :: int
  MaxStreamLen :: int
  L_UpdatedAt :: time
  L_UpdatedBy :: string

record LimitInfo =
  I_MaxBodyBytes :: int
  I_MaxSendPerMin :: int
  I_MaxPendingTasks :: int
  I_MaxStreamLen :: int

definition zero_LimitInfo :: LimitInfo where
  "zero_LimitInfo =
     \<lparr>I_MaxBodyBytes = 0, I_MaxSendPerMin = 0, I_MaxPendingTasks = 0, I_MaxStreamLen = 0\<rparr>"

datatype limit_error = BodySizeExceeds int int string | SendRateExceeded int string
  | PendingLimitReached int string

text \<open>The readings of \<open>time.Now()\<close> that one call of an enforcer makes, in their order.\<close>

record clock =
  c_since :: time
  c_fetch :: time
  c_cutoff :: time
  c_send :: time

text \<open>
  The interface \<open>LimitEnforcer\<close>: each method as a function of the store, the clock, its
  arguments and the enforcer's state.
\<close>

record ('st, 'lim) LimitEnforcer =
  CheckSend :: "'st \<Rightarrow> clock \<Rightarrow> string \<Rightarrow> int \<Rightarrow> 'lim \<Rightarrow> limit_error option \<times> 'lim"
  RecordSend :: "string \<Rightarrow> 'lim \<Rightarrow> 'lim"
  CheckPendingTasks :: "'st \<Rightarrow> clock \<Rightarrow> string \<Rightarrow> int \<Rightarrow> 'lim \<Rightarrow> limit_error option \<times> 'lim"
  GetStreamMaxLen :: "'st \<Rightarrow> clock \<Rightarrow> string \<Rightarrow> 'lim \<Rightarrow> int \<times> 'lim"
  GetEffectiveLimits :: "'st \<Rightarrow> clock \<Rightarrow> string \<Rightarrow> 'lim \<Rightarrow> (string + LimitInfo) \<times> 'lim"

definition noopLimitEnforcer :: "('st, unit) LimitEnforcer" where
  "noopLimitEnforcer =
     \<lparr>CheckSend = (\<lambda>st clk agentID bodySize lim. (None, lim)),
      RecordSend = (\<lambda>agentID lim. lim),
      CheckPendingTasks = (\<lambda>st clk agentID currentPending lim. (None, lim)),
      GetStreamMaxLen = (\<lambda>st clk agentID lim. (0, lim)),
      GetEffectiveLimits = (\<lambda>st clk agentID lim. (Inr zero_LimitInfo, lim))\<rparr>"

text \<open>The stub of the remote mode embeds the no-op enforcer, and with it its methods.\<close>

definition NewHTTPLimitEnforcer :: "('st, unit) LimitEnforcer" where
  "NewHTTPLimitEnforcer = noopLimitEnforcer"

section \<open>The rate bucket\<close>

type_synonym rateBucket = "time list"

text \<open>
  \<open>tryRecord\<close> reads the clock for the cutoff and again for the send it records; it runs under
  the bucket's mutex.
\<close>

definition tryRecord :: "int \<Rightarrow> time \<Rightarrow> time \<Rightarrow> rateBucket \<Rightarrow> bool \<times> rateBucket" where
  "tryRecord limit now1 now2 sends =
     (let cutoff = now1 + (- Minute);
          fresh = filter (\<lambda>t. t > cutoff) sends
      in if limit > 0 \<and> int (length fresh) \<ge> limit then (False, fresh)
         else (True, fresh @ [now2]))"

section \<open>The embedded enforcer\<close>

definition defaultLimitCacheTTL :: duration where "defaultLimitCacheTTL = 30 * Second"

definition maxMapEntries :: nat where "maxMapEntries = 10000"

record limitCacheEntry =
  limits :: "AgentLimits option"
  fetchAt :: time

record EmbeddedLimitEnforcer =
  orgID :: string
  cacheTTL :: duration
  cache :: "(string, limitCacheEntry) fmap"
  rate :: "(string, rateBucket) fmap"

definition NewEmbeddedLimitEnforcerWithCacheTTL :: "string \<Rightarrow> duration \<Rightarrow> EmbeddedLimitEnforcer" where
  "NewEmbeddedLimitEnforcerWithCacheTTL org ttl =
     \<lparr>orgID = org, cacheTTL = ttl, cache = fmempty, rate = fmempty\<rparr>"

definition NewEmbeddedLimitEnforcer :: "string \<Rightarrow> EmbeddedLimitEnforcer" where
  "NewEmbeddedLimitEnforcer org = NewEmbeddedLimitEnforcerWithCacheTTL org defaultLimitCacheTTL"

text \<open>
  \<open>store.GetEffectiveLimits\<close> returns a pointer and an error; \<open>effectiveLimits\<close> discards the error.
\<close>

type_synonym 'st limit_getter = "'st \<Rightarrow> string \<Rightarrow> string \<Rightarrow> AgentLimits option \<times> string option"

definition effectiveLimits :: "'st limit_getter \<Rightarrow> 'st \<Rightarrow> clock \<Rightarrow> string \<Rightarrow> EmbeddedLimitEnforcer
    \<Rightarrow> AgentLimits option \<times> EmbeddedLimitEnforcer" where
  "effectiveLimits getter st clk agentID e =
     (case fmlookup (cache e) agentID of
        Some entry \<Rightarrow>
          if c_since clk - fetchAt entry < cacheTTL e then (limits entry, e)
          else
            (let (l, _) = getter st (orgID e) agentID
             in (l, if fmlen (cache e) < maxMapEntries
                    then e\<lparr>cache := fmupd agentID \<lparr>limits = l, fetchAt = c_fetch clk\<rparr> (cache e)\<rparr>
                    else e))
      | None \<Rightarrow>
          (let (l, _) = getter st (orgID e) agentID
           in (l, if fmlen (cache e) < maxMapEntries
                  then e\<lparr>cache := fmupd agentID \<lparr>limits = l, fetchAt = c_fetch clk\<rparr> (cache e)\<rparr>
                  else e)))"

text \<open>
  \<open>bucket\<close> returns a pointer: to the agent's bucket in the map, or to a fresh bucket that is in
  no map. \<open>use_bucket\<close> is the call of \<open>tryRecord\<close> through that pointer; a bucket that is in no map takes
  what it records with it.
\<close>

datatype bucket_ref = InMap string | Throwaway

definition bucket :: "string \<Rightarrow> EmbeddedLimitEnforcer \<Rightarrow> bucket_ref \<times> EmbeddedLimitEnforcer" where
  "bucket agentID e =
     (case fmlookup (rate e) agentID of
        Some b \<Rightarrow> (InMap agentID, e)
      | None \<Rightarrow>
          if fmlen (rate e) \<ge> maxMapEntries then (Throwaway, e)
          else (InMap agentID, e\<lparr>rate := fmupd agentID [] (rate e)\<rparr>))"

fun use_bucket :: "int \<Rightarrow> clock \<Rightarrow> bucket_ref \<Rightarrow> EmbeddedLimitEnforcer \<Rightarrow> bool \<times> EmbeddedLimitEnforcer"
where
  "use_bucket limit clk Throwaway e = (fst (tryRecord limit (c_cutoff clk) (c_send clk) []), e)"
| "use_bucket limit clk (InMap a) e =
     (case fmlookup (rate e) a of
        None \<Rightarrow> (fst (tryRecord limit (c_cutoff clk) (c_send clk) []), e)
      | Some b \<Rightarrow>
          (let (ok, sends') = tryRecord limit (c_cutoff clk) (c_send clk) b
           in (ok, e\<lparr>rate := fmupd a sends' (rate e)\<rparr>)))"

definition emb_CheckSend :: "'st limit_getter \<Rightarrow> 'st \<Rightarrow> clock \<Rightarrow> string \<Rightarrow> int
    \<Rightarrow> EmbeddedLimitEnforcer \<Rightarrow> limit_error option \<times> EmbeddedLimitEnforcer" where
  "emb_CheckSend getter st clk agentID bodySize e =
     (let (l, e1) = effectiveLimits getter st clk agentID e
      in case l of
           None \<Rightarrow> (None, e1)
         | Some l \<Rightarrow>
             if MaxBodyBytes l > 0 \<and> bodySize > MaxBodyBytes l
             then (Some (BodySizeExceeds bodySize (MaxBodyBytes l) agentID), e1)
             else if MaxSendPerMin l > 0 then
               (let (ref, e2) = bucket agentID e1;
                    (ok, e3) = use_bucket (MaxSendPerMin l) clk ref e2
                in if \<not> ok then (Some (SendRateExceeded (MaxSendPerMin l) agentID), e3)
                   else (None, e3))
             else (None, e1))"

definition emb_RecordSend :: "string \<Rightarrow> EmbeddedLimitEnforcer \<Rightarrow> EmbeddedLimitEnforcer" where
  "emb_RecordSend agentID e = e"

definition emb_CheckPendingTasks :: "'st limit_getter \<Rightarrow> 'st \<Rightarrow> clock \<Rightarrow> string \<Rightarrow> int
    \<Rightarrow> EmbeddedLimitEnforcer \<Rightarrow> limit_error option \<times> EmbeddedLimitEnforcer" where
  "emb_CheckPendingTasks getter st clk agentID currentPending e =
     (let (l, e1) = effectiveLimits getter st clk agentID e
      in case l of
           None \<Rightarrow> (None, e1)
         | Some l \<Rightarrow>
             if MaxPendingTasks l > 0 \<and> currentPending > MaxPendingTasks l
             then (Some (PendingLimitReached (MaxPendingTasks l) agentID), e1)
             else (None, e1))"

definition emb_GetStreamMaxLen :: "'st limit_getter \<Rightarrow> 'st \<Rightarrow> clock \<Rightarrow> string
    \<Rightarrow> EmbeddedLimitEnforcer \<Rightarrow> int \<times> EmbeddedLimitEnforcer" where
  "emb_GetStreamMaxLen getter st clk agentID e =
     (let (l, e1) = effectiveLimits getter st clk agentID e
      in case l of None \<Rightarrow> (0, e1) | Some l \<Rightarrow> (MaxStreamLen l, e1))"

fun info_of :: "AgentLimits option \<Rightarrow> LimitInfo" where
  "info_of None = zero_LimitInfo"
| "info_of (Some l) =
     \<lparr>I_MaxBodyBytes = MaxBodyBytes l, I_MaxSendPerMin = MaxSendPerMin l,
      I_MaxPendingTasks = MaxPendingTasks l, I_MaxStreamLen = MaxStreamLen l\<rparr>"

definition emb_GetEffectiveLimits :: "'st limit_getter \<Rightarrow> 'st \<Rightarrow> clock \<Rightarrow> string
    \<Rightarrow> EmbeddedLimitEnforcer \<Rightarrow> (string + LimitInfo) \<times> EmbeddedLimitEnforcer" where
  "emb_GetEffectiveLimits getter st clk agentID e =
     (let (l, e1) = effectiveLimits getter st clk agentID e in (Inr (info_of l), e1))"

definition embeddedLimitEnforcer :: "'st limit_getter \<Rightarrow> ('st, EmbeddedLimitEnforcer) LimitEnforcer"
where
  "embeddedLimitEnforcer getter =
     \<lparr>CheckSend = emb_CheckSend getter,
      RecordSend = emb_RecordSend,
      CheckPendingTasks = emb_CheckPendingTasks getter,
      GetStreamMaxLen = emb_GetStreamMaxLen getter,
      GetEffectiveLimits = emb_GetEffectiveLimits getter\<rparr>"

section \<open>The sliding window\<close>

text \<open>
  A sequence of attempts on one bucket: for each the two clock readings, and the readings
  never go back. \<open>rate_run\<close> lists the send times that were recorded.
\<close>

fun clock_from :: "time \<Rightarrow> (time \<times> time) list \<Rightarrow> bool" where
  "clock_from t [] = True"
| "clock_from t ((n1, n2) # rest) = (t \<le> n1 \<and> n1 \<le> n2 \<and> clock_from n2 rest)"

fun rate_run :: "int \<Rightarrow> (time \<times> time) list \<Rightarrow> rateBucket \<Rightarrow> time list" where
  "rate_run limit [] sends = []"
| "rate_run limit ((n1, n2) # rest) sends =
     (let (ok, sends') = tryRecord limit n1 n2 sends
      in (if ok then [n2] else []) @ rate_run limit rest sends')"

definition in_window :: "time \<Rightarrow> time list \<Rightarrow> time list" where
  "in_window a ts = filter (\<lambda>t. a - Minute < t \<and> t \<le> a) ts"

lemma filter_filter_ge:
  "k \<le> k' \<Longrightarrow> filter (\<lambda>t. t > k') (filter (\<lambda>t. t > k) ts) = filter (\<lambda>t. t > (k' :: int)) ts"
  by (induction ts) auto

lemma length_filter_imp:
  "(\<And>x. x \<in> set xs \<Longrightarrow> P x \<Longrightarrow> Q x) \<Longrightarrow> length (filter P xs) \<le> length (filter Q xs)"
  by (induction xs) (auto intro: le_SucI)

lemma window_step:
  assumes old: "\<forall>a\<in>set acc. int (length (in_window a acc)) \<le> limit"
    and past: "\<forall>t\<in>set acc. t \<le> n2" and fresh: "int (length (filter (\<lambda>t. t > n1 - Minute) acc)) < limit"
    and "n1 \<le> n2"
  shows "\<forall>a\<in>set (acc @ [n2]). int (length (in_window a (acc @ [n2]))) \<le> limit"
proof
  fix a assume a: "a \<in> set (acc @ [n2])"
  show "int (length (in_window a (acc @ [n2]))) \<le> limit"
  proof (cases "a = n2")
    case True
    have "length (in_window a acc) \<le> length (filter (\<lambda>t. t > n1 - Minute) acc)"
      unfolding in_window_def True using \<open>n1 \<le> n2\<close> by (intro length_filter_imp) auto
    then show ?thesis using fresh by (simp add: in_window_def)
  next
    case False
    then have "a \<in> set acc" using a by simp
    moreover from this have "\<not> n2 \<le> a" using past False by fastforce
    ultimately show ?thesis using old by (simp add: in_window_def)
  qed
qed

lemma rate_run_window:
  assumes "0 < limit" and "clock_from t0 ats" and "sends = filter (\<lambda>t. t > k) acc"
    and "k \<le> t0 - Minute" and "\<forall>t\<in>set acc. t \<le> t0"
    and "\<forall>a\<in>set acc. int (length (in_window a acc)) \<le> limit"
  shows "\<forall>a\<in>set (acc @ rate_run limit ats sends).
    int (length (in_window a (acc @ rate_run limit ats sends))) \<le> limit"
  using assms(2-)
proof (induction ats arbitrary: t0 sends k acc)
  case Nil
  then show ?case by simp
next
  case (Cons at ats)
  obtain n1 n2 where at: "at = (n1, n2)" by (cases at)
  have ck: "t0 \<le> n1" "n1 \<le> n2" "clock_from n2 ats" using Cons.prems(1) at by auto
  have fr: "filter (\<lambda>t. t > n1 - Minute) sends = filter (\<lambda>t. t > n1 - Minute) acc"
    unfolding Cons.prems(2) using ck Cons.prems(3) by (intro filter_filter_ge) simp
  have past: "\<forall>t\<in>set acc. t \<le> n2" using Cons.prems(4) ck by force
  show ?case
  proof (cases "int (length (filter (\<lambda>t. t > n1 - Minute) acc)) < limit")
    case True
    then have run: "rate_run limit (at # ats) sends =
        n2 # rate_run limit ats (filter (\<lambda>t. t > n1 - Minute) acc @ [n2])"
      using fr by (simp add: at tryRecord_def Let_def)
    let ?sends = "filter (\<lambda>t. t > n1 - Minute) acc @ [n2]"
    have kept: "?sends = filter (\<lambda>t. t > n1 - Minute) (acc @ [n2])"
      using ck(2) Minute_pos by (simp add: order_less_le_trans [of "n1 - Minute" n1 n2])
    have le: "n1 - Minute \<le> n2 - Minute" using ck(2) by simp
    have all: "\<forall>t\<in>set (acc @ [n2]). t \<le> n2" using past by simp
    have "\<forall>a\<in>set ((acc @ [n2]) @ rate_run limit ats ?sends).
        int (length (in_window a ((acc @ [n2]) @ rate_run limit ats ?sends))) \<le> limit"
      by (rule Cons.IH [OF ck(3) kept le all window_step [OF Cons.prems(5) past True ck(2)]])
    then show ?thesis unfolding run by simp
  next
    case False
    then have run: "rate_run limit (at # ats) sends =
        rate_run limit ats (filter (\<lambda>t. t > n1 - Minute) acc)"
      using fr \<open>0 < limit\<close> by (simp add: at tryRecord_def Let_def)
    have le: "n1 - Minute \<le> n2 - Minute" using ck(2) by simp
    show ?thesis unfolding run by (rule Cons.IH [OF ck(3) refl le past Cons.prems(5)])
  qed
qed

text \<open>From an empty bucket: at no send are there more than \<open>limit\<close> in the minute up to it.\<close>

lemma rate_window_from_empty:
  assumes "0 < limit" and "clock_from t0 ats" and "a \<in> set (rate_run limit ats [])"
  shows "int (length (in_window a (rate_run limit ats []))) \<le> limit"
  using rate_run_window [of limit t0 ats "[]" "t0 - Minute" "[]"] assms by simp

text \<open>A refusal is never spurious: the bucket held \<open>limit\<close> sends of the last minute.\<close>

lemma tryRecord_refuses:
  "fst (tryRecord limit n1 n2 sends) = False \<longleftrightarrow>
     0 < limit \<and> limit \<le> int (length (filter (\<lambda>t. n1 - Minute < t) sends))"
  by (simp add: tryRecord_def Let_def)

section \<open>What the gateway may rely on\<close>

text \<open>
  The operations a gateway performs on its enforcer, as a trace: each with the state of the
  store and the clock at that moment.
\<close>

datatype 'st limit_op =
    OpCheckSend 'st clock string int
  | OpRecordSend string
  | OpCheckPending 'st clock string int
  | OpStreamMaxLen 'st clock string
  | OpReport 'st clock string

fun limit_step :: "('st, 'lim) LimitEnforcer \<Rightarrow> 'st limit_op \<Rightarrow> 'lim \<Rightarrow> 'lim" where
  "limit_step enf (OpCheckSend st clk a n) e = snd (CheckSend enf st clk a n e)"
| "limit_step enf (OpRecordSend a) e = RecordSend enf a e"
| "limit_step enf (OpCheckPending st clk a n) e = snd (CheckPendingTasks enf st clk a n e)"
| "limit_step enf (OpStreamMaxLen st clk a) e = snd (GetStreamMaxLen enf st clk a e)"
| "limit_step enf (OpReport st clk a) e = snd (GetEffectiveLimits enf st clk a e)"

text \<open>
  The contract: the enforcer has in each state a definite set of limits for an agent (\<open>in_force\<close>),
  its checks follow them, and an invariant \<open>inv\<close> of its state survives every operation.
\<close>

locale limit_enforcer =
  fixes enf :: "('st, 'lim) LimitEnforcer"
    and in_force :: "'st \<Rightarrow> clock \<Rightarrow> string \<Rightarrow> 'lim \<Rightarrow> LimitInfo"
    and inv :: "'lim \<Rightarrow> bool"
  assumes report: "fst (GetEffectiveLimits enf st clk a e) = Inr (in_force st clk a e)"
    and stream: "fst (GetStreamMaxLen enf st clk a e) = I_MaxStreamLen (in_force st clk a e)"
    and body: "0 < I_MaxBodyBytes (in_force st clk a e) \<Longrightarrow>
      I_MaxBodyBytes (in_force st clk a e) < n \<Longrightarrow> fst (CheckSend enf st clk a n e) \<noteq> None"
    and pending: "fst (CheckPendingTasks enf st clk a n e) = None \<longleftrightarrow>
      \<not> (0 < I_MaxPendingTasks (in_force st clk a e) \<and> I_MaxPendingTasks (in_force st clk a e) < n)"
    and step_inv: "inv e \<Longrightarrow> inv (limit_step enf opn e)"
begin

lemma run_inv: "inv e \<Longrightarrow> inv (fold (limit_step enf) ops e)"
  by (induction ops arbitrary: e) (simp_all add: step_inv)

lemma sent_within_report:
  assumes "fst (CheckSend enf st clk a n e) = None"
    and "fst (GetEffectiveLimits enf st clk a e) = Inr info"
  shows "I_MaxBodyBytes info \<le> 0 \<or> n \<le> I_MaxBodyBytes info"
  using assms body [of st clk a e n] report [of st clk a e] by force

lemma admitted_within_report:
  assumes "fst (CheckPendingTasks enf st clk a n e) = None"
    and "fst (GetEffectiveLimits enf st clk a e) = Inr info"
  shows "I_MaxPendingTasks info \<le> 0 \<or> n \<le> I_MaxPendingTasks info"
  using assms pending [of st clk a n e] report [of st clk a e] by force

end

interpretation noop: limit_enforcer noopLimitEnforcer "\<lambda>st clk a e. zero_LimitInfo" "\<lambda>e. True"
  by unfold_locales (simp_all add: noopLimitEnforcer_def zero_LimitInfo_def)

text \<open>The two maps of the embedded enforcer stay below the ceiling, whatever agent ids arrive.\<close>

definition maps_bounded :: "EmbeddedLimitEnforcer \<Rightarrow> bool" where
  "maps_bounded e \<longleftrightarrow> fmlen (cache e) \<le> maxMapEntries \<and> fmlen (rate e) \<le> maxMapEntries"

lemma NewEmbeddedLimitEnforcer_bounded: "maps_bounded (NewEmbeddedLimitEnforcer org)"
  by (simp add: maps_bounded_def NewEmbeddedLimitEnforcer_def NewEmbeddedLimitEnforcerWithCacheTTL_def)

lemma effectiveLimits_rate [simp]: "rate (snd (effectiveLimits g st clk a e)) = rate e"
  by (auto simp: effectiveLimits_def Let_def split: option.split prod.split)

lemma effectiveLimits_bounded: "maps_bounded e \<Longrightarrow> maps_bounded (snd (effectiveLimits g st clk a e))"
  by (auto simp: effectiveLimits_def maps_bounded_def Let_def fmlen_upd split: option.split prod.split)

lemma bucket_use_bounded:
  assumes "maps_bounded e" and "bucket a e = (ref, e2)"
  shows "maps_bounded (snd (use_bucket limit clk ref e2))"
  using assms
  by (auto simp: maps_bounded_def bucket_def Let_def fmlen_upd fmdomI split: option.splits if_splits prod.splits)

lemma emb_CheckSend_bounded:
  assumes "maps_bounded e" shows "maps_bounded (snd (emb_CheckSend g st clk a n e))"
proof -
  obtain l e1 where eff: "effectiveLimits g st clk a e = (l, e1)" by fastforce
  obtain ref e2 where b: "bucket a e1 = (ref, e2)" by fastforce
  have e1: "maps_bounded e1" using effectiveLimits_bounded [OF assms, of g st clk a] eff by simp
  show ?thesis
    using e1 bucket_use_bounded [OF e1 b]
    by (auto simp: emb_CheckSend_def eff b Let_def split: option.split prod.split) (metis snd_conv)+
qed

lemma emb_others_bounded:
  assumes "maps_bounded e"
  shows "maps_bounded (snd (emb_CheckPendingTasks g st clk a n e))"
    and "maps_bounded (snd (emb_GetStreamMaxLen g st clk a e))"
    and "maps_bounded (snd (emb_GetEffectiveLimits g st clk a e))"
  using effectiveLimits_bounded [OF assms, of g st clk a]
  by (auto simp: emb_CheckPendingTasks_def emb_GetStreamMaxLen_def emb_GetEffectiveLimits_def Let_def
      split: option.split prod.split)

interpretation embedded: limit_enforcer "embeddedLimitEnforcer g"
  "\<lambda>st clk a e. info_of (fst (effectiveLimits g st clk a e))" maps_bounded
proof unfold_locales
  fix st clk a e n and opn :: "'a limit_op"
  obtain l e1 where eff: "effectiveLimits g st clk a e = (l, e1)" by fastforce
  show "fst (GetEffectiveLimits (embeddedLimitEnforcer g) st clk a e) =
      Inr (info_of (fst (effectiveLimits g st clk a e)))"
    by (simp add: embeddedLimitEnforcer_def emb_GetEffectiveLimits_def eff)
  show "fst (GetStreamMaxLen (embeddedLimitEnforcer g) st clk a e) =
      I_MaxStreamLen (info_of (fst (effectiveLimits g st clk a e)))"
    by (cases l) (simp_all add: embeddedLimitEnforcer_def emb_GetStreamMaxLen_def eff zero_LimitInfo_def)
  show "fst (CheckSend (embeddedLimitEnforcer g) st clk a n e) \<noteq> None"
    if "0 < I_MaxBodyBytes (info_of (fst (effectiveLimits g st clk a e)))"
      "I_MaxBodyBytes (info_of (fst (effectiveLimits g st clk a e))) < n"
    using that by (cases l) (simp_all add: embeddedLimitEnforcer_def emb_CheckSend_def eff zero_LimitInfo_def)
  show "fst (CheckPendingTasks (embeddedLimitEnforcer g) st clk a n e) = None \<longleftrightarrow>
      \<not> (0 < I_MaxPendingTasks (info_of (fst (effectiveLimits g st clk a e))) \<and>
         I_MaxPendingTasks (info_of (fst (effectiveLimits g st clk a e))) < n)"
    by (cases l) (auto simp: embeddedLimitEnforcer_def emb_CheckPendingTasks_def eff zero_LimitInfo_def)
  show "maps_bounded (limit_step (embeddedLimitEnforcer g) opn e)" if "maps_bounded e"
    using that emb_CheckSend_bounded emb_others_bounded
    by (cases opn) (simp_all add: embeddedLimitEnforcer_def emb_RecordSend_def)
qed

section \<open>Freshness of the cache\<close>

text \<open>
  While the store answers and the cache is not full, the limits that an operation applies are
  those of the store at a moment less than \<open>cacheTTL\<close> ago. \<open>cached_from\<close> is the history
  of the store: its state at each instant.
\<close>

definition cache_sound :: "'st limit_getter \<Rightarrow> (time \<Rightarrow> 'st) \<Rightarrow> EmbeddedLimitEnforcer \<Rightarrow> bool" where
  "cache_sound g history e \<longleftrightarrow>
     (\<forall>a entry. fmlookup (cache e) a = Some entry \<longrightarrow>
        limits entry = fst (g (history (fetchAt entry)) (orgID e) a))"

lemma effectiveLimits_stale:
  assumes "cache_sound g history e" and "c_since clk \<le> c_fetch clk"
    and "c_fetch clk - c_since clk < cacheTTL e"
  shows "\<exists>t. c_since clk - t < cacheTTL e \<and>
    fst (effectiveLimits g (history (c_fetch clk)) clk a e) = fst (g (history t) (orgID e) a)"
proof (cases "\<exists>entry. fmlookup (cache e) a = Some entry \<and> c_since clk - fetchAt entry < cacheTTL e")
  case True
  then obtain entry where e: "fmlookup (cache e) a = Some entry"
    "c_since clk - fetchAt entry < cacheTTL e" by blast
  then show ?thesis using assms(1)
    by (intro exI [of _ "fetchAt entry"]) (simp add: effectiveLimits_def cache_sound_def)
next
  case False
  then show ?thesis using assms(2,3)
    by (intro exI [of _ "c_fetch clk"])
      (auto simp: effectiveLimits_def Let_def split: option.split prod.split)
qed

lemma effectiveLimits_sound:
  assumes "cache_sound g history e"
  shows "cache_sound g history (snd (effectiveLimits g (history (c_fetch clk)) clk a e))"
  using assms
  by (auto simp: cache_sound_def effectiveLimits_def Let_def split: option.split prod.split)

text \<open>An agent whose limits cannot be read is unlimited, and that answer is cached too.\<close>

lemma effectiveLimits_fail_open:
  assumes "g st (orgID e) a = (None, Some err)" and "fmlookup (cache e) a = None"
    and "fmlen (cache e) < maxMapEntries"
  shows "effectiveLimits g st clk a e =
    (None, e\<lparr>cache := fmupd a \<lparr>limits = None, fetchAt = c_fetch clk\<rparr> (cache e)\<rparr>)"
  using assms by (simp add: effectiveLimits_def)

end
