(* ===== verification/MsgLog.thy ===== *)
theory MsgLog
  imports Auth
begin

text \<open>
  \<open>internal/gateway/msglog.go\<close>: the message log. \<open>Log\<close> never blocks: the no-op logger discards,
  the embedded one puts the entry into a bounded channel that one goroutine drains into the
  store, the HTTP one starts at most 32 posts. The drain goroutine is a step relation, so that
  every interleaving of \<open>Log\<close>, \<open>Close\<close> and the drain is covered.
\<close>

section \<open>Entries and loggers\<close>

record MessageLogEntry =
  EnvelopeID :: string
  LE_ThreadID :: string
  FromAgent :: string
  ToAgent :: string
  MsgType :: string
  LE_Direction :: string
  ToolName :: string
  BodySize :: int
  LE_Body :: string

record MessageLog =
  ML_ID :: string
  ML_OrgID :: string
  ML_EnvelopeID :: string
  ML_ThreadID :: string
  ML_FromAgent :: string
  ML_ToAgent :: string
  ML_MsgType :: string
  ML_Direction :: string
  ML_ToolName :: string
  ML_BodySize :: int
  ML_Body :: string
  ML_CreatedAt :: time

record 'log MessageLogger =
  Log :: "MessageLogEntry \<Rightarrow> 'log \<Rightarrow> 'log"

definition noopMessageLogger :: "unit MessageLogger" where
  "noopMessageLogger = \<lparr>Log = (\<lambda>entry l. l)\<rparr>"

section \<open>The embedded logger\<close>

text \<open>
  The drain goroutine serves the channel (\<open>Running\<close>), empties it once it has seen \<open>done\<close>
  (\<open>Flushing\<close>) and closes \<open>closed\<close> (\<open>Exited\<close>), which is what \<open>Close\<close> waits for.
\<close>

datatype drain_phase = Running | Flushing | Exited

record 's EmbeddedMessageLogger =
  ml_store :: 's
  ml_orgID :: string
  ml_ch :: "MessageLogEntry list"
  ml_cap :: nat
  ml_done :: bool
  ml_drain :: drain_phase

definition defaultLogChannelCap :: nat where "defaultLogChannelCap = 256"

definition NewEmbeddedMessageLoggerWithCap :: "'s \<Rightarrow> string \<Rightarrow> nat \<Rightarrow> 's EmbeddedMessageLogger" where
  "NewEmbeddedMessageLoggerWithCap store org c =
     \<lparr>ml_store = store, ml_orgID = org, ml_ch = [], ml_cap = c, ml_done = False, ml_drain = Running\<rparr>"

definition NewEmbeddedMessageLogger :: "'s \<Rightarrow> string \<Rightarrow> 's EmbeddedMessageLogger" where
  "NewEmbeddedMessageLogger store org = NewEmbeddedMessageLoggerWithCap store org defaultLogChannelCap"

definition emb_Log :: "MessageLogEntry \<Rightarrow> 's EmbeddedMessageLogger \<Rightarrow> 's EmbeddedMessageLogger" where
  "emb_Log entry l = (if length (ml_ch l) < ml_cap l then l\<lparr>ml_ch := ml_ch l @ [entry]\<rparr> else l)"

definition embeddedMessageLogger :: "'s EmbeddedMessageLogger MessageLogger" where
  "embeddedMessageLogger = \<lparr>Log = emb_Log\<rparr>"

text \<open>\<open>AppendMessageLog\<close> of the store, and \<open>write\<close>, which only prints its error.\<close>

type_synonym 's log_appender = "'s \<Rightarrow> MessageLog \<Rightarrow> string option \<times> 's"

definition row_of :: "string \<Rightarrow> string \<Rightarrow> time \<Rightarrow> MessageLogEntry \<Rightarrow> MessageLog" where
  "row_of org uuid now entry =
     \<lparr>ML_ID = uuid, ML_OrgID = org, ML_EnvelopeID = EnvelopeID entry, ML_ThreadID = LE_ThreadID entry,
      ML_FromAgent = FromAgent entry, ML_ToAgent = ToAgent entry, ML_MsgType = MsgType entry,
      ML_Direction = LE_Direction entry, ML_ToolName = ToolName entry, ML_BodySize = BodySize entry,
      ML_Body = LE_Body entry, ML_CreatedAt = now\<rparr>"

definition write_entry :: "'s log_appender \<Rightarrow> string \<Rightarrow> time \<Rightarrow> MessageLogEntry
    \<Rightarrow> 's EmbeddedMessageLogger \<Rightarrow> 's EmbeddedMessageLogger" where
  "write_entry put_row uuid now entry l =
     l\<lparr>ml_store := snd (put_row (ml_store l) (row_of (ml_orgID l) uuid now entry))\<rparr>"

text \<open>
  The labelled steps. \<open>Handoff\<close> is a send that the waiting drain receives directly, the only way
  in for a channel of capacity 0.
\<close>

datatype log_action = Accept MessageLogEntry | Drop MessageLogEntry | Write MessageLogEntry
  | Handoff MessageLogEntry | Signal | SeeDone | Stop

inductive logger_step :: "'s log_appender \<Rightarrow> log_action \<Rightarrow> 's EmbeddedMessageLogger
    \<Rightarrow> 's EmbeddedMessageLogger \<Rightarrow> bool" for put_row where
  accept: "length (ml_ch l) < ml_cap l \<Longrightarrow> logger_step put_row (Accept e) l (emb_Log e l)"
| drop_entry: "\<not> length (ml_ch l) < ml_cap l \<Longrightarrow> logger_step put_row (Drop e) l (emb_Log e l)"
| handoff: "ml_drain l = Running \<Longrightarrow> ml_ch l = [] \<Longrightarrow>
    logger_step put_row (Handoff e) l (write_entry put_row uuid now e l)"
| write_one: "ml_drain l \<noteq> Exited \<Longrightarrow> ml_ch l = e # rest \<Longrightarrow>
    logger_step put_row (Write e) l (write_entry put_row uuid now e (l\<lparr>ml_ch := rest\<rparr>))"
| signal: "\<not> ml_done l \<Longrightarrow> logger_step put_row Signal l (l\<lparr>ml_done := True\<rparr>)"
| see_done: "ml_done l \<Longrightarrow> ml_drain l = Running \<Longrightarrow>
    logger_step put_row SeeDone l (l\<lparr>ml_drain := Flushing\<rparr>)"
| stop: "ml_drain l = Flushing \<Longrightarrow> ml_ch l = [] \<Longrightarrow>
    logger_step put_row Stop l (l\<lparr>ml_drain := Exited\<rparr>)"

inductive_cases logger_stepE: "logger_step put_row act l l'"
inductive_simps logger_step_simps:
  "logger_step put_row (Accept e) l l'" "logger_step put_row (Drop e) l l'"
  "logger_step put_row (Handoff e) l l'" "logger_step put_row (Write e) l l'"
  "logger_step put_row Signal l l'" "logger_step put_row SeeDone l l'" "logger_step put_row Stop l l'"

inductive logger_run :: "'s log_appender \<Rightarrow> log_action list \<Rightarrow> 's EmbeddedMessageLogger
    \<Rightarrow> 's EmbeddedMessageLogger \<Rightarrow> bool" for put_row where
  run_nil: "logger_run put_row [] l l"
| run_snoc: "logger_run put_row acts l m \<Longrightarrow> logger_step put_row act m n \<Longrightarrow>
    logger_run put_row (acts @ [act]) l n"

inductive_cases logger_run_snocE: "logger_run put_row (acts @ [act]) l n"

fun accepted :: "log_action list \<Rightarrow> MessageLogEntry list" where
  "accepted [] = []"
| "accepted (Accept e # acts) = e # accepted acts"
| "accepted (Handoff e # acts) = e # accepted acts"
| "accepted (_ # acts) = accepted acts"

fun written :: "log_action list \<Rightarrow> MessageLogEntry list" where
  "written [] = []"
| "written (Write e # acts) = e # written acts"
| "written (Handoff e # acts) = e # written acts"
| "written (_ # acts) = written acts"

lemma accepted_append [simp]: "accepted (xs @ ys) = accepted xs @ accepted ys"
  by (induction xs rule: accepted.induct) simp_all

lemma written_append [simp]: "written (xs @ ys) = written xs @ written ys"
  by (induction xs rule: written.induct) simp_all

text \<open>Nothing is lost, duplicated or reordered between acceptance and the store.\<close>

lemma logger_conserves:
  "logger_run put_row acts l m \<Longrightarrow> written acts @ ml_ch m = ml_ch l @ accepted acts"
proof (induction rule: logger_run.induct)
  case (run_nil l)
  then show ?case by simp
next
  case (run_snoc acts l m act n)
  from run_snoc.hyps(2) show ?case
    using run_snoc.IH by (cases rule: logger_stepE) (auto simp: emb_Log_def write_entry_def)
qed

text \<open>
  What the store holds: each entry written became one row, in order, under the organisation of the logger and
  with an identifier and a time of its own.
\<close>

definition append_rows :: "'s log_appender \<Rightarrow> string \<Rightarrow> (string \<times> time) list \<Rightarrow> MessageLogEntry list \<Rightarrow> 's \<Rightarrow> 's" where
  "append_rows put_row org stamps es st =
     fold (\<lambda>((uuid, now), e) st. snd (put_row st (row_of org uuid now e))) (zip stamps es) st"

lemma append_rows_snoc:
  "length stamps = length es \<Longrightarrow> append_rows put_row org (stamps @ [(uuid, now)]) (es @ [e]) st =
     snd (put_row (append_rows put_row org stamps es st) (row_of org uuid now e))"
  by (simp add: append_rows_def)

lemma logger_stores:
  "logger_run put_row acts l m \<Longrightarrow> ml_orgID m = ml_orgID l \<and>
    (\<exists>stamps. length stamps = length (written acts) \<and>
       ml_store m = append_rows put_row (ml_orgID l) stamps (written acts) (ml_store l))"
proof (induction rule: logger_run.induct)
  case (run_nil l)
  then show ?case by (simp add: append_rows_def)
next
  case (run_snoc acts l m act n)
  then obtain stamps where st: "ml_orgID m = ml_orgID l" "length stamps = length (written acts)"
    "ml_store m = append_rows put_row (ml_orgID l) stamps (written acts) (ml_store l)" by blast
  have step: ?case if "written [act] = []" "ml_orgID n = ml_orgID m" "ml_store n = ml_store m"
    using that st by (intro conjI exI [of _ stamps]) simp_all
  have wr: ?case if "written [act] = [e]" "n = write_entry put_row uuid now e k" "ml_orgID k = ml_orgID m"
    "ml_store k = ml_store m" for e uuid now k
    using that st by (intro conjI exI [of _ "stamps @ [(uuid, now)]"]) (simp_all add: append_rows_snoc write_entry_def)
  from run_snoc.hyps(2) show ?case
  proof (cases rule: logger_step.cases)
    case (handoff e uuid now)
    then show ?thesis by (intro wr [of e uuid now m]) simp_all
  next
    case (write_one e rest uuid now)
    then show ?thesis by (intro wr [of e uuid now "m\<lparr>ml_ch := rest\<rparr>"]) simp_all
  qed (rule step; simp add: emb_Log_def)+
qed

lemma logger_bounded:
  "logger_run put_row acts l m \<Longrightarrow> length (ml_ch l) \<le> ml_cap l \<Longrightarrow>
     length (ml_ch m) \<le> ml_cap m \<and> ml_cap m = ml_cap l"
proof (induction rule: logger_run.induct)
  case (run_nil l)
  then show ?case by simp
next
  case (run_snoc acts l m act n)
  from run_snoc.hyps(2) show ?case
    using run_snoc.IH [OF run_snoc.prems]
    by (cases rule: logger_stepE) (auto simp: emb_Log_def write_entry_def)
qed

text \<open>When the drain stops, everything accepted so far has been handed to the store, in order.\<close>

lemma logger_flushes:
  assumes "logger_run put_row (acts @ [Stop]) l m" and "ml_ch l = []"
  shows "written acts = accepted acts \<and> ml_drain m = Exited"
proof -
  from assms(1) obtain k where "logger_run put_row acts l k" "logger_step put_row Stop k m"
    by (auto elim: logger_run_snocE)
  then show ?thesis using logger_conserves [of put_row acts l k] assms(2)
    by (auto simp: logger_step_simps)
qed

lemma logger_run_Cons:
  "logger_run put_row acts m n \<Longrightarrow> logger_step put_row act l m \<Longrightarrow> logger_run put_row (act # acts) l n"
proof (induction rule: logger_run.induct)
  case (run_nil m)
  then show ?case using run_snoc [OF logger_run.run_nil, of put_row act l m] by simp
next
  case (run_snoc acts m k act' n)
  then show ?case using logger_run.run_snoc [of put_row "act # acts" l k act' n] by simp
qed

text \<open>Once the drain flushes, it empties the channel and stops, if nothing more is sent.\<close>

lemma logger_can_stop:
  "ml_drain l = Flushing \<Longrightarrow>
     \<exists>m. logger_run put_row (map Write (ml_ch l) @ [Stop]) l m \<and> ml_drain m = Exited"
proof (induction "ml_ch l" arbitrary: l)
  case Nil
  then have "logger_step put_row Stop l (l\<lparr>ml_drain := Exited\<rparr>)" by (simp add: logger_step_simps)
  then show ?case using Nil run_snoc [OF run_nil] by fastforce
next
  case (Cons e es)
  define k where "k = write_entry put_row '''' 0 e (l\<lparr>ml_ch := es\<rparr>)"
  have s: "logger_step put_row (Write e) l k"
    unfolding k_def using Cons.prems Cons.hyps(2) by (intro write_one) simp_all
  have k: "ml_ch k = es" "ml_drain k = Flushing"
    using Cons.prems by (simp_all add: k_def write_entry_def)
  from Cons.hyps(1) [of k] k obtain m where
    "logger_run put_row (map Write es @ [Stop]) k m" "ml_drain m = Exited" by auto
  with s have "logger_run put_row (Write e # map Write es @ [Stop]) l m" "ml_drain m = Exited"
    by (auto intro: logger_run_Cons)
  then show ?case using Cons.hyps(2) by (intro exI [of _ m]) (simp flip: Cons.hyps(2))
qed

section \<open>The HTTP logger\<close>

definition httpLoggerMaxConcurrent :: nat where "httpLoggerMaxConcurrent = 32"

text \<open>
  \<open>sem\<close> counts the posts in flight, each of which is a goroutine working on its entry.
\<close>

record HTTPMessageLogger =
  hl_endpoint :: string
  hl_token :: string
  hl_inflight :: "MessageLogEntry list"

definition NewHTTPMessageLogger :: "'w http_lib \<Rightarrow> string \<Rightarrow> string \<Rightarrow> policy_error + HTTPMessageLogger" where
  "NewHTTPMessageLogger lib baseURL token =
     (case url_Parse lib baseURL of
        Inl err \<Rightarrow> Inl (InvalidBaseURL baseURL)
      | Inr (scheme, host) \<Rightarrow>
          if (scheme \<noteq> ''http'' \<and> scheme \<noteq> ''https'') \<or> host = ''''
          then Inl (InvalidBaseURL baseURL)
          else Inr \<lparr>hl_endpoint = baseURL @ ''/api/v1/message-log'', hl_token = token, hl_inflight = []\<rparr>)"

definition http_Log :: "MessageLogEntry \<Rightarrow> HTTPMessageLogger \<Rightarrow> HTTPMessageLogger" where
  "http_Log entry h =
     (if length (hl_inflight h) < httpLoggerMaxConcurrent
      then h\<lparr>hl_inflight := entry # hl_inflight h\<rparr> else h)"

text \<open>A post ends, in whatever way: its goroutine releases the semaphore.\<close>

definition http_finish :: "MessageLogEntry \<Rightarrow> HTTPMessageLogger \<Rightarrow> HTTPMessageLogger" where
  "http_finish entry h = h\<lparr>hl_inflight := remove1 entry (hl_inflight h)\<rparr>"

definition httpMessageLogger :: "HTTPMessageLogger MessageLogger" where
  "httpMessageLogger = \<lparr>Log = http_Log\<rparr>"

section \<open>What the gateway may rely on\<close>

text \<open>A logger holds a bounded number of entries, and never one it was not given.\<close>

locale bounded_logger =
  fixes lg :: "'log MessageLogger" and held :: "'log \<Rightarrow> MessageLogEntry list" and room :: "'log \<Rightarrow> nat"
  assumes log_bound: "length (held l) \<le> room l \<Longrightarrow> length (held (Log lg e l)) \<le> room (Log lg e l)"
    and log_room: "room (Log lg e l) = room l"
    and log_held: "set (held (Log lg e l)) \<subseteq> insert e (set (held l))"
begin

lemma burst_bound:
  "length (held l) \<le> room l \<Longrightarrow> length (held (fold (Log lg) es l)) \<le> room l"
proof (induction es arbitrary: l)
  case (Cons e es)
  then show ?case using Cons.IH [of "Log lg e l"] log_bound log_room by fastforce
qed simp

lemma burst_held: "set (held (fold (Log lg) es l)) \<subseteq> set es \<union> set (held l)"
proof (induction es arbitrary: l)
  case (Cons e es)
  then show ?case using Cons.IH [of "Log lg e l"] log_held [of e l] by auto
qed simp

end

interpretation noop_log: bounded_logger noopMessageLogger "\<lambda>l. []" "\<lambda>l. 0"
  by unfold_locales simp_all

interpretation embedded_log: bounded_logger embeddedMessageLogger ml_ch ml_cap
  by unfold_locales (auto simp: embeddedMessageLogger_def emb_Log_def)

interpretation http_log: bounded_logger httpMessageLogger hl_inflight "\<lambda>h. httpLoggerMaxConcurrent"
  by unfold_locales (auto simp: httpMessageLogger_def http_Log_def)

lemma http_finish_le: "length (hl_inflight (http_finish e h)) \<le> length (hl_inflight h)"
  by (simp add: http_finish_def length_remove1)


end
