(* ===== verification/Protocol.thy ===== *)
theory Protocol
  imports Prelude
begin

text \<open>
  \<open>pkg/protocol\<close>: the wire names of the 24 message types and the registry that gives, for each
  type, the fields required beyond the base envelope and the name of its JSON schema. A Go
  \<open>MessageType\<close> is an open string type (a document can carry any name), so it is a string here.
\<close>

section \<open>Message types (types.go)\<close>

type_synonym MessageType = string

definition ProtocolVersion :: string where [wire]: "ProtocolVersion = ''v1''"

definition AgentGenome :: MessageType where [wire]: "AgentGenome = ''agent.genome''"
definition AgentSpawnProposal :: MessageType where [wire]: "AgentSpawnProposal = ''agent.spawn.proposal''"
definition AgentSpawnApproval :: MessageType where [wire]: "AgentSpawnApproval = ''agent.spawn.approval''"
definition AgentSpawnRejection :: MessageType where [wire]: "AgentSpawnRejection = ''agent.spawn.rejection''"
definition AgentEvaluationRequest :: MessageType where [wire]: "AgentEvaluationRequest = ''agent.evaluation.request''"
definition AgentEvaluationResult :: MessageType where [wire]: "AgentEvaluationResult = ''agent.evaluation.result''"
definition AgentPromotion :: MessageType where [wire]: "AgentPromotion = ''agent.promotion''"
definition AgentRollback :: MessageType where [wire]: "AgentRollback = ''agent.rollback''"
definition AgentRetirement :: MessageType where [wire]: "AgentRetirement = ''agent.retirement''"
definition AgentQuarantine :: MessageType where [wire]: "AgentQuarantine = ''agent.quarantine''"
definition AgentRecombineProposal :: MessageType where [wire]: "AgentRecombineProposal = ''agent.recombine.proposal''"
definition AgentMessage :: MessageType where [wire]: "AgentMessage = ''agent.message''"
definition TaskRequest :: MessageType where [wire]: "TaskRequest = ''task.request''"
definition TaskResult :: MessageType where [wire]: "TaskResult = ''task.result''"
definition TaskFail :: MessageType where [wire]: "TaskFail = ''task.fail''"
definition TaskProgress :: MessageType where [wire]: "TaskProgress = ''task.progress''"
definition NegotiationPropose :: MessageType where [wire]: "NegotiationPropose = ''negotiation.propose''"
definition NegotiationAccept :: MessageType where [wire]: "NegotiationAccept = ''negotiation.accept''"
definition NegotiationReject :: MessageType where [wire]: "NegotiationReject = ''negotiation.reject''"
definition NegotiationCounter :: MessageType where [wire]: "NegotiationCounter = ''negotiation.counter''"
definition NegotiationClarify :: MessageType where [wire]: "NegotiationClarify = ''negotiation.clarify''"
definition NegotiationDelegate :: MessageType where [wire]: "NegotiationDelegate = ''negotiation.delegate''"
definition NegotiationCommit :: MessageType where [wire]: "NegotiationCommit = ''negotiation.commit''"
definition NegotiationAbort :: MessageType where [wire]: "NegotiationAbort = ''negotiation.abort''"

section \<open>The registry (registry.go)\<close>

record TypeMeta =
  RequiredFields :: "string list"
  SchemaRef :: string

definition baseEnvelopeFields :: "string list" where
  "baseEnvelopeFields = [''type'', ''version'']"

definition BaseEnvelopeFields :: "string list" where
  "BaseEnvelopeFields = baseEnvelopeFields"

text \<open>The map literal, entry by entry in the order of the source.\<close>

definition registry_entries :: "(MessageType \<times> TypeMeta) list" where
  "registry_entries = [
    (AgentGenome, \<lparr>RequiredFields =
         [''agent_id'', ''kind'', ''status'', ''identity'',
          ''capabilities'', ''tools'', ''model_policy'', ''prompt_policy'',
          ''routing_policy'', ''thresholds'', ''constraints'', ''mutation_policy''],
       SchemaRef = ''agentGenome''\<rparr>),
    (AgentSpawnProposal, \<lparr>RequiredFields =
         [''id'', ''from'', ''candidate_id'', ''parent_ids'', ''spawn_reason''],
       SchemaRef = ''agentSpawnProposal''\<rparr>),
    (AgentSpawnApproval, \<lparr>RequiredFields =
         [''id'', ''from'', ''in_reply_to'', ''candidate_id'', ''decision''],
       SchemaRef = ''agentSpawnApproval''\<rparr>),
    (AgentSpawnRejection, \<lparr>RequiredFields =
         [''id'', ''from'', ''in_reply_to'', ''candidate_id'', ''decision''],
       SchemaRef = ''agentSpawnRejection''\<rparr>),
    (AgentEvaluationRequest, \<lparr>RequiredFields =
         [''id'', ''from'', ''target_agent'', ''benchmark_id'', ''mode''],
       SchemaRef = ''agentEvaluationRequest''\<rparr>),
    (AgentEvaluationResult, \<lparr>RequiredFields =
         [''id'', ''from'', ''target_agent'', ''overall_decision'',
          ''metrics'', ''hard_constraints_passed''],
       SchemaRef = ''agentEvaluationResult''\<rparr>),
    (AgentPromotion, \<lparr>RequiredFields =
         [''id'', ''from'', ''target_agent'', ''from_status'', ''to_status''],
       SchemaRef = ''agentPromotion''\<rparr>),
    (AgentRollback, \<lparr>RequiredFields =
         [''id'', ''from'', ''target_agent'', ''from_status'', ''to_status''],
       SchemaRef = ''agentRollback''\<rparr>),
    (AgentRetirement, \<lparr>RequiredFields =
         [''id'', ''from'', ''target_agent'', ''reason''],
       SchemaRef = ''agentRetirement''\<rparr>),
    (AgentQuarantine, \<lparr>RequiredFields =
         [''id'', ''from'', ''target_agent'', ''reason''],
       SchemaRef = ''agentQuarantine''\<rparr>),
    (AgentRecombineProposal, \<lparr>RequiredFields =
         [''id'', ''from'', ''candidate_id'', ''parent_ids'', ''goal''],
       SchemaRef = ''agentRecombineProposal''\<rparr>),
    (AgentMessage, \<lparr>RequiredFields =
         [''id'', ''from'', ''to''],
       SchemaRef = ''''\<rparr>),
    (TaskRequest, \<lparr>RequiredFields =
         [''id'', ''from'', ''to'', ''exec_id'', ''step''],
       SchemaRef = ''''\<rparr>),
    (TaskResult, \<lparr>RequiredFields =
         [''id'', ''from'', ''to'', ''exec_id'', ''step''],
       SchemaRef = ''''\<rparr>),
    (TaskFail, \<lparr>RequiredFields =
         [''id'', ''from'', ''to'', ''exec_id'', ''step''],
       SchemaRef = ''''\<rparr>),
    (TaskProgress, \<lparr>RequiredFields =
         [''id'', ''from'', ''to'', ''exec_id'', ''step''],
       SchemaRef = ''''\<rparr>),
    (NegotiationPropose, \<lparr>RequiredFields =
         [''id'', ''from'', ''to'', ''thread_id''],
       SchemaRef = ''''\<rparr>),
    (NegotiationAccept, \<lparr>RequiredFields =
         [''id'', ''from'', ''to'', ''thread_id'', ''in_reply_to''],
       SchemaRef = ''''\<rparr>),
    (NegotiationReject, \<lparr>RequiredFields =
         [''id'', ''from'', ''to'', ''thread_id'', ''in_reply_to''],
       SchemaRef = ''''\<rparr>),
    (NegotiationCounter, \<lparr>RequiredFields =
         [''id'', ''from'', ''to'', ''thread_id'', ''in_reply_to''],
       SchemaRef = ''''\<rparr>),
    (NegotiationClarify, \<lparr>RequiredFields =
         [''id'', ''from'', ''to'', ''thread_id'', ''in_reply_to''],
       SchemaRef = ''''\<rparr>),
    (NegotiationDelegate, \<lparr>RequiredFields =
         [''id'', ''from'', ''to'', ''thread_id'', ''in_reply_to''],
       SchemaRef = ''''\<rparr>),
    (NegotiationCommit, \<lparr>RequiredFields =
         [''id'', ''from'', ''to'', ''thread_id'', ''in_reply_to''],
       SchemaRef = ''''\<rparr>),
    (NegotiationAbort, \<lparr>RequiredFields =
         [''id'', ''from'', ''to'', ''thread_id'', ''in_reply_to''],
       SchemaRef = ''''\<rparr>)]"

definition registry :: "(MessageType, TypeMeta) fmap" where
  "registry = fmap_of_list registry_entries"

definition Lookup :: "MessageType \<Rightarrow> TypeMeta option" where
  "Lookup mt = fmlookup registry mt"

text \<open>
  \<open>Registered\<close> ranges over the map, so the code's order is arbitrary; the list is given in the
  order of the source and no result below depends on it.
\<close>

definition Registered :: "MessageType list" where
  "Registered = map fst registry_entries"

section \<open>What the registry holds\<close>

lemma Registered_list: "Registered =
  [AgentGenome, AgentSpawnProposal, AgentSpawnApproval, AgentSpawnRejection,
   AgentEvaluationRequest, AgentEvaluationResult, AgentPromotion, AgentRollback,
   AgentRetirement, AgentQuarantine, AgentRecombineProposal, AgentMessage,
   TaskRequest, TaskResult, TaskFail, TaskProgress,
   NegotiationPropose, NegotiationAccept, NegotiationReject, NegotiationCounter,
   NegotiationClarify, NegotiationDelegate, NegotiationCommit, NegotiationAbort]"
  by (simp add: Registered_def registry_entries_def)

lemma Registered_distinct: "distinct Registered"
  by (simp add: Registered_list wire)

lemma Lookup_eq: "Lookup mt = map_of registry_entries mt"
  by (simp add: Lookup_def registry_def fmlookup_of_list)

lemma Lookup_registered: "Lookup mt \<noteq> None \<longleftrightarrow> mt \<in> set Registered"
  unfolding Lookup_eq Registered_def by (simp add: map_of_eq_None_iff)

lemma Lookup_entry: "(mt, m) \<in> set registry_entries \<Longrightarrow> Lookup mt = Some m"
  using Registered_distinct by (simp add: Lookup_eq Registered_def)

lemma Lookup_SomeD: "Lookup mt = Some m \<Longrightarrow> (mt, m) \<in> set registry_entries"
  by (simp add: Lookup_eq map_of_SomeD)

definition evolution_types :: "MessageType list" where
  "evolution_types =
  [AgentGenome, AgentSpawnProposal, AgentSpawnApproval, AgentSpawnRejection,
   AgentEvaluationRequest, AgentEvaluationResult, AgentPromotion, AgentRollback,
   AgentRetirement, AgentQuarantine, AgentRecombineProposal]"

definition task_types :: "MessageType list" where
  "task_types =
  [TaskRequest, TaskResult, TaskFail, TaskProgress]"

definition negotiation_types :: "MessageType list" where
  "negotiation_types =
  [NegotiationPropose, NegotiationAccept, NegotiationReject, NegotiationCounter,
   NegotiationClarify, NegotiationDelegate, NegotiationCommit, NegotiationAbort]"

lemmas groups = evolution_types_def task_types_def negotiation_types_def

text \<open>The entries the other components look up, evaluated once.\<close>

lemma Lookup_task [simp]:
  "mt \<in> set task_types \<Longrightarrow> Lookup mt =
     Some \<lparr>RequiredFields = [''id'', ''from'', ''to'', ''exec_id'', ''step''], SchemaRef = ''''\<rparr>"
  by (rule Lookup_entry) (auto simp: groups registry_entries_def)

lemma Lookup_AgentMessage [simp]:
  "Lookup AgentMessage = Some \<lparr>RequiredFields = [''id'', ''from'', ''to''], SchemaRef = ''''\<rparr>"
  by (rule Lookup_entry) (simp add: registry_entries_def)

lemma Lookup_promotion:
  assumes "mt \<in> {AgentPromotion, AgentRollback}"
  obtains m where "Lookup mt = Some m"
    "RequiredFields m = [''id'', ''from'', ''target_agent'', ''from_status'', ''to_status'']"
proof -
  have "\<exists>s. (mt, \<lparr>RequiredFields = [''id'', ''from'', ''target_agent'', ''from_status'', ''to_status''],
      SchemaRef = s\<rparr>) \<in> set registry_entries"
    using assms by (auto simp: registry_entries_def)
  then show ?thesis using that by (auto dest: Lookup_entry)
qed

lemma entries_schema:
  "list_all (\<lambda>(mt, m). (SchemaRef m \<noteq> '''') = (mt \<in> set evolution_types)) registry_entries"
  by (simp add: registry_entries_def groups) (simp add: wire)

lemma entries_required:
  "list_all (\<lambda>(mt, m). mt = AgentGenome \<or>
     ''id'' \<in> set (RequiredFields m) \<and> ''from'' \<in> set (RequiredFields m)) registry_entries"
  by (simp add: registry_entries_def)

lemma schema_iff: "Lookup mt = Some m \<Longrightarrow> SchemaRef m \<noteq> '''' \<longleftrightarrow> mt \<in> set evolution_types"
  using entries_schema by (auto dest!: Lookup_SomeD simp: list_all_iff)

lemma required_id_from:
  "Lookup mt = Some m \<Longrightarrow> mt \<noteq> AgentGenome \<Longrightarrow>
     ''id'' \<in> set (RequiredFields m) \<and> ''from'' \<in> set (RequiredFields m)"
  using entries_required by (auto dest!: Lookup_SomeD simp: list_all_iff)

end
