(* ===== verification/Envelope.thy ===== *)
theory Envelope
  imports Protocol
begin

text \<open>
  \<open>pkg/document/types.go\<close>: the envelope, the document that extends it (Go's struct embedding is
  record extension), the \<open>StringOrList\<close> of the \<open>to\<close> field, and \<open>As[T]\<close>, which hands the
  type-specific fields to a typed struct. \<open>yaml.v3\<close> is not part of the repository: its
  \<open>Marshal\<close>, \<open>Unmarshal\<close> and \<open>Node.Decode\<close> are arguments of the definitions that call them.
\<close>

section \<open>Values, envelope, document\<close>

text \<open>A Go \<open>any\<close> that came out of YAML. A float is kept as its text.\<close>

datatype yval = YNull | YBool bool | YInt int | YFloat string | YString string
  | YSeq "yval list" | YMap "(string \<times> yval) list"

record Envelope =
  Type :: MessageType
  Version :: string
  ID :: string
  From :: string
  To :: "string list"
  CreatedAt :: string
  InReplyTo :: string
  ThreadID :: string
  ExecID :: string
  TTL :: string
  Status :: string
  Signature :: string
  SigningKeyID :: string

record Document = Envelope +
  Extra :: "(string, yval) fmap"
  Body :: string
  Raw :: bytes

text \<open>The zero value of the struct, \<open>var doc Document\<close>.\<close>

definition zero_document :: Document where
  "zero_document =
     \<lparr>Type = '''', Version = '''', ID = '''', From = '''', To = [], CreatedAt = '''',
      InReplyTo = '''', ThreadID = '''', ExecID = '''', TTL = '''', Status = '''',
      Signature = '''', SigningKeyID = '''', Extra = fmempty, Body = '''', Raw = ''''\<rparr>"

definition envelopeKeys :: "string list" where
  "envelopeKeys = [''type'', ''version'', ''id'', ''from'', ''to'',
     ''created_at'', ''in_reply_to'', ''thread_id'', ''exec_id'',
     ''ttl'', ''status'', ''signature'', ''signing_key_id'']"

section \<open>StringOrList\<close>

definition StringOrList_MarshalYAML :: "string list \<Rightarrow> yval" where
  "StringOrList_MarshalYAML s =
     (if length s = 1 then YString (s ! 0) else YSeq (map YString s))"

datatype yaml_node = ScalarNode string | SequenceNode "yaml_node list"
  | MappingNode "(yaml_node \<times> yaml_node) list" | AliasNode yaml_node | DocumentNode "yaml_node list"

datatype 'e sol_error = DecodeSequence 'e | UnexpectedKind

fun StringOrList_UnmarshalYAML ::
  "(yaml_node list \<Rightarrow> 'e + string list) \<Rightarrow> yaml_node \<Rightarrow> 'e sol_error + string list" where
  "StringOrList_UnmarshalYAML decode (ScalarNode v) = Inr [v]"
| "StringOrList_UnmarshalYAML decode (SequenceNode ns) = wrap_err DecodeSequence (decode ns)"
| "StringOrList_UnmarshalYAML decode _ = Inl UnexpectedKind"

text \<open>
  The node \<open>yaml.v3\<close> reads back for a value it wrote: a string is a scalar node, a list a
  sequence node (the other values do not occur under \<open>to\<close>).
\<close>

definition writes_nodes :: "(yval \<Rightarrow> yaml_node) \<Rightarrow> bool" where
  "writes_nodes node_of \<longleftrightarrow>
     (\<forall>s. node_of (YString s) = ScalarNode s) \<and>
     (\<forall>vs. node_of (YSeq vs) = SequenceNode (map node_of vs))"

lemma StringOrList_roundtrip_lemma:
  assumes "writes_nodes node_of" and "\<And>ss. decode (map ScalarNode ss) = Inr ss"
  shows "StringOrList_UnmarshalYAML decode (node_of (StringOrList_MarshalYAML s)) = Inr s"
proof (cases "length s = 1")
  case True
  then obtain x where "s = [x]" by (auto simp: length_Suc_conv)
  then show ?thesis
    using assms(1) by (simp add: StringOrList_MarshalYAML_def writes_nodes_def)
next
  case False
  then have "node_of (StringOrList_MarshalYAML s) = SequenceNode (map ScalarNode s)"
    using assms(1) by (simp add: StringOrList_MarshalYAML_def writes_nodes_def comp_def)
  then show ?thesis using assms(2) by simp
qed

section \<open>As[T]\<close>

datatype 'e as_error = AsNil | AsMarshal 'e | AsUnmarshal 'e

definition filtered_extra :: "(string, yval) fmap \<Rightarrow> (string, yval) fmap" where
  "filtered_extra extra = fmfilter (\<lambda>k. k \<notin> set envelopeKeys) extra"

fun As :: "((string, yval) fmap \<Rightarrow> 'e + bytes) \<Rightarrow> (bytes \<Rightarrow> 'e + 't)
    \<Rightarrow> Document option \<Rightarrow> 'e as_error + 't" where
  "As marshal unmarshal None = Inl AsNil"
| "As marshal unmarshal (Some doc) =
     (case marshal (filtered_extra (Extra doc)) of
        Inl e \<Rightarrow> Inl (AsMarshal e)
      | Inr data \<Rightarrow> wrap_err AsUnmarshal (unmarshal data))"

lemma filtered_extra_lookup:
  "fmlookup (filtered_extra m) k = (if k \<in> set envelopeKeys then None else fmlookup m k)"
  by (simp add: filtered_extra_def)

lemma filtered_extra_eqI:
  assumes "\<And>k. k \<notin> set envelopeKeys \<Longrightarrow> fmlookup m k = fmlookup m' k"
  shows "filtered_extra m = filtered_extra m'"
  by (rule fmap_ext) (simp add: filtered_extra_lookup assms)

end
