(* ===== verification/Parser.thy ===== *)
theory Parser
  imports Envelope GoLib
begin

text \<open>
  \<open>pkg/document/parser.go\<close>: splitting a document into its YAML front matter and its Markdown
  body, \<open>Parse\<close> with its size limit, and \<open>Serialize\<close>. The loop of \<open>findClosingDelimiter\<close> is
  shown to find exactly the first bare \<open>---\<close> line, and \<open>SplitFrontMatter\<close> to be the inverse of
  the layout \<open>Serialize\<close> writes.
\<close>

section \<open>Delimiters\<close>

definition LF :: char where "LF = CHR 0x0A"
definition CR :: char where "CR = CHR 0x0D"

lemma LF_CR_dash [simp]:
  "LF \<noteq> CR" "CR \<noteq> LF" "LF \<noteq> CHR ''-''" "CHR ''-'' \<noteq> LF" "CR \<noteq> CHR ''-''" "CHR ''-'' \<noteq> CR"
  by (simp_all add: LF_def CR_def)

definition MaxDocumentBytes :: int where "MaxDocumentBytes = 64 * 1024"

definition isDelimiter :: "bytes \<Rightarrow> bool" where
  "isDelimiter line = (bytes_TrimRight line CR = ''---'')"

lemma isDelimiter_iff: "isDelimiter line \<longleftrightarrow> (\<exists>n. line = ''---'' @ replicate n CR)"
  unfolding isDelimiter_def by (rule bytes_TrimRight_iff) simp

text \<open>The loop of \<open>findClosingDelimiter\<close>, entered with \<open>offset\<close>.\<close>

function find_close_from :: "bytes \<Rightarrow> nat \<Rightarrow> nat option" where
  "find_close_from content offset =
     (case bytes_Index (drop offset content) (LF # ''---'') of
        None \<Rightarrow> None
      | Some idx \<Rightarrow>
          let abs = offset + idx; after = drop (abs + 4) content
          in if after = [] \<or> hd after = LF \<or> hd after = CR then Some abs
             else find_close_from content (abs + 4))"
  by pat_completeness auto

lemma Index_delim_bound:
  assumes "bytes_Index (drop off s) (LF # ''---'') = Some i"
  shows "off + i + 4 \<le> length s"
proof -
  have "has_prefix (LF # ''---'') (drop (off + i) s)"
    using assms by (auto simp: bytes_Index_Some add.commute)
  from has_prefix_length [OF this] show ?thesis by simp
qed

termination find_close_from
proof (relation "measure (\<lambda>(c, off). length c - off)", goal_cases)
  case 1
  show ?case by simp
next
  case (2 content offset idx)
  then have "offset + idx + 4 \<le> length content" by (intro Index_delim_bound) simp
  with 2 show ?case by simp
qed

declare find_close_from.simps [simp del]

definition findClosingDelimiter :: "bytes \<Rightarrow> nat option" where
  "findClosingDelimiter content = find_close_from content 0"

text \<open>
  What it looks for: a line feed, then \<open>---\<close>, then the end, a line feed or a carriage return.
\<close>

definition bare_close_at :: "bytes \<Rightarrow> nat \<Rightarrow> bool" where
  "bare_close_at content i \<longleftrightarrow>
     has_prefix (LF # ''---'') (drop i content) \<and>
     (let after = drop (i + 4) content in after = [] \<or> hd after = LF \<or> hd after = CR)"

lemma bare_close_bound: "bare_close_at c i \<Longrightarrow> i + 4 \<le> length c"
  by (drule conjunct1 [OF iffD1 [OF bare_close_at_def]]) (auto dest!: has_prefix_length)

lemma delim_no_overlap:
  assumes "has_prefix (LF # ''---'') (drop i c)" and "i < j" and "j < i + 4"
  shows "\<not> has_prefix (LF # ''---'') (drop j c)"
proof -
  from assms(1) obtain t where t: "drop i c = LF # ''---'' @ t"
    by (auto simp: has_prefix_iff)
  define k where "k = j - i"
  have k: "k \<in> {1, 2, 3}" and j: "drop j c = drop k (drop i c)"
    using assms(2,3) by (auto simp: k_def)
  show ?thesis
    unfolding j t using k by (auto simp: numeral_2_eq_2 numeral_3_eq_3)
qed

lemma find_close_from_spec:
  "(case find_close_from c off of
      None \<Rightarrow> \<forall>j\<ge>off. \<not> bare_close_at c j
    | Some i \<Rightarrow> off \<le> i \<and> bare_close_at c i \<and> (\<forall>j. off \<le> j \<and> j < i \<longrightarrow> \<not> bare_close_at c j))"
proof (induction c off rule: find_close_from.induct)
  case (1 c off)
  show ?case
  proof (cases "bytes_Index (drop off c) (LF # ''---'')")
    case None
    have "\<not> bare_close_at c j" if "off \<le> j" for j
    proof
      assume b: "bare_close_at c j"
      then have "has_prefix (LF # ''---'') (drop (j - off) (drop off c))"
        using that by (simp add: bare_close_at_def)
      moreover have "j - off \<le> length (drop off c)"
        using bare_close_bound [OF b] by simp
      ultimately show False using None by (simp add: bytes_Index_None)
    qed
    with None show ?thesis by (simp add: find_close_from.simps [of c off])
  next
    case (Some idx)
    define i where "i = off + idx"
    have p: "has_prefix (LF # ''---'') (drop i c)"
      and least: "\<And>j. off \<le> j \<Longrightarrow> j < i \<Longrightarrow> \<not> has_prefix (LF # ''---'') (drop j c)"
    proof -
      show "has_prefix (LF # ''---'') (drop i c)"
        using Some by (simp add: bytes_Index_Some i_def add.commute)
      fix j assume "off \<le> j" "j < i"
      then show "\<not> has_prefix (LF # ''---'') (drop j c)"
        using Some by (auto simp: bytes_Index_Some i_def dest!: spec [of _ "j - off"])
    qed
    show ?thesis
    proof (cases "bare_close_at c i")
      case True
      then have "find_close_from c off = Some i"
        using Some by (simp add: find_close_from.simps [of c off] bare_close_at_def i_def Let_def)
      with True least show ?thesis by (auto simp: i_def bare_close_at_def)
    next
      case False
      then have rec: "find_close_from c off = find_close_from c (i + 4)"
        using Some p by (simp add: find_close_from.simps [of c off] bare_close_at_def i_def Let_def)
      have skip: "\<not> bare_close_at c j" if "off \<le> j" "j < i + 4" for j
        using that False least delim_no_overlap [OF p]
        by (cases "j < i"; cases "j = i") (auto simp: bare_close_at_def)
      have "\<not> (drop (i + 4) c = [] \<or> hd (drop (i + 4) c) = LF \<or> hd (drop (i + 4) c) = CR)"
        using False p by (simp add: bare_close_at_def Let_def)
      then have IH: "case find_close_from c (i + 4) of
          None \<Rightarrow> \<forall>j\<ge>i + 4. \<not> bare_close_at c j
        | Some k \<Rightarrow> i + 4 \<le> k \<and> bare_close_at c k \<and>
            (\<forall>j. i + 4 \<le> j \<and> j < k \<longrightarrow> \<not> bare_close_at c j)"
        using "1.IH" [OF Some refl refl] unfolding i_def by simp
      have "off \<le> i" by (simp add: i_def)
      with IH skip show ?thesis
        unfolding rec by (auto split: option.splits) (metis not_le)+
    qed
  qed
qed

lemma findClosingDelimiter_Some:
  "findClosingDelimiter c = Some i \<longleftrightarrow> bare_close_at c i \<and> (\<forall>j<i. \<not> bare_close_at c j)"
proof
  assume "findClosingDelimiter c = Some i"
  then show "bare_close_at c i \<and> (\<forall>j<i. \<not> bare_close_at c j)"
    using find_close_from_spec [where c = c and off = 0] by (simp add: findClosingDelimiter_def)
next
  assume r: "bare_close_at c i \<and> (\<forall>j<i. \<not> bare_close_at c j)"
  show "findClosingDelimiter c = Some i"
  proof (cases "find_close_from c 0")
    case None
    then show ?thesis using find_close_from_spec [where c = c and off = 0] r by simp
  next
    case (Some k)
    then have "bare_close_at c k" "\<forall>j<k. \<not> bare_close_at c j"
      using find_close_from_spec [where c = c and off = 0] by auto
    with r have "k = i" by (metis nat_neq_iff)
    with Some show ?thesis by (simp add: findClosingDelimiter_def)
  qed
qed

lemma findClosingDelimiter_None:
  "findClosingDelimiter c = None \<longleftrightarrow> (\<forall>j. \<not> bare_close_at c j)"
proof
  assume "findClosingDelimiter c = None"
  then show "\<forall>j. \<not> bare_close_at c j"
    using find_close_from_spec [where c = c and off = 0] by (simp add: findClosingDelimiter_def)
next
  assume n: "\<forall>j. \<not> bare_close_at c j"
  show "findClosingDelimiter c = None"
    using n by (cases "findClosingDelimiter c") (auto simp: findClosingDelimiter_Some)
qed

section \<open>Splitting\<close>

datatype split_error = NoFrontMatter | NoClosing

text \<open>
  The end of \<open>SplitFrontMatter\<close>: what follows the closing \<open>---\<close> loses a carriage return, then a
  line feed; without the line feed the body stays the empty string.
\<close>

definition body_of_rest :: "bytes \<Rightarrow> string" where
  "body_of_rest after =
     (let after = (if after \<noteq> [] \<and> hd after = CR then tl after else after)
      in if after \<noteq> [] \<and> hd after = LF then tl after else '''')"

definition SplitFrontMatter :: "bytes \<Rightarrow> split_error + bytes \<times> string" where
  "SplitFrontMatter raw =
     (case bytes_IndexByte raw LF of
        None \<Rightarrow> Inl NoFrontMatter
      | Some firstNL \<Rightarrow>
          if \<not> isDelimiter (take firstNL raw) then Inl NoFrontMatter
          else
            let content = drop (firstNL + 1) raw
            in case findClosingDelimiter content of
                 None \<Rightarrow> Inl NoClosing
               | Some closingIdx \<Rightarrow>
                   let yamlBytes = take (closingIdx + 1) content;
                       after = drop (closingIdx + 4) content
                   in Inr (yamlBytes, body_of_rest after))"

lemma body_of_rest_simps [simp]:
  "body_of_rest [] = ''''"
  "body_of_rest (LF # cs) = cs"
  "body_of_rest [CR] = ''''"
  "body_of_rest (CR # LF # cs) = cs"
  "d \<noteq> LF \<Longrightarrow> body_of_rest (CR # d # cs) = ''''"
  by (simp_all add: body_of_rest_def)

lemma SplitFrontMatter_at:
  assumes "findClosingDelimiter content = Some i"
  shows "SplitFrontMatter (''---'' @ replicate n CR @ LF # content) =
     Inr (take (i + 1) content, body_of_rest (drop (i + 4) content))"
proof -
  have "LF \<notin> set (''---'' @ replicate n CR)" by simp
  then have nl: "bytes_IndexByte ((''---'' @ replicate n CR) @ LF # content) LF =
      Some (length (''---'' @ replicate n CR))"
    by (rule bytes_IndexByte_append)
  have "isDelimiter (''---'' @ replicate n CR)"
    by (auto simp: isDelimiter_iff)
  with nl assms show ?thesis
    by (simp add: SplitFrontMatter_def Let_def)
qed

text \<open>
  Conversely a split document is an opening delimiter, the front matter up to and including
  its last line feed, \<open>---\<close>, and a rest from which the body was read.
\<close>

lemma SplitFrontMatter_shape:
  assumes "SplitFrontMatter raw = Inr (y, body)"
  obtains n rest where "raw = ''---'' @ replicate n CR @ LF # y @ ''---'' @ rest"
    and "y \<noteq> []" and "last y = LF" and "body = body_of_rest rest"
    and "rest = [] \<or> hd rest \<in> {LF, CR}"
proof -
  obtain k where k: "bytes_IndexByte raw LF = Some k"
    using assms by (cases "bytes_IndexByte raw LF") (auto simp: SplitFrontMatter_def)
  then have d: "isDelimiter (take k raw)"
    using assms by (auto simp: SplitFrontMatter_def split: if_splits)
  then obtain n where n: "take k raw = ''---'' @ replicate n CR"
    by (auto simp: isDelimiter_iff)
  define content where "content = drop (k + 1) raw"
  have raw: "raw = (''---'' @ replicate n CR) @ LF # content"
    using bytes_IndexByte_Some(2) [OF k] n by (simp add: content_def)
  obtain i where i: "findClosingDelimiter content = Some i"
    using assms k d
    by (cases "findClosingDelimiter content") (auto simp: SplitFrontMatter_def content_def Let_def)
  have "SplitFrontMatter raw = Inr (take (i + 1) content, body_of_rest (drop (i + 4) content))"
    using SplitFrontMatter_at [OF i, of n] raw by simp
  then have y: "y = take (i + 1) content" and b: "body = body_of_rest (drop (i + 4) content)"
    using assms by auto
  have bc: "bare_close_at content i" using i by (simp add: findClosingDelimiter_Some)
  then obtain t where t: "drop i content = LF # ''---'' @ t"
    by (auto simp: bare_close_at_def has_prefix_iff)
  have t': "drop (i + 4) content = t"
    using arg_cong [OF t, of "drop 4"] by (simp add: add.commute)
  have il: "i < length content" using bare_close_bound [OF bc] by simp
  have c: "content = take i content @ LF # ''---'' @ t"
    using append_take_drop_id [of i content] t by simp
  have y': "y = take i content @ [LF]"
    using y il t by (simp add: take_Suc_conv_app_nth nth_via_drop)
  show thesis
  proof (rule that [of n t])
    show "raw = ''---'' @ replicate n CR @ LF # y @ ''---'' @ t"
      using raw c y' by simp
    show "y \<noteq> []" "last y = LF" using y' by simp_all
    show "body = body_of_rest t" using b t' by simp
    show "t = [] \<or> hd t \<in> {LF, CR}" using bc t' by (auto simp: bare_close_at_def Let_def)
  qed
qed

lemma length_body_of_rest: "rest \<noteq> [] \<Longrightarrow> length (body_of_rest rest) < length rest"
  by (cases rest) (auto simp: body_of_rest_def Let_def)

lemma SplitFrontMatter_body_bound:
  assumes "SplitFrontMatter raw = Inr (y, body)"
  shows "length body + 8 \<le> length raw"
proof -
  obtain n rest where "raw = ''---'' @ replicate n CR @ LF # y @ ''---'' @ rest"
    "y \<noteq> []" "body = body_of_rest rest"
    using assms by (rule SplitFrontMatter_shape)
  moreover have "length (body_of_rest rest) \<le> length rest"
    using length_body_of_rest [of rest] by (cases "rest = []") auto
  moreover have "1 \<le> length y" using \<open>y \<noteq> []\<close> by (cases y) auto
  ultimately show ?thesis by simp
qed

text \<open>The closing delimiter of a front matter block that contains no bare delimiter itself.\<close>

lemma findClosing_block:
  assumes y: "y \<noteq> []" "last y = LF" and none: "findClosingDelimiter y = None"
    and rest: "rest = [] \<or> hd rest \<in> {LF, CR}"
  shows "findClosingDelimiter (y @ ''---'' @ rest) = Some (length y - 1)"
proof -
  obtain z where z: "y = z @ [LF]" using y by (metis append_butlast_last_id)
  have at: "bare_close_at (y @ ''---'' @ rest) (length y - 1)"
    using rest by (auto simp: bare_close_at_def z Let_def)
  have "\<not> bare_close_at (y @ ''---'' @ rest) j" if j: "j < length y - 1" for j
  proof
    assume b: "bare_close_at (y @ ''---'' @ rest) j"
    then obtain t where t: "drop j (y @ ''---'' @ rest) = LF # ''---'' @ t"
      by (auto simp: bare_close_at_def has_prefix_iff)
    have dash: "\<And>m. m \<in> {1, 2, 3} \<Longrightarrow> drop j (y @ ''---'' @ rest) ! m = CHR ''-''"
      unfolding t by (auto simp: nth_Cons' numeral_2_eq_2 numeral_3_eq_3)
    have lf: "drop j (y @ ''---'' @ rest) ! (length y - 1 - j) = LF"
      using j by (simp add: z nth_append)
    have "length y - 1 - j \<notin> {1, 2, 3}" using dash lf LF_CR_dash(3) by metis
    with j have far: "j + 5 \<le> length y" by auto
    then have "drop j y = LF # ''---'' @ take (length y - j - 4) t"
      using arg_cong [OF t, of "take (length y - j)"] by (simp add: numeral_eq_Suc take_Cons')
    then have pre: "has_prefix (LF # ''---'') (drop j y)" by simp
    have "hd (drop (j + 4) (y @ ''---'' @ rest)) = hd (drop (j + 4) y)"
      using far by (simp add: hd_append)
    then have "bare_close_at y j"
      using b pre far by (auto simp: bare_close_at_def Let_def)
    with none show False by (simp add: findClosingDelimiter_None)
  qed
  with at show ?thesis by (simp add: findClosingDelimiter_Some)
qed

section \<open>Parse and Serialize\<close>

datatype 'e parse_error = TooLarge | Split split_error | Unmarshal 'e

text \<open>
  \<open>unmarshal\<close> is \<open>yaml.Unmarshal\<close> into a fresh \<open>Document\<close>: it sets the envelope and \<open>Extra\<close>;
  \<open>Body\<close> and \<open>Raw\<close> are tagged \<open>yaml:"-"\<close>.
\<close>

definition Parse :: "(bytes \<Rightarrow> 'e + Document) \<Rightarrow> bytes \<Rightarrow> 'e parse_error + Document" where
  "Parse unmarshal raw =
     (if int (length raw) > MaxDocumentBytes then Inl TooLarge
      else case SplitFrontMatter raw of
             Inl e \<Rightarrow> Inl (Split e)
           | Inr (yamlBytes, body) \<Rightarrow>
               (case unmarshal yamlBytes of
                  Inl e \<Rightarrow> Inl (Unmarshal e)
                | Inr doc \<Rightarrow> Inr (doc\<lparr>Body := body, Raw := raw\<rparr>)))"

datatype 'e parse_as_error = ParseAs_parse "'e parse_error" | ParseAs_as "'e as_error"

definition ParseAs :: "(bytes \<Rightarrow> 'e + Document) \<Rightarrow> ((string, yval) fmap \<Rightarrow> 'e + bytes)
    \<Rightarrow> (bytes \<Rightarrow> 'e + 't) \<Rightarrow> bytes \<Rightarrow> 'e parse_as_error + 't" where
  "ParseAs unmarshal marshal_extra unmarshal_t raw =
     (case Parse unmarshal raw of
        Inl e \<Rightarrow> Inl (ParseAs_parse e)
      | Inr doc \<Rightarrow> wrap_err ParseAs_as (As marshal_extra unmarshal_t (Some doc)))"

datatype 'e serialize_error = SerializeNil | Marshal 'e

fun Serialize :: "(Document \<Rightarrow> 'e + bytes) \<Rightarrow> Document option \<Rightarrow> 'e serialize_error + bytes" where
  "Serialize marshal None = Inl SerializeNil"
| "Serialize marshal (Some doc) =
     (case marshal doc of
        Inl e \<Rightarrow> Inl (Marshal e)
      | Inr yamlBytes \<Rightarrow>
          Inr ((''---'' @ [LF]) @ yamlBytes @
               (if yamlBytes \<noteq> [] \<and> last yamlBytes \<noteq> LF then [LF] else []) @
               (''---'' @ [LF]) @
               (if Body doc \<noteq> '''' then Body doc else '''')))"

lemma Serialize_length:
  assumes "Serialize marshal (Some doc) = Inr raw"
  shows "length (Body doc) + 8 \<le> length raw"
  using assms by (auto split: sum.splits)

lemma Parse_raw:
  assumes "Parse unmarshal raw = Inr doc"
  shows "Raw doc = raw" and "int (length raw) \<le> MaxDocumentBytes"
    and "length (Body doc) + 8 \<le> length raw"
  using assms SplitFrontMatter_body_bound [of raw]
  by (auto simp: Parse_def split: if_splits sum.splits prod.splits)

text \<open>The front matter as \<open>Serialize\<close> writes it: what \<open>yaml.Marshal\<close> gave, ended by a line feed.\<close>

definition front_matter :: "bytes \<Rightarrow> bytes" where
  "front_matter y = (if y \<noteq> [] \<and> last y \<noteq> LF then y @ [LF] else y)"

lemma SplitFrontMatter_Serialize:
  assumes m: "marshal doc = Inr y" and "y \<noteq> []"
    and none: "findClosingDelimiter (front_matter y) = None"
  shows "\<exists>raw. Serialize marshal (Some doc) = Inr raw \<and>
    SplitFrontMatter raw = Inr (front_matter y, Body doc)"
proof -
  let ?y = "front_matter y"
  have fy: "?y \<noteq> []" "last ?y = LF" using \<open>y \<noteq> []\<close> by (auto simp: front_matter_def)
  have fc: "findClosingDelimiter (?y @ ''---'' @ LF # Body doc) = Some (length ?y - 1)"
    by (rule findClosing_block [OF fy none]) simp
  have "Serialize marshal (Some doc) =
      Inr (''---'' @ replicate 0 CR @ LF # ?y @ ''---'' @ LF # Body doc)"
    using m by (simp add: front_matter_def)
  moreover have "SplitFrontMatter (''---'' @ replicate 0 CR @ LF # ?y @ ''---'' @ LF # Body doc) =
      Inr (?y, Body doc)"
  proof -
    have "1 \<le> length ?y" using fy(1) by (cases ?y) auto
    then have "length ?y - 1 + 1 = length ?y" and "length ?y - 1 + 4 = length ?y + 3" by auto
    then show ?thesis
      using SplitFrontMatter_at [OF fc, of 0] by (simp add: numeral_3_eq_3)
  qed
  ultimately show ?thesis by blast
qed

end
