(* ===== verification/Transport.thy ===== *)
theory Transport
  imports Parser
begin

text \<open>
  \<open>pkg/transport/types.go\<close> and \<open>pkg/transport/redis/redis.go\<close>: the \<open>Transport\<close> interface and its
  implementation on Redis Streams. The Redis client is a record of functions on the server's
  state, the YAML codec an argument; what is modelled is the code around them: the arguments it
  passes, the checks on what comes back, and the read loop. The transport's operational logger
  is left out.
\<close>

section \<open>The interface\<close>

record Delivery =
  Doc :: Document
  MsgID :: string
  RecvedAt :: time

record PublishOptions =
  MaxLen :: int

datatype redis_error = RedisNil | Canceled | DeadlineExceeded | RedisErr string

datatype transport_error = SerializeFailed "string serialize_error" | XAddFailed string redis_error
  | CreateGroupFailed string redis_error | XAckFailed string string redis_error

text \<open>
  A \<open>Transport\<close> over a network state. \<open>Subscribe\<close> returns a channel \<open>'ch\<close>; \<open>Receive\<close> is what a
  \<open>select\<close> over that channel and the read timeout yields: a delivery, the channel closed, or the
  timeout.
\<close>

datatype received = Delivered Delivery | ChannelClosed | TimedOut

record ('net, 'ch) Transport =
  Publish :: "string \<Rightarrow> Document \<Rightarrow> PublishOptions list \<Rightarrow> 'net \<Rightarrow> transport_error option \<times> 'net"
  Subscribe :: "string \<Rightarrow> 'net \<Rightarrow> (transport_error + 'ch) \<times> 'net"
  Receive :: "'ch \<Rightarrow> 'net \<Rightarrow> received \<times> 'net"
  Ack :: "string \<Rightarrow> string \<Rightarrow> 'net \<Rightarrow> transport_error option \<times> 'net"

section \<open>The Redis client\<close>

text \<open>A value of an entry's field, a Go \<open>any\<close>: a string or something else.\<close>

datatype redis_value = RString string | ROther

record XMessage =
  X_ID :: string
  X_Values :: "(string, redis_value) fmap"

record XAddArgs =
  XA_Stream :: string
  XA_MaxLen :: int
  XA_Approx :: bool
  XA_Values :: "(string, redis_value) fmap"

record XReadGroupArgs =
  XR_Group :: string
  XR_Consumer :: string
  XR_Streams :: "string list"
  XR_Count :: int
  XR_Block :: duration

record 'r redis_client =
  XAdd :: "XAddArgs \<Rightarrow> 'r \<Rightarrow> redis_error option \<times> 'r"
  XGroupCreateMkStream :: "string \<Rightarrow> string \<Rightarrow> string \<Rightarrow> 'r \<Rightarrow> redis_error option \<times> 'r"
  XAck :: "string \<Rightarrow> string \<Rightarrow> string \<Rightarrow> 'r \<Rightarrow> redis_error option \<times> 'r"
  XReadGroup :: "XReadGroupArgs \<Rightarrow> 'r \<Rightarrow> (redis_error + (string \<times> XMessage list) list) \<times> 'r"

fun err_Error :: "redis_error \<Rightarrow> string" where
  "err_Error RedisNil = ''redis: nil''"
| "err_Error Canceled = ''context canceled''"
| "err_Error DeadlineExceeded = ''context deadline exceeded''"
| "err_Error (RedisErr msg) = msg"

definition isBusyGroupErr :: "redis_error option \<Rightarrow> bool" where
  "isBusyGroupErr err = (case err of None \<Rightarrow> False | Some e \<Rightarrow> has_prefix ''BUSYGROUP'' (err_Error e))"

definition isCtxErr :: "redis_error option \<Rightarrow> bool" where
  "isCtxErr err = (err = Some Canceled \<or> err = Some DeadlineExceeded)"

definition isNetClosedErr :: "redis_error option \<Rightarrow> bool" where
  "isNetClosedErr err =
     (case err of None \<Rightarrow> False
      | Some e \<Rightarrow> bytes_Index (err_Error e) ''use of closed network connection'' \<noteq> None)"

section \<open>Options\<close>

record Options =
  ConsumerGroup :: string
  Consumer :: string
  BlockTimeout :: duration

definition DefaultConsumerGroup :: string where "DefaultConsumerGroup = ''gateway-group''"
definition DefaultConsumer :: string where "DefaultConsumer = ''mcp-gateway''"

definition Options_applyDefaults :: "Options \<Rightarrow> Options" where
  "Options_applyDefaults opts =
     \<lparr>ConsumerGroup = (if ConsumerGroup opts = '''' then DefaultConsumerGroup else ConsumerGroup opts),
      Consumer = (if Consumer opts = '''' then DefaultConsumer else Consumer opts),
      BlockTimeout = (if BlockTimeout opts = 0 then 5 * Second else BlockTimeout opts)\<rparr>"

section \<open>Publish, Subscribe, Ack\<close>

definition redis_Publish :: "(Document \<Rightarrow> string + bytes) \<Rightarrow> 'r redis_client \<Rightarrow> string \<Rightarrow> Document
    \<Rightarrow> PublishOptions list \<Rightarrow> 'r \<Rightarrow> transport_error option \<times> 'r" where
  "redis_Publish marshal client topic doc opts r =
     (case Serialize marshal (Some doc) of
        Inl err \<Rightarrow> (Some (SerializeFailed err), r)
      | Inr raw \<Rightarrow>
          (let args = \<lparr>XA_Stream = topic, XA_MaxLen = 0, XA_Approx = False,
                       XA_Values = fmupd ''doc'' (RString raw) fmempty\<rparr>;
               args = (if length opts > 0 \<and> MaxLen (opts ! 0) > 0
                       then args\<lparr>XA_MaxLen := MaxLen (opts ! 0), XA_Approx := True\<rparr> else args)
           in case XAdd client args r of
                (Some err, r') \<Rightarrow> (Some (XAddFailed topic err), r')
              | (None, r') \<Rightarrow> (None, r')))"

text \<open>The channel that \<open>Subscribe\<close> returns is named by its topic.\<close>

definition redis_Subscribe :: "'r redis_client \<Rightarrow> Options \<Rightarrow> string \<Rightarrow> 'r
    \<Rightarrow> (transport_error + string) \<times> 'r" where
  "redis_Subscribe client opts topic r =
     (case XGroupCreateMkStream client topic (ConsumerGroup opts) ''$'' r of
        (Some err, r') \<Rightarrow>
          if \<not> isBusyGroupErr (Some err) then (Inl (CreateGroupFailed topic err), r')
          else (Inr topic, r')
      | (None, r') \<Rightarrow> (Inr topic, r'))"

definition redis_Ack :: "'r redis_client \<Rightarrow> Options \<Rightarrow> string \<Rightarrow> string \<Rightarrow> 'r
    \<Rightarrow> transport_error option \<times> 'r" where
  "redis_Ack client opts topic msgID r =
     (case XAck client topic (ConsumerGroup opts) msgID r of
        (Some err, r') \<Rightarrow> (Some (XAckFailed topic msgID err), r')
      | (None, r') \<Rightarrow> (None, r'))"

text \<open>
  The transport as the gateway sees it. \<open>select_on\<close> is the outcome of the gateway's \<open>select\<close> on a
  channel that a read loop feeds.
\<close>

definition RedisTransport :: "(Document \<Rightarrow> string + bytes) \<Rightarrow> 'r redis_client \<Rightarrow> Options
    \<Rightarrow> (string \<Rightarrow> 'r \<Rightarrow> received \<times> 'r) \<Rightarrow> ('r, string) Transport" where
  "RedisTransport marshal client opts select_on =
     (let opts = Options_applyDefaults opts
      in \<lparr>Publish = redis_Publish marshal client, Subscribe = redis_Subscribe client opts,
          Receive = select_on, Ack = redis_Ack client opts\<rparr>)"

section \<open>parseMsg\<close>

definition parseMsg :: "(bytes \<Rightarrow> string + Document) \<Rightarrow> time \<Rightarrow> XMessage \<Rightarrow> Delivery option" where
  "parseMsg unmarshal now msg =
     (case fmlookup (X_Values msg) ''doc'' of
        Some (RString raw) \<Rightarrow>
          if raw = '''' then None
          else if int (length raw) > MaxDocumentBytes then None
          else (case Parse unmarshal raw of
                  Inl err \<Rightarrow> None
                | Inr doc \<Rightarrow> Some \<lparr>Doc = doc, MsgID = X_ID msg, RecvedAt = now\<rparr>)
      | _ \<Rightarrow> None)"

section \<open>The read loop\<close>

text \<open>
  The inner loop over the messages of one reply. \<open>room\<close> is the environment's choice for the
  sends on the channel: \<open>Some n\<close> when the context is cancelled after \<open>n\<close> more sends, \<open>None\<close> when
  every send finds a receiver. The result: the deliveries sent, whether the loop returned, and
  the server's state.
\<close>

fun push_msgs :: "(bytes \<Rightarrow> string + Document) \<Rightarrow> 'r redis_client \<Rightarrow> Options \<Rightarrow> string \<Rightarrow> time
    \<Rightarrow> nat option \<Rightarrow> XMessage list \<Rightarrow> 'r \<Rightarrow> Delivery list \<times> bool \<times> 'r" where
  "push_msgs unmarshal client opts topic now room [] r = ([], False, r)"
| "push_msgs unmarshal client opts topic now room (msg # msgs) r =
     (case parseMsg unmarshal now msg of
        None \<Rightarrow>
          (let (_, r') = XAck client topic (ConsumerGroup opts) (X_ID msg) r
           in push_msgs unmarshal client opts topic now room msgs r')
      | Some d \<Rightarrow>
          if room = Some 0 then ([], True, r)
          else
            (let (ds, ret, r') = push_msgs unmarshal client opts topic now
                                   (map_option (\<lambda>n. n - 1) room) msgs r
             in (d # ds, ret, r')))"

text \<open>
  One turn of the outer loop finds the context cancelled, or reads; \<open>readLoop\<close> follows a list of
  turns. It is still running (\<open>False\<close>) when the list ends before the loop does.
\<close>

datatype turn = FindsCancelled | Reads time "nat option"

fun readLoop :: "(bytes \<Rightarrow> string + Document) \<Rightarrow> 'r redis_client \<Rightarrow> Options \<Rightarrow> string
    \<Rightarrow> turn list \<Rightarrow> 'r \<Rightarrow> Delivery list \<times> bool \<times> 'r" where
  "readLoop unmarshal client opts topic [] r = ([], False, r)"
| "readLoop unmarshal client opts topic (FindsCancelled # turns) r = ([], True, r)"
| "readLoop unmarshal client opts topic (Reads now room # turns) r =
     (case XReadGroup client
             \<lparr>XR_Group = ConsumerGroup opts, XR_Consumer = Consumer opts, XR_Streams = [topic, ''>''],
              XR_Count = 10, XR_Block = BlockTimeout opts\<rparr> r of
        (Inl err, r1) \<Rightarrow>
          if isCtxErr (Some err) \<or> isNetClosedErr (Some err) then ([], True, r1)
          else readLoop unmarshal client opts topic turns r1
      | (Inr streams, r1) \<Rightarrow>
          (case push_msgs unmarshal client opts topic now room (concat (map snd streams)) r1 of
             (ds, True, r2) \<Rightarrow> (ds, True, r2)
           | (ds, False, r2) \<Rightarrow>
               (let (ds', ret, r3) = readLoop unmarshal client opts topic turns r2
                in (ds @ ds', ret, r3))))"

text \<open>
  What one reply leads to when every send finds a receiver: the well-formed entries in order, and
  one XACK for each malformed entry, in order, and for no other.
\<close>

lemma push_msgs_all:
  "push_msgs unmarshal client opts topic now None msgs r =
     (List.map_filter (parseMsg unmarshal now) msgs, False,
      fold (\<lambda>msg r. snd (XAck client topic (ConsumerGroup opts) (X_ID msg) r))
        (filter (\<lambda>msg. parseMsg unmarshal now msg = None) msgs) r)"
  by (induction msgs arbitrary: r)
    (auto simp: List.map_filter_simps split: option.split prod.split)

text \<open>With a cancellation: a prefix of those deliveries.\<close>

lemma push_msgs_prefix:
  "push_msgs unmarshal client opts topic now room msgs r = (ds, ret, r') \<Longrightarrow>
     ds = (case room of None \<Rightarrow> List.map_filter (parseMsg unmarshal now) msgs
           | Some n \<Rightarrow> take n (List.map_filter (parseMsg unmarshal now) msgs))"
proof (induction msgs arbitrary: room r ds)
  case Nil
  then show ?case by (simp add: List.map_filter_simps split: option.split)
next
  case (Cons msg msgs)
  show ?case
  proof (cases "parseMsg unmarshal now msg")
    case None
    then have "push_msgs unmarshal client opts topic now room msgs
        (snd (XAck client topic (ConsumerGroup opts) (X_ID msg) r)) = (ds, ret, r')"
      using Cons.prems by (simp split: prod.splits)
    from Cons.IH [OF this] None show ?thesis by (cases room) (simp_all add: List.map_filter_simps)
  next
    case (Some d)
    show ?thesis
    proof (cases "room = Some 0")
      case True
      then show ?thesis using Cons.prems Some by simp
    next
      case False
      then obtain es where es: "push_msgs unmarshal client opts topic now (map_option (\<lambda>n. n - 1) room)
          msgs r = (es, ret, r')" "ds = d # es"
        using Cons.prems Some by (auto split: prod.splits)
      show ?thesis
        using Cons.IH [OF es(1)] es(2) Some False
        by (cases room) (auto simp: List.map_filter_simps take_Cons' split: option.splits)
    qed
  qed
qed

text \<open>What parseMsg lets through.\<close>

lemma parseMsg_Some:
  assumes "parseMsg unmarshal now msg = Some d"
  shows "MsgID d = X_ID msg" and "RecvedAt d = now"
    and "\<exists>raw. fmlookup (X_Values msg) ''doc'' = Some (RString raw) \<and> Parse unmarshal raw = Inr (Doc d)"
    and "int (length (Body (Doc d))) \<le> MaxDocumentBytes"
proof -
  obtain raw where raw: "fmlookup (X_Values msg) ''doc'' = Some (RString raw)"
    "Parse unmarshal raw = Inr (Doc d)" and d: "MsgID d = X_ID msg" "RecvedAt d = now"
    using assms by (auto simp: parseMsg_def split: option.splits redis_value.splits if_splits sum.splits)
  show "MsgID d = X_ID msg" "RecvedAt d = now" by (fact d)+
  show "\<exists>raw. fmlookup (X_Values msg) ''doc'' = Some (RString raw) \<and> Parse unmarshal raw = Inr (Doc d)"
    using raw by blast
  show "int (length (Body (Doc d))) \<le> MaxDocumentBytes"
    using Parse_raw [OF raw(2)] by linarith
qed

text \<open>An entry whose document text is larger than the limit is never delivered.\<close>

lemma parseMsg_oversize:
  "fmlookup (X_Values msg) ''doc'' = Some (RString raw) \<Longrightarrow> MaxDocumentBytes < int (length raw) \<Longrightarrow>
     parseMsg unmarshal now msg = None"
  by (simp add: parseMsg_def)

lemma redis_Publish_None:
  assumes "redis_Publish marshal client topic doc opts r = (None, r')"
  shows "\<exists>raw args. Serialize marshal (Some doc) = Inr raw \<and> XA_Stream args = topic \<and>
    XA_Values args = fmupd ''doc'' (RString raw) fmempty \<and> XAdd client args r = (None, r')"
proof -
  obtain raw where raw: "Serialize marshal (Some doc) = Inr raw"
    using assms by (cases "Serialize marshal (Some doc)") (auto simp: redis_Publish_def)
  define args where "args = (if length opts > 0 \<and> MaxLen (opts ! 0) > 0
    then \<lparr>XA_Stream = topic, XA_MaxLen = MaxLen (opts ! 0), XA_Approx = True,
          XA_Values = fmupd ''doc'' (RString raw) fmempty\<rparr>
    else \<lparr>XA_Stream = topic, XA_MaxLen = 0, XA_Approx = False,
          XA_Values = fmupd ''doc'' (RString raw) fmempty\<rparr>)"
  have "XAdd client args r = (None, r')"
    using assms raw
    by (auto simp: redis_Publish_def Let_def args_def split: prod.splits option.splits if_splits)
  moreover have "XA_Stream args = topic" "XA_Values args = fmupd ''doc'' (RString raw) fmempty"
    by (simp_all add: args_def)
  ultimately show ?thesis using raw by blast
qed

section \<open>Close\<close>

text \<open>
  The contexts that a read loop watches: that of its subscription, and the transport's own, which \<open>Close\<close>
  cancels. A cancelled context stays cancelled. \<open>Close\<close> does not reach a blocked XREADGROUP, which is called
  with the subscription's context only: the loop sees it at its next turn.
\<close>

record contexts =
  ctx_Done :: bool
  rt_Done :: bool

definition redis_Close :: "contexts \<Rightarrow> transport_error option \<times> contexts" where
  "redis_Close c = (None, c\<lparr>rt_Done := True\<rparr>)"

datatype sub_event = CancelSubscription | CloseTransport | Turn time "nat option"

fun turns_of :: "contexts \<Rightarrow> sub_event list \<Rightarrow> turn list" where
  "turns_of c [] = []"
| "turns_of c (CancelSubscription # es) = turns_of (c\<lparr>ctx_Done := True\<rparr>) es"
| "turns_of c (CloseTransport # es) = turns_of (snd (redis_Close c)) es"
| "turns_of c (Turn now room # es) =
     (if ctx_Done c \<or> rt_Done c then FindsCancelled else Reads now room) # turns_of c es"

lemma readLoop_append:
  "readLoop unmarshal client opts topic (ts @ ts') r =
     (case readLoop unmarshal client opts topic ts r of
        (ds, True, r') \<Rightarrow> (ds, True, r')
      | (ds, False, r') \<Rightarrow> (let (ds', ret, r'') = readLoop unmarshal client opts topic ts' r' in (ds @ ds', ret, r'')))"
  by (induction unmarshal client opts topic ts r rule: readLoop.induct)
    (auto simp: Let_def split: prod.split sum.split bool.split)

lemma turns_of_append: "\<exists>c'. turns_of c (es @ es') = turns_of c es @ turns_of c' es'"
  by (induction c es rule: turns_of.induct) auto

text \<open>
  \<open>Close\<close> ends every subscription: at its next turn the loop returns, having delivered what it had
  delivered before, and it makes no further call of the client.
\<close>

lemma Close_ends_subscription:
  assumes "readLoop unmarshal client opts topic (turns_of c es) r = (ds, ret, r')"
  shows "readLoop unmarshal client opts topic (turns_of c (es @ CloseTransport # Turn now room # es')) r = (ds, True, r')"
proof -
  obtain c' where "turns_of c (es @ CloseTransport # Turn now room # es') =
      turns_of c es @ turns_of c' (CloseTransport # Turn now room # es')" using turns_of_append by blast
  then show ?thesis using assms by (cases ret) (simp_all add: readLoop_append redis_Close_def)
qed

section \<open>Waiting for a delivery\<close>

text \<open>
  The \<open>select\<close> of \<open>handleGetTask\<close> and \<open>handleReceiveMessage\<close> (\<open>internal/gateway/tools.go\<close>): it waits for the
  channel and for a context that ends after \<open>TaskReadTimeout\<close> or with the call's own context. While it waits,
  time passes, the read loop has a turn, or the call is cancelled. It is still waiting (\<open>None\<close>) when the list of
  these events ends before it has chosen.
\<close>

datatype wait_event = Elapses nat | LoopTurn turn | CallCancelled

fun select_wait :: "(bytes \<Rightarrow> string + Document) \<Rightarrow> 'r redis_client \<Rightarrow> Options \<Rightarrow> string \<Rightarrow> duration
    \<Rightarrow> wait_event list \<Rightarrow> 'r \<Rightarrow> received option \<times> 'r" where
  "select_wait unmarshal client opts topic left [] r = (None, r)"
| "select_wait unmarshal client opts topic left (Elapses n # es) r =
     (if left \<le> int n then (Some TimedOut, r)
      else select_wait unmarshal client opts topic (left - int n) es r)"
| "select_wait unmarshal client opts topic left (CallCancelled # es) r = (Some TimedOut, r)"
| "select_wait unmarshal client opts topic left (LoopTurn t # es) r =
     (case readLoop unmarshal client opts topic [t] r of
        (d # ds, ret, r') \<Rightarrow> (Some (Delivered d), r')
      | ([], True, r') \<Rightarrow> (Some ChannelClosed, r')
      | ([], False, r') \<Rightarrow> select_wait unmarshal client opts topic left es r')"

text \<open>
  The transport with its read loop and the \<open>select\<close> of a gateway with the given read timeout. The events of a
  wait go on until it ends, so that the last case of \<open>channel_select\<close> is left to lists that are too short.
\<close>

definition channel_select :: "(bytes \<Rightarrow> string + Document) \<Rightarrow> 'r redis_client \<Rightarrow> Options \<Rightarrow> duration
    \<Rightarrow> wait_event list \<Rightarrow> string \<Rightarrow> 'r \<Rightarrow> received \<times> 'r" where
  "channel_select unmarshal client opts timeout es topic r =
     (case select_wait unmarshal client opts topic timeout es r of
        (Some res, r') \<Rightarrow> (res, r')
      | (None, r') \<Rightarrow> (TimedOut, r'))"

definition redis_transport :: "(Document \<Rightarrow> string + bytes) \<Rightarrow> (bytes \<Rightarrow> string + Document) \<Rightarrow> 'r redis_client
    \<Rightarrow> Options \<Rightarrow> duration \<Rightarrow> wait_event list \<Rightarrow> ('r, string) Transport" where
  "redis_transport marshal unmarshal client opts timeout es =
     RedisTransport marshal client opts (channel_select unmarshal client (Options_applyDefaults opts) timeout es)"

fun elapsed :: "wait_event list \<Rightarrow> int" where
  "elapsed [] = 0"
| "elapsed (Elapses n # es) = int n + elapsed es"
| "elapsed (e # es) = elapsed es"

text \<open>A wait is over at the latest when its timeout has passed.\<close>

lemma select_wait_ends:
  "0 < left \<Longrightarrow> left \<le> elapsed es \<Longrightarrow> fst (select_wait unmarshal client opts topic left es r) \<noteq> None"
  by (induction unmarshal client opts topic left es r rule: select_wait.induct)
    (auto split: list.split prod.split bool.split)

lemma select_wait_append:
  "select_wait unmarshal client opts topic left es r = (Some res, r') \<Longrightarrow>
    select_wait unmarshal client opts topic left (es @ es') r = (Some res, r')"
  by (induction unmarshal client opts topic left es r rule: select_wait.induct)
    (auto split: list.splits prod.splits bool.splits if_splits)

lemma select_wait_gives_up:
  "select_wait unmarshal client opts topic left es r = (Some TimedOut, r') \<Longrightarrow>
    CallCancelled \<in> set es \<or> left \<le> elapsed es"
proof (induction unmarshal client opts topic left es r rule: select_wait.induct)
  case (2 unmarshal client opts topic left n es r)
  have "0 \<le> elapsed es" by (induction es rule: elapsed.induct) auto
  then show ?case using 2 by (auto split: if_splits)
qed (auto split: list.splits prod.splits bool.splits)

text \<open>A transport whose waits are over does not depend on what happens later.\<close>

lemma redis_transport_append:
  assumes "0 < timeout" and "timeout \<le> elapsed es"
  shows "redis_transport marshal unmarshal client opts timeout (es @ es') =
    redis_transport marshal unmarshal client opts timeout es"
proof -
  have "channel_select unmarshal client o' timeout (es @ es') topic r = channel_select unmarshal client o' timeout es topic r"
    for o' topic r
  proof -
    obtain res r' where "select_wait unmarshal client o' topic timeout es r = (Some res, r')"
      using select_wait_ends [OF assms, of unmarshal client o' topic r] by (metis not_None_eq prod.exhaust_sel)
    then show ?thesis by (simp add: channel_select_def select_wait_append)
  qed
  then have "channel_select unmarshal client o' timeout (es @ es') = channel_select unmarshal client o' timeout es" for o'
    by (intro ext)
  then show ?thesis by (simp add: redis_transport_def)
qed

text \<open>What it hands out was sent by the read loop before the timeout, as the first delivery of its turn.\<close>

lemma select_wait_delivered:
  "select_wait unmarshal client opts topic left es r = (Some (Delivered d), r') \<Longrightarrow> 0 < left \<Longrightarrow>
    \<exists>es1 t es2 r1 ds ret. es = es1 @ LoopTurn t # es2 \<and> elapsed es1 < left \<and>
      readLoop unmarshal client opts topic [t] r1 = (d # ds, ret, r')"
proof (induction unmarshal client opts topic left es r rule: select_wait.induct)
  case (2 unmarshal client opts topic left n es r)
  then obtain es1 t es2 r1 ds ret where "es = es1 @ LoopTurn t # es2" "elapsed es1 < left - int n"
    "readLoop unmarshal client opts topic [t] r1 = (d # ds, ret, r')" by (auto split: if_splits)
  then show ?case by (intro exI [of _ "Elapses n # es1"] exI [of _ t] exI [of _ es2]) auto
next
  case (4 unmarshal client opts topic left t es r)
  obtain ds ret r1 where l: "readLoop unmarshal client opts topic [t] r = (ds, ret, r1)" by (metis prod.exhaust)
  show ?case
  proof (cases ds)
    case (Cons d' ds')
    then have "d' = d" "r1 = r'" using 4 l by auto
    then have "LoopTurn t # es = [] @ LoopTurn t # es \<and> elapsed [] < left \<and>
      readLoop unmarshal client opts topic [t] r = (d # ds', ret, r')" using 4 l Cons by simp
    then show ?thesis by blast
  next
    case Nil
    then have "\<not> ret" using 4 l by (auto split: bool.splits)
    then obtain es1 t' es2 r2 ds ret where "es = es1 @ LoopTurn t' # es2" "elapsed es1 < left"
      "readLoop unmarshal client opts topic [t'] r2 = (d # ds, ret, r')" using 4 l Nil by fastforce
    then show ?thesis by (intro exI [of _ "LoopTurn t # es1"] exI [of _ t'] exI [of _ es2]) auto
  qed
qed simp_all

text \<open>A reply that holds a well-formed entry behind malformed ones: the wait ends with that entry.\<close>

lemma channel_select_first:
  assumes "XReadGroup client
      \<lparr>XR_Group = ConsumerGroup opts, XR_Consumer = Consumer opts, XR_Streams = [topic, ''>''],
       XR_Count = 10, XR_Block = BlockTimeout opts\<rparr> r = (Inr [(stream, bad @ msg # rest)], r1)"
    and bad: "\<forall>b \<in> set bad. parseMsg unmarshal time b = None" and d: "parseMsg unmarshal time msg = Some d"
    and "room \<noteq> Some 0" and "int n < timeout"
  shows "\<exists>r'. channel_select unmarshal client opts timeout (Elapses n # LoopTurn (Reads time room) # es) topic r =
    (Delivered d, r')"
proof -
  obtain ds ret r2 where p: "push_msgs unmarshal client opts topic time room (bad @ msg # rest) r1 = (ds, ret, r2)"
    by (metis prod.exhaust)
  have "List.map_filter (parseMsg unmarshal time) (bad @ msg # rest) =
      d # List.map_filter (parseMsg unmarshal time) rest"
    using bad d by (induction bad) (simp_all add: List.map_filter_simps)
  then obtain ds' where "ds = d # ds'"
    using push_msgs_prefix [OF p] assms(4) by (cases room) (auto simp: take_Cons' split: if_splits)
  then show ?thesis
    using assms(1,5) p by (cases ret) (simp_all add: channel_select_def)
qed

end
