(* ===== verification/Lifecycle.thy ===== *)
theory Lifecycle
  imports Prelude "HOL-Library.Sublist"
begin

text \<open>
  \<open>pkg/document/lifecycle.go\<close>: the eleven lifecycle states of an agent, the transition table
  and its two queries; then the state machine the table describes, as a step relation, with
  the reachability facts that make it a lifecycle.
\<close>

section \<open>States and transition table\<close>

type_synonym LifecycleState = string

definition StateProposed :: LifecycleState where [wire]: "StateProposed = ''proposed''"
definition StateApprovedForSandbox :: LifecycleState where
  [wire]: "StateApprovedForSandbox = ''approved_for_sandbox''"
definition StateSandbox :: LifecycleState where [wire]: "StateSandbox = ''sandbox''"
definition StateCandidate :: LifecycleState where [wire]: "StateCandidate = ''candidate''"
definition StateActive :: LifecycleState where [wire]: "StateActive = ''active''"
definition StateInactive :: LifecycleState where [wire]: "StateInactive = ''inactive''"
definition StateRetired :: LifecycleState where [wire]: "StateRetired = ''retired''"
definition StateRejected :: LifecycleState where [wire]: "StateRejected = ''rejected''"
definition StateFailedSandbox :: LifecycleState where [wire]: "StateFailedSandbox = ''failed_sandbox''"
definition StateRolledBack :: LifecycleState where [wire]: "StateRolledBack = ''rolled_back''"
definition StateQuarantined :: LifecycleState where [wire]: "StateQuarantined = ''quarantined''"

definition transitionTable :: "(LifecycleState, LifecycleState list) fmap" where
  "transitionTable = fmap_of_list [
     (StateProposed, [StateApprovedForSandbox, StateRejected]),
     (StateApprovedForSandbox, [StateSandbox]),
     (StateSandbox, [StateCandidate, StateFailedSandbox]),
     (StateCandidate, [StateActive, StateRolledBack]),
     (StateActive, [StateInactive, StateQuarantined, StateRetired]),
     (StateInactive, [StateActive, StateRetired]),
     (StateQuarantined, [StateRetired])]"

text \<open>\<open>scan_allowed\<close> is the loop of \<open>ValidTransition\<close> over the row of the table.\<close>

fun scan_allowed :: "LifecycleState list \<Rightarrow> LifecycleState \<Rightarrow> bool" where
  "scan_allowed [] to = False"
| "scan_allowed (s # ss) to = (if s = to then True else scan_allowed ss to)"

definition ValidTransition :: "LifecycleState \<Rightarrow> LifecycleState \<Rightarrow> bool" where
  "ValidTransition from to =
     (case fmlookup transitionTable from of
        None \<Rightarrow> False
      | Some allowed \<Rightarrow> scan_allowed allowed to)"

definition AllowedTransitions :: "LifecycleState \<Rightarrow> LifecycleState list" where
  "AllowedTransitions from =
     (case fmlookup transitionTable from of None \<Rightarrow> [] | Some s \<Rightarrow> s)"

lemma scan_allowed_iff: "scan_allowed ss to \<longleftrightarrow> to \<in> set ss"
  by (induction ss) auto

lemma ValidTransition_Allowed: "ValidTransition a b \<longleftrightarrow> b \<in> set (AllowedTransitions a)"
  by (auto simp: ValidTransition_def AllowedTransitions_def scan_allowed_iff split: option.split)

section \<open>The state machine\<close>

text \<open>
  The lifecycle as the specification draws it, one rule per arrow.
\<close>

inductive lifecycle_step :: "LifecycleState \<Rightarrow> LifecycleState \<Rightarrow> bool" where
  approve: "lifecycle_step StateProposed StateApprovedForSandbox"
| reject: "lifecycle_step StateProposed StateRejected"
| enter_sandbox: "lifecycle_step StateApprovedForSandbox StateSandbox"
| pass_sandbox: "lifecycle_step StateSandbox StateCandidate"
| fail_sandbox: "lifecycle_step StateSandbox StateFailedSandbox"
| activate: "lifecycle_step StateCandidate StateActive"
| roll_back: "lifecycle_step StateCandidate StateRolledBack"
| deactivate: "lifecycle_step StateActive StateInactive"
| quarantine: "lifecycle_step StateActive StateQuarantined"
| retire_active: "lifecycle_step StateActive StateRetired"
| reactivate: "lifecycle_step StateInactive StateActive"
| retire_inactive: "lifecycle_step StateInactive StateRetired"
| retire_quarantined: "lifecycle_step StateQuarantined StateRetired"

lemmas arrows = lifecycle_step.intros

inductive_simps step_from_any: "lifecycle_step s t"

definition all_states :: "LifecycleState list" where
  "all_states = [StateProposed, StateApprovedForSandbox, StateSandbox, StateCandidate,
     StateActive, StateInactive, StateRetired, StateRejected, StateFailedSandbox,
     StateRolledBack, StateQuarantined]"

definition terminal_states :: "LifecycleState list" where
  "terminal_states = [StateRetired, StateRejected, StateFailedSandbox, StateRolledBack]"

lemma lookup_table:
  "fmlookup transitionTable s =
     (if s = StateProposed then Some [StateApprovedForSandbox, StateRejected]
      else if s = StateApprovedForSandbox then Some [StateSandbox]
      else if s = StateSandbox then Some [StateCandidate, StateFailedSandbox]
      else if s = StateCandidate then Some [StateActive, StateRolledBack]
      else if s = StateActive then Some [StateInactive, StateQuarantined, StateRetired]
      else if s = StateInactive then Some [StateActive, StateRetired]
      else if s = StateQuarantined then Some [StateRetired]
      else None)"
  by (simp add: transitionTable_def fmlookup_of_list)

lemma states_distinct: "distinct all_states"
  by (simp add: all_states_def wire)

lemma ValidTransition_step: "ValidTransition a b \<longleftrightarrow> lifecycle_step a b"
  unfolding ValidTransition_Allowed AllowedTransitions_def lookup_table step_from_any
  by (auto simp: wire)

text \<open>No step leaves a set of states that is closed under the arrows.\<close>

lemma reach_closed:
  assumes "lifecycle_step\<^sup>*\<^sup>* a b" and "a \<in> S"
    and "\<And>s t. s \<in> S \<Longrightarrow> lifecycle_step s t \<Longrightarrow> t \<in> S"
  shows "b \<in> S"
  using assms(1,2) by (induction rule: rtranclp_induct) (auto intro: assms(3))

lemma terminal_no_step: "s \<in> set terminal_states \<Longrightarrow> \<not> lifecycle_step s t"
  unfolding terminal_states_def step_from_any by (auto simp: wire)

lemma operational_closed:
  assumes "lifecycle_step\<^sup>*\<^sup>* s t" and "s \<in> {StateActive, StateInactive, StateQuarantined, StateRetired}"
  shows "t \<in> {StateActive, StateInactive, StateQuarantined, StateRetired}"
  using assms by (rule reach_closed) (auto simp: step_from_any wire)

lemma quarantined_closed:
  assumes "lifecycle_step\<^sup>*\<^sup>* StateQuarantined t"
  shows "t \<in> {StateQuarantined, StateRetired}"
  using assms by (rule reach_closed) (auto simp: step_from_any wire)

lemma reach_all:
  "s \<in> set all_states \<Longrightarrow> lifecycle_step\<^sup>*\<^sup>* StateProposed s"
proof -
  have 1: "lifecycle_step\<^sup>*\<^sup>* StateProposed StateApprovedForSandbox"
    using arrows(1) by blast
  have 2: "lifecycle_step\<^sup>*\<^sup>* StateProposed StateSandbox"
    using 1 arrows(3) by (rule rtranclp.rtrancl_into_rtrancl)
  have 3: "lifecycle_step\<^sup>*\<^sup>* StateProposed StateCandidate"
    using 2 arrows(4) by (rule rtranclp.rtrancl_into_rtrancl)
  have 4: "lifecycle_step\<^sup>*\<^sup>* StateProposed StateActive"
    using 3 arrows(6) by (rule rtranclp.rtrancl_into_rtrancl)
  note steps = 1 2 3 4 1 [THEN rtranclp.rtrancl_into_rtrancl] 2 [THEN rtranclp.rtrancl_into_rtrancl]
    3 [THEN rtranclp.rtrancl_into_rtrancl] 4 [THEN rtranclp.rtrancl_into_rtrancl]
  assume "s \<in> set all_states"
  then show ?thesis
    unfolding all_states_def using steps arrows by auto
qed

lemma reach_known:
  assumes "lifecycle_step\<^sup>*\<^sup>* StateProposed s" shows "s \<in> set all_states"
  using assms by (rule reach_closed) (auto simp: all_states_def step_from_any)

section \<open>Histories\<close>

text \<open>
  The statuses an agent goes through: each follows from the one before by a transition that
  \<open>ValidTransition\<close> permits. Newest first, so that a history grows at its head.
\<close>

fun history :: "LifecycleState list \<Rightarrow> bool" where
  "history [] = False"
| "history [s] = (s = StateProposed)"
| "history (t # s # ss) = (ValidTransition s t \<and> history (s # ss))"

text \<open>The promotion path: what must already be in a history that has reached a state.\<close>

definition must_precede :: "LifecycleState \<Rightarrow> LifecycleState list" where
  "must_precede s =
     (if s \<in> {StateActive, StateInactive, StateQuarantined, StateRetired, StateRolledBack}
      then [StateCandidate, StateSandbox, StateApprovedForSandbox, StateProposed]
      else if s \<in> {StateCandidate, StateFailedSandbox}
      then [StateSandbox, StateApprovedForSandbox, StateProposed]
      else if s = StateSandbox then [StateApprovedForSandbox, StateProposed]
      else if s \<in> {StateApprovedForSandbox, StateRejected} then [StateProposed]
      else [])"

lemma must_precede_step:
  "lifecycle_step s t \<Longrightarrow> set (must_precede t) \<subseteq> insert s (set (must_precede s))"
  by (cases rule: lifecycle_step.cases, assumption) (auto simp: must_precede_def wire)

lemma history_must_precede: "history (s # ss) \<Longrightarrow> set (must_precede s) \<subseteq> set ss"
proof (induction ss arbitrary: s)
  case Nil
  then show ?case by (simp add: must_precede_def wire)
next
  case (Cons r rs)
  then have "lifecycle_step r s" and "set (must_precede r) \<subseteq> set rs"
    by (auto simp: ValidTransition_step)
  then show ?case using must_precede_step by fastforce
qed

lemma history_reach: "history (s # ss) \<Longrightarrow> lifecycle_step\<^sup>*\<^sup>* StateProposed s"
proof (induction ss arbitrary: s)
  case Nil
  then show ?case by simp
next
  case (Cons r rs)
  then show ?case
    by (auto simp: ValidTransition_step intro: rtranclp.rtrancl_into_rtrancl)
qed

end
