(* ===== verification/Validator.thy ===== *)
theory Validator
  imports Parser Lifecycle
begin

text \<open>
  \<open>pkg/document/validator.go\<close> and \<open>schema_embed.go\<close>: the three validation layers (required
  fields from the registry, JSON Schema, lifecycle semantics) and their combination. The YAML,
  JSON and JSON-Schema libraries are fields of a record of functions, which the definitions
  take as an argument. An error message is a constructor with the values the code formats into it.
\<close>

section \<open>Validation errors\<close>

definition LayerStructural :: string where [wire]: "LayerStructural = ''structural''"
definition LayerSchema :: string where [wire]: "LayerSchema = ''schema''"
definition LayerSemantic :: string where [wire]: "LayerSemantic = ''semantic''"

datatype convert_error = MarshalDoc string | IntermediateTooLarge | UnmarshalDoc string
  | MarshalJSON string | UnmarshalJSON string

datatype vmessage = DocIsNil | RequiredFieldMissing | UnknownMessageType string
  | ConvertDoc convert_error | SchemaMessage string
  | TransitionNotPermitted LifecycleState LifecycleState
  | SelfActionDenied string string | TargetAgentRequired string | StatusesRequired

record ValidationError =
  Layer :: string
  FieldName :: string
  Message :: vmessage

section \<open>Layer 1: required fields\<close>

definition docHasField :: "Document \<Rightarrow> string \<Rightarrow> bool" where
  "docHasField doc field =
     (if field = ''type'' then Type doc \<noteq> ''''
      else if field = ''version'' then Version doc \<noteq> ''''
      else if field = ''id'' then ID doc \<noteq> ''''
      else if field = ''from'' then From doc \<noteq> ''''
      else if field = ''to'' then length (To doc) > 0
      else if field = ''created_at'' then CreatedAt doc \<noteq> ''''
      else if field = ''in_reply_to'' then InReplyTo doc \<noteq> ''''
      else if field = ''thread_id'' then ThreadID doc \<noteq> ''''
      else if field = ''exec_id'' then ExecID doc \<noteq> ''''
      else if field = ''status'' then Status doc \<noteq> ''''
      else (case fmlookup (Extra doc) field of
              None \<Rightarrow> False
            | Some v \<Rightarrow> (case v of YString val \<Rightarrow> val \<noteq> '''' | YNull \<Rightarrow> False | _ \<Rightarrow> True)))"

abbreviation missing :: "string \<Rightarrow> ValidationError" where
  "missing field \<equiv>
     \<lparr>Layer = LayerStructural, FieldName = field, Message = RequiredFieldMissing\<rparr>"

fun check_required :: "Document \<Rightarrow> string list \<Rightarrow> ValidationError list \<Rightarrow> ValidationError list" where
  "check_required doc [] errs = errs"
| "check_required doc (field # fs) errs =
     check_required doc fs
       (if \<not> docHasField doc field then errs @ [missing field] else errs)"

fun ValidateStructural :: "Document option \<Rightarrow> ValidationError list" where
  "ValidateStructural None =
     [\<lparr>Layer = LayerStructural, FieldName = '''', Message = DocIsNil\<rparr>]"
| "ValidateStructural (Some doc) =
     (if Type doc = '''' then [missing ''type'']
      else
        let errs = (if Version doc = '''' then [missing ''version''] else [])
        in case Lookup (Type doc) of
             None \<Rightarrow> errs @ [\<lparr>Layer = LayerStructural, FieldName = ''type'',
                             Message = UnknownMessageType (Type doc)\<rparr>]
           | Some meta \<Rightarrow> check_required doc (RequiredFields meta) errs)"

lemma check_required_eq:
  "check_required doc fs errs =
     errs @ map missing (filter (\<lambda>f. \<not> docHasField doc f) fs)"
  by (induction fs arbitrary: errs) auto

lemma ValidateStructural_ok:
  "ValidateStructural (Some doc) = [] \<longleftrightarrow>
     Type doc \<noteq> '''' \<and> Version doc \<noteq> '''' \<and>
     (\<exists>meta. Lookup (Type doc) = Some meta \<and> (\<forall>f\<in>set (RequiredFields meta). docHasField doc f))"
  by (auto simp: check_required_eq filter_empty_conv Let_def split: option.split)

lemma ValidateStructural_layer: "e \<in> set (ValidateStructural d) \<Longrightarrow> Layer e = LayerStructural"
  by (cases d) (auto simp: check_required_eq Let_def split: if_splits option.splits)

section \<open>Layer 2: JSON Schema\<close>

datatype jsonschema_error =
  SchemaError (Causes: "jsonschema_error list") (InstanceLocation: "string list") (ErrorText: string)

text \<open>The error of \<open>Schema.Validate\<close>: a \<open>*jsonschema.ValidationError\<close> or, for \<open>errors.As\<close>, not one.\<close>

datatype schema_failure = Invalid jsonschema_error | OtherFailure string

record ('a, 'j, 'c, 's) doc_lib =
  yaml_Marshal :: "Document \<Rightarrow> string + bytes"
  yaml_Unmarshal_any :: "bytes \<Rightarrow> string + 'a"
  json_Marshal :: "'a \<Rightarrow> string + bytes"
  json_Unmarshal :: "bytes \<Rightarrow> string + 'j"
  AddResource :: "string \<Rightarrow> 'j \<Rightarrow> string + 'c"
  Compile :: "'c \<Rightarrow> string \<Rightarrow> string + 's"
  schema_Validate :: "'s \<Rightarrow> 'j \<Rightarrow> schema_failure option"

record 's Validator =
  schemas :: "(MessageType, 's) fmap"

datatype new_validator_error = ParseSchemaYAML string | ConvertSchema string
  | UnmarshalSchema string | AddSchemaResource string | CompileSchema string
  | CompileDef string string

fun compile_all :: "('a, 'j, 'c, 's) doc_lib \<Rightarrow> 'c \<Rightarrow> MessageType list \<Rightarrow> (MessageType, 's) fmap
    \<Rightarrow> new_validator_error + (MessageType, 's) fmap" where
  "compile_all lib c [] acc = Inr acc"
| "compile_all lib c (mt # mts) acc =
     (case Lookup mt of
        None \<Rightarrow> compile_all lib c mts acc
      | Some meta \<Rightarrow>
          if SchemaRef meta = '''' then compile_all lib c mts acc
          else (case Compile lib c (''aga2aga://schema#/$defs/'' @ SchemaRef meta) of
                  Inl e \<Rightarrow> Inl (CompileDef (SchemaRef meta) e)
                | Inr sch \<Rightarrow> compile_all lib c mts (fmupd mt sch acc)))"

definition NewValidator ::
  "('a, 'j, 'c, 's) doc_lib \<Rightarrow> bytes \<Rightarrow> new_validator_error + 's Validator" where
  "NewValidator lib schemaBytes =
     (case yaml_Unmarshal_any lib schemaBytes of
        Inl e \<Rightarrow> Inl (ParseSchemaYAML e)
      | Inr schemaMap \<Rightarrow>
     (case json_Marshal lib schemaMap of
        Inl e \<Rightarrow> Inl (ConvertSchema e)
      | Inr jsonBytes \<Rightarrow>
     (case json_Unmarshal lib jsonBytes of
        Inl e \<Rightarrow> Inl (UnmarshalSchema e)
      | Inr jsonValue \<Rightarrow>
     (case AddResource lib ''aga2aga://schema'' jsonValue of
        Inl e \<Rightarrow> Inl (AddSchemaResource e)
      | Inr c \<Rightarrow>
     (case Compile lib c ''aga2aga://schema'' of
        Inl e \<Rightarrow> Inl (CompileSchema e)
      | Inr _ \<Rightarrow>
     (case compile_all lib c Registered fmempty of
        Inl e \<Rightarrow> Inl e
      | Inr schs \<Rightarrow> Inr \<lparr>schemas = schs\<rparr>))))))"

text \<open>
  \<open>DefaultValidator\<close> runs \<open>NewValidator\<close> on the embedded schema once (\<open>sync.Once\<close>) and returns
  the stored result and error ever after.
\<close>

fun DefaultValidator :: "('a, 'j, 'c, 's) doc_lib \<Rightarrow> bytes
    \<Rightarrow> (new_validator_error + 's Validator) option
    \<Rightarrow> (new_validator_error + 's Validator) \<times> (new_validator_error + 's Validator) option" where
  "DefaultValidator lib embeddedSchema (Some r) = (r, Some r)"
| "DefaultValidator lib embeddedSchema None =
     (let r = NewValidator lib embeddedSchema in (r, Some r))"

definition maxIntermediateBytes :: int where
  "maxIntermediateBytes = 4 * MaxDocumentBytes"

definition docToJSONValue :: "('a, 'j, 'c, 's) doc_lib \<Rightarrow> Document \<Rightarrow> convert_error + 'j" where
  "docToJSONValue lib doc =
     (case yaml_Marshal lib doc of
        Inl e \<Rightarrow> Inl (MarshalDoc e)
      | Inr yamlBytes \<Rightarrow>
     (if int (length yamlBytes) > maxIntermediateBytes then Inl IntermediateTooLarge
      else
     (case yaml_Unmarshal_any lib yamlBytes of
        Inl e \<Rightarrow> Inl (UnmarshalDoc e)
      | Inr m \<Rightarrow>
     (case json_Marshal lib m of
        Inl e \<Rightarrow> Inl (MarshalJSON e)
      | Inr jsonBytes \<Rightarrow> wrap_err UnmarshalJSON (json_Unmarshal lib jsonBytes)))))"

fun collectSchemaErrors :: "jsonschema_error \<Rightarrow> ValidationError list \<Rightarrow> ValidationError list" where
  "collectSchemaErrors (SchemaError causes loc msg) out =
     (if causes = [] then
        out @ [\<lparr>Layer = LayerSchema,
                FieldName = (if loc \<noteq> [] then last loc else ''''),
                Message = SchemaMessage msg\<rparr>]
      else fold collectSchemaErrors causes out)"

fun schemaErrToValidationErrors :: "schema_failure option \<Rightarrow> ValidationError list" where
  "schemaErrToValidationErrors None = []"
| "schemaErrToValidationErrors (Some (OtherFailure msg)) =
     [\<lparr>Layer = LayerSchema, FieldName = '''', Message = SchemaMessage msg\<rparr>]"
| "schemaErrToValidationErrors (Some (Invalid ve)) =
     (let out = collectSchemaErrors ve []
      in if out = [] then
           [\<lparr>Layer = LayerSchema, FieldName = '''', Message = SchemaMessage (ErrorText ve)\<rparr>]
         else out)"

fun ValidateSchema :: "('a, 'j, 'c, 's) doc_lib \<Rightarrow> 's Validator \<Rightarrow> Document option
    \<Rightarrow> ValidationError list" where
  "ValidateSchema lib v None = []"
| "ValidateSchema lib v (Some doc) =
     (case fmlookup (schemas v) (Type doc) of
        None \<Rightarrow> []
      | Some defSchema \<Rightarrow>
          (case docToJSONValue lib doc of
             Inl e \<Rightarrow> [\<lparr>Layer = LayerSchema, FieldName = '''', Message = ConvertDoc e\<rparr>]
           | Inr docVal \<Rightarrow>
               (case schema_Validate lib defSchema docVal of
                  Some err \<Rightarrow> schemaErrToValidationErrors (Some err)
                | None \<Rightarrow> [])))"

text \<open>The leaves of the error tree, which is what the collected list has to show.\<close>

fun leaves :: "jsonschema_error \<Rightarrow> jsonschema_error list" where
  "leaves (SchemaError causes loc msg) =
     (if causes = [] then [SchemaError causes loc msg] else concat (map leaves causes))"

definition leaf_error :: "jsonschema_error \<Rightarrow> ValidationError" where
  "leaf_error e = \<lparr>Layer = LayerSchema,
     FieldName = (if InstanceLocation e \<noteq> [] then last (InstanceLocation e) else ''''),
     Message = SchemaMessage (ErrorText e)\<rparr>"

lemma collectSchemaErrors_leaves: "collectSchemaErrors e out = out @ map leaf_error (leaves e)"
proof (induction e arbitrary: out)
  case (SchemaError causes loc msg)
  have "fold collectSchemaErrors cs out = out @ map leaf_error (concat (map leaves cs))"
    if "set cs \<subseteq> set causes" for cs out
    using that SchemaError.IH by (induction cs arbitrary: out) auto
  from this [of causes out] show ?case by (simp add: leaf_error_def)
qed

lemma leaves_nonempty: "leaves e \<noteq> []"
proof (induction e)
  case (SchemaError causes loc msg)
  then show ?case by (cases causes) auto
qed

lemma schemaErr_ok: "schemaErrToValidationErrors r = [] \<longleftrightarrow> r = None"
  by (cases r rule: schemaErrToValidationErrors.cases)
    (auto simp: collectSchemaErrors_leaves leaves_nonempty Let_def)

lemma schemaErr_layer: "e \<in> set (schemaErrToValidationErrors r) \<Longrightarrow> Layer e = LayerSchema"
  by (cases r rule: schemaErrToValidationErrors.cases)
    (auto simp: collectSchemaErrors_leaves leaf_error_def Let_def split: if_splits)

lemma ValidateSchema_layer: "e \<in> set (ValidateSchema lib v d) \<Longrightarrow> Layer e = LayerSchema"
proof (cases d)
  case (Some doc)
  assume "e \<in> set (ValidateSchema lib v d)"
  then show ?thesis unfolding Some
    by (cases "docToJSONValue lib doc") (auto split: option.splits dest: schemaErr_layer)
qed simp

lemma ValidateSchema_no_schema:
  "fmlookup (schemas v) (Type doc) = None \<Longrightarrow> ValidateSchema lib v (Some doc) = []"
  by simp

lemma compile_all_dom:
  assumes "compile_all lib c mts acc = Inr m"
  shows "fset (fmdom m) = fset (fmdom acc) \<union>
    {mt \<in> set mts. \<exists>meta. Lookup mt = Some meta \<and> SchemaRef meta \<noteq> ''''}"
  using assms
proof (induction mts arbitrary: acc)
  case Nil
  then show ?case by simp
next
  case (Cons mt mts)
  show ?case
  proof (cases "\<exists>meta. Lookup mt = Some meta \<and> SchemaRef meta \<noteq> ''''")
    case True
    then obtain meta where l: "Lookup mt = Some meta" "SchemaRef meta \<noteq> ''''" by blast
    with Cons.prems obtain s where "compile_all lib c mts (fmupd mt s acc) = Inr m"
      by (auto split: sum.splits)
    from Cons.IH [OF this] l show ?thesis by auto
  next
    case False
    then have "compile_all lib c mts acc = Inr m"
      using Cons.prems by (auto split: option.splits if_splits)
    from Cons.IH [OF this] False show ?thesis by auto
  qed
qed

text \<open>A validator has a schema for exactly the agent evolution types.\<close>

lemma NewValidator_schemas:
  assumes "NewValidator lib b = Inr v"
  shows "fmlookup (schemas v) mt \<noteq> None \<longleftrightarrow> mt \<in> set evolution_types"
proof -
  obtain c where c: "compile_all lib c Registered fmempty = Inr (schemas v)"
    using assms by (auto simp: NewValidator_def split: sum.splits)
  have "fmlookup (schemas v) mt \<noteq> None \<longleftrightarrow> mt \<in> fset (fmdom (schemas v))"
    by (simp add: fmlookup_dom_iff)
  also have "\<dots> \<longleftrightarrow> mt \<in> set Registered \<and> (\<exists>meta. Lookup mt = Some meta \<and> SchemaRef meta \<noteq> '''')"
    using compile_all_dom [OF c] by simp
  also have "\<dots> \<longleftrightarrow> mt \<in> set evolution_types"
    using schema_iff Lookup_registered [of mt]
    by (cases "Lookup mt") (auto simp: Registered_list groups)
  finally show ?thesis .
qed

section \<open>Layer 3: semantic rules\<close>

text \<open>\<open>v, _ := doc.Extra[key].(string)\<close>: the string, or \<open>""\<close> when absent or of another type.\<close>

definition extra_string :: "Document \<Rightarrow> string \<Rightarrow> string" where
  "extra_string doc key = (case fmlookup (Extra doc) key of Some (YString s) \<Rightarrow> s | _ \<Rightarrow> '''')"

abbreviation semantic :: "string \<Rightarrow> vmessage \<Rightarrow> ValidationError" where
  "semantic field msg \<equiv> \<lparr>Layer = LayerSemantic, FieldName = field, Message = msg\<rparr>"

definition validateTerminalTransition ::
  "Document \<Rightarrow> LifecycleState \<Rightarrow> string \<Rightarrow> ValidationError list" where
  "validateTerminalTransition doc toState actionName =
     (let fromStr = extra_string doc ''from_status'';
          errs = (if fromStr \<noteq> '''' \<and> \<not> ValidTransition fromStr toState
                  then [semantic ''from_status'' (TransitionNotPermitted fromStr toState)]
                  else []);
          targetAgent = extra_string doc ''target_agent''
      in if From doc \<noteq> '''' \<and> targetAgent \<noteq> '''' \<and> From doc = targetAgent
         then errs @ [semantic ''from/target_agent'' (SelfActionDenied actionName targetAgent)]
         else errs)"

definition validateLifecycleTransition :: "Document \<Rightarrow> ValidationError list" where
  "validateLifecycleTransition doc =
     (let actionName = (if Type doc = AgentPromotion then ''promotion''
                        else if Type doc = AgentRollback then ''rollback'' else '''');
          targetAgent = extra_string doc ''target_agent'';
          errs = (if targetAgent = ''''
                  then [semantic ''target_agent'' (TargetAgentRequired actionName)]
                  else if From doc \<noteq> '''' \<and> From doc = targetAgent
                  then [semantic ''from/target_agent'' (SelfActionDenied actionName targetAgent)]
                  else []);
          fromStr = extra_string doc ''from_status'';
          toStr = extra_string doc ''to_status''
      in if fromStr = '''' \<or> toStr = ''''
         then errs @ [semantic ''from_status/to_status'' StatusesRequired]
         else if \<not> ValidTransition fromStr toStr
         then errs @ [semantic ''from_status/to_status'' (TransitionNotPermitted fromStr toStr)]
         else errs)"

fun ValidateSemantic :: "Document option \<Rightarrow> ValidationError list" where
  "ValidateSemantic None = []"
| "ValidateSemantic (Some doc) =
     (if Type doc = AgentPromotion \<or> Type doc = AgentRollback
      then validateLifecycleTransition doc
      else if Type doc = AgentQuarantine
      then validateTerminalTransition doc StateQuarantined ''quarantine''
      else if Type doc = AgentRetirement
      then validateTerminalTransition doc StateRetired ''retirement''
      else [])"

section \<open>All three layers\<close>

definition Validate :: "('a, 'j, 'c, 's) doc_lib \<Rightarrow> 's Validator \<Rightarrow> Document option
    \<Rightarrow> ValidationError list" where
  "Validate lib v doc =
     (let structural = ValidateStructural doc
      in if length structural > 0 then structural
         else ValidateSchema lib v doc @ ValidateSemantic doc)"

lemma Validate_ok:
  "Validate lib v doc = [] \<longleftrightarrow>
     ValidateStructural doc = [] \<and> ValidateSchema lib v doc = [] \<and> ValidateSemantic doc = []"
  by (simp add: Validate_def Let_def)

lemma lifecycle_ok:
  "validateLifecycleTransition doc = [] \<longleftrightarrow>
     extra_string doc ''target_agent'' \<noteq> '''' \<and>
     From doc \<noteq> extra_string doc ''target_agent'' \<and>
     ValidTransition (extra_string doc ''from_status'') (extra_string doc ''to_status'') \<and>
     extra_string doc ''from_status'' \<noteq> '''' \<and> extra_string doc ''to_status'' \<noteq> ''''"
  by (auto simp: validateLifecycleTransition_def Let_def)

lemma terminal_ok:
  "validateTerminalTransition doc st act = [] \<longleftrightarrow>
     (extra_string doc ''from_status'' = '''' \<or> ValidTransition (extra_string doc ''from_status'') st) \<and>
     (From doc = '''' \<or> From doc \<noteq> extra_string doc ''target_agent'')"
  by (auto simp: validateTerminalTransition_def Let_def)

lemma valid_id_from:
  assumes "ValidateStructural (Some doc) = []" and "Type doc \<noteq> AgentGenome"
  shows "ID doc \<noteq> ''''" and "From doc \<noteq> ''''"
proof -
  obtain meta where m: "Lookup (Type doc) = Some meta" "\<forall>f\<in>set (RequiredFields meta). docHasField doc f"
    using assms(1) unfolding ValidateStructural_ok by blast
  with required_id_from [OF m(1) assms(2)] have "docHasField doc ''id''" "docHasField doc ''from''"
    by auto
  then show "ID doc \<noteq> ''''" "From doc \<noteq> ''''" by (simp_all add: docHasField_def)
qed

lemma into_quarantine: "ValidTransition s StateQuarantined \<longleftrightarrow> s = StateActive"
  unfolding ValidTransition_step step_from_any by (auto simp: wire)

lemma into_retired:
  "ValidTransition s StateRetired \<longleftrightarrow> s \<in> {StateActive, StateInactive, StateQuarantined}"
  unfolding ValidTransition_step step_from_any by (auto simp: wire)

lemma semantic_layer: "e \<in> set (ValidateSemantic d) \<Longrightarrow> Layer e = LayerSemantic"
  by (cases d)
    (auto simp: validateTerminalTransition_def validateLifecycleTransition_def Let_def
      split: if_splits)

text \<open>Types without semantic rules and without a schema: the structural layer decides.\<close>

lemma Validate_plain:
  assumes "fmlookup (schemas v) (Type doc) = None"
    and "Type doc \<notin> {AgentPromotion, AgentRollback, AgentQuarantine, AgentRetirement}"
  shows "Validate lib v (Some doc) = ValidateStructural (Some doc)"
  using assms by (simp add: Validate_def Let_def del: ValidateStructural.simps)

end
