(* ===== verification/Builder.thy ===== *)
theory Builder
  imports Validator
begin

text \<open>
  \<open>pkg/document/builder.go\<close>: the fluent builder, one function per setter, \<open>Field\<close> with its sticky
  error, and \<open>Build\<close>, which fills in the protocol version and the creation time and returns a
  document only when all three validation layers accept it.
\<close>

section \<open>The builder\<close>

datatype field_error = ReservedKey string

record Builder =
  msgType :: MessageType
  b_id :: string
  b_from :: string
  b_to :: "string list"
  b_execID :: string
  b_ttl :: string
  b_status :: string
  b_inReplyTo :: string
  b_threadID :: string
  b_body :: string
  b_extra :: "(string, yval) fmap"
  fieldErr :: "field_error option"

definition NewBuilder :: "MessageType \<Rightarrow> Builder" where
  "NewBuilder mt =
     \<lparr>msgType = mt, b_id = '''', b_from = '''', b_to = [], b_execID = '''', b_ttl = '''',
      b_status = '''', b_inReplyTo = '''', b_threadID = '''', b_body = '''',
      b_extra = fmempty, fieldErr = None\<rparr>"

definition set_ID :: "string \<Rightarrow> Builder \<Rightarrow> Builder" where
  "set_ID i b = b\<lparr>b_id := i\<rparr>"

definition set_From :: "string \<Rightarrow> Builder \<Rightarrow> Builder" where
  "set_From f b = b\<lparr>b_from := f\<rparr>"

definition set_To :: "string list \<Rightarrow> Builder \<Rightarrow> Builder" where
  "set_To targets b = b\<lparr>b_to := targets\<rparr>"

definition set_ExecID :: "string \<Rightarrow> Builder \<Rightarrow> Builder" where
  "set_ExecID e b = b\<lparr>b_execID := e\<rparr>"

definition set_Status :: "string \<Rightarrow> Builder \<Rightarrow> Builder" where
  "set_Status s b = b\<lparr>b_status := s\<rparr>"

definition set_InReplyTo :: "string \<Rightarrow> Builder \<Rightarrow> Builder" where
  "set_InReplyTo r b = b\<lparr>b_inReplyTo := r\<rparr>"

definition set_ThreadID :: "string \<Rightarrow> Builder \<Rightarrow> Builder" where
  "set_ThreadID t b = b\<lparr>b_threadID := t\<rparr>"

definition set_TTL :: "string \<Rightarrow> Builder \<Rightarrow> Builder" where
  "set_TTL t b = b\<lparr>b_ttl := t\<rparr>"

definition set_Field :: "string \<Rightarrow> yval \<Rightarrow> Builder \<Rightarrow> Builder" where
  "set_Field key v b =
     (if key \<in> set envelopeKeys then
        (case fieldErr b of
           None \<Rightarrow> b\<lparr>fieldErr := Some (ReservedKey key)\<rparr>
         | Some _ \<Rightarrow> b)
      else b\<lparr>b_extra := fmupd key v (b_extra b)\<rparr>)"

definition set_Body :: "string \<Rightarrow> Builder \<Rightarrow> Builder" where
  "set_Body t b = b\<lparr>b_body := t\<rparr>"

lemmas setters = NewBuilder_def set_ID_def set_From_def set_To_def set_ExecID_def set_Status_def
  set_InReplyTo_def set_ThreadID_def set_TTL_def set_Field_def set_Body_def

section \<open>Build\<close>

datatype build_error = FieldErr field_error | CreateValidator new_validator_error
  | ValidationFailed "ValidationError list"

text \<open>The document \<open>Build\<close> assembles; \<open>now\<close> is the formatted current time.\<close>

definition assemble :: "string \<Rightarrow> Builder \<Rightarrow> Document" where
  "assemble now b =
     \<lparr>Type = msgType b, Version = ProtocolVersion, ID = b_id b, From = b_from b, To = b_to b,
      CreatedAt = now, InReplyTo = b_inReplyTo b, ThreadID = b_threadID b, ExecID = b_execID b,
      TTL = b_ttl b, Status = b_status b, Signature = '''', SigningKeyID = '''',
      Extra = b_extra b, Body = b_body b, Raw = ''''\<rparr>"

text \<open>\<open>dv\<close> is the result of \<open>DefaultValidator()\<close>.\<close>

definition Build :: "('a, 'j, 'c, 's) doc_lib \<Rightarrow> new_validator_error + 's Validator \<Rightarrow> string
    \<Rightarrow> Builder \<Rightarrow> build_error + Document" where
  "Build lib dv now b =
     (case fieldErr b of
        Some e \<Rightarrow> Inl (FieldErr e)
      | None \<Rightarrow>
          (let doc = assemble now b
           in case dv of
                Inl e \<Rightarrow> Inl (CreateValidator e)
              | Inr v \<Rightarrow>
                  (let errs = Validate lib v (Some doc)
                   in if length errs > 0 then Inl (ValidationFailed errs) else Inr doc)))"

section \<open>Pre-configured builders\<close>

definition NewGenomeBuilder :: "string \<Rightarrow> string \<Rightarrow> Builder" where
  "NewGenomeBuilder agentID kind =
     set_Field ''kind'' (YString kind)
       (set_Field ''agent_id'' (YString agentID) (NewBuilder AgentGenome))"

definition NewSpawnProposalBuilder :: "string \<Rightarrow> string \<Rightarrow> Builder" where
  "NewSpawnProposalBuilder parentID proposedID =
     set_Field ''candidate_id'' (YString proposedID)
       (set_Field ''parent_ids'' (YSeq [YString parentID]) (NewBuilder AgentSpawnProposal))"

definition NewTaskRequestBuilder :: "string \<Rightarrow> string \<Rightarrow> Builder" where
  "NewTaskRequestBuilder execID from =
     set_ExecID execID (set_From from (NewBuilder TaskRequest))"

section \<open>The invariant of a builder\<close>

text \<open>
  A method chain is a list of setter calls. Whatever the chain, no envelope key is ever
  among the extra fields, and the recorded error is the first reserved key that was used.
\<close>

datatype setter = SetID string | SetFrom string | SetTo "string list" | SetExecID string
  | SetStatus string | SetInReplyTo string | SetThreadID string | SetTTL string
  | SetField string yval | SetBody string

fun apply_setter :: "setter \<Rightarrow> Builder \<Rightarrow> Builder" where
  "apply_setter (SetID x) = set_ID x"
| "apply_setter (SetFrom x) = set_From x"
| "apply_setter (SetTo x) = set_To x"
| "apply_setter (SetExecID x) = set_ExecID x"
| "apply_setter (SetStatus x) = set_Status x"
| "apply_setter (SetInReplyTo x) = set_InReplyTo x"
| "apply_setter (SetThreadID x) = set_ThreadID x"
| "apply_setter (SetTTL x) = set_TTL x"
| "apply_setter (SetField k v) = set_Field k v"
| "apply_setter (SetBody x) = set_Body x"

definition chain :: "MessageType \<Rightarrow> setter list \<Rightarrow> Builder" where
  "chain mt ss = fold apply_setter ss (NewBuilder mt)"

fun reserved_use :: "setter \<Rightarrow> string option" where
  "reserved_use (SetField k v) = (if k \<in> set envelopeKeys then Some k else None)"
| "reserved_use _ = None"

definition builder_inv :: "Builder \<Rightarrow> bool" where
  "builder_inv b \<longleftrightarrow> (\<forall>k\<in>set envelopeKeys. fmlookup (b_extra b) k = None)"

lemma builder_inv_new: "builder_inv (NewBuilder mt)"
  by (simp add: builder_inv_def NewBuilder_def)

lemma builder_inv_setter: "builder_inv b \<Longrightarrow> builder_inv (apply_setter s b)"
  by (cases s) (auto simp: builder_inv_def setters split: option.split)

lemma builder_inv_fold: "builder_inv b \<Longrightarrow> builder_inv (fold apply_setter ss b)"
  by (induction ss arbitrary: b) (auto intro: builder_inv_setter)

lemma builder_inv_chain: "builder_inv (chain mt ss)"
  by (simp add: chain_def builder_inv_fold builder_inv_new)

lemma msgType_setter [simp]: "msgType (apply_setter s b) = msgType b"
  by (cases s) (auto simp: setters split: option.split)

lemma msgType_fold: "msgType (fold apply_setter ss b) = msgType b"
  by (induction ss arbitrary: b) auto

lemma msgType_chain: "msgType (chain mt ss) = mt"
  by (simp add: chain_def msgType_fold) (simp add: NewBuilder_def)

lemma fieldErr_setter:
  "fieldErr (apply_setter s b) =
     (case fieldErr b of Some e \<Rightarrow> Some e | None \<Rightarrow> map_option ReservedKey (reserved_use s))"
  by (cases s) (auto simp: setters split: option.split)

lemma fieldErr_fold:
  "fieldErr (fold apply_setter ss b) =
     (case fieldErr b of Some e \<Rightarrow> Some e
      | None \<Rightarrow> map_option ReservedKey (case List.map_filter reserved_use ss of [] \<Rightarrow> None | k # _ \<Rightarrow> Some k))"
  by (induction ss arbitrary: b)
    (auto simp: fieldErr_setter List.map_filter_simps split: option.splits)

lemma fieldErr_chain:
  "fieldErr (chain mt ss) =
     map_option ReservedKey (case List.map_filter reserved_use ss of [] \<Rightarrow> None | k # _ \<Rightarrow> Some k)"
  by (simp add: chain_def fieldErr_fold) (simp add: NewBuilder_def)

section \<open>What Build returns\<close>

lemma Build_Inr:
  "Build lib dv now b = Inr doc \<longleftrightarrow>
     fieldErr b = None \<and> doc = assemble now b \<and>
     (\<exists>v. dv = Inr v \<and> Validate lib v (Some doc) = [])"
  by (auto simp: Build_def Let_def split: option.splits sum.splits)

text \<open>
  A builder for a type without schema and semantic rules builds its document as soon as the
  required fields are there: the gateway's own documents are all of this kind.
\<close>

lemma Build_plain:
  assumes "fieldErr b = None" and "fmlookup (schemas v) (msgType b) = None"
    and "msgType b \<notin> set evolution_types" and "ValidateStructural (Some (assemble now b)) = []"
  shows "Build lib (Inr v) now b = Inr (assemble now b)"
proof -
  have t: "Type (assemble now b) = msgType b" by (simp add: assemble_def)
  have "msgType b \<notin> {AgentPromotion, AgentRollback, AgentQuarantine, AgentRetirement}"
    using assms(3) by (auto simp: groups)
  then have "Validate lib v (Some (assemble now b)) = []"
    using assms(2,4) Validate_plain [of v "assemble now b" lib] t by simp
  with assms(1) show ?thesis by (simp add: Build_Inr)
qed

end
