(* ===== verification/Gateway.thy ===== *)
theory Gateway
  imports Auth Pending Limiter MsgLog Transport Builder
begin

text \<open>
  \<open>internal/gateway/gateway.go\<close> and \<open>config.go\<close>: the configuration, the \<open>Gateway\<close> with the
  interfaces it is wired to, its state, \<open>applyDefaults\<close>, and the inputs, outputs and errors of
  the tools (the types at the head of \<open>tools.go\<close>).
\<close>

section \<open>Configuration\<close>

record Config =
  AgentID :: string
  TaskReadTimeout :: duration
  PendingTTL :: duration
  DefaultAgentName :: string
  DefaultAgentKey :: string

definition DefaultConfig :: Config where
  "DefaultConfig =
     \<lparr>AgentID = ''mcp-gateway'', TaskReadTimeout = 5 * Second, PendingTTL = 5 * Minute,
      DefaultAgentName = '''', DefaultAgentKey = ''''\<rparr>"

text \<open>\<open>quote\<close> is the verb \<open>%q\<close>, \<open>show_duration\<close> the verb \<open>%v\<close> on a duration.\<close>

definition Config_String :: "(string \<Rightarrow> string) \<Rightarrow> (duration \<Rightarrow> string) \<Rightarrow> Config \<Rightarrow> string" where
  "Config_String quote show_duration c =
     (let keyStatus = (if DefaultAgentKey c \<noteq> '''' then ''<redacted>'' else ''<not set>'')
      in ''Config{AgentID:'' @ quote (AgentID c) @ '' DefaultAgentName:'' @ quote (DefaultAgentName c) @
         '' DefaultAgentKey:'' @ keyStatus @ '' TaskReadTimeout:'' @ show_duration (TaskReadTimeout c) @
         '' PendingTTL:'' @ show_duration (PendingTTL c) @ ''}'')"

section \<open>The gateway\<close>

text \<open>
  What a gateway is wired to. \<open>'w\<close> is the world the enforcer, the authenticator and the limiter
  consult; \<open>'lim\<close>, \<open>'log\<close>, \<open>'net\<close> are the states of the limiter, the logger and the transport.
\<close>

record ('w, 'lim, 'log, 'net, 'ch) Gateway =
  trans :: "('net, 'ch) Transport"
  enforcer :: "'w PolicyEnforcer"
  auth :: "'w AgentAuthenticator option"
  logger :: "'log MessageLogger"
  limiter :: "('w, 'lim) LimitEnforcer"
  cfg :: Config

record ('lim, 'log, 'net) gw_state =
  pending :: PendingMap
  lim :: 'lim
  logs :: 'log
  net :: 'net

text \<open>
  What one call of a tool finds outside: the world, the document library and the result of
  \<open>DefaultValidator()\<close>, the fresh UUID, the creation time \<open>Build\<close> formats, the clock of
  \<open>PendingMap.Store\<close>, and the clocks of the first and the second call of the limiter.
\<close>

record ('w, 'a, 'j, 'c, 's) call_env =
  world :: 'w
  doclib :: "('a, 'j, 'c, 's) doc_lib"
  docValidator :: "new_validator_error + 's Validator"
  uuid :: string
  created :: string
  now :: time
  clk1 :: clock
  clk2 :: clock

text \<open>\<open>New\<close> with a given logger and limiter: an empty pending map.\<close>

definition New :: "'lim \<Rightarrow> 'log \<Rightarrow> 'net \<Rightarrow> ('lim, 'log, 'net) gw_state" where
  "New li lo ne = \<lparr>pending = NewPendingMap, lim = li, logs = lo, net = ne\<rparr>"

definition applyDefaults :: "Config \<Rightarrow> string \<Rightarrow> string \<Rightarrow> string \<times> string" where
  "applyDefaults c agent apiKey =
     (if agent = '''' then
        (DefaultAgentName c, if apiKey = '''' then DefaultAgentKey c else apiKey)
      else (agent, apiKey))"

section \<open>Inputs, outputs and errors of the tools\<close>

record getTaskIn = gt_Agent :: string gt_APIKey :: string
record getTaskOut = TaskID :: string TaskBody :: string
record completeTaskIn = ct_TaskID :: string ct_Agent :: string Result :: string ct_APIKey :: string
record completeTaskOut = ct_Status :: string
record failTaskIn = ft_TaskID :: string ft_Agent :: string ErrorBody :: string ft_APIKey :: string
record failTaskOut = ft_Status :: string
record heartbeatIn = hb_Agent :: string hb_APIKey :: string
record heartbeatOut = hb_Status :: string
record sendMessageIn = sm_Agent :: string sm_To :: string sm_Body :: string sm_APIKey :: string
record sendMessageOut = sm_Status :: string
record receiveMessageIn = rm_Agent :: string rm_APIKey :: string
record receiveMessageOut = MsgFrom :: string MsgBody :: string
record getMyLimitsIn = gl_Agent :: string gl_APIKey :: string
record getMyLimitsOut = O_MaxBodyBytes :: int O_MaxSendPerMin :: int O_MaxPendingTasks :: int
  O_MaxStreamLen :: int
record getMyPoliciesIn = gp_Agent :: string gp_APIKey :: string
record policyInfo = pi_ID :: string pi_SourceID :: string pi_TargetID :: string
  pi_Direction :: string pi_Action :: string pi_Priority :: int
record getMyPoliciesOut = Policies :: "policyInfo list"

datatype gw_error = InvalidAgentID string | InvalidRecipientID string | AuthError auth_refusal
  | PolicyCheck policy_error | NotAllowed string | LimitError limit_error | BodyTooLarge
  | UnknownTaskID string | BuildDoc build_error | PublishError transport_error
  | AckError transport_error | SubscribeError string transport_error | AgentRequired
  | GetLimitsError string | ListPoliciesError policy_error

section \<open>applyDefaults and Config.String\<close>

lemma applyDefaults_explicit: "agent \<noteq> '''' \<Longrightarrow> applyDefaults c agent apiKey = (agent, apiKey)"
  by (simp add: applyDefaults_def)

text \<open>The default key is used for nobody but the default agent, and only when no key is given.\<close>

lemma applyDefaults_key:
  assumes "applyDefaults c agent apiKey = (a, k)"
  shows "k = apiKey \<or> (agent = '''' \<and> apiKey = '''' \<and> a = DefaultAgentName c \<and> k = DefaultAgentKey c)"
  using assms by (auto simp: applyDefaults_def split: if_splits)

lemma Config_String_key:
  assumes "(k = '''') = (k' = '''')"
  shows "Config_String q d (c\<lparr>DefaultAgentKey := k\<rparr>) = Config_String q d (c\<lparr>DefaultAgentKey := k'\<rparr>)"
  using assms by (simp add: Config_String_def)

end
