(* ===== verification/Tools.thy ===== *)
theory Tools
  imports Gateway
begin

text \<open>
  \<open>internal/gateway/tools.go\<close>: the eight tool handlers, each a function of the gateway's wiring, the
  call's environment, the input and the state, returning the output or the error and the new
  state. The statements of a handler are in the order of the code, so that the effects of a
  call that fails half-way are those the code leaves behind.
\<close>

section \<open>get_task\<close>

definition no_task :: getTaskOut where "no_task = \<lparr>TaskID = '''', TaskBody = ''''\<rparr>"

definition handleGetTask :: "('w, 'lim, 'log, 'net, 'ch) Gateway \<Rightarrow> ('w, 'a, 'j, 'c, 's) call_env
    \<Rightarrow> getTaskIn \<Rightarrow> ('lim, 'log, 'net) gw_state
    \<Rightarrow> (gw_error + getTaskOut) \<times> ('lim, 'log, 'net) gw_state" where
  "handleGetTask g env i s =
     (let (agent, apiKey) = applyDefaults (cfg g) (gt_Agent i) (gt_APIKey i)
      in if \<not> IsValidAgentID agent then (Inl (InvalidAgentID agent), s)
      else case authenticateAgent (auth g) (world env) agent apiKey of
        Some err \<Rightarrow> (Inl (AuthError err), s)
      | None \<Rightarrow>
     (case Allowed (enforcer g) (world env) agent PolicyTargetOrchestrator of
        Inl err \<Rightarrow> (Inl (PolicyCheck err), s)
      | Inr allowed \<Rightarrow>
        if \<not> allowed then (Inl (NotAllowed agent), s)
        else
     (let (limErr, lim') = CheckPendingTasks (limiter g) (world env) (clk1 env) agent
                             (int (CountByAgent agent (pending s))) (lim s);
          s = s\<lparr>lim := lim'\<rparr>
      in case limErr of
        Some err \<Rightarrow> (Inl (LimitError err), s)
      | None \<Rightarrow>
     (let topic = ''agent.tasks.'' @ agent;
          (sub, net') = Subscribe (trans g) topic (net s);
          s = s\<lparr>net := net'\<rparr>
      in case sub of
        Inl err \<Rightarrow> (Inl (SubscribeError topic err), s)
      | Inr ch \<Rightarrow>
     (let (outcome, net') = Receive (trans g) ch (net s);
          s = s\<lparr>net := net'\<rparr>
      in case outcome of
        ChannelClosed \<Rightarrow> (Inr no_task, s)
      | TimedOut \<Rightarrow> (Inr no_task, s)
      | Delivered delivery \<Rightarrow>
     (let taskID = MsgID delivery;
          s = s\<lparr>pending := Store (now env) taskID topic (MsgID delivery) (pending s)\<rparr>;
          s = s\<lparr>logs := Log (logger g)
                 \<lparr>EnvelopeID = ID (Doc delivery), LE_ThreadID = ThreadID (Doc delivery),
                  FromAgent = From (Doc delivery), ToAgent = agent, MsgType = Type (Doc delivery),
                  LE_Direction = ''receive'', ToolName = ''get_task'',
                  BodySize = int (length (Body (Doc delivery))), LE_Body = Body (Doc delivery)\<rparr>
                 (logs s)\<rparr>
      in (Inr \<lparr>TaskID = taskID, TaskBody = Body (Doc delivery)\<rparr>, s)))))))"

section \<open>complete_task and fail_task\<close>

definition handleCompleteTask :: "('w, 'lim, 'log, 'net, 'ch) Gateway \<Rightarrow> ('w, 'a, 'j, 'c, 's) call_env
    \<Rightarrow> completeTaskIn \<Rightarrow> ('lim, 'log, 'net) gw_state
    \<Rightarrow> (gw_error + completeTaskOut) \<times> ('lim, 'log, 'net) gw_state" where
  "handleCompleteTask g env i s =
     (let (agent, apiKey) = applyDefaults (cfg g) (ct_Agent i) (ct_APIKey i)
      in if \<not> IsValidAgentID agent then (Inl (InvalidAgentID agent), s)
      else case authenticateAgent (auth g) (world env) agent apiKey of
        Some err \<Rightarrow> (Inl (AuthError err), s)
      | None \<Rightarrow>
     (case Allowed (enforcer g) (world env) agent PolicyTargetOrchestrator of
        Inl err \<Rightarrow> (Inl (PolicyCheck err), s)
      | Inr allowed \<Rightarrow>
        if \<not> allowed then (Inl (NotAllowed agent), s)
        else if int (length (Result i)) > MaxDocumentBytes then (Inl BodyTooLarge, s)
        else
     (let (limErr, lim') = CheckSend (limiter g) (world env) (clk1 env) agent
                             (int (length (Result i))) (lim s);
          s = s\<lparr>lim := lim'\<rparr>
      in case limErr of
        Some err \<Rightarrow> (Inl (LimitError err), s)
      | None \<Rightarrow>
     (let (token, pending') = LoadAndDelete (ct_TaskID i) (pending s);
          s = s\<lparr>pending := pending'\<rparr>
      in case token of
        None \<Rightarrow> (Inl (UnknownTaskID (ct_TaskID i)), s)
      | Some (tp, mid) \<Rightarrow>
     (case Build (doclib env) (docValidator env) (created env)
             (set_Body (Result i) (set_InReplyTo (ct_TaskID i)
               (set_Field ''step'' (YString ''result'') (set_ExecID (ct_TaskID i)
               (set_To [agent] (set_From (AgentID (cfg g)) (set_ID (uuid env)
               (NewBuilder TaskResult)))))))) of
        Inl err \<Rightarrow> (Inl (BuildDoc err), s)
      | Inr doc \<Rightarrow>
     (let (maxLen, lim') = GetStreamMaxLen (limiter g) (world env) (clk2 env) agent (lim s);
          s = s\<lparr>lim := lim'\<rparr>;
          (pubErr, net') = Publish (trans g) ''agent.events.completed'' doc [\<lparr>MaxLen = maxLen\<rparr>] (net s);
          s = s\<lparr>net := net'\<rparr>
      in case pubErr of
        Some err \<Rightarrow> (Inl (PublishError err), s)
      | None \<Rightarrow>
     (let s = s\<lparr>lim := RecordSend (limiter g) agent (lim s)\<rparr>;
          (ackErr, net') = Ack (trans g) tp mid (net s);
          s = s\<lparr>net := net'\<rparr>
      in case ackErr of
        Some err \<Rightarrow> (Inl (AckError err), s)
      | None \<Rightarrow>
     (let s = s\<lparr>logs := Log (logger g)
                 \<lparr>EnvelopeID = ID doc, LE_ThreadID = ThreadID doc, FromAgent = agent,
                  ToAgent = PolicyTargetOrchestrator, MsgType = TaskResult,
                  LE_Direction = ''send'', ToolName = ''complete_task'',
                  BodySize = int (length (Result i)), LE_Body = Result i\<rparr> (logs s)\<rparr>
      in (Inr \<lparr>ct_Status = ''ok''\<rparr>, s)))))))))"

definition handleFailTask :: "('w, 'lim, 'log, 'net, 'ch) Gateway \<Rightarrow> ('w, 'a, 'j, 'c, 's) call_env
    \<Rightarrow> failTaskIn \<Rightarrow> ('lim, 'log, 'net) gw_state
    \<Rightarrow> (gw_error + failTaskOut) \<times> ('lim, 'log, 'net) gw_state" where
  "handleFailTask g env i s =
     (let (agent, apiKey) = applyDefaults (cfg g) (ft_Agent i) (ft_APIKey i)
      in if \<not> IsValidAgentID agent then (Inl (InvalidAgentID agent), s)
      else case authenticateAgent (auth g) (world env) agent apiKey of
        Some err \<Rightarrow> (Inl (AuthError err), s)
      | None \<Rightarrow>
     (case Allowed (enforcer g) (world env) agent PolicyTargetOrchestrator of
        Inl err \<Rightarrow> (Inl (PolicyCheck err), s)
      | Inr allowed \<Rightarrow>
        if \<not> allowed then (Inl (NotAllowed agent), s)
        else if int (length (ErrorBody i)) > MaxDocumentBytes then (Inl BodyTooLarge, s)
        else
     (let (limErr, lim') = CheckSend (limiter g) (world env) (clk1 env) agent
                             (int (length (ErrorBody i))) (lim s);
          s = s\<lparr>lim := lim'\<rparr>
      in case limErr of
        Some err \<Rightarrow> (Inl (LimitError err), s)
      | None \<Rightarrow>
     (let (token, pending') = LoadAndDelete (ft_TaskID i) (pending s);
          s = s\<lparr>pending := pending'\<rparr>
      in case token of
        None \<Rightarrow> (Inl (UnknownTaskID (ft_TaskID i)), s)
      | Some (tp, mid) \<Rightarrow>
     (case Build (doclib env) (docValidator env) (created env)
             (set_Body (ErrorBody i) (set_InReplyTo (ft_TaskID i)
               (set_Field ''step'' (YString ''fail'') (set_ExecID (ft_TaskID i)
               (set_To [agent] (set_From (AgentID (cfg g)) (set_ID (uuid env)
               (NewBuilder TaskFail)))))))) of
        Inl err \<Rightarrow> (Inl (BuildDoc err), s)
      | Inr doc \<Rightarrow>
     (let (maxLen, lim') = GetStreamMaxLen (limiter g) (world env) (clk2 env) agent (lim s);
          s = s\<lparr>lim := lim'\<rparr>;
          (pubErr, net') = Publish (trans g) ''agent.events.failed'' doc [\<lparr>MaxLen = maxLen\<rparr>] (net s);
          s = s\<lparr>net := net'\<rparr>
      in case pubErr of
        Some err \<Rightarrow> (Inl (PublishError err), s)
      | None \<Rightarrow>
     (let s = s\<lparr>lim := RecordSend (limiter g) agent (lim s)\<rparr>;
          (ackErr, net') = Ack (trans g) tp mid (net s);
          s = s\<lparr>net := net'\<rparr>
      in case ackErr of
        Some err \<Rightarrow> (Inl (AckError err), s)
      | None \<Rightarrow>
     (let s = s\<lparr>logs := Log (logger g)
                 \<lparr>EnvelopeID = ID doc, LE_ThreadID = ThreadID doc, FromAgent = agent,
                  ToAgent = PolicyTargetOrchestrator, MsgType = TaskFail,
                  LE_Direction = ''send'', ToolName = ''fail_task'',
                  BodySize = int (length (ErrorBody i)), LE_Body = ErrorBody i\<rparr> (logs s)\<rparr>
      in (Inr \<lparr>ft_Status = ''ok''\<rparr>, s)))))))))"

section \<open>heartbeat\<close>

definition handleHeartbeat :: "('w, 'lim, 'log, 'net, 'ch) Gateway \<Rightarrow> ('w, 'a, 'j, 'c, 's) call_env
    \<Rightarrow> heartbeatIn \<Rightarrow> ('lim, 'log, 'net) gw_state
    \<Rightarrow> (gw_error + heartbeatOut) \<times> ('lim, 'log, 'net) gw_state" where
  "handleHeartbeat g env i s =
     (let (agent, apiKey) = applyDefaults (cfg g) (hb_Agent i) (hb_APIKey i)
      in if auth g \<noteq> None \<and> agent = '''' then (Inl AgentRequired, s)
      else if agent \<noteq> '''' then
        (case authenticateAgent (auth g) (world env) agent apiKey of
           Some err \<Rightarrow> (Inl (AuthError err), s)
         | None \<Rightarrow> (Inr \<lparr>hb_Status = ''ok''\<rparr>, s))
      else (Inr \<lparr>hb_Status = ''ok''\<rparr>, s))"

section \<open>send_message and receive_message\<close>

definition handleSendMessage :: "('w, 'lim, 'log, 'net, 'ch) Gateway \<Rightarrow> ('w, 'a, 'j, 'c, 's) call_env
    \<Rightarrow> sendMessageIn \<Rightarrow> ('lim, 'log, 'net) gw_state
    \<Rightarrow> (gw_error + sendMessageOut) \<times> ('lim, 'log, 'net) gw_state" where
  "handleSendMessage g env i s =
     (let (agent, apiKey) = applyDefaults (cfg g) (sm_Agent i) (sm_APIKey i)
      in if \<not> IsValidAgentID agent then (Inl (InvalidAgentID agent), s)
      else if \<not> IsValidAgentID (sm_To i) then (Inl (InvalidRecipientID (sm_To i)), s)
      else case authenticateAgent (auth g) (world env) agent apiKey of
        Some err \<Rightarrow> (Inl (AuthError err), s)
      | None \<Rightarrow>
     (case Allowed (enforcer g) (world env) agent (sm_To i) of
        Inl err \<Rightarrow> (Inl (PolicyCheck err), s)
      | Inr allowed \<Rightarrow>
        if \<not> allowed then (Inl (NotAllowed agent), s)
        else if int (length (sm_Body i)) > MaxDocumentBytes then (Inl BodyTooLarge, s)
        else
     (let (limErr, lim') = CheckSend (limiter g) (world env) (clk1 env) agent
                             (int (length (sm_Body i))) (lim s);
          s = s\<lparr>lim := lim'\<rparr>
      in case limErr of
        Some err \<Rightarrow> (Inl (LimitError err), s)
      | None \<Rightarrow>
     (case Build (doclib env) (docValidator env) (created env)
             (set_Body (sm_Body i) (set_To [sm_To i] (set_From agent (set_ID (uuid env)
               (NewBuilder AgentMessage))))) of
        Inl err \<Rightarrow> (Inl (BuildDoc err), s)
      | Inr doc \<Rightarrow>
     (let (maxLen, lim') = GetStreamMaxLen (limiter g) (world env) (clk2 env) (sm_To i) (lim s);
          s = s\<lparr>lim := lim'\<rparr>;
          (pubErr, net') = Publish (trans g) (''agent.messages.'' @ sm_To i) doc
                             [\<lparr>MaxLen = maxLen\<rparr>] (net s);
          s = s\<lparr>net := net'\<rparr>
      in case pubErr of
        Some err \<Rightarrow> (Inl (PublishError err), s)
      | None \<Rightarrow>
     (let s = s\<lparr>lim := RecordSend (limiter g) agent (lim s)\<rparr>;
          s = s\<lparr>logs := Log (logger g)
                 \<lparr>EnvelopeID = ID doc, LE_ThreadID = ThreadID doc, FromAgent = agent,
                  ToAgent = sm_To i, MsgType = AgentMessage, LE_Direction = ''send'',
                  ToolName = ''send_message'', BodySize = int (length (sm_Body i)),
                  LE_Body = sm_Body i\<rparr> (logs s)\<rparr>
      in (Inr \<lparr>sm_Status = ''ok''\<rparr>, s)))))))"

definition no_message :: receiveMessageOut where "no_message = \<lparr>MsgFrom = '''', MsgBody = ''''\<rparr>"

definition handleReceiveMessage :: "('w, 'lim, 'log, 'net, 'ch) Gateway
    \<Rightarrow> ('w, 'a, 'j, 'c, 's) call_env \<Rightarrow> receiveMessageIn \<Rightarrow> ('lim, 'log, 'net) gw_state
    \<Rightarrow> (gw_error + receiveMessageOut) \<times> ('lim, 'log, 'net) gw_state" where
  "handleReceiveMessage g env i s =
     (let (agent, apiKey) = applyDefaults (cfg g) (rm_Agent i) (rm_APIKey i)
      in if \<not> IsValidAgentID agent then (Inl (InvalidAgentID agent), s)
      else case authenticateAgent (auth g) (world env) agent apiKey of
        Some err \<Rightarrow> (Inl (AuthError err), s)
      | None \<Rightarrow>
     (case Allowed (enforcer g) (world env) agent PolicyTargetOrchestrator of
        Inl err \<Rightarrow> (Inl (PolicyCheck err), s)
      | Inr allowed \<Rightarrow>
        if \<not> allowed then (Inl (NotAllowed agent), s)
        else
     (let topic = ''agent.messages.'' @ agent;
          (sub, net') = Subscribe (trans g) topic (net s);
          s = s\<lparr>net := net'\<rparr>
      in case sub of
        Inl err \<Rightarrow> (Inl (SubscribeError topic err), s)
      | Inr ch \<Rightarrow>
     (let (outcome, net') = Receive (trans g) ch (net s);
          s = s\<lparr>net := net'\<rparr>
      in case outcome of
        ChannelClosed \<Rightarrow> (Inr no_message, s)
      | TimedOut \<Rightarrow> (Inr no_message, s)
      | Delivered delivery \<Rightarrow>
     (let (ackErr, net') = Ack (trans g) topic (MsgID delivery) (net s);
          s = s\<lparr>net := net'\<rparr>
      in case ackErr of
        Some err \<Rightarrow> (Inl (AckError err), s)
      | None \<Rightarrow>
        if int (length (Body (Doc delivery))) > MaxDocumentBytes then (Inl BodyTooLarge, s)
        else
     (let s = s\<lparr>logs := Log (logger g)
                 \<lparr>EnvelopeID = ID (Doc delivery), LE_ThreadID = ThreadID (Doc delivery),
                  FromAgent = From (Doc delivery), ToAgent = agent, MsgType = Type (Doc delivery),
                  LE_Direction = ''receive'', ToolName = ''receive_message'',
                  BodySize = int (length (Body (Doc delivery))), LE_Body = Body (Doc delivery)\<rparr>
                 (logs s)\<rparr>
      in (Inr \<lparr>MsgFrom = From (Doc delivery), MsgBody = Body (Doc delivery)\<rparr>, s)))))))"

section \<open>get_my_limits and get_my_policies\<close>

definition handleGetMyLimits :: "('w, 'lim, 'log, 'net, 'ch) Gateway \<Rightarrow> ('w, 'a, 'j, 'c, 's) call_env
    \<Rightarrow> getMyLimitsIn \<Rightarrow> ('lim, 'log, 'net) gw_state
    \<Rightarrow> (gw_error + getMyLimitsOut) \<times> ('lim, 'log, 'net) gw_state" where
  "handleGetMyLimits g env i s =
     (let (agent, apiKey) = applyDefaults (cfg g) (gl_Agent i) (gl_APIKey i)
      in if \<not> IsValidAgentID agent then (Inl (InvalidAgentID agent), s)
      else case authenticateAgent (auth g) (world env) agent apiKey of
        Some err \<Rightarrow> (Inl (AuthError err), s)
      | None \<Rightarrow>
     (let (r, lim') = GetEffectiveLimits (limiter g) (world env) (clk1 env) agent (lim s);
          s = s\<lparr>lim := lim'\<rparr>
      in case r of
        Inl err \<Rightarrow> (Inl (GetLimitsError err), s)
      | Inr info \<Rightarrow>
        (Inr \<lparr>O_MaxBodyBytes = I_MaxBodyBytes info, O_MaxSendPerMin = I_MaxSendPerMin info,
              O_MaxPendingTasks = I_MaxPendingTasks info, O_MaxStreamLen = I_MaxStreamLen info\<rparr>, s)))"

definition policy_info :: "CommunicationPolicy \<Rightarrow> policyInfo" where
  "policy_info p =
     \<lparr>pi_ID = PolicyID p, pi_SourceID = SourceID p, pi_TargetID = TargetID p,
      pi_Direction = Direction p, pi_Action = Action p, pi_Priority = Priority p\<rparr>"

definition handleGetMyPolicies :: "('w, 'lim, 'log, 'net, 'ch) Gateway
    \<Rightarrow> ('w, 'a, 'j, 'c, 's) call_env \<Rightarrow> getMyPoliciesIn \<Rightarrow> ('lim, 'log, 'net) gw_state
    \<Rightarrow> (gw_error + getMyPoliciesOut) \<times> ('lim, 'log, 'net) gw_state" where
  "handleGetMyPolicies g env i s =
     (let (agent, apiKey) = applyDefaults (cfg g) (gp_Agent i) (gp_APIKey i)
      in if \<not> IsValidAgentID agent then (Inl (InvalidAgentID agent), s)
      else case authenticateAgent (auth g) (world env) agent apiKey of
        Some err \<Rightarrow> (Inl (AuthError err), s)
      | None \<Rightarrow>
     (case PolicyQuerier (enforcer g) of
        None \<Rightarrow> (Inr \<lparr>Policies = []\<rparr>, s)
      | Some ListPoliciesFor \<Rightarrow>
     (case ListPoliciesFor (world env) agent of
        Inl err \<Rightarrow> (Inl (ListPoliciesError err), s)
      | Inr policies \<Rightarrow> (Inr \<lparr>Policies = map policy_info policies\<rparr>, s))))"

section \<open>The tools of the server (registerTools)\<close>

datatype tool_call = GetTask getTaskIn | CompleteTask completeTaskIn | FailTask failTaskIn
  | Heartbeat heartbeatIn | SendMessage sendMessageIn | ReceiveMessage receiveMessageIn
  | GetMyLimits getMyLimitsIn | GetMyPolicies getMyPoliciesIn

datatype tool_out = OutGetTask getTaskOut | OutCompleteTask completeTaskOut
  | OutFailTask failTaskOut | OutHeartbeat heartbeatOut | OutSendMessage sendMessageOut
  | OutReceiveMessage receiveMessageOut | OutGetMyLimits getMyLimitsOut
  | OutGetMyPolicies getMyPoliciesOut

fun out :: "('o \<Rightarrow> tool_out) \<Rightarrow> (gw_error + 'o) \<times> 'st \<Rightarrow> (gw_error + tool_out) \<times> 'st" where
  "out wrap (Inl e, s) = (Inl e, s)"
| "out wrap (Inr r, s) = (Inr (wrap r), s)"

fun tool_name :: "tool_call \<Rightarrow> string" where
  "tool_name (GetTask _) = ''get_task''"
| "tool_name (CompleteTask _) = ''complete_task''"
| "tool_name (FailTask _) = ''fail_task''"
| "tool_name (Heartbeat _) = ''heartbeat''"
| "tool_name (SendMessage _) = ''send_message''"
| "tool_name (ReceiveMessage _) = ''receive_message''"
| "tool_name (GetMyLimits _) = ''get_my_limits''"
| "tool_name (GetMyPolicies _) = ''get_my_policies''"

fun call_tool :: "('w, 'lim, 'log, 'net, 'ch) Gateway \<Rightarrow> ('w, 'a, 'j, 'c, 's) call_env
    \<Rightarrow> tool_call \<Rightarrow> ('lim, 'log, 'net) gw_state
    \<Rightarrow> (gw_error + tool_out) \<times> ('lim, 'log, 'net) gw_state" where
  "call_tool g env (GetTask i) s = out OutGetTask (handleGetTask g env i s)"
| "call_tool g env (CompleteTask i) s = out OutCompleteTask (handleCompleteTask g env i s)"
| "call_tool g env (FailTask i) s = out OutFailTask (handleFailTask g env i s)"
| "call_tool g env (Heartbeat i) s = out OutHeartbeat (handleHeartbeat g env i s)"
| "call_tool g env (SendMessage i) s = out OutSendMessage (handleSendMessage g env i s)"
| "call_tool g env (ReceiveMessage i) s = out OutReceiveMessage (handleReceiveMessage g env i s)"
| "call_tool g env (GetMyLimits i) s = out OutGetMyLimits (handleGetMyLimits g env i s)"
| "call_tool g env (GetMyPolicies i) s = out OutGetMyPolicies (handleGetMyPolicies g env i s)"

text \<open>The agent and the key as the call gives them.\<close>

fun given :: "tool_call \<Rightarrow> string \<times> string" where
  "given (GetTask i) = (gt_Agent i, gt_APIKey i)"
| "given (CompleteTask i) = (ct_Agent i, ct_APIKey i)"
| "given (FailTask i) = (ft_Agent i, ft_APIKey i)"
| "given (Heartbeat i) = (hb_Agent i, hb_APIKey i)"
| "given (SendMessage i) = (sm_Agent i, sm_APIKey i)"
| "given (ReceiveMessage i) = (rm_Agent i, rm_APIKey i)"
| "given (GetMyLimits i) = (gl_Agent i, gl_APIKey i)"
| "given (GetMyPolicies i) = (gp_Agent i, gp_APIKey i)"

text \<open>The agent, the key and the policy target of a call, after the defaults.\<close>

fun caller :: "Config \<Rightarrow> tool_call \<Rightarrow> string \<times> string" where
  "caller c (GetTask i) = applyDefaults c (gt_Agent i) (gt_APIKey i)"
| "caller c (CompleteTask i) = applyDefaults c (ct_Agent i) (ct_APIKey i)"
| "caller c (FailTask i) = applyDefaults c (ft_Agent i) (ft_APIKey i)"
| "caller c (Heartbeat i) = applyDefaults c (hb_Agent i) (hb_APIKey i)"
| "caller c (SendMessage i) = applyDefaults c (sm_Agent i) (sm_APIKey i)"
| "caller c (ReceiveMessage i) = applyDefaults c (rm_Agent i) (rm_APIKey i)"
| "caller c (GetMyLimits i) = applyDefaults c (gl_Agent i) (gl_APIKey i)"
| "caller c (GetMyPolicies i) = applyDefaults c (gp_Agent i) (gp_APIKey i)"

fun policy_target :: "tool_call \<Rightarrow> string option" where
  "policy_target (GetTask i) = Some PolicyTargetOrchestrator"
| "policy_target (CompleteTask i) = Some PolicyTargetOrchestrator"
| "policy_target (FailTask i) = Some PolicyTargetOrchestrator"
| "policy_target (Heartbeat i) = None"
| "policy_target (SendMessage i) = Some (sm_To i)"
| "policy_target (ReceiveMessage i) = Some PolicyTargetOrchestrator"
| "policy_target (GetMyLimits i) = None"
| "policy_target (GetMyPolicies i) = None"

end
