(* ===== verification/ToolFacts.thy ===== *)
theory ToolFacts
  imports Tools
begin

text \<open>
  What the handlers guarantee: the gate every call passes, the path of each handler on success,
  its effect on the pending map as token operations, and the effect on the log.
\<close>

section \<open>The gate\<close>

text \<open>\<open>admitted\<close>: the checks that stand before any effect of the call.\<close>

definition admitted :: "('w, 'lim, 'log, 'net, 'ch) Gateway \<Rightarrow> ('w, 'a, 'j, 'c, 's) call_env
    \<Rightarrow> tool_call \<Rightarrow> bool" where
  "admitted g env call \<longleftrightarrow>
     (let (agent, apiKey) = caller (cfg g) call
      in (case call of
            Heartbeat i \<Rightarrow> agent \<noteq> '''' \<longrightarrow> authenticateAgent (auth g) (world env) agent apiKey = None
          | _ \<Rightarrow> IsValidAgentID agent \<and> authenticateAgent (auth g) (world env) agent apiKey = None) \<and>
         (case call of
            Heartbeat i \<Rightarrow> auth g \<noteq> None \<longrightarrow> agent \<noteq> ''''
          | SendMessage i \<Rightarrow> IsValidAgentID (sm_To i) | _ \<Rightarrow> True) \<and>
         (case policy_target call of
            None \<Rightarrow> True
          | Some target \<Rightarrow> Allowed (enforcer g) (world env) agent target = Inr True))"

lemmas handlers = handleGetTask_def handleCompleteTask_def handleFailTask_def handleHeartbeat_def
  handleSendMessage_def handleReceiveMessage_def handleGetMyLimits_def handleGetMyPolicies_def

lemma out_split [guards]:
  "out w p = (Inl e, s') \<longleftrightarrow> p = (Inl e, s')" "out w p = (Inr x, s') \<longleftrightarrow> (\<exists>y. p = (Inr y, s') \<and> x = w y)"
  by (cases p; cases "fst p"; auto)+

lemma snd_out [simp]: "snd (out w p) = snd p"
  by (cases p; cases "fst p") auto

text \<open>A call that is not admitted fails and has no effect at all.\<close>

lemma Allowed_cases: "r = Inr True \<or> r = Inr False \<or> (\<exists>e. r = Inl e)" for r :: "policy_error + bool"
  by (cases r) auto

lemma refused:
  assumes "\<not> admitted g env call"
  shows "\<exists>e. call_tool g env call s = (Inl e, s)"
proof -
  obtain agent apiKey where c: "caller (cfg g) call = (agent, apiKey)" by fastforce
  show ?thesis
  proof (cases call)
    case (GetTask i)
    then show ?thesis using assms c Allowed_cases [of "Allowed (enforcer g) (world env) agent PolicyTargetOrchestrator"]
      by (cases "authenticateAgent (auth g) (world env) agent apiKey")
        (auto simp: admitted_def handleGetTask_def)
  next
    case (CompleteTask i)
    then show ?thesis using assms c Allowed_cases [of "Allowed (enforcer g) (world env) agent PolicyTargetOrchestrator"]
      by (cases "authenticateAgent (auth g) (world env) agent apiKey")
        (auto simp: admitted_def handleCompleteTask_def)
  next
    case (FailTask i)
    then show ?thesis using assms c Allowed_cases [of "Allowed (enforcer g) (world env) agent PolicyTargetOrchestrator"]
      by (cases "authenticateAgent (auth g) (world env) agent apiKey")
        (auto simp: admitted_def handleFailTask_def)
  next
    case (Heartbeat i)
    then show ?thesis using assms c
      by (cases "authenticateAgent (auth g) (world env) agent apiKey")
        (auto simp: admitted_def handleHeartbeat_def)
  next
    case (SendMessage i)
    then show ?thesis using assms c Allowed_cases [of "Allowed (enforcer g) (world env) agent (sm_To i)"]
      by (cases "authenticateAgent (auth g) (world env) agent apiKey")
        (auto simp: admitted_def handleSendMessage_def)
  next
    case (ReceiveMessage i)
    then show ?thesis using assms c Allowed_cases [of "Allowed (enforcer g) (world env) agent PolicyTargetOrchestrator"]
      by (cases "authenticateAgent (auth g) (world env) agent apiKey")
        (auto simp: admitted_def handleReceiveMessage_def)
  next
    case (GetMyLimits i)
    then show ?thesis using assms c
      by (cases "authenticateAgent (auth g) (world env) agent apiKey")
        (auto simp: admitted_def handleGetMyLimits_def)
  next
    case (GetMyPolicies i)
    then show ?thesis using assms c
      by (cases "authenticateAgent (auth g) (world env) agent apiKey")
        (auto simp: admitted_def handleGetMyPolicies_def)
  qed
qed

context access_control
begin

text \<open>A gateway wired to these implementations serves only callers they vouch for.\<close>

lemma served_only_if_vouched:
  assumes "auth g = Some authenticate" and "enforcer g = enf"
    and "caller (cfg g) call = (agent, apiKey)"
    and "call_tool g env call s = (r, s')" and "s' \<noteq> s \<or> (\<exists>x. r = Inr x)"
  shows "bound (world env) apiKey agent \<and>
    (\<forall>target. policy_target call = Some target \<longrightarrow> permits (world env) agent target)"
proof -
  have a: "admitted g env call" using refused [of g env call s] assms(4,5) by force
  have auth: "authenticateAgent (Some authenticate) (world env) agent apiKey = None"
    using a assms(1,3) by (cases call) (auto simp: admitted_def)
  then show ?thesis
    using a assms(2,3) by (auto simp: admitted_def authenticated_iff allowed_iff split: option.splits)
qed

end

section \<open>The documents the gateway builds\<close>

definition task_report :: "MessageType \<Rightarrow> string \<Rightarrow> string \<Rightarrow> string \<Rightarrow> string \<Rightarrow> string \<Rightarrow> string
    \<Rightarrow> Builder" where
  "task_report mt step uid gatewayID agent taskID body =
     set_Body body (set_InReplyTo taskID (set_Field ''step'' (YString step) (set_ExecID taskID
       (set_To [agent] (set_From gatewayID (set_ID uid (NewBuilder mt)))))))"

definition message_builder :: "string \<Rightarrow> string \<Rightarrow> string \<Rightarrow> string \<Rightarrow> Builder" where
  "message_builder uid sender recipient body =
     set_Body body (set_To [recipient] (set_From sender (set_ID uid (NewBuilder AgentMessage))))"

lemma task_report_doc [simp]:
  "fieldErr (task_report mt st uid gid a t b) = None"
  "Type (assemble cr (task_report mt st uid gid a t b)) = mt"
  "ID (assemble cr (task_report mt st uid gid a t b)) = uid"
  "From (assemble cr (task_report mt st uid gid a t b)) = gid"
  "To (assemble cr (task_report mt st uid gid a t b)) = [a]"
  "ExecID (assemble cr (task_report mt st uid gid a t b)) = t"
  "InReplyTo (assemble cr (task_report mt st uid gid a t b)) = t"
  "ThreadID (assemble cr (task_report mt st uid gid a t b)) = ''''"
  "Body (assemble cr (task_report mt st uid gid a t b)) = b"
  "Version (assemble cr (task_report mt st uid gid a t b)) = ProtocolVersion"
  "fmlookup (Extra (assemble cr (task_report mt st uid gid a t b))) ''step'' = Some (YString st)"
  by (simp_all add: task_report_def assemble_def setters envelopeKeys_def)

lemma message_doc [simp]:
  "fieldErr (message_builder uid f t b) = None"
  "Type (assemble cr (message_builder uid f t b)) = AgentMessage"
  "ID (assemble cr (message_builder uid f t b)) = uid"
  "From (assemble cr (message_builder uid f t b)) = f"
  "To (assemble cr (message_builder uid f t b)) = [t]"
  "ThreadID (assemble cr (message_builder uid f t b)) = ''''"
  "Body (assemble cr (message_builder uid f t b)) = b"
  "Version (assemble cr (message_builder uid f t b)) = ProtocolVersion"
  by (simp_all add: message_builder_def assemble_def setters)

lemma Build_task_report:
  assumes "fmlookup (schemas v) mt = None" and "mt \<in> set task_types"
    and "uid \<noteq> ''''" "gid \<noteq> ''''" "t \<noteq> ''''" "st \<noteq> ''''"
  shows "Build lib (Inr v) cr (task_report mt st uid gid a t b) =
    Inr (assemble cr (task_report mt st uid gid a t b))"
proof (rule Build_plain)
  have m: "msgType (task_report mt st uid gid a t b) = mt" by (simp add: task_report_def setters envelopeKeys_def)
  show "fmlookup (schemas v) (msgType (task_report mt st uid gid a t b)) = None"
    unfolding m by (rule assms(1))
  show "msgType (task_report mt st uid gid a t b) \<notin> set evolution_types"
    unfolding m using assms(2) by (auto simp: groups wire)
  have "mt \<noteq> ''''" using assms(2) by (auto simp: groups wire)
  then show "ValidateStructural (Some (assemble cr (task_report mt st uid gid a t b))) = []"
    using assms unfolding ValidateStructural_ok
    by (simp add: docHasField_def) (simp add: ProtocolVersion_def)
qed simp

lemma Build_message:
  assumes "fmlookup (schemas v) AgentMessage = None" and "uid \<noteq> ''''" "f \<noteq> ''''"
  shows "Build lib (Inr v) cr (message_builder uid f t b) =
    Inr (assemble cr (message_builder uid f t b))"
proof (rule Build_plain)
  have m: "msgType (message_builder uid f t b) = AgentMessage" by (simp add: message_builder_def setters)
  show "fmlookup (schemas v) (msgType (message_builder uid f t b)) = None"
    unfolding m by (rule assms(1))
  show "msgType (message_builder uid f t b) \<notin> set evolution_types"
    unfolding m by (auto simp: groups wire)
  show "ValidateStructural (Some (assemble cr (message_builder uid f t b))) = []"
    using assms unfolding ValidateStructural_ok
    by (simp add: docHasField_def) (simp add: ProtocolVersion_def AgentMessage_def)
qed simp

section \<open>The handlers on success\<close>

text \<open>The entries the handlers log.\<close>

definition report_entry :: "string \<Rightarrow> string \<Rightarrow> string \<Rightarrow> MessageType \<Rightarrow> string \<Rightarrow> string \<Rightarrow> MessageLogEntry"
where
  "report_entry uid agent recipient mt tool body =
     \<lparr>EnvelopeID = uid, LE_ThreadID = '''', FromAgent = agent, ToAgent = recipient, MsgType = mt,
      LE_Direction = ''send'', ToolName = tool, BodySize = int (length body), LE_Body = body\<rparr>"

definition receipt_entry :: "Document \<Rightarrow> string \<Rightarrow> string \<Rightarrow> MessageLogEntry" where
  "receipt_entry doc agent tool =
     \<lparr>EnvelopeID = ID doc, LE_ThreadID = ThreadID doc, FromAgent = From doc, ToAgent = agent,
      MsgType = Type doc, LE_Direction = ''receive'', ToolName = tool,
      BodySize = int (length (Body doc)), LE_Body = Body doc\<rparr>"

lemma complete_success:
  assumes "handleCompleteTask g env i s = (Inr r, s')"
    and "applyDefaults (cfg g) (ct_Agent i) (ct_APIKey i) = (agent, apiKey)"
  obtains tp mid lim1 lim2 maxLen net1 net2 doc where
    "Load (ct_TaskID i) (pending s) = Some (tp, mid)"
    "int (length (Result i)) \<le> MaxDocumentBytes"
    "CheckSend (limiter g) (world env) (clk1 env) agent (int (length (Result i))) (lim s) = (None, lim1)"
    "doc = assemble (created env) (task_report TaskResult ''result'' (uuid env) (AgentID (cfg g)) agent
       (ct_TaskID i) (Result i))"
    "Build (doclib env) (docValidator env) (created env) (task_report TaskResult ''result'' (uuid env)
       (AgentID (cfg g)) agent (ct_TaskID i) (Result i)) = Inr doc"
    "GetStreamMaxLen (limiter g) (world env) (clk2 env) agent lim1 = (maxLen, lim2)"
    "Publish (trans g) ''agent.events.completed'' doc [\<lparr>MaxLen = maxLen\<rparr>] (net s) = (None, net1)"
    "Ack (trans g) tp mid net1 = (None, net2)"
    "s' = s\<lparr>pending := fmdrop (ct_TaskID i) (pending s), lim := RecordSend (limiter g) agent lim2,
            logs := Log (logger g) (report_entry (uuid env) agent PolicyTargetOrchestrator TaskResult
                      ''complete_task'' (Result i)) (logs s), net := net2\<rparr>"
proof -
  define b where "b = task_report TaskResult ''result'' (uuid env) (AgentID (cfg g)) agent
    (ct_TaskID i) (Result i)"
  define tok where "tok = LoadAndDelete (ct_TaskID i) (pending s)"
  have pend: "snd tok = fmdrop (ct_TaskID i) (pending s)" and ld: "fst tok = Load (ct_TaskID i) (pending s)"
    by (simp_all add: tok_def LoadAndDelete_fst LoadAndDelete_snd)
  obtain mid lim1 lim2 maxLen net1 net2 tp doc where
    "fst tok = Some (tp, mid)" "int (length (Result i)) \<le> MaxDocumentBytes"
    "CheckSend (limiter g) (world env) (clk1 env) agent (int (length (Result i))) (lim s) = (None, lim1)"
    "Build (doclib env) (docValidator env) (created env) b = Inr doc"
    "GetStreamMaxLen (limiter g) (world env) (clk2 env) agent lim1 = (maxLen, lim2)"
    "Publish (trans g) ''agent.events.completed'' doc [\<lparr>MaxLen = maxLen\<rparr>] (net s) = (None, net1)"
    "Ack (trans g) tp mid net1 = (None, net2)"
    "s' = s\<lparr>pending := snd tok, lim := RecordSend (limiter g) agent lim2,
            logs := Log (logger g) \<lparr>EnvelopeID = ID doc, LE_ThreadID = ThreadID doc, FromAgent = agent,
                  ToAgent = PolicyTargetOrchestrator, MsgType = TaskResult,
                  LE_Direction = ''send'', ToolName = ''complete_task'',
                  BodySize = int (length (Result i)), LE_Body = Result i\<rparr> (logs s), net := net2\<rparr>"
    using assms(1) unfolding handleCompleteTask_def assms(2) tok_def b_def task_report_def
    by (auto simp: Let_def split: if_splits option.splits sum.splits prod.splits)
  moreover from this have "doc = assemble (created env) b" by (simp add: Build_Inr)
  ultimately show thesis using that[of tp mid lim1 doc maxLen lim2 net1 net2] pend ld
    by (simp add: b_def report_entry_def)
qed

lemma fail_success:
  assumes "handleFailTask g env i s = (Inr r, s')"
    and "applyDefaults (cfg g) (ft_Agent i) (ft_APIKey i) = (agent, apiKey)"
  obtains tp mid lim1 lim2 maxLen net1 net2 doc where
    "Load (ft_TaskID i) (pending s) = Some (tp, mid)"
    "int (length (ErrorBody i)) \<le> MaxDocumentBytes"
    "CheckSend (limiter g) (world env) (clk1 env) agent (int (length (ErrorBody i))) (lim s) = (None, lim1)"
    "doc = assemble (created env) (task_report TaskFail ''fail'' (uuid env) (AgentID (cfg g)) agent
       (ft_TaskID i) (ErrorBody i))"
    "Build (doclib env) (docValidator env) (created env) (task_report TaskFail ''fail'' (uuid env)
       (AgentID (cfg g)) agent (ft_TaskID i) (ErrorBody i)) = Inr doc"
    "GetStreamMaxLen (limiter g) (world env) (clk2 env) agent lim1 = (maxLen, lim2)"
    "Publish (trans g) ''agent.events.failed'' doc [\<lparr>MaxLen = maxLen\<rparr>] (net s) = (None, net1)"
    "Ack (trans g) tp mid net1 = (None, net2)"
    "s' = s\<lparr>pending := fmdrop (ft_TaskID i) (pending s), lim := RecordSend (limiter g) agent lim2,
            logs := Log (logger g) (report_entry (uuid env) agent PolicyTargetOrchestrator TaskFail
                      ''fail_task'' (ErrorBody i)) (logs s), net := net2\<rparr>"
proof -
  define b where "b = task_report TaskFail ''fail'' (uuid env) (AgentID (cfg g)) agent
    (ft_TaskID i) (ErrorBody i)"
  define tok where "tok = LoadAndDelete (ft_TaskID i) (pending s)"
  have pend: "snd tok = fmdrop (ft_TaskID i) (pending s)" and ld: "fst tok = Load (ft_TaskID i) (pending s)"
    by (simp_all add: tok_def LoadAndDelete_fst LoadAndDelete_snd)
  obtain mid lim1 lim2 maxLen net1 net2 tp doc where
    "fst tok = Some (tp, mid)" "int (length (ErrorBody i)) \<le> MaxDocumentBytes"
    "CheckSend (limiter g) (world env) (clk1 env) agent (int (length (ErrorBody i))) (lim s) = (None, lim1)"
    "Build (doclib env) (docValidator env) (created env) b = Inr doc"
    "GetStreamMaxLen (limiter g) (world env) (clk2 env) agent lim1 = (maxLen, lim2)"
    "Publish (trans g) ''agent.events.failed'' doc [\<lparr>MaxLen = maxLen\<rparr>] (net s) = (None, net1)"
    "Ack (trans g) tp mid net1 = (None, net2)"
    "s' = s\<lparr>pending := snd tok, lim := RecordSend (limiter g) agent lim2,
            logs := Log (logger g) \<lparr>EnvelopeID = ID doc, LE_ThreadID = ThreadID doc, FromAgent = agent,
                  ToAgent = PolicyTargetOrchestrator, MsgType = TaskFail,
                  LE_Direction = ''send'', ToolName = ''fail_task'',
                  BodySize = int (length (ErrorBody i)), LE_Body = ErrorBody i\<rparr> (logs s), net := net2\<rparr>"
    using assms(1) unfolding handleFailTask_def assms(2) tok_def b_def task_report_def
    by (auto simp: Let_def split: if_splits option.splits sum.splits prod.splits)
  moreover from this have "doc = assemble (created env) b" by (simp add: Build_Inr)
  ultimately show thesis using that[of tp mid lim1 doc maxLen lim2 net1 net2] pend ld
    by (simp add: b_def report_entry_def)
qed

lemma send_success:
  assumes "handleSendMessage g env i s = (Inr r, s')"
    and "applyDefaults (cfg g) (sm_Agent i) (sm_APIKey i) = (agent, apiKey)"
  obtains lim1 lim2 maxLen net1 doc where
    "IsValidAgentID agent" "IsValidAgentID (sm_To i)"
    "int (length (sm_Body i)) \<le> MaxDocumentBytes"
    "CheckSend (limiter g) (world env) (clk1 env) agent (int (length (sm_Body i))) (lim s) = (None, lim1)"
    "doc = assemble (created env) (message_builder (uuid env) agent (sm_To i) (sm_Body i))"
    "Build (doclib env) (docValidator env) (created env)
       (message_builder (uuid env) agent (sm_To i) (sm_Body i)) = Inr doc"
    "GetStreamMaxLen (limiter g) (world env) (clk2 env) (sm_To i) lim1 = (maxLen, lim2)"
    "Publish (trans g) (''agent.messages.'' @ sm_To i) doc [\<lparr>MaxLen = maxLen\<rparr>] (net s) = (None, net1)"
    "s' = s\<lparr>lim := RecordSend (limiter g) agent lim2,
            logs := Log (logger g) (report_entry (uuid env) agent (sm_To i) AgentMessage
                      ''send_message'' (sm_Body i)) (logs s), net := net1\<rparr>"
proof -
  define b where "b = message_builder (uuid env) agent (sm_To i) (sm_Body i)"
  obtain lim1 lim2 maxLen net1 doc where
    "IsValidAgentID agent" "IsValidAgentID (sm_To i)" "int (length (sm_Body i)) \<le> MaxDocumentBytes"
    "CheckSend (limiter g) (world env) (clk1 env) agent (int (length (sm_Body i))) (lim s) = (None, lim1)"
    "Build (doclib env) (docValidator env) (created env) b = Inr doc"
    "GetStreamMaxLen (limiter g) (world env) (clk2 env) (sm_To i) lim1 = (maxLen, lim2)"
    "Publish (trans g) (''agent.messages.'' @ sm_To i) doc [\<lparr>MaxLen = maxLen\<rparr>] (net s) = (None, net1)"
    "s' = s\<lparr>lim := RecordSend (limiter g) agent lim2,
            logs := Log (logger g) \<lparr>EnvelopeID = ID doc, LE_ThreadID = ThreadID doc, FromAgent = agent,
                  ToAgent = sm_To i, MsgType = AgentMessage, LE_Direction = ''send'',
                  ToolName = ''send_message'', BodySize = int (length (sm_Body i)),
                  LE_Body = sm_Body i\<rparr> (logs s), net := net1\<rparr>"
    using assms(1) unfolding handleSendMessage_def assms(2) b_def message_builder_def
    by (auto simp: Let_def split: if_splits option.splits sum.splits prod.splits)
  moreover from this have "doc = assemble (created env) b" by (simp add: Build_Inr)
  ultimately show thesis using that[of lim1 doc maxLen lim2 net1]
    by (simp add: b_def report_entry_def)
qed

lemma receive_success:
  assumes "handleReceiveMessage g env i s = (Inr r, s')"
    and "applyDefaults (cfg g) (rm_Agent i) (rm_APIKey i) = (agent, apiKey)"
  obtains
    (nothing) "r = no_message" "logs s' = logs s"
  | (message) ch n1 d n2 n3 where
    "Subscribe (trans g) (''agent.messages.'' @ agent) (net s) = (Inr ch, n1)"
    "Receive (trans g) ch n1 = (Delivered d, n2)"
    "Ack (trans g) (''agent.messages.'' @ agent) (MsgID d) n2 = (None, n3)"
    "int (length (Body (Doc d))) \<le> MaxDocumentBytes"
    "r = \<lparr>MsgFrom = From (Doc d), MsgBody = Body (Doc d)\<rparr>"
    "s' = s\<lparr>logs := Log (logger g) (receipt_entry (Doc d) agent ''receive_message'') (logs s), net := n3\<rparr>"
  using assms(1) unfolding handleReceiveMessage_def assms(2) receipt_entry_def
  by (auto simp: Let_def split: if_splits option.splits sum.splits prod.splits received.splits)

lemma get_success:
  assumes "handleGetTask g env i s = (Inr r, s')"
    and "applyDefaults (cfg g) (gt_Agent i) (gt_APIKey i) = (agent, apiKey)"
  obtains
    (nothing) "r = no_task" "logs s' = logs s" "pending s' = pending s"
  | (task) lim1 ch n1 d n2 where
    "CheckPendingTasks (limiter g) (world env) (clk1 env) agent
       (int (CountByAgent agent (pending s))) (lim s) = (None, lim1)"
    "Subscribe (trans g) (''agent.tasks.'' @ agent) (net s) = (Inr ch, n1)"
    "Receive (trans g) ch n1 = (Delivered d, n2)"
    "r = \<lparr>TaskID = MsgID d, TaskBody = Body (Doc d)\<rparr>"
    "s' = s\<lparr>pending := Store (now env) (MsgID d) (''agent.tasks.'' @ agent) (MsgID d) (pending s), lim := lim1,
            logs := Log (logger g) (receipt_entry (Doc d) agent ''get_task'') (logs s), net := n2\<rparr>"
  using assms(1) unfolding handleGetTask_def assms(2) receipt_entry_def
  by (auto simp: Let_def split: if_splits option.splits sum.splits prod.splits received.splits)

section \<open>The log\<close>

text \<open>A failed call logs nothing.\<close>

lemma failure_not_logged:
  assumes "call_tool g env call s = (Inl e, s')"
  shows "logs s' = logs s"
  using assms
  by (cases call) (auto simp: guards handlers Let_def
      split: if_splits option.splits sum.splits prod.splits received.splits)

section \<open>The pending map as a token store\<close>

text \<open>Redis gives every entry a non-empty id.\<close>

definition gives_ids :: "('net, 'ch) Transport \<Rightarrow> bool" where
  "gives_ids t \<longleftrightarrow> (\<forall>ch n d n'. Receive t ch n = (Delivered d, n') \<longrightarrow> MsgID d \<noteq> '''')"

text \<open>A completion or failure report reaches the pending map unless a check stops it before.\<close>

fun reaches_map :: "gw_error + tool_out \<Rightarrow> bool" where
  "reaches_map (Inr x) = True"
| "reaches_map (Inl (UnknownTaskID t)) = True"
| "reaches_map (Inl (BuildDoc e)) = True"
| "reaches_map (Inl (PublishError e)) = True"
| "reaches_map (Inl (AckError e)) = True"
| "reaches_map (Inl e) = False"

text \<open>The operations one call performs on the map, read off its result.\<close>

fun token_ops :: "time \<Rightarrow> string \<Rightarrow> tool_call \<Rightarrow> gw_error + tool_out
    \<Rightarrow> (string, time \<times> string \<times> string) token_op list" where
  "token_ops t agent (GetTask i) (Inr (OutGetTask r)) =
     (if TaskID r = '''' then []
      else [Put (TaskID r) (t, ''agent.tasks.'' @ agent, TaskID r)])"
| "token_ops t agent (CompleteTask i) r = (if reaches_map r then [Take (ct_TaskID i)] else [])"
| "token_ops t agent (FailTask i) r = (if reaches_map r then [Take (ft_TaskID i)] else [])"
| "token_ops t agent _ _ = []"

abbreviation run_pending :: "(string, time \<times> string \<times> string) token_op list \<Rightarrow> PendingMap
    \<Rightarrow> string list \<times> PendingMap" where
  "run_pending \<equiv> run_tokens (\<lambda>taskID (t, tp, mid). Store t taskID tp mid) LoadAndDelete"

lemma run_Take: "run_pending [Take k] pm = (case Load k pm of None \<Rightarrow> [] | Some v \<Rightarrow> [k], fmdrop k pm)"
  using LoadAndDelete_fst [of k pm] LoadAndDelete_snd [of k pm]
  by (cases "LoadAndDelete k pm") (auto split: option.splits)

lemma complete_pending:
  assumes "handleCompleteTask g env i s = (r, s')"
  shows "pending s' = (if reaches_map (map_sum id OutCompleteTask r)
    then fmdrop (ct_TaskID i) (pending s) else pending s)"
  using assms LoadAndDelete_snd [of "ct_TaskID i" "pending s"] unfolding handleCompleteTask_def
  by (auto simp: Let_def split: if_splits option.splits sum.splits prod.splits)

lemma fail_pending:
  assumes "handleFailTask g env i s = (r, s')"
  shows "pending s' = (if reaches_map (map_sum id OutFailTask r)
    then fmdrop (ft_TaskID i) (pending s) else pending s)"
  using assms LoadAndDelete_snd [of "ft_TaskID i" "pending s"] unfolding handleFailTask_def
  by (auto simp: Let_def split: if_splits option.splits sum.splits prod.splits)

lemma get_failed_pending:
  assumes "handleGetTask g env i s = (Inl e, s')"
  shows "pending s' = pending s"
  using assms unfolding handleGetTask_def
  by (auto simp: Let_def split: if_splits option.splits sum.splits prod.splits received.splits)

lemma others_pending:
  assumes "call_tool g env call s = (r, s')"
    and "\<forall>i. call \<noteq> GetTask i" and "\<forall>i. call \<noteq> CompleteTask i" and "\<forall>i. call \<noteq> FailTask i"
  shows "pending s' = pending s"
  using assms by (cases call; cases r)
    (auto simp: guards handleHeartbeat_def handleSendMessage_def handleReceiveMessage_def
      handleGetMyLimits_def handleGetMyPolicies_def Let_def
      split: if_splits option.splits sum.splits prod.splits received.splits)

lemma out_sum: "out w p = (map_sum id w (fst p), snd p)"
  by (cases p; cases "fst p") auto

lemma token_sim:
  assumes ids: "gives_ids (trans g)" and c: "caller (cfg g) call = (agent, apiKey)"
    and r: "call_tool g env call s = (r, s')"
  shows "pending s' = snd (run_pending (token_ops (now env) agent call r) (pending s))"
proof (cases call)
  case (GetTask i)
  show ?thesis
  proof (cases r)
    case (Inl e)
    then have "handleGetTask g env i s = (Inl e, s')" using r GetTask by (simp add: guards)
    then show ?thesis using get_failed_pending GetTask Inl by fastforce
  next
    case (Inr x)
    then obtain y where y: "handleGetTask g env i s = (Inr y, s')" "x = OutGetTask y"
      using r GetTask by (auto simp: guards)
    have d: "applyDefaults (cfg g) (gt_Agent i) (gt_APIKey i) = (agent, apiKey)"
      using c GetTask by simp
    from y(1) d show ?thesis
    proof (cases rule: get_success)
      case nothing
      then show ?thesis using GetTask Inr y by (simp add: no_task_def)
    next
      case (task lim1 ch n1 d n2)
      then have "MsgID d \<noteq> ''''" using ids by (auto simp: gives_ids_def)
      then show ?thesis using task GetTask Inr y by simp
    qed
  qed
next
  case (CompleteTask i)
  then have "pending (snd (handleCompleteTask g env i s)) = (if reaches_map r
      then fmdrop (ct_TaskID i) (pending s) else pending s)"
    using complete_pending [of g env i s] r by (auto simp: out_sum prod_eq_iff)
  then show ?thesis using r CompleteTask by (auto simp: out_sum run_Take simp del: run_tokens.simps(3))
next
  case (FailTask i)
  then have "pending (snd (handleFailTask g env i s)) = (if reaches_map r
      then fmdrop (ft_TaskID i) (pending s) else pending s)"
    using fail_pending [of g env i s] r by (auto simp: out_sum prod_eq_iff)
  then show ?thesis using r FailTask by (auto simp: out_sum run_Take simp del: run_tokens.simps(3))
qed (use others_pending [OF r] in simp_all)

section \<open>Sequences of calls\<close>

fun run_calls :: "('w, 'lim, 'log, 'net, 'ch) Gateway \<Rightarrow> (('w, 'a, 'j, 'c, 's) call_env \<times> tool_call) list
    \<Rightarrow> ('lim, 'log, 'net) gw_state \<Rightarrow> (gw_error + tool_out) list \<times> ('lim, 'log, 'net) gw_state" where
  "run_calls g [] s = ([], s)"
| "run_calls g ((env, call) # rest) s =
     (let (r, s1) = call_tool g env call s; (rs, s2) = run_calls g rest s1 in (r # rs, s2))"

text \<open>The reports on a task that succeeded, and the deliveries of it by \<open>get_task\<close>.\<close>

fun reported :: "string \<Rightarrow> tool_call \<Rightarrow> gw_error + tool_out \<Rightarrow> bool" where
  "reported k (CompleteTask i) (Inr x) = (ct_TaskID i = k)"
| "reported k (FailTask i) (Inr x) = (ft_TaskID i = k)"
| "reported k _ _ = False"

fun delivered :: "string \<Rightarrow> gw_error + tool_out \<Rightarrow> bool" where
  "delivered k (Inr (OutGetTask r)) = (TaskID r = k)"
| "delivered k _ = False"

definition reports_of :: "string \<Rightarrow> (('w, 'a, 'j, 'c, 's) call_env \<times> tool_call) list
    \<Rightarrow> (gw_error + tool_out) list \<Rightarrow> nat" where
  "reports_of k calls rs = length (filter (\<lambda>(c, r). reported k (snd c) r) (zip calls rs))"

definition deliveries_of :: "string \<Rightarrow> (gw_error + tool_out) list \<Rightarrow> nat" where
  "deliveries_of k rs = length (filter (delivered k) rs)"

fun ops_of :: "Config \<Rightarrow> (('w, 'a, 'j, 'c, 's) call_env \<times> tool_call) list \<Rightarrow> (gw_error + tool_out) list
    \<Rightarrow> (string, time \<times> string \<times> string) token_op list" where
  "ops_of cf ((env, call) # calls) (r # rs) =
     token_ops (now env) (fst (caller cf call)) call r @ ops_of cf calls rs"
| "ops_of cf _ _ = []"

lemma run_tokens_append:
  "run_tokens p q (xs @ ys) m =
     (let (ks, m') = run_tokens p q xs m; (ks', m'') = run_tokens p q ys m' in (ks @ ks', m''))"
proof (induction xs arbitrary: m)
  case Nil
  then show ?case by simp
next
  case (Cons x xs)
  then show ?case by (cases x) (auto simp: Let_def split: prod.split option.split)
qed

lemma puts_of_append: "puts_of k (xs @ ys) = puts_of k xs + puts_of k ys"
  by (induction xs rule: puts_of.induct[of _ k]) auto

lemma deliver_puts:
  assumes "k \<noteq> ''''" shows "puts_of k (token_ops t a call r) \<le> (if delivered k r then 1 else 0)"
  using assms by (cases "(t, a, call, r)" rule: token_ops.cases) auto

lemma report_take:
  assumes "call_tool g env call s = (r, s')" and "reported k call r"
  shows "Load k (pending s) \<noteq> None \<and> token_ops t a call r = [Take k]"
proof (cases call)
  case (CompleteTask i)
  then obtain x where x: "r = Inr x" "ct_TaskID i = k" using assms(2) by (cases r) auto
  then obtain y where "handleCompleteTask g env i s = (Inr y, s')"
    using assms(1) CompleteTask by (auto simp: guards)
  moreover obtain agent apiKey where "applyDefaults (cfg g) (ct_Agent i) (ct_APIKey i) = (agent, apiKey)"
    by fastforce
  ultimately show ?thesis using x CompleteTask by (auto elim!: complete_success)
next
  case (FailTask i)
  then obtain x where x: "r = Inr x" "ft_TaskID i = k" using assms(2) by (cases r) auto
  then obtain y where "handleFailTask g env i s = (Inr y, s')"
    using assms(1) FailTask by (auto simp: guards)
  moreover obtain agent apiKey where "applyDefaults (cfg g) (ft_Agent i) (ft_APIKey i) = (agent, apiKey)"
    by fastforce
  ultimately show ?thesis using x FailTask by (auto elim!: fail_success)
qed (use assms in auto)

text \<open>
  The calls refine the token store: the map after them is the one after their operations, and
  each successful report redeemed its token.
\<close>

lemma run_calls_sim:
  assumes "gives_ids (trans g)" and "run_calls g calls s = (rs, s')"
  shows "pending s' = snd (run_pending (ops_of (cfg g) calls rs) (pending s)) \<and>
    reports_of k calls rs \<le> count_list (fst (run_pending (ops_of (cfg g) calls rs) (pending s))) k"
  using assms(2)
proof (induction calls arbitrary: s rs)
  case Nil
  then show ?case by (simp add: reports_of_def)
next
  case (Cons c calls)
  obtain env call where c: "c = (env, call)" by fastforce
  obtain r s1 where r: "call_tool g env call s = (r, s1)" by fastforce
  obtain rs' where rs: "run_calls g calls s1 = (rs', s')" "rs = r # rs'"
    using Cons.prems c r by (auto split: prod.splits)
  obtain agent apiKey where a: "caller (cfg g) call = (agent, apiKey)" by fastforce
  define ops where "ops = token_ops (now env) agent call r"
  have p1: "pending s1 = snd (run_pending ops (pending s))"
    unfolding ops_def by (rule token_sim [OF assms(1) a r])
  have head: "(if reported k call r then 1 else 0) \<le> count_list (fst (run_pending ops (pending s))) k"
  proof (cases "reported k call r")
    case True
    then have "Load k (pending s) \<noteq> None" "ops = [Take k]"
      using report_take [OF r True] by (auto simp: ops_def)
    then show ?thesis by (auto simp: run_Take simp del: run_tokens.simps(3) split: option.splits)
  qed simp
  have n: "reports_of k (c # calls) rs = (if reported k call r then 1 else 0) + reports_of k calls rs'"
    by (simp add: reports_of_def rs(2) c)
  have o: "ops_of (cfg g) (c # calls) rs = ops @ ops_of (cfg g) calls rs'"
    by (simp add: c rs(2) ops_def a)
  obtain ks m where m: "run_pending ops (pending s) = (ks, m)" by fastforce
  show ?case
    using Cons.IH [OF rs(1)] p1 head n unfolding o run_tokens_append m
    by (auto simp: Let_def split: prod.splits)
qed

lemma run_calls_deliveries:
  assumes "k \<noteq> ''''"
  shows "puts_of k (ops_of cf calls rs) \<le> deliveries_of k rs"
proof (induction cf calls rs rule: ops_of.induct)
  case (1 cf env call calls r rs)
  then show ?case using deliver_puts [OF assms, of "now env" "fst (caller cf call)" call r]
    by (auto simp: puts_of_append deliveries_of_def split: if_splits)
qed (simp_all add: deliveries_of_def)

lemma at_most_one_report:
  assumes "gives_ids (trans g)" and "k \<noteq> ''''" and "run_calls g calls s = (rs, s')"
  shows "reports_of k calls rs \<le> deliveries_of k rs + (if Load k (pending s) = None then 0 else 1)"
proof -
  have "count_list (fst (run_pending (ops_of (cfg g) calls rs) (pending s))) k \<le>
      puts_of k (ops_of (cfg g) calls rs) + (if Load k (pending s) = None then 0 else 1)"
    by (rule pending.redeemed_at_most_stored)
  then show ?thesis
    using run_calls_sim [OF assms(1,3), of k] run_calls_deliveries [OF assms(2), of "cfg g" calls rs]
    by linarith
qed

section \<open>Limits at work\<close>

context limit_enforcer
begin

text \<open>Whatever body a successful report or message has, it is within the limits in force.\<close>

lemma complete_within:
  assumes "limiter g = enf" and "handleCompleteTask g env i s = (Inr r, s')"
    and "applyDefaults (cfg g) (ct_Agent i) (ct_APIKey i) = (agent, apiKey)"
    and "0 < I_MaxBodyBytes (in_force (world env) (clk1 env) agent (lim s))"
  shows "int (length (Result i)) \<le> I_MaxBodyBytes (in_force (world env) (clk1 env) agent (lim s))"
proof -
  from assms(2,3) obtain lim1 where
    "CheckSend (limiter g) (world env) (clk1 env) agent (int (length (Result i))) (lim s) = (None, lim1)"
    by (auto elim: complete_success)
  then show ?thesis using body [of "world env" "clk1 env" agent "lim s" "int (length (Result i))"] assms(1,4)
    by force
qed

lemma fail_within:
  assumes "limiter g = enf" and "handleFailTask g env i s = (Inr r, s')"
    and "applyDefaults (cfg g) (ft_Agent i) (ft_APIKey i) = (agent, apiKey)"
    and "0 < I_MaxBodyBytes (in_force (world env) (clk1 env) agent (lim s))"
  shows "int (length (ErrorBody i)) \<le> I_MaxBodyBytes (in_force (world env) (clk1 env) agent (lim s))"
proof -
  from assms(2,3) obtain lim1 where
    "CheckSend (limiter g) (world env) (clk1 env) agent (int (length (ErrorBody i))) (lim s) = (None, lim1)"
    by (auto elim: fail_success)
  then show ?thesis using body [of "world env" "clk1 env" agent "lim s" "int (length (ErrorBody i))"] assms(1,4)
    by force
qed

lemma send_within:
  assumes "limiter g = enf" and "handleSendMessage g env i s = (Inr r, s')"
    and "applyDefaults (cfg g) (sm_Agent i) (sm_APIKey i) = (agent, apiKey)"
    and "0 < I_MaxBodyBytes (in_force (world env) (clk1 env) agent (lim s))"
  shows "int (length (sm_Body i)) \<le> I_MaxBodyBytes (in_force (world env) (clk1 env) agent (lim s))"
proof -
  from assms(2,3) obtain lim1 where
    "CheckSend (limiter g) (world env) (clk1 env) agent (int (length (sm_Body i))) (lim s) = (None, lim1)"
    by (auto elim: send_success)
  then show ?thesis using body [of "world env" "clk1 env" agent "lim s" "int (length (sm_Body i))"] assms(1,4)
    by force
qed

lemma get_within:
  assumes "limiter g = enf" and "handleGetTask g env i s = (Inr r, s')"
    and "applyDefaults (cfg g) (gt_Agent i) (gt_APIKey i) = (agent, apiKey)"
    and "M = I_MaxPendingTasks (in_force (world env) (clk1 env) agent (lim s))" and "0 < M"
  shows "int (CountByAgent agent (pending s')) \<le> max (int (CountByAgent agent (pending s))) (M + 1)"
  using assms(2,3)
proof (cases rule: get_success)
  case nothing
  then show ?thesis by simp
next
  case (task lim1 ch n1 d n2)
  then have "int (CountByAgent agent (pending s)) \<le> M"
    using pending [of "world env" "clk1 env" agent "int (CountByAgent agent (pending s))" "lim s"] assms(1,4,5)
    by auto
  moreover have "CountByAgent agent (pending s') \<le> Suc (CountByAgent agent (pending s))"
    using task by (simp add: CountByAgent_Store_le)
  ultimately show ?thesis by linarith
qed

end

lemma CountByAgent_drop: "CountByAgent a (fmdrop k pm) \<le> CountByAgent a pm"
  using CountByAgent_LoadAndDelete [of a k pm] by (simp add: LoadAndDelete_snd)

text \<open>Only the agent's own \<open>get_task\<close> adds to its pending tasks.\<close>

lemma count_grows_only_by_get:
  assumes "call_tool g env call s = (r, s')"
    and "\<forall>i. call = GetTask i \<longrightarrow> fst (caller (cfg g) call) \<noteq> a"
  shows "CountByAgent a (pending s') \<le> CountByAgent a (pending s)"
proof (cases call)
  case (GetTask i)
  obtain agent apiKey where d: "applyDefaults (cfg g) (gt_Agent i) (gt_APIKey i) = (agent, apiKey)"
    by fastforce
  then have ne: "agent \<noteq> a" using assms(2) GetTask by simp
  show ?thesis
  proof (cases r)
    case (Inl e)
    then show ?thesis using assms(1) GetTask get_failed_pending [of g env i s e s'] by (simp add: guards)
  next
    case (Inr x)
    then obtain y where "handleGetTask g env i s = (Inr y, s')" using assms(1) GetTask by (auto simp: guards)
    from this d show ?thesis
      using ne by (cases rule: get_success) (simp_all add: CountByAgent_Store_other task_topic_def)
  qed
next
  case (CompleteTask i)
  then show ?thesis using complete_pending [of g env i s] assms(1)
    by (auto simp: out_sum prod_eq_iff CountByAgent_drop)
next
  case (FailTask i)
  then show ?thesis using fail_pending [of g env i s] assms(1)
    by (auto simp: out_sum prod_eq_iff CountByAgent_drop)
qed (use others_pending [OF assms(1)] in simp_all)

section \<open>Calls that send a body\<close>

fun sent_body :: "tool_call \<Rightarrow> string option" where
  "sent_body (CompleteTask i) = Some (Result i)"
| "sent_body (FailTask i) = Some (ErrorBody i)"
| "sent_body (SendMessage i) = Some (sm_Body i)"
| "sent_body _ = None"

lemma sent_cases:
  assumes "sent_body call = Some b"
  obtains (complete) i where "call = CompleteTask i" "b = Result i"
  | (fail) i where "call = FailTask i" "b = ErrorBody i"
  | (send) i where "call = SendMessage i" "b = sm_Body i"
  using assms by (cases call) auto

context limit_enforcer
begin

lemma sent_within:
  assumes "limiter g = enf" and "call_tool g env call s = (Inr x, s')" and "sent_body call = Some b"
    and "caller (cfg g) call = (agent, apiKey)"
    and "0 < I_MaxBodyBytes (in_force (world env) (clk1 env) agent (lim s))"
  shows "int (length b) \<le> I_MaxBodyBytes (in_force (world env) (clk1 env) agent (lim s))"
  using assms(3)
proof (cases rule: sent_cases)
  case (complete i)
  then obtain y where h: "handleCompleteTask g env i s = (Inr y, s')" using assms(2) by (auto simp: guards)
  have "applyDefaults (cfg g) (ct_Agent i) (ct_APIKey i) = (agent, apiKey)" using assms(4) complete by simp
  from complete_within [OF assms(1) h this assms(5)] show ?thesis using complete by simp
next
  case (fail i)
  then obtain y where h: "handleFailTask g env i s = (Inr y, s')" using assms(2) by (auto simp: guards)
  have "applyDefaults (cfg g) (ft_Agent i) (ft_APIKey i) = (agent, apiKey)" using assms(4) fail by simp
  from fail_within [OF assms(1) h this assms(5)] show ?thesis using fail by simp
next
  case (send i)
  then obtain y where h: "handleSendMessage g env i s = (Inr y, s')" using assms(2) by (auto simp: guards)
  have "applyDefaults (cfg g) (sm_Agent i) (sm_APIKey i) = (agent, apiKey)" using assms(4) send by simp
  from send_within [OF assms(1) h this assms(5)] show ?thesis using send by simp
qed

end

lemma sent_logged:
  assumes "call_tool g env call s = (Inr x, s')" and "sent_body call = Some b"
    and "caller (cfg g) call = (agent, apiKey)"
  shows "int (length b) \<le> MaxDocumentBytes \<and>
    (\<exists>recipient mt. logs s' = Log (logger g) (report_entry (uuid env) agent recipient mt (tool_name call) b) (logs s))"
  using assms(2)
proof (cases rule: sent_cases)
  case (complete i)
  then obtain y where "handleCompleteTask g env i s = (Inr y, s')" using assms(1) by (auto simp: guards)
  moreover have "applyDefaults (cfg g) (ct_Agent i) (ct_APIKey i) = (agent, apiKey)"
    using assms(3) complete by simp
  ultimately show ?thesis by (rule complete_success) (auto simp: complete)
next
  case (fail i)
  then obtain y where "handleFailTask g env i s = (Inr y, s')" using assms(1) by (auto simp: guards)
  moreover have "applyDefaults (cfg g) (ft_Agent i) (ft_APIKey i) = (agent, apiKey)"
    using assms(3) fail by simp
  ultimately show ?thesis by (rule fail_success) (auto simp: fail)
next
  case (send i)
  then obtain y where "handleSendMessage g env i s = (Inr y, s')" using assms(1) by (auto simp: guards)
  moreover have "applyDefaults (cfg g) (sm_Agent i) (sm_APIKey i) = (agent, apiKey)"
    using assms(3) send by simp
  ultimately show ?thesis by (rule send_success) (auto simp: send)
qed

section \<open>Build never fails in a handler\<close>

lemma complete_build_error:
  assumes "handleCompleteTask g env i s = (Inl (BuildDoc e), s')"
  shows "Load (ct_TaskID i) (pending s) \<noteq> None \<and>
    (\<exists>agent. Build (doclib env) (docValidator env) (created env) (task_report TaskResult ''result''
       (uuid env) (AgentID (cfg g)) agent (ct_TaskID i) (Result i)) = Inl e)"
  using assms LoadAndDelete_fst [of "ct_TaskID i" "pending s"]
  unfolding handleCompleteTask_def task_report_def
  by (auto simp: Let_def split: if_splits option.splits sum.splits prod.splits)

lemma fail_build_error:
  assumes "handleFailTask g env i s = (Inl (BuildDoc e), s')"
  shows "Load (ft_TaskID i) (pending s) \<noteq> None \<and>
    (\<exists>agent. Build (doclib env) (docValidator env) (created env) (task_report TaskFail ''fail''
       (uuid env) (AgentID (cfg g)) agent (ft_TaskID i) (ErrorBody i)) = Inl e)"
  using assms LoadAndDelete_fst [of "ft_TaskID i" "pending s"]
  unfolding handleFailTask_def task_report_def
  by (auto simp: Let_def split: if_splits option.splits sum.splits prod.splits)

lemma send_build_error:
  assumes "handleSendMessage g env i s = (Inl (BuildDoc e), s')"
  shows "\<exists>agent. IsValidAgentID agent \<and>
    Build (doclib env) (docValidator env) (created env)
      (message_builder (uuid env) agent (sm_To i) (sm_Body i)) = Inl e"
  using assms unfolding handleSendMessage_def message_builder_def
  by (auto simp: Let_def split: if_splits option.splits sum.splits prod.splits)

lemma no_build_error:
  assumes v: "\<forall>mt. mt \<notin> set evolution_types \<longrightarrow> fmlookup (schemas v) mt = None"
    and dv: "docValidator env = Inr v"
    and "uuid env \<noteq> ''''" and "AgentID (cfg g) \<noteq> ''''" and "Load '''' (pending s) = None"
  shows "fst (call_tool g env call s) \<noteq> Inl (BuildDoc e)"
proof
  assume f: "fst (call_tool g env call s) = Inl (BuildDoc e)"
  have noschema: "fmlookup (schemas v) TaskResult = None" "fmlookup (schemas v) TaskFail = None"
    "fmlookup (schemas v) AgentMessage = None"
    using v by (auto simp: groups wire)
  have tasks: "TaskResult \<in> set task_types" "TaskFail \<in> set task_types" by (auto simp: groups)
  obtain s' where c: "call_tool g env call s = (Inl (BuildDoc e), s')" using f by (metis prod.collapse)
  show False
  proof (cases call)
    case (CompleteTask i)
    then have h: "handleCompleteTask g env i s = (Inl (BuildDoc e), s')" using c by (simp add: guards)
    then have ct: "ct_TaskID i \<noteq> ''''" using complete_build_error [OF h] assms(5) by auto
    have "Build lb (docValidator env) cr (task_report TaskResult ''result'' (uuid env)
        (AgentID (cfg g)) a (ct_TaskID i) b) \<noteq> Inl e" for lb cr a b
      using \<open>ct_TaskID i \<noteq> ''''\<close> by (simp add: dv Build_task_report [OF noschema(1) tasks(1) assms(3,4)])
    then show False using complete_build_error [OF h] by blast
  next
    case (FailTask i)
    then have h: "handleFailTask g env i s = (Inl (BuildDoc e), s')" using c by (simp add: guards)
    then have "ft_TaskID i \<noteq> ''''" using fail_build_error [OF h] assms(5) by auto
    have "Build lb (docValidator env) cr (task_report TaskFail ''fail'' (uuid env)
        (AgentID (cfg g)) a (ft_TaskID i) b) \<noteq> Inl e" for lb cr a b
      using \<open>ft_TaskID i \<noteq> ''''\<close> by (simp add: dv Build_task_report [OF noschema(2) tasks(2) assms(3,4)])
    then show False using fail_build_error [OF h] by blast
  next
    case (SendMessage i)
    then have h: "handleSendMessage g env i s = (Inl (BuildDoc e), s')" using c by (simp add: guards)
    have "Build lb (docValidator env) cr (message_builder (uuid env) a t b) \<noteq> Inl e"
      if "IsValidAgentID a" for lb cr a t b
      by (simp add: dv Build_message [OF noschema(3) assms(3) valid_id_nonempty [OF that]])
    then show False using send_build_error [OF h] by blast
  qed (use c in \<open>auto simp: guards handleGetTask_def handleHeartbeat_def handleReceiveMessage_def
      handleGetMyLimits_def handleGetMyPolicies_def Let_def
      split: if_splits option.splits sum.splits prod.splits received.splits\<close>)
qed

section \<open>A publication that fails\<close>

lemma complete_publish_error:
  assumes "handleCompleteTask g env i s = (Inl (PublishError e), s')"
  shows "Load (ct_TaskID i) (pending s) \<noteq> None \<and> Load (ct_TaskID i) (pending s') = None"
proof
  show "Load (ct_TaskID i) (pending s) \<noteq> None"
    using assms LoadAndDelete_fst [of "ct_TaskID i" "pending s"] unfolding handleCompleteTask_def
    by (auto simp: Let_def split: if_splits option.splits sum.splits prod.splits)
  show "Load (ct_TaskID i) (pending s') = None"
    using complete_pending [OF assms] by (simp add: Load_def)
qed

text \<open>The network is then as the failed \<open>Publish\<close> left it: nothing was acknowledged.\<close>

lemma complete_publish_net:
  assumes "handleCompleteTask g env i s = (Inl (PublishError e), s')"
  shows "\<exists>doc opts. Publish (trans g) ''agent.events.completed'' doc opts (net s) = (Some e, net s')"
  using assms unfolding handleCompleteTask_def
  by (auto simp: Let_def split: if_splits option.splits sum.splits prod.splits) blast

lemma complete_unknown:
  assumes "Load (ct_TaskID i) (pending s) = None"
  shows "\<exists>e. fst (handleCompleteTask g env i s) = Inl e"
proof (cases "fst (handleCompleteTask g env i s)")
  case (Inr r)
  then obtain s' where h: "handleCompleteTask g env i s = (Inr r, s')" by (metis prod.collapse)
  obtain agent apiKey where "applyDefaults (cfg g) (ct_Agent i) (ct_APIKey i) = (agent, apiKey)" by fastforce
  with h show ?thesis using assms by (auto elim: complete_success)
qed simp

end
