(* ===== verification/DocumentProps.thy ===== *)
theory DocumentProps
  imports Builder
begin

text \<open>
  The properties of \<open>pkg/protocol\<close> and \<open>pkg/document\<close>: parsing and serialising, the builder, the
  validation layers and the agent lifecycle. Each is stated over the definitions of the
  component theories and rests on their lemmas; a property with hypotheses is followed by an
  instance in which they hold.
\<close>

section \<open>Parsing and serialising\<close>

text \<open>
  C7: Round trip of the wire format. A document that \<open>Serialize\<close> writes within the size limit is
  parsed back to the same document, with \<open>Raw\<close> set to the bytes, provided the YAML codec reads
  back the front matter it wrote and that front matter contains no bare delimiter line.
\<close>

theorem Serialize_Parse_roundtrip:
  assumes "marshal doc = Inr y" and "y \<noteq> []" and "findClosingDelimiter (front_matter y) = None"
    and "unmarshal (front_matter y) = Inr (doc\<lparr>Body := '''', Raw := ''''\<rparr>)"
    and "Serialize marshal (Some doc) = Inr raw" and "int (length raw) \<le> MaxDocumentBytes"
  shows "Parse unmarshal raw = Inr (doc\<lparr>Raw := raw\<rparr>)"
proof -
  have "SplitFrontMatter raw = Inr (front_matter y, Body doc)"
    using SplitFrontMatter_Serialize [of marshal doc y] assms by force
  then show ?thesis using assms by (simp add: Parse_def)
qed

definition sample_doc :: Document where
  "sample_doc = zero_document\<lparr>ID := ''m1'', Body := ''hello''\<rparr>"

lemma sample_front: "findClosingDelimiter (front_matter ''id: m1'') = None"
  by (simp add: findClosingDelimiter_def find_close_from.simps front_matter_def LF_def)

lemma Serialize_Parse_roundtrip_witness:
  "\<exists>raw. Serialize (\<lambda>d. Inr ''id: m1'' :: unit + bytes) (Some sample_doc) = Inr raw \<and>
     Parse (\<lambda>b. Inr (sample_doc\<lparr>Body := '''', Raw := ''''\<rparr>) :: unit + Document) raw =
     Inr (sample_doc\<lparr>Raw := raw\<rparr>)"
proof -
  let ?m = "\<lambda>d :: Document. Inr ''id: m1'' :: unit + bytes"
  let ?u = "\<lambda>b :: bytes. Inr (sample_doc\<lparr>Body := '''', Raw := ''''\<rparr>) :: unit + Document"
  define raw where "raw = (''---'' @ [LF]) @ ''id: m1'' @ [LF] @ (''---'' @ [LF]) @ ''hello''"
  have s: "Serialize ?m (Some sample_doc) = Inr raw"
    by (simp add: raw_def sample_doc_def) (simp add: LF_def)
  have "Parse ?u raw = Inr (sample_doc\<lparr>Raw := raw\<rparr>)"
    by (rule Serialize_Parse_roundtrip [of ?m sample_doc "''id: m1''" ?u, OF refl _ sample_front refl s])
      (simp_all add: raw_def MaxDocumentBytes_def)
  with s show ?thesis by blast
qed

text \<open>
  The closing delimiter. \<open>findClosingDelimiter\<close> returns the first position at which a line
  feed is followed by a bare \<open>---\<close>, and nothing when there is no such position.
\<close>

theorem findClosingDelimiter_first:
  "findClosingDelimiter c = Some i \<longleftrightarrow> bare_close_at c i \<and> (\<forall>j<i. \<not> bare_close_at c j)"
  by (rule findClosingDelimiter_Some)

lemma findClosingDelimiter_first_witness:
  "findClosingDelimiter (''k'' @ LF # ''---'') = Some 1 \<longleftrightarrow>
     bare_close_at (''k'' @ LF # ''---'') 1 \<and> (\<forall>j<1. \<not> bare_close_at (''k'' @ LF # ''---'') j)"
  by (rule findClosingDelimiter_first [of "''k'' @ LF # ''---''" 1])

text \<open>
  What \<open>Parse\<close> accepts is bounded: a parsed document carries its input as \<open>Raw\<close>, is at most
  64 KiB long, and its body is at least eight bytes shorter than the input.
\<close>

theorem Parse_bounds:
  assumes "Parse unmarshal raw = Inr doc"
  shows "Raw doc = raw \<and> int (length raw) \<le> MaxDocumentBytes \<and>
    int (length (Body doc)) + 8 \<le> MaxDocumentBytes"
proof -
  have b: "Raw doc = raw" "int (length raw) \<le> MaxDocumentBytes" "length (Body doc) + 8 \<le> length raw"
    using Parse_raw [OF assms] by auto
  then have "int (length (Body doc)) + 8 \<le> int (length raw)" by linarith
  with b show ?thesis by linarith
qed

lemma Parse_bounds_witness:
  "\<exists>raw doc. Parse (\<lambda>b. Inr zero_document :: unit + Document) raw = Inr doc \<and> Raw doc = raw \<and>
     int (length (Body doc)) + 8 \<le> MaxDocumentBytes"
proof -
  let ?u = "\<lambda>b :: bytes. Inr zero_document :: unit + Document"
  define raw where "raw = ''---'' @ replicate 0 CR @ LF # (''k'' @ LF # ''---'')"
  have f: "findClosingDelimiter (''k'' @ LF # ''---'') = Some 1"
    unfolding findClosingDelimiter_Some by (auto simp: bare_close_at_def Let_def)
  have p: "Parse ?u raw = Inr (zero_document\<lparr>Body := '''', Raw := raw\<rparr>)"
    using SplitFrontMatter_at [OF f, of 0] unfolding raw_def
    by (simp add: Parse_def MaxDocumentBytes_def numeral_eq_Suc)
  from Parse_bounds [OF this] p show ?thesis by blast
qed

text \<open>
  Isolation of typed access. \<open>As\<close> hands the typed struct only the fields outside the
  envelope: two documents whose extra fields agree outside the envelope keys give the same
  result, whatever a sender put under an envelope key.
\<close>

theorem As_ignores_envelope_keys:
  assumes "\<And>k. k \<notin> set envelopeKeys \<Longrightarrow> fmlookup (Extra d) k = fmlookup (Extra d') k"
  shows "As marshal unmarshal (Some d) = As marshal unmarshal (Some d')"
  using filtered_extra_eqI [of "Extra d" "Extra d'", OF assms] by simp

lemma As_ignores_envelope_keys_witness:
  "As (\<lambda>m. if fmlookup m ''from'' = None then Inr ''ok'' else Inl ()) (\<lambda>b. Inr b)
     (Some (zero_document\<lparr>Extra := fmupd ''from'' (YString ''spoof'') fmempty\<rparr>)) =
   As (\<lambda>m. if fmlookup m ''from'' = None then Inr ''ok'' else Inl ()) (\<lambda>b. Inr b)
     (Some zero_document)"
  by (rule As_ignores_envelope_keys) (auto simp: zero_document_def envelopeKeys_def)

text \<open>
  Round trip of the \<open>to\<close> field: \<open>UnmarshalYAML\<close> reads back the list that \<open>MarshalYAML\<close>
  wrote, be it written as a scalar or as a sequence.
\<close>

theorem StringOrList_roundtrip:
  assumes "writes_nodes node_of" and "\<And>ss. decode (map ScalarNode ss) = Inr ss"
  shows "StringOrList_UnmarshalYAML decode (node_of (StringOrList_MarshalYAML s)) = Inr s"
  by (rule StringOrList_roundtrip_lemma [OF assms])

fun sample_node :: "yval \<Rightarrow> yaml_node" where
  "sample_node (YString s) = ScalarNode s"
| "sample_node (YSeq vs) = SequenceNode (map sample_node vs)"
| "sample_node _ = MappingNode []"

fun sample_decode :: "yaml_node list \<Rightarrow> unit + string list" where
  "sample_decode [] = Inr []"
| "sample_decode (ScalarNode s # ns) =
     (case sample_decode ns of Inl e \<Rightarrow> Inl e | Inr ss \<Rightarrow> Inr (s # ss))"
| "sample_decode (_ # ns) = Inl ()"

lemma sample_decode_scalars: "sample_decode (map ScalarNode ss) = Inr ss"
  by (induction ss) auto

lemma StringOrList_roundtrip_witness:
  "StringOrList_UnmarshalYAML sample_decode (sample_node (StringOrList_MarshalYAML [''a'', ''b''])) =
     Inr [''a'', ''b'']"
  by (rule StringOrList_roundtrip [OF _ sample_decode_scalars]) (simp add: writes_nodes_def)

section \<open>The builder\<close>

text \<open>
  C9: What \<open>Build\<close> returns. If any chain of setters on a new builder ends in a successful
  \<open>Build\<close>, the document has the requested type and the protocol version, no setter in the chain
  used a reserved key, no envelope key is among the extra fields, and the document passes all
  three validation layers of the validator in use.
\<close>

theorem Build_sound:
  assumes "Build lib dv created (chain mt ss) = Inr doc"
  shows "Type doc = mt \<and> Version doc = ProtocolVersion \<and> CreatedAt doc = created \<and>
    List.map_filter reserved_use ss = [] \<and>
    (\<forall>k\<in>set envelopeKeys. fmlookup (Extra doc) k = None) \<and>
    (\<exists>v. dv = Inr v \<and> Validate lib v (Some doc) = [])"
proof -
  have e: "fieldErr (chain mt ss) = None" and d: "doc = assemble created (chain mt ss)"
    and v: "\<exists>v. dv = Inr v \<and> Validate lib v (Some doc) = []"
    using assms by (auto simp: Build_Inr)
  have "List.map_filter reserved_use ss = []"
    using e by (auto simp: fieldErr_chain split: list.splits)
  then show ?thesis
    using d v builder_inv_chain [of mt ss] by (simp add: assemble_def msgType_chain builder_inv_def)
qed

definition sample_lib :: "(unit, unit, unit, unit) doc_lib" where
  "sample_lib =
     \<lparr>yaml_Marshal = (\<lambda>d. Inr ''''), yaml_Unmarshal_any = (\<lambda>b. Inr ()),
      json_Marshal = (\<lambda>a. Inr ''''), json_Unmarshal = (\<lambda>b. Inr ()),
      AddResource = (\<lambda>u j. Inr ()), Compile = (\<lambda>c u. Inr ()),
      schema_Validate = (\<lambda>s j. None)\<rparr>"

definition sample_validator :: "unit Validator" where
  "sample_validator = \<lparr>schemas = fmempty\<rparr>"

definition sample_chain :: "setter list" where
  "sample_chain = [SetID ''i'', SetFrom ''a1'', SetTo [''b1''], SetField ''x'' (YString ''y''), SetBody ''hi'']"

lemma sample_builds: "Build sample_lib (Inr sample_validator) ''t'' (chain AgentMessage sample_chain) =
    Inr (assemble ''t'' (chain AgentMessage sample_chain))"
proof (rule Build_plain)
  have c: "msgType (chain AgentMessage sample_chain) = AgentMessage" by (rule msgType_chain)
  show "fieldErr (chain AgentMessage sample_chain) = None"
    by (simp add: fieldErr_chain sample_chain_def List.map_filter_simps envelopeKeys_def)
  show "fmlookup (schemas sample_validator) (msgType (chain AgentMessage sample_chain)) = None"
    by (simp add: sample_validator_def)
  show "msgType (chain AgentMessage sample_chain) \<notin> set evolution_types"
    unfolding c by (auto simp: groups wire)
  show "ValidateStructural (Some (assemble ''t'' (chain AgentMessage sample_chain))) = []"
    unfolding ValidateStructural_ok
    by (simp add: assemble_def c docHasField_def)
      (simp add: chain_def sample_chain_def setters envelopeKeys_def ProtocolVersion_def AgentMessage_def)
qed

lemma Build_sound_witness:
  "let doc = assemble ''t'' (chain AgentMessage sample_chain)
   in Type doc = AgentMessage \<and> (\<forall>k\<in>set envelopeKeys. fmlookup (Extra doc) k = None) \<and>
      Validate sample_lib sample_validator (Some doc) = []"
  using Build_sound [OF sample_builds] by (simp add: Let_def)

text \<open>
  A reserved key sticks. Once a chain has used an envelope key in \<open>Field\<close>, \<open>Build\<close> fails with
  the first such key, whatever setters follow and whatever validator is in use.
\<close>

theorem Build_reserved_key:
  assumes "List.map_filter reserved_use ss = k # ks"
  shows "Build lib dv created (chain mt ss) = Inl (FieldErr (ReservedKey k))"
  using assms by (simp add: Build_def fieldErr_chain)

lemma Build_reserved_key_witness:
  "Build sample_lib (Inr sample_validator) ''t''
     (chain AgentMessage [SetField ''signature'' (YString ''s''), SetField ''id'' YNull, SetID ''i'']) =
   Inl (FieldErr (ReservedKey ''signature''))"
  by (rule Build_reserved_key [of _ _ "[''id'']"]) (simp add: List.map_filter_simps envelopeKeys_def)

section \<open>Validation\<close>

text \<open>
  C10: A valid promotion or rollback names its target and a legal transition. A document of either
  type that passes \<open>Validate\<close> carries \<open>from_status\<close> and \<open>to_status\<close> that are an arrow of the
  lifecycle, a non-empty \<open>target_agent\<close>, and is not sent by the target itself.
\<close>

theorem Validate_promotion:
  assumes "Validate lib v (Some doc) = []" and "Type doc = AgentPromotion \<or> Type doc = AgentRollback"
  shows "\<exists>f t target. fmlookup (Extra doc) ''from_status'' = Some (YString f) \<and>
    fmlookup (Extra doc) ''to_status'' = Some (YString t) \<and> lifecycle_step f t \<and>
    fmlookup (Extra doc) ''target_agent'' = Some (YString target) \<and> target \<noteq> '''' \<and> From doc \<noteq> target"
proof -
  have "ValidateSemantic (Some doc) = []" using assms(1) by (simp add: Validate_ok)
  then have "validateLifecycleTransition doc = []" using assms(2) by simp
  then have ok: "extra_string doc ''target_agent'' \<noteq> ''''" "From doc \<noteq> extra_string doc ''target_agent''"
    "lifecycle_step (extra_string doc ''from_status'') (extra_string doc ''to_status'')"
    "extra_string doc ''from_status'' \<noteq> ''''" "extra_string doc ''to_status'' \<noteq> ''''"
    by (simp_all add: lifecycle_ok ValidTransition_step)
  have str: "fmlookup (Extra doc) k = Some (YString (extra_string doc k))"
    if "extra_string doc k \<noteq> ''''" for k
    using that by (auto simp: extra_string_def split: option.splits yval.splits)
  show ?thesis using ok str by blast
qed

definition sample_promotion :: Document where
  "sample_promotion = zero_document\<lparr>Type := AgentPromotion, Version := ''v1'', ID := ''i'', From := ''boss'',
     Extra := fmap_of_list [(''target_agent'', YString ''a1''), (''from_status'', YString ''candidate''),
       (''to_status'', YString ''active'')]\<rparr>"

lemma sample_promotion_valid: "Validate sample_lib sample_validator (Some sample_promotion) = []"
proof -
  obtain m where m: "Lookup AgentPromotion = Some m"
    "RequiredFields m = [''id'', ''from'', ''target_agent'', ''from_status'', ''to_status'']"
    by (rule Lookup_promotion [of AgentPromotion]) simp_all
  have t: "Type sample_promotion = AgentPromotion" by (simp add: sample_promotion_def)
  have "ValidateStructural (Some sample_promotion) = []"
    unfolding ValidateStructural_ok t using m
    by (simp add: docHasField_def sample_promotion_def fmlookup_of_list) (simp add: AgentPromotion_def)
  moreover have "validateLifecycleTransition sample_promotion = []"
    unfolding lifecycle_ok ValidTransition_step
    using arrows(6) by (simp add: extra_string_def sample_promotion_def fmlookup_of_list wire)
  ultimately show ?thesis by (simp add: Validate_ok sample_validator_def t)
qed

lemma Validate_promotion_witness:
  "\<exists>f t target. fmlookup (Extra sample_promotion) ''from_status'' = Some (YString f) \<and>
    fmlookup (Extra sample_promotion) ''to_status'' = Some (YString t) \<and> lifecycle_step f t \<and>
    fmlookup (Extra sample_promotion) ''target_agent'' = Some (YString target) \<and> target \<noteq> '''' \<and>
    From sample_promotion \<noteq> target"
  by (rule Validate_promotion [OF sample_promotion_valid]) (simp add: sample_promotion_def)

text \<open>
  Quarantine and retirement. A quarantine that passes the semantic layer names no
  \<open>from_status\<close> or \<open>active\<close>; a retirement names none or one of active, inactive and
  quarantined; and neither is issued by its own target.
\<close>

theorem Validate_terminal:
  "(Type doc = AgentQuarantine \<longrightarrow>
      (ValidateSemantic (Some doc) = [] \<longleftrightarrow>
        extra_string doc ''from_status'' \<in> {'''', StateActive} \<and>
        (From doc = '''' \<or> From doc \<noteq> extra_string doc ''target_agent''))) \<and>
   (Type doc = AgentRetirement \<longrightarrow>
      (ValidateSemantic (Some doc) = [] \<longleftrightarrow>
        extra_string doc ''from_status'' \<in> {'''', StateActive, StateInactive, StateQuarantined} \<and>
        (From doc = '''' \<or> From doc \<noteq> extra_string doc ''target_agent'')))"
proof -
  have ne: "AgentQuarantine \<noteq> AgentPromotion" "AgentQuarantine \<noteq> AgentRollback"
    "AgentRetirement \<noteq> AgentPromotion" "AgentRetirement \<noteq> AgentRollback" "AgentRetirement \<noteq> AgentQuarantine"
    by (simp_all add: wire)
  show ?thesis using ne by (auto simp: terminal_ok into_quarantine into_retired)
qed

definition sample_retirement :: Document where
  "sample_retirement = zero_document\<lparr>Type := AgentRetirement, From := ''boss'',
     Extra := fmap_of_list [(''target_agent'', YString ''a1''), (''from_status'', YString ''inactive'')]\<rparr>"

lemma Validate_terminal_witness: "ValidateSemantic (Some sample_retirement) = []"
proof -
  have t: "Type sample_retirement = AgentRetirement" and "From sample_retirement = ''boss''"
    "extra_string sample_retirement ''target_agent'' = ''a1''"
    "extra_string sample_retirement ''from_status'' = StateInactive"
    by (simp_all add: sample_retirement_def extra_string_def fmlookup_of_list wire)
  then show ?thesis using Validate_terminal [of sample_retirement] by simp
qed

text \<open>
  The structural layer reports every missing field. For a document of a registered type,
  the errors are exactly a missing version, if it is, and the required fields of the type that
  the document lacks, in the order of the registry.
\<close>

theorem ValidateStructural_complete:
  assumes "Lookup (Type doc) = Some m" and "Type doc \<noteq> ''''"
  shows "map FieldName (ValidateStructural (Some doc)) =
      (if Version doc = '''' then [''version''] else []) @
      filter (\<lambda>f. \<not> docHasField doc f) (RequiredFields m) \<and>
    (\<forall>e\<in>set (ValidateStructural (Some doc)). Layer e = LayerStructural \<and> Message e = RequiredFieldMissing)"
  using assms by (auto simp: Let_def check_required_eq comp_def)

definition sample_incomplete :: Document where
  "sample_incomplete = zero_document\<lparr>Type := AgentMessage, ID := ''i''\<rparr>"

lemma ValidateStructural_complete_witness:
  "map FieldName (ValidateStructural (Some sample_incomplete)) = [''version'', ''from'', ''to'']"
proof -
  have l: "Lookup (Type sample_incomplete) =
      Some \<lparr>RequiredFields = [''id'', ''from'', ''to''], SchemaRef = ''''\<rparr>"
    and ne: "Type sample_incomplete \<noteq> ''''"
    by (simp_all add: sample_incomplete_def) (simp add: AgentMessage_def)
  show ?thesis
    unfolding conjunct1 [OF ValidateStructural_complete [OF l ne]]
    by (simp add: docHasField_def sample_incomplete_def zero_document_def)
qed

text \<open>
  Schema errors are the leaves. The errors reported for a failed schema validation are the
  leaves of the library's error tree, left to right, each with the last element of its location
  as field; at least one is reported.
\<close>

theorem schema_errors_are_leaves:
  "schemaErrToValidationErrors (Some (Invalid ve)) = map leaf_error (leaves ve) \<and>
   schemaErrToValidationErrors (Some (Invalid ve)) \<noteq> []"
  by (simp add: collectSchemaErrors_leaves leaves_nonempty Let_def)

text \<open>
  The layers do not mix. When \<open>Validate\<close> reports a structural error, it reports structural
  errors only; otherwise it reports exactly the schema errors followed by the semantic errors.
\<close>

theorem Validate_layers:
  "if ValidateStructural doc = []
   then Validate lib v doc = ValidateSchema lib v doc @ ValidateSemantic doc \<and>
     Layer ` set (Validate lib v doc) \<subseteq> {LayerSchema, LayerSemantic}
   else Validate lib v doc = ValidateStructural doc \<and>
     Layer ` set (Validate lib v doc) = {LayerStructural}"
proof (cases "ValidateStructural doc = []")
  case True
  then show ?thesis
    by (auto simp: Validate_def dest: ValidateSchema_layer semantic_layer)
next
  case False
  then have "Layer ` set (ValidateStructural doc) = {LayerStructural}"
    using ValidateStructural_layer [of _ doc] by (cases "ValidateStructural doc") fastforce+
  with False show ?thesis by (simp add: Validate_def Let_def)
qed

section \<open>The registry\<close>

text \<open>
  The registry. Every type it knows has a schema exactly when it is an agent evolution
  type, and every one but \<open>agent.genome\<close> requires \<open>id\<close> and \<open>from\<close>; a compiled validator has a
  schema for exactly the evolution types.
\<close>

theorem registry_sound:
  assumes "Lookup mt = Some m"
  shows "(SchemaRef m \<noteq> '''' \<longleftrightarrow> mt \<in> set evolution_types) \<and>
    (mt = AgentGenome \<or> {''id'', ''from''} \<subseteq> set (RequiredFields m)) \<and>
    (NewValidator lib sb = Inr v \<longrightarrow> (fmlookup (schemas v) mt \<noteq> None \<longleftrightarrow> SchemaRef m \<noteq> ''''))"
  using schema_iff [OF assms] required_id_from [OF assms] NewValidator_schemas [of lib sb v mt] by auto

lemma registry_sound_witness:
  "((''''::string) \<noteq> '''' \<longleftrightarrow> AgentMessage \<in> set evolution_types) \<and>
     (AgentMessage = AgentGenome \<or> {''id'', ''from''} \<subseteq> set [''id'', ''from'', ''to''])"
  using registry_sound [OF Lookup_AgentMessage, of sample_lib "''''" sample_validator] by simp

section \<open>The agent lifecycle\<close>

text \<open>
  C12: The transition table is the lifecycle: \<open>ValidTransition\<close> permits exactly the arrows of the
  specified state machine, for all strings; from \<open>proposed\<close> exactly the eleven states are
  reachable; and a state allows no transition exactly when it is not one of the seven
  non-terminal states.
\<close>

theorem ValidTransition_lifecycle:
  "(ValidTransition s t \<longleftrightarrow> lifecycle_step s t) \<and>
   (lifecycle_step\<^sup>*\<^sup>* StateProposed s \<longleftrightarrow> s \<in> set all_states) \<and>
   (AllowedTransitions s = [] \<longleftrightarrow> s \<notin> set all_states - set terminal_states)"
proof (intro conjI)
  show "ValidTransition s t \<longleftrightarrow> lifecycle_step s t" by (rule ValidTransition_step)
  show "lifecycle_step\<^sup>*\<^sup>* StateProposed s \<longleftrightarrow> s \<in> set all_states" using reach_all reach_known by blast
  show "AllowedTransitions s = [] \<longleftrightarrow> s \<notin> set all_states - set terminal_states"
    unfolding AllowedTransitions_def lookup_table all_states_def terminal_states_def
    by (auto simp: wire)
qed

text \<open>
  C13: No activation without the sandbox. In every history of permitted transitions from
  \<open>proposed\<close>, an agent that is active (or has been, or was rolled back as a candidate) went
  through approval, sandbox and candidacy before.
\<close>

theorem activation_needs_approval:
  assumes "history (s # past)"
    and "s \<in> {StateActive, StateInactive, StateQuarantined, StateRetired, StateRolledBack}"
  shows "{StateCandidate, StateSandbox, StateApprovedForSandbox, StateProposed} \<subseteq> set past"
  using history_must_precede [OF assms(1)] assms(2) by (simp add: must_precede_def)

lemma activation_needs_approval_witness:
  "{StateCandidate, StateSandbox, StateApprovedForSandbox, StateProposed} \<subseteq>
     set [StateInactive, StateActive, StateCandidate, StateSandbox, StateApprovedForSandbox, StateProposed]"
  by (rule activation_needs_approval [of StateActive]) (simp_all add: ValidTransition_step arrows)

end
