(* ===== verification/GatewayProps.thy ===== *)
theory GatewayProps
  imports ToolFacts DocumentProps
begin

text \<open>
  The properties of the components the gateway is built from: policies and identifiers, keys,
  the pending map, the limiter, the message log and the Redis transport.
\<close>

section \<open>Policies and identifiers\<close>

text \<open>
  C11: Policy evaluation. With any sorting function that meets the contract of \<open>sort.Slice\<close>,
  \<open>Evaluate\<close> returns the action of a matching policy of the highest matching priority, and deny
  when none matches; and when matching policies of equal priority agree, neither the order of
  the policies nor the sorting function makes a difference.
\<close>

theorem Evaluate_correct:
  assumes "slice_sorter srt" and "slice_sorter srt'"
  shows "policy_decides ps s t (Evaluate srt ps s t) \<and>
    (unambiguous ps s t \<longrightarrow> set qs = set ps \<longrightarrow> Evaluate srt' qs s t = Evaluate srt ps s t)"
proof (intro conjI impI)
  show d: "policy_decides ps s t (Evaluate srt ps s t)" by (rule Evaluate_decides [OF assms(1)])
  assume u: "unambiguous ps s t" and q: "set qs = set ps"
  show "Evaluate srt' qs s t = Evaluate srt ps s t"
    using d u by (intro Evaluate_eqI [OF assms(2)]) (simp_all add: policy_decides_set_eq [OF q]
        unambiguous_set_eq [OF q])
qed

definition sample_policy :: "string \<Rightarrow> string \<Rightarrow> PolicyAction \<Rightarrow> int \<Rightarrow> CommunicationPolicy" where
  "sample_policy src tgt act prio =
     \<lparr>PolicyID = ''p'', PolicyOrgID = ''o'', SourceID = src, TargetID = tgt,
      Direction = DirectionBidirectional, Action = act, Priority = prio,
      PolicyCreatedBy = ''u'', PolicyCreatedAt = 0\<rparr>"

definition sample_policies :: "CommunicationPolicy list" where
  "sample_policies = [sample_policy ''*'' ''*'' PolicyActionDeny 1,
     sample_policy ''a1'' ''orchestrator'' PolicyActionAllow 5,
     sample_policy ''a1'' ''b1'' PolicyActionAllow 3]"

lemma sample_evaluate:
  "Evaluate insertion_sort sample_policies ''a1'' ''orchestrator'' = PolicyActionAllow"
  "Evaluate insertion_sort sample_policies ''a1'' ''b1'' = PolicyActionAllow"
  "Evaluate insertion_sort sample_policies ''b1'' ''orchestrator'' = PolicyActionDeny"
  by (simp_all add: Evaluate_def insertion_sort_def sample_policies_def sample_policy_def matches_def wire)

lemma Evaluate_correct_witness:
  "policy_decides sample_policies ''a1'' ''b1'' PolicyActionAllow \<and>
     Evaluate insertion_sort (rev sample_policies) ''a1'' ''b1'' = PolicyActionAllow"
proof -
  have u: "unambiguous sample_policies ''a1'' ''b1''"
    by (auto simp: unambiguous_def sample_policies_def sample_policy_def matches_def wire)
  show ?thesis
    using Evaluate_correct [OF go_sort.slice_sorter_axioms go_sort.slice_sorter_axioms,
        of sample_policies "''a1''" "''b1''" "rev sample_policies"] u
    by (simp add: sample_evaluate)
qed

text \<open>
  A set of bidirectional policies decides both directions of a pair alike.
\<close>

theorem Evaluate_symmetric:
  assumes "\<forall>p\<in>set (srt (\<lambda>pi pj. Priority pi > Priority pj) ps). Direction p = DirectionBidirectional"
  shows "Evaluate srt ps s t = Evaluate srt ps t s"
proof -
  have "find (\<lambda>p. matches p s t) xs = find (\<lambda>p. matches p t s) xs"
    if "\<forall>p\<in>set xs. Direction p = DirectionBidirectional" for xs
    using that matches_swap [of _ s t] by (induction xs) auto
  then show ?thesis using assms by (simp add: Evaluate_def)
qed

lemma Evaluate_symmetric_witness:
  "Evaluate insertion_sort sample_policies ''b1'' ''a1'' = Evaluate insertion_sort sample_policies ''a1'' ''b1''"
  by (rule Evaluate_symmetric) (simp add: sample_policies_def sample_policy_def insertion_sort_def)

text \<open>
  Agent identifiers. The regular expression accepts exactly the strings the naming rules
  describe: 2 to 64 bytes, alphanumeric at both ends, and only letters, digits, dot, underscore
  and hyphen between.
\<close>

theorem IsValidAgentID_correct: "IsValidAgentID s \<longleftrightarrow> agent_id_rules s"
  by (rule IsValidAgentID_rules)

text \<open>
  A valid identifier cannot break out of the names built from it: it has no wildcard, no
  separator, blank, line break or NUL, and the stream names of different agents differ.
\<close>

theorem valid_ids_safe:
  assumes "IsValidAgentID a" and "c \<in> set a"
  shows "c \<notin> {CHR ''*'', CHR ''/'', CHR '':'', CHR '' '', CHR 0x00, CHR 0x0A, CHR 0x0D} \<and>
    a \<noteq> Wildcard \<and> (task_topic a = task_topic b \<longleftrightarrow> a = b)"
  using valid_id_safe [OF assms] valid_id_safe [OF assms(1), of "CHR ''*''"]
  by (auto simp: Wildcard_def task_topic_def)

lemma ab_valid: "IsValidAgentID ''a1''" "IsValidAgentID ''b1''"
  by (simp_all add: IsValidAgentID_rules agent_id_rules_def alnum_class_def middle_class_def less_eq_char_def)

lemma valid_ids_safe_witness:
  "CHR ''1'' \<notin> {CHR ''*'', CHR ''/'', CHR '':'', CHR '' '', CHR 0x00, CHR 0x0A, CHR 0x0D} \<and>
     ''a1'' \<noteq> Wildcard \<and> (task_topic ''a1'' = task_topic ''b1'' \<longleftrightarrow> ''a1'' = ''b1'')"
  by (rule valid_ids_safe [OF ab_valid(1)]) simp

section \<open>Keys\<close>

text \<open>
  Authentication. The embedded authenticator accepts a raw key for an agent exactly when the
  store has a key with its hash that is not revoked, has the role \<open>agent\<close> and is bound to
  that agent; \<open>authenticateAgent\<close> then passes exactly that agent.
\<close>

theorem authentication_exact:
  "authenticateAgent (Some (EmbeddedAuthenticator sha get)) w claimed rawKey = None \<longleftrightarrow>
     (\<exists>k. get w (sha rawKey) = Inr k \<and> RevokedAt k = None \<and> K_Role k = RoleAgent \<and>
          K_AgentID k = claimed)"
  using embedded_keys.authenticated_iff [of sha get w claimed rawKey] by (simp add: key_binds_def)

text \<open>
  Remote authentication. With the HTTP authenticator an agent passes only if the admin server
  answered 200 and the first 4 KiB of its answer decode to a valid key bound to that agent.
\<close>

theorem remote_authentication:
  assumes "authenticateAgent (Some (HTTPAuthenticator lib base)) w claimed rawKey = None"
  shows "\<exists>resp. Do lib w \<lparr>req_Method = ''POST'', req_URL = base @ ''/api/v1/auth'',
                          req_Authorization = ''Bearer '' @ rawKey\<rparr> = Inr resp \<and>
    StatusCode resp = 200 \<and> decode_auth lib (take 4096 (resp_Body resp)) = Inr (True, claimed)"
  using assms http_access.authenticated_iff [of lib base w claimed rawKey]
  by (auto simp: server_vouches_def StatusOK_def maxAuthResponseBytes_def)

definition sample_http :: "unit http_lib" where
  "sample_http =
     \<lparr>url_Parse = (\<lambda>u. Inr (''https'', ''admin'')), NewRequestErr = (\<lambda>m u. None),
      Do = (\<lambda>w req. Inr \<lparr>StatusCode = 200, resp_Body = ''a1''\<rparr>),
      decode_auth = (\<lambda>b. Inr (True, b)), decode_action = (\<lambda>b. Inr b)\<rparr>"

lemma remote_authentication_witness:
  "\<exists>resp. Do sample_http () \<lparr>req_Method = ''POST'', req_URL = ''https://admin'' @ ''/api/v1/auth'',
                          req_Authorization = ''Bearer '' @ ''k''\<rparr> = Inr resp \<and>
    StatusCode resp = 200 \<and> decode_auth sample_http (take 4096 (resp_Body resp)) = Inr (True, ''a1'')"
  by (rule remote_authentication)
    (simp add: authenticateAgent_def HTTPAuthenticator_def sample_http_def StatusOK_def StatusUnauthorized_def
      io_LimitReader_def maxAuthResponseBytes_def ConstantTimeCompare_eq)

text \<open>
  No injection into the evaluate query. An answer of the HTTP enforcer comes from a request
  whose two parameters contain no byte that ends a parameter or the query, whatever the
  identifiers are, and which the server's unescaping turns back into exactly these identifiers.
\<close>

theorem evaluate_query_exact:
  assumes "http_Allowed lib base token w s t = Inr b"
  shows "\<exists>S T resp. Do lib w \<lparr>req_Method = ''GET'',
        req_URL = base @ ''/api/v1/evaluate?source='' @ S @ ''&target='' @ T,
        req_Authorization = ''Bearer '' @ token\<rparr> = Inr resp \<and> StatusCode resp = 200 \<and>
    (set S \<union> set T) \<inter> {CHR ''&'', CHR ''='', CHR ''?'', CHR ''#'', CHR '' ''} = {} \<and>
    url_QueryUnescape S = Some s \<and> url_QueryUnescape T = Some t"
proof -
  have "(set (url_QueryEscape s) \<union> set (url_QueryEscape t)) \<inter>
      {CHR ''&'', CHR ''='', CHR ''?'', CHR ''#'', CHR '' ''} = {}"
    using QueryEscape_safe [of _ s] QueryEscape_safe [of _ t] by blast
  then show ?thesis
    using http_Allowed_request [OF assms] Unescape_Escape [of s] Unescape_Escape [of t]
    unfolding StatusOK_def by blast
qed

lemma evaluate_query_exact_witness:
  "\<exists>S T resp. Do sample_http () \<lparr>req_Method = ''GET'',
        req_URL = ''https://admin'' @ ''/api/v1/evaluate?source='' @ S @ ''&target='' @ T,
        req_Authorization = ''Bearer '' @ ''tok''\<rparr> = Inr resp \<and> StatusCode resp = 200 \<and>
    (set S \<union> set T) \<inter> {CHR ''&'', CHR ''='', CHR ''?'', CHR ''#'', CHR '' ''} = {} \<and>
    url_QueryUnescape S = Some ''a&target=x'' \<and> url_QueryUnescape T = Some ''b c''"
  by (rule evaluate_query_exact [of _ _ _ _ _ _ False])
    (simp add: http_Allowed_def sample_http_def StatusOK_def io_LimitReader_def maxEvaluateResponseBytes_def
      PolicyActionAllow_def)

section \<open>The pending map\<close>

text \<open>
  The lifetime of a pending task. With the cleanup running since \<open>start\<close>, an entry stored
  later is still there after every tick up to its age of one TTL, and is gone after a tick that
  comes no later than one and a half TTLs after it was stored.
\<close>

theorem pending_lifetime:
  assumes "2 \<le> ttl" and "start \<le> storedAt e" and "fmlookup pm k = Some e"
  shows "(\<forall>n. tick start ttl n \<le> storedAt e + ttl \<longrightarrow>
            fmlookup (cleanup_run start ttl (Suc n) pm) k = Some e) \<and>
    (\<exists>n. tick start ttl n \<le> storedAt e + ttl + ttl div 2 \<and>
            fmlookup (cleanup_run start ttl (Suc n) pm) k = None)"
proof -
  have l: "fmlookup (cleanup_run start ttl (Suc n) pm) k =
      (if storedAt e + ttl < tick start ttl n then None else Some e)" for n
    using cleanup_run_lookup [OF _ assms(3), of ttl start "Suc n"] assms(1) by simp
  obtain n where "storedAt e + ttl < tick start ttl n" "tick start ttl n \<le> storedAt e + ttl + ttl div 2"
    using first_tick_after [OF assms(1,2)] by metis
  then show ?thesis using l by force
qed

lemma pending_lifetime_witness:
  "\<exists>n. tick 0 4 n \<le> storedAt \<lparr>topic = ''t'', msgID = ''m'', storedAt = 1\<rparr> + 4 + 4 div 2 \<and>
     fmlookup (cleanup_run 0 4 (Suc n) (Store 1 ''k'' ''t'' ''m'' NewPendingMap)) ''k'' = None"
  by (rule conjunct2 [OF pending_lifetime]) (simp_all add: Store_def)

section \<open>The limiter\<close>

text \<open>
  The rate limit. Whatever attempts are made on a fresh bucket, as long as the clock does not
  go back, no send is recorded at a moment at which more than \<open>limit\<close> sends, itself included,
  were recorded within the minute up to it.
\<close>

theorem rate_limit_window:
  assumes "0 < limit" and "clock_from t0 attempts" and "a \<in> set (rate_run limit attempts [])"
  shows "int (length (in_window a (rate_run limit attempts []))) \<le> limit"
  by (rule rate_window_from_empty [OF assms])

lemma rate_limit_window_witness:
  "int (length (in_window 4 (rate_run 2 [(1, 2), (3, 4), (5, 6), (60000000005, 60000000006)] []))) \<le> 2"
  by (rule rate_limit_window [of 2 0]) (simp_all add: tryRecord_def Minute_def Second_def)

text \<open>
  The caps of the limiter. Starting from a new embedded enforcer, whatever operations follow,
  for whatever agent ids and with whatever content of the store, the cache and the rate map
  never hold more than \<open>maxMapEntries\<close> agents.
\<close>

theorem limiter_maps_capped:
  "maps_bounded (fold (limit_step (embeddedLimitEnforcer getter)) ops (NewEmbeddedLimitEnforcer org))"
  by (rule embedded.run_inv [OF NewEmbeddedLimitEnforcer_bounded])

text \<open>
  The age of the limits applied. If the cache holds what the store answered when each entry was
  fetched, the limits that an operation applies are those the store had at some moment less than
  \<open>cacheTTL\<close> before the operation, and the cache stays of that kind.
\<close>

theorem limits_fresh:
  assumes "cache_sound getter store_at e" and "c_since clk \<le> c_fetch clk"
    and "c_fetch clk - c_since clk < cacheTTL e"
  shows "(\<exists>t. c_since clk - t < cacheTTL e \<and>
      fst (effectiveLimits getter (store_at (c_fetch clk)) clk a e) = fst (getter (store_at t) (orgID e) a)) \<and>
    cache_sound getter store_at (snd (effectiveLimits getter (store_at (c_fetch clk)) clk a e))"
  using effectiveLimits_stale [OF assms] effectiveLimits_sound [OF assms(1)] by blast

definition sample_limits :: AgentLimits where
  "sample_limits = \<lparr>L_ID = ''l'', L_OrgID = ''o'', L_AgentID = ''a1'', MaxBodyBytes = 100,
     MaxSendPerMin = 2, MaxPendingTasks = 1, MaxStreamLen = 50, L_UpdatedAt = 0, L_UpdatedBy = ''u''\<rparr>"

definition sample_getter :: "'st limit_getter" where
  "sample_getter st org a = (if a = ''a1'' then (Some sample_limits, None) else (None, None))"

definition sample_clock :: clock where
  "sample_clock = \<lparr>c_since = 1, c_fetch = 2, c_cutoff = 3, c_send = 4\<rparr>"

lemma limits_fresh_witness:
  "cache_sound sample_getter (\<lambda>t. ())
     (snd (effectiveLimits sample_getter () sample_clock ''a1'' (NewEmbeddedLimitEnforcer ''o'')))"
  using limits_fresh [of sample_getter "\<lambda>t. ()" "NewEmbeddedLimitEnforcer ''o''" sample_clock "''a1''"]
  by (simp add: cache_sound_def NewEmbeddedLimitEnforcer_def NewEmbeddedLimitEnforcerWithCacheTTL_def
      sample_clock_def defaultLimitCacheTTL_def Second_def)

section \<open>The message log\<close>

text \<open>
  C23: The embedded log loses, duplicates and reorders nothing that it accepted. In every run of
  the logger from a store, the store has been given one row, in order and under the organisation of
  the logger, for each of the entries accepted first, and the channel holds those accepted since; the
  channel stays within its capacity; and when the drain stops, the rows of all accepted entries have
  been given to the store.
\<close>

theorem log_conserved:
  assumes "logger_run put_row acts (NewEmbeddedMessageLoggerWithCap store org c) l"
  shows "\<exists>n stamps. n \<le> length (accepted acts) \<and> length stamps = n \<and>
    ml_store l = append_rows put_row org stamps (take n (accepted acts)) store \<and>
    ml_ch l = drop n (accepted acts) \<and> length (ml_ch l) \<le> c \<and>
    ((\<exists>acts'. acts = acts' @ [Stop]) \<longrightarrow> n = length (accepted acts))"
proof -
  define l0 where "l0 = NewEmbeddedMessageLoggerWithCap store org c"
  have l0: "ml_ch l0 = []" "ml_cap l0 = c" "ml_orgID l0 = org" "ml_store l0 = store"
    by (simp_all add: l0_def NewEmbeddedMessageLoggerWithCap_def)
  note run = assms [folded l0_def]
  obtain stamps where st: "length stamps = length (written acts)"
    "ml_store l = append_rows put_row org stamps (written acts) store"
    using logger_stores [OF run] l0 by auto
  have w: "accepted acts = written acts @ ml_ch l" "length (ml_ch l) \<le> c"
    using logger_conserves [OF run] logger_bounded [OF run] l0 by auto
  have "length (written acts) = length (accepted acts)" if "\<exists>acts'. acts = acts' @ [Stop]"
    using that logger_flushes [of put_row _ l0 l] run l0 by auto
  then show ?thesis using st w by (intro exI [of _ "length (written acts)"] exI [of _ stamps]) simp
qed

definition sample_entry :: MessageLogEntry where
  "sample_entry = \<lparr>EnvelopeID = ''e'', LE_ThreadID = '''', FromAgent = ''a1'', ToAgent = ''b1'',
     MsgType = AgentMessage, LE_Direction = ''send'', ToolName = ''send_message'', BodySize = 2, LE_Body = ''hi''\<rparr>"

lemma log_conserved_witness:
  "\<exists>l. logger_run (\<lambda>s row. (None, s @ [row])) [Accept sample_entry, Write sample_entry, Signal, SeeDone, Stop]
       (NewEmbeddedMessageLoggerWithCap [] ''o'' 1) l \<and>
     (\<exists>uuid now. ml_store l = [row_of ''o'' uuid now sample_entry]) \<and> ml_ch l = []"
proof -
  let ?p = "\<lambda>s row. (None :: string option, s @ [row :: MessageLog])"
  let ?l0 = "NewEmbeddedMessageLoggerWithCap [] ''o'' 1"
  let ?l1 = "emb_Log sample_entry ?l0"
  have 1: "logger_step ?p (Accept sample_entry) ?l0 ?l1"
    by (simp add: logger_step_simps NewEmbeddedMessageLoggerWithCap_def)
  have 2: "logger_step ?p (Write sample_entry) ?l1 (write_entry ?p ''u'' 0 sample_entry (?l1\<lparr>ml_ch := []\<rparr>))"
    by (rule write_one) (simp_all add: emb_Log_def NewEmbeddedMessageLoggerWithCap_def)
  let ?l2 = "write_entry ?p ''u'' 0 sample_entry (?l1\<lparr>ml_ch := []\<rparr>)"
  have 3: "logger_step ?p Signal ?l2 (?l2\<lparr>ml_done := True\<rparr>)"
    "logger_step ?p SeeDone (?l2\<lparr>ml_done := True\<rparr>) (?l2\<lparr>ml_done := True, ml_drain := Flushing\<rparr>)"
    "logger_step ?p Stop (?l2\<lparr>ml_done := True, ml_drain := Flushing\<rparr>) (?l2\<lparr>ml_done := True, ml_drain := Exited\<rparr>)"
    by (simp_all add: logger_step_simps write_entry_def emb_Log_def NewEmbeddedMessageLoggerWithCap_def)
  have r: "logger_run ?p [Accept sample_entry, Write sample_entry, Signal, SeeDone, Stop] ?l0
      (?l2\<lparr>ml_done := True, ml_drain := Exited\<rparr>)" (is "logger_run _ ?acts _ ?l")
    using run_snoc [OF run_snoc [OF run_snoc [OF run_snoc [OF run_snoc [OF run_nil 1] 2] 3(1)] 3(2)] 3(3)] by simp
  have stop: "\<exists>acts'. ?acts = acts' @ [Stop]" by (intro exI [of _ "butlast ?acts"]) simp
  obtain stamps where "length stamps = Suc 0" "ml_store ?l = append_rows ?p ''o'' stamps [sample_entry] []" "ml_ch ?l = []"
    using log_conserved [OF r] stop by auto
  moreover from this(1) obtain uuid time where "stamps = [(uuid, time)]" by (auto simp: length_Suc_conv)
  ultimately have "ml_store ?l = [row_of ''o'' uuid time sample_entry]" "ml_ch ?l = []"
    by (simp_all only: append_rows_def zip.simps zip_Cons_Cons fold.simps) simp_all
  with r show ?thesis by blast
qed

text \<open>
  A log that is being flushed can always finish: from every state in which the drain has seen
  the stop signal, writing what is in the channel leads to the drain's exit, for which \<open>Close\<close>
  waits.
\<close>

theorem log_flush_terminates:
  assumes "ml_drain l = Flushing"
  shows "\<exists>m. logger_run put_row (map Write (ml_ch l) @ [Stop]) l m \<and> ml_drain m = Exited"
  by (rule logger_can_stop [OF assms])

lemma log_flush_terminates_witness:
  "\<exists>m. logger_run (\<lambda>s row. (None, s @ [row])) [Write sample_entry, Stop]
     \<lparr>ml_store = [], ml_orgID = ''o'', ml_ch = [sample_entry], ml_cap = 1, ml_done = True,
      ml_drain = Flushing\<rparr> m \<and> ml_drain m = Exited"
  using log_flush_terminates [of "\<lparr>ml_store = [], ml_orgID = ''o'', ml_ch = [sample_entry], ml_cap = 1,
      ml_done = True, ml_drain = Flushing\<rparr>" "\<lambda>s row. (None, s @ [row])"] by simp

section \<open>The Redis transport\<close>

text \<open>
  C21: One reply of the server. When every send on the channel finds a receiver, the read loop
  delivers the well-formed entries of a reply in order, and acknowledges each malformed entry
  and no other; when the context is cancelled on the way, it delivers a prefix of them.
\<close>

theorem readLoop_reply:
  assumes "XReadGroup client
      \<lparr>XR_Group = ConsumerGroup opts, XR_Consumer = Consumer opts, XR_Streams = [stream, ''>''],
       XR_Count = 10, XR_Block = BlockTimeout opts\<rparr> r = (Inr streams, r1)"
  shows "readLoop unmarshal client opts stream [Reads t None] r =
      (List.map_filter (parseMsg unmarshal t) (concat (map snd streams)), False,
       fold (\<lambda>msg r. snd (XAck client stream (ConsumerGroup opts) (X_ID msg) r))
         (filter (\<lambda>msg. parseMsg unmarshal t msg = None) (concat (map snd streams))) r1) \<and>
    fst (readLoop unmarshal client opts stream [Reads t (Some n)] r) =
      take n (List.map_filter (parseMsg unmarshal t) (concat (map snd streams)))"
proof
  show "readLoop unmarshal client opts stream [Reads t None] r =
      (List.map_filter (parseMsg unmarshal t) (concat (map snd streams)), False,
       fold (\<lambda>msg r. snd (XAck client stream (ConsumerGroup opts) (X_ID msg) r))
         (filter (\<lambda>msg. parseMsg unmarshal t msg = None) (concat (map snd streams))) r1)"
    using assms by (simp add: push_msgs_all)
  obtain ds ret r2 where p: "push_msgs unmarshal client opts stream t (Some n) (concat (map snd streams)) r1 =
      (ds, ret, r2)" by (metis prod.exhaust)
  show "fst (readLoop unmarshal client opts stream [Reads t (Some n)] r) =
      take n (List.map_filter (parseMsg unmarshal t) (concat (map snd streams)))"
    using assms p push_msgs_prefix [OF p] by (cases ret) simp_all
qed

text \<open>A client over a list of acknowledged ids, whose stream holds one good and one bad entry.\<close>

definition bad_entry :: XMessage where
  "bad_entry = \<lparr>X_ID = ''1-0'', X_Values = fmupd ''doc'' ROther fmempty\<rparr>"

definition good_entry :: XMessage where
  "good_entry =
     \<lparr>X_ID = ''2-0'', X_Values = fmupd ''doc'' (RString (''---'' @ LF # ''k'' @ LF # ''---'')) fmempty\<rparr>"

definition sample_client :: "string list redis_client" where
  "sample_client =
     \<lparr>XAdd = (\<lambda>args acks. (None, acks)), XGroupCreateMkStream = (\<lambda>t g st acks. (None, acks)),
      XAck = (\<lambda>t g mid acks. (None, acks @ [mid])),
      XReadGroup = (\<lambda>args acks. (Inr [(''t'', [bad_entry, good_entry])], acks))\<rparr>"

definition sample_options :: Options where
  "sample_options = Options_applyDefaults \<lparr>ConsumerGroup = '''', Consumer = '''', BlockTimeout = 0\<rparr>"

lemma sample_reply: "XReadGroup sample_client
    \<lparr>XR_Group = ConsumerGroup sample_options, XR_Consumer = Consumer sample_options,
     XR_Streams = [''t'', ''>''], XR_Count = 10, XR_Block = BlockTimeout sample_options\<rparr> [] =
    (Inr [(''t'', [bad_entry, good_entry])], [])"
  by (simp add: sample_client_def)

lemma sample_parse:
  "parseMsg (\<lambda>b. Inr zero_document) 7 bad_entry = None"
  "parseMsg (\<lambda>b. Inr zero_document) 7 good_entry =
     Some \<lparr>Doc = zero_document\<lparr>Raw := ''---'' @ LF # ''k'' @ LF # ''---''\<rparr>, MsgID = ''2-0'', RecvedAt = 7\<rparr>"
proof -
  show "parseMsg (\<lambda>b. Inr zero_document) 7 bad_entry = None"
    by (simp add: bad_entry_def parseMsg_def)
  have f: "findClosingDelimiter (''k'' @ LF # ''---'') = Some 1"
    unfolding findClosingDelimiter_Some by (auto simp: bare_close_at_def Let_def)
  have "Parse (\<lambda>b. Inr zero_document :: string + Document) (''---'' @ LF # ''k'' @ LF # ''---'') =
      Inr (zero_document\<lparr>Body := '''', Raw := ''---'' @ LF # ''k'' @ LF # ''---''\<rparr>)"
    using SplitFrontMatter_at [OF f, of 0] by (simp add: Parse_def MaxDocumentBytes_def numeral_eq_Suc)
  then show "parseMsg (\<lambda>b. Inr zero_document) 7 good_entry =
     Some \<lparr>Doc = zero_document\<lparr>Raw := ''---'' @ LF # ''k'' @ LF # ''---''\<rparr>, MsgID = ''2-0'', RecvedAt = 7\<rparr>"
    by (simp add: good_entry_def parseMsg_def MaxDocumentBytes_def) (simp add: zero_document_def)
qed

lemma readLoop_reply_witness:
  "readLoop (\<lambda>b. Inr zero_document) sample_client sample_options ''t'' [Reads 7 None] [] =
     ([\<lparr>Doc = zero_document\<lparr>Raw := ''---'' @ LF # ''k'' @ LF # ''---''\<rparr>, MsgID = ''2-0'', RecvedAt = 7\<rparr>],
      False, [''1-0''])"
proof -
  have ack: "XAck sample_client ''t'' gr mid acks = (None, acks @ [mid])" for gr mid acks
    by (simp add: sample_client_def)
  have "X_ID bad_entry = ''1-0''" by (simp add: bad_entry_def)
  then show ?thesis
    unfolding conjunct1 [OF readLoop_reply [OF sample_reply, of "\<lambda>b. Inr zero_document" 7]]
    by (simp add: sample_parse List.map_filter_simps ack)
qed

text \<open>
  Publish and receive. What \<open>Publish\<close> writes for a document is delivered by \<open>parseMsg\<close> as the
  same document under the entry's own id exactly when the serialized text fits into 64 KiB (given
  a YAML codec that reads back the front matter it wrote).
\<close>

theorem published_is_delivered:
  assumes "marshal doc = Inr y" and "y \<noteq> []" and "findClosingDelimiter (front_matter y) = None"
    and "unmarshal (front_matter y) = Inr (doc\<lparr>Body := '''', Raw := ''''\<rparr>)"
    and "redis_Publish marshal client stream doc opts r = (None, r')"
  shows "\<exists>raw args. XAdd client args r = (None, r') \<and> XA_Stream args = stream \<and>
    parseMsg unmarshal t \<lparr>X_ID = mid, X_Values = XA_Values args\<rparr> =
      (if int (length raw) \<le> MaxDocumentBytes
       then Some \<lparr>Doc = doc\<lparr>Raw := raw\<rparr>, MsgID = mid, RecvedAt = t\<rparr> else None) \<and>
    length raw = length (front_matter y) + length (Body doc) + 8"
proof -
  obtain raw args where a: "Serialize marshal (Some doc) = Inr raw" "XA_Stream args = stream"
    "XA_Values args = fmupd ''doc'' (RString raw) fmempty" "XAdd client args r = (None, r')"
    using redis_Publish_None [OF assms(5)] by blast
  have split: "SplitFrontMatter raw = Inr (front_matter y, Body doc)"
    using SplitFrontMatter_Serialize [of marshal doc y] assms(1-3) a(1) by force
  have len: "length raw = length (front_matter y) + length (Body doc) + 8"
    using a(1) assms(1) by (auto simp: front_matter_def)
  then have "raw \<noteq> ''''" by auto
  then have "parseMsg unmarshal t \<lparr>X_ID = mid, X_Values = XA_Values args\<rparr> =
      (if int (length raw) \<le> MaxDocumentBytes
       then Some \<lparr>Doc = doc\<lparr>Raw := raw\<rparr>, MsgID = mid, RecvedAt = t\<rparr> else None)"
    using split assms(4) by (simp add: a(3) parseMsg_def Parse_def)
  then show ?thesis using a len by blast
qed

lemma published_is_delivered_witness:
  "\<exists>raw args. XAdd sample_client args [] = (None, []) \<and> XA_Stream args = ''t'' \<and>
    parseMsg (\<lambda>b. Inr (sample_doc\<lparr>Body := '''', Raw := ''''\<rparr>)) 7 \<lparr>X_ID = ''1-0'', X_Values = XA_Values args\<rparr> =
      (if int (length raw) \<le> MaxDocumentBytes
       then Some \<lparr>Doc = sample_doc\<lparr>Raw := raw\<rparr>, MsgID = ''1-0'', RecvedAt = 7\<rparr> else None) \<and>
    length raw = length (front_matter ''id: m1'') + length (Body sample_doc) + 8"
  by (rule published_is_delivered [where marshal = "\<lambda>d. Inr ''id: m1''" and opts = "[]"])
    (simp_all add: sample_front redis_Publish_def sample_client_def)

end
