(* ===== verification/Sample.thy ===== *)
theory Sample
  imports GatewayProps
begin

text \<open>
  A concrete gateway at which the hypotheses of the properties are seen to hold: one agent \<open>a1\<close>
  with the key \<open>k\<close>, the policies \<open>sample_policies\<close>, a log kept as a list, and a network that
  records what was published and hands out one task; its calls, and what they lead to.
\<close>

definition sample_key :: APIKey where
  "sample_key = \<lparr>K_ID = ''1'', K_OrgID = ''o'', K_Name = ''n'', KeyHash = ''k'', K_Role = RoleAgent,
     K_AgentID = ''a1'', K_CreatedBy = ''u'', K_CreatedAt = 0, RevokedAt = None\<rparr>"

definition sample_keys :: "'w \<Rightarrow> string \<Rightarrow> string + APIKey" where
  "sample_keys w h = (if h = ''k'' then Inr sample_key else Inl ''not found'')"

definition sample_lister :: "CommunicationPolicy list policy_lister" where
  "sample_lister w org = Inr w"

definition sample_delivery :: Delivery where
  "sample_delivery = \<lparr>Doc = sample_doc, MsgID = ''1-0'', RecvedAt = 0\<rparr>"

definition sample_trans :: "transport_error option \<Rightarrow> ((string \<times> Document) list, string) Transport" where
  "sample_trans err =
     \<lparr>Publish = (\<lambda>t d opts n. (err, if err = None then n @ [(t, d)] else n)),
      Subscribe = (\<lambda>t n. (Inr t, n)), Receive = (\<lambda>ch n. (Delivered sample_delivery, n)),
      Ack = (\<lambda>t mid n. (None, n))\<rparr>"

definition sample_gateway :: "('net, string) Transport \<Rightarrow> (CommunicationPolicy list, 'lim) LimitEnforcer
    \<Rightarrow> (CommunicationPolicy list, 'lim, MessageLogEntry list, 'net, string) Gateway" where
  "sample_gateway t li =
     \<lparr>trans = t, enforcer = EmbeddedEnforcer insertion_sort sample_lister ''o'',
      auth = Some (EmbeddedAuthenticator id sample_keys), logger = \<lparr>Log = (\<lambda>e l. l @ [e])\<rparr>,
      limiter = li, cfg = DefaultConfig\<rparr>"

definition sample_env :: "(CommunicationPolicy list, unit, unit, unit, unit) call_env" where
  "sample_env = \<lparr>world = sample_policies, doclib = sample_lib, docValidator = Inr sample_validator,
     uuid = ''u1'', created = ''t'', now = 1, clk1 = sample_clock, clk2 = sample_clock\<rparr>"

lemmas sample_wiring = sample_gateway_def sample_env_def sample_trans_def DefaultConfig_def

lemma sample_auth:
  "authenticateAgent (Some (EmbeddedAuthenticator id sample_keys)) w ''a1'' ''k'' = None"
  by (simp add: authenticateAgent_def EmbeddedAuthenticator_def sample_keys_def sample_key_def
      ConstantTimeCompare_eq)

lemma sample_allowed:
  "Allowed (EmbeddedEnforcer insertion_sort sample_lister ''o'') sample_policies ''a1'' ''orchestrator'' = Inr True"
  "Allowed (EmbeddedEnforcer insertion_sort sample_lister ''o'') sample_policies ''a1'' ''b1'' = Inr True"
  by (simp_all add: EmbeddedEnforcer_def embedded_Allowed_def sample_lister_def sample_evaluate)

text \<open>The calls of the samples, and what they lead to.\<close>

definition get_call :: getTaskIn where "get_call = \<lparr>gt_Agent = ''a1'', gt_APIKey = ''k''\<rparr>"
definition complete_call :: completeTaskIn where
  "complete_call = \<lparr>ct_TaskID = ''1-0'', ct_Agent = ''a1'', Result = ''done'', ct_APIKey = ''k''\<rparr>"
definition send_call :: "string \<Rightarrow> sendMessageIn" where
  "send_call b = \<lparr>sm_Agent = ''a1'', sm_To = ''b1'', sm_Body = b, sm_APIKey = ''k''\<rparr>"

abbreviation "sample_start li n \<equiv> New li ([] :: MessageLogEntry list) n"

lemma sample_get:
  "\<exists>s'. call_tool (sample_gateway (sample_trans err) noopLimitEnforcer) sample_env (GetTask get_call)
      (sample_start () n) = (Inr (OutGetTask \<lparr>TaskID = ''1-0'', TaskBody = ''hello''\<rparr>), s')"
  by (simp add: handleGetTask_def sample_wiring get_call_def applyDefaults_def ab_valid sample_auth
      sample_allowed PolicyTargetOrchestrator_def noopLimitEnforcer_def sample_delivery_def
      sample_doc_def Let_def)

definition sample_busy :: "'lim \<Rightarrow> 'net \<Rightarrow> ('lim, MessageLogEntry list, 'net) gw_state" where
  "sample_busy li n =
     (sample_start li n)\<lparr>pending := Store 1 ''1-0'' ''agent.tasks.a1'' ''1-0'' fmempty\<rparr>"

lemma sample_report_builds:
  "Build sample_lib (Inr sample_validator) cr (task_report TaskResult ''result'' ''u1'' ''mcp-gateway'' a ''1-0'' b) =
     Inr (assemble cr (task_report TaskResult ''result'' ''u1'' ''mcp-gateway'' a ''1-0'' b))"
  by (rule Build_task_report) (simp_all add: sample_validator_def groups)

lemma sample_complete:
  "handleCompleteTask (sample_gateway (sample_trans err) noopLimitEnforcer) sample_env complete_call
     (sample_busy () []) =
   (case err of
      None \<Rightarrow> (Inr \<lparr>ct_Status = ''ok''\<rparr>,
        \<lparr>pending = fmempty, lim = (),
         logs = [report_entry ''u1'' ''a1'' PolicyTargetOrchestrator TaskResult ''complete_task'' ''done''],
         net = [(''agent.events.completed'', assemble ''t'' (task_report TaskResult ''result'' ''u1''
                   ''mcp-gateway'' ''a1'' ''1-0'' ''done''))]\<rparr>)
    | Some e \<Rightarrow> (Inl (PublishError e), \<lparr>pending = fmempty, lim = (), logs = [], net = []\<rparr>))"
proof -
  have p: "LoadAndDelete ''1-0'' (Store 1 ''1-0'' tp ''1-0'' fmempty) = (Some (tp, ''1-0''), fmempty)" for tp
    by (simp add: LoadAndDelete_def Store_def) (rule fmap_ext, simp)
  show ?thesis
    unfolding handleCompleteTask_def task_report_def [symmetric]
    by (simp add: sample_wiring complete_call_def applyDefaults_def ab_valid sample_auth sample_allowed
        PolicyTargetOrchestrator_def noopLimitEnforcer_def New_def sample_busy_def p Let_def
        MaxDocumentBytes_def sample_report_builds report_entry_def split: option.split)
qed

lemma sample_message_builds:
  "Build sample_lib (Inr sample_validator) cr (message_builder ''u1'' ''a1'' t b) =
     Inr (assemble cr (message_builder ''u1'' ''a1'' t b))"
  by (rule Build_message) (simp_all add: sample_validator_def)

lemma sample_send:
  assumes "int (length b) \<le> MaxDocumentBytes"
    and "CheckSend li sample_policies sample_clock ''a1'' (int (length b)) l0 = (None, l1)"
    and "\<And>opts. Publish t ''agent.messages.b1'' (assemble ''t'' (message_builder ''u1'' ''a1'' ''b1'' b)) opts n = (None, n')"
  shows "\<exists>s'. call_tool (sample_gateway t li) sample_env (SendMessage (send_call b)) (sample_start l0 n) =
     (Inr (OutSendMessage \<lparr>sm_Status = ''ok''\<rparr>), s') \<and> net s' = n' \<and> length (logs s') = 1"
  using assms
  by (simp add: handleSendMessage_def message_builder_def [symmetric] sample_gateway_def sample_env_def
      send_call_def applyDefaults_def ab_valid sample_auth sample_allowed New_def Let_def
      sample_message_builds split: prod.split)

text \<open>A transport over a Redis client that accepts everything.\<close>

definition sample_redis :: "(string list, string) Transport" where
  "sample_redis = RedisTransport (\<lambda>d. Inr ''id: m1'') sample_client
     \<lparr>ConsumerGroup = '''', Consumer = '''', BlockTimeout = 0\<rparr> (\<lambda>ch r. (TimedOut, r))"

lemma sample_redis_publish: "Publish sample_redis t doc opts n = (None, n)"
  by (simp add: sample_redis_def RedisTransport_def redis_Publish_def sample_client_def Let_def)

end
