(* ===== verification/Times.thy ===== *)
theory Times
  imports Prelude "HOL-Library.Char_ord"
begin

text \<open>
  What the repository uses of \<open>time\<close> and \<open>strconv\<close> on texts: decimal numbers, the Gregorian calendar,
  and the layouts \<open>time.DateOnly\<close> and \<open>time.RFC3339\<close>. The instants are those of \<open>Prelude\<close>, in UTC,
  counted from 1970. Results: \<open>Parse\<close> reads back what \<open>Format\<close> wrote to the second, and the order of
  the texts as byte strings is that of the instants, for the years 0 to 9999.
\<close>

section \<open>Decimal numbers\<close>

definition digit :: "char \<Rightarrow> bool" where
  "digit c \<longleftrightarrow> CHR ''0'' \<le> c \<and> c \<le> CHR ''9''"

definition decimal :: "string \<Rightarrow> int" where
  "decimal ds = fold (\<lambda>c v. 10 * v + int (of_char c - 48)) ds 0"

definition digit_char :: "nat \<Rightarrow> char" where
  "digit_char n = char_of (48 + n)"

fun ndigits :: "nat \<Rightarrow> nat" where
  "ndigits n = (if n < 10 then 1 else Suc (ndigits (n div 10)))"

primrec fixed_digits :: "nat \<Rightarrow> nat \<Rightarrow> string" where
  "fixed_digits 0 n = []"
| "fixed_digits (Suc w) n = fixed_digits w (n div 10) @ [digit_char (n mod 10)]"

text \<open>The number in decimal, with zeros in front up to a width (\<open>appendInt\<close> of \<open>time\<close>).\<close>

definition appendInt :: "int \<Rightarrow> nat \<Rightarrow> string" where
  "appendInt x w =
     (let u = nat \<bar>x\<bar> in (if x < 0 then ''-'' else '''') @ fixed_digits (max w (ndigits u)) u)"

declare ndigits.simps [simp del]

lemma of_char_digit [simp]: "n < 10 \<Longrightarrow> of_char (digit_char n) = 48 + n"
  by (simp add: digit_char_def)

lemma digit_digit_char [simp]: "n < 10 \<Longrightarrow> digit (digit_char n)"
  by (simp add: digit_def less_eq_char_def)

lemma digit_char_less: "m < 10 \<Longrightarrow> n < 10 \<Longrightarrow> digit_char m < digit_char n \<longleftrightarrow> m < n"
  by (simp add: less_char_def)

lemma decimal_nonneg: "0 \<le> decimal ds"
proof -
  have "0 \<le> v \<Longrightarrow> 0 \<le> fold (\<lambda>c v. 10 * v + int (of_char c - 48)) ds v" for v
    by (induction ds arbitrary: v) simp_all
  then show ?thesis by (simp add: decimal_def)
qed

lemma decimal_snoc [simp]: "decimal (ds @ [c]) = 10 * decimal ds + int (of_char c - 48)"
  by (simp add: decimal_def)

lemma length_fixed_digits [simp]: "length (fixed_digits w n) = w"
  by (induction w arbitrary: n) simp_all

lemma fixed_digits_digits [simp]: "list_all digit (fixed_digits w n)"
  by (induction w arbitrary: n) simp_all

lemma decimal_fixed_digits: "n < 10 ^ w \<Longrightarrow> decimal (fixed_digits w n) = int n"
proof (induction w arbitrary: n)
  case 0
  then show ?case by (simp add: decimal_def)
next
  case (Suc w)
  then have "n div 10 < 10 ^ w" by auto
  moreover have "10 * int (n div 10) + int (n mod 10) = int n" by presburger
  ultimately show ?case by (simp add: Suc.IH)
qed

lemma digits_less: "m < n \<longleftrightarrow> m div 10 < n div 10 \<or> m div 10 = n div 10 \<and> m mod 10 < n mod 10"
  for m n :: nat
proof -
  have "10 * a + b < 10 * c + d \<longleftrightarrow> a < c \<or> a = c \<and> b < d" if "b < 10" "d < 10" for a b c d :: nat
    using that by linarith
  from this [of "m mod 10" "n mod 10" "m div 10" "n div 10"] show ?thesis by simp
qed

lemma lexordp_append:
  "length xs = length ys \<Longrightarrow>
    ord_class.lexordp (xs @ us) (ys @ vs) \<longleftrightarrow> ord_class.lexordp xs ys \<or> xs = ys \<and> ord_class.lexordp us vs"
  for xs :: "'a :: linorder list"
  by (induction xs ys rule: list_induct2) auto

lemma fixed_digits_less:
  "m < 10 ^ w \<Longrightarrow> n < 10 ^ w \<Longrightarrow> ord_class.lexordp (fixed_digits w m) (fixed_digits w n) \<longleftrightarrow> m < n"
proof (induction w arbitrary: m n)
  case (Suc w)
  then have lt: "m div 10 < 10 ^ w" "n div 10 < 10 ^ w" by auto
  have eq: "fixed_digits w (m div 10) = fixed_digits w (n div 10) \<longleftrightarrow> m div 10 = n div 10"
    using lt by (metis decimal_fixed_digits of_nat_eq_iff)
  show ?case
    using lt by (simp only: fixed_digits.simps lexordp_append length_fixed_digits Suc.IH eq digits_less [of m n])
      (simp add: digit_char_less)
qed simp

lemma ndigits_le: "n < 10 ^ w \<Longrightarrow> 0 < w \<Longrightarrow> ndigits n \<le> w"
proof (induction w arbitrary: n)
  case (Suc w)
  show ?case
  proof (cases "n < 10")
    case False
    then have "n div 10 < 10 ^ w" "0 < w" using Suc.prems by (auto intro: gr0I)
    then show ?thesis using Suc.IH by (simp add: ndigits.simps [of n] False)
  qed (simp add: ndigits.simps [of n])
qed simp

lemma appendInt_fixed: "0 \<le> x \<Longrightarrow> x < 10 ^ w \<Longrightarrow> 0 < w \<Longrightarrow> appendInt x w = fixed_digits w (nat x)"
proof -
  assume x: "0 \<le> x" "x < 10 ^ w" "0 < w"
  then have "nat x < 10 ^ w" by (simp add: nat_less_iff)
  then show ?thesis using x ndigits_le [of "nat x" w] by (simp add: appendInt_def max_def)
qed

section \<open>The calendar\<close>

definition leap_year :: "int \<Rightarrow> bool" where
  "leap_year y \<longleftrightarrow> y mod 4 = 0 \<and> (y mod 100 \<noteq> 0 \<or> y mod 400 = 0)"

definition days_in :: "int \<Rightarrow> nat \<Rightarrow> int" where
  "days_in y m = (if m = 2 \<and> leap_year y then 29
     else [31, 28, 31, 30, 31, 30, 31, 31, 30, 31, 30, 31] ! (m - 1))"

definition days_before_year :: "int \<Rightarrow> int" where
  "days_before_year y = 365 * (y - 1) + (y - 1) div 4 - (y - 1) div 100 + (y - 1) div 400"

definition days_before_month :: "int \<Rightarrow> nat \<Rightarrow> int" where
  "days_before_month y m = sum_list (map (days_in y) [1..<m])"

text \<open>Days since 1 January of year 1, and the instant at which a day begins.\<close>

definition day_number :: "int \<Rightarrow> nat \<Rightarrow> int \<Rightarrow> int" where
  "day_number y m dd = days_before_year y + days_before_month y m + dd - 1"

definition Day :: duration where "Day = 24 * 60 * Minute"

definition date_time :: "int \<Rightarrow> nat \<Rightarrow> int \<Rightarrow> time" where
  "date_time y m dd = (day_number y m dd - 719162) * Day"

definition zero_time :: time where "zero_time = date_time 1 1 1"

definition valid_date :: "int \<Rightarrow> nat \<Rightarrow> int \<Rightarrow> bool" where
  "valid_date y m dd \<longleftrightarrow> 1 \<le> m \<and> m \<le> 12 \<and> 1 \<le> dd \<and> dd \<le> days_in y m"

text \<open>
  The date of a day: its year and day of the year from the cycles of 400, 100 and 4 years, then its
  month and day.
\<close>

definition year_day :: "int \<Rightarrow> int \<times> int" where
  "year_day n =
     (let e = n div 146097; n = n mod 146097;
          c = min 3 (n div 36524); n = n - 36524 * c;
          q = n div 1461; n = n mod 1461;
          y = min 3 (n div 365)
      in (400 * e + 100 * c + 4 * q + y + 1, n - 365 * y))"

function month_day :: "int \<Rightarrow> nat \<Rightarrow> int \<Rightarrow> nat \<times> int" where
  "month_day y m d = (if 12 \<le> m \<or> d < days_in y m then (m, d + 1) else month_day y (Suc m) (d - days_in y m))"
  by auto
termination by (relation "measure (\<lambda>(y, m, d). 12 - m)") auto

declare month_day.simps [simp del]

definition date_of :: "int \<Rightarrow> int \<times> nat \<times> int" where
  "date_of n = (let (y, d) = year_day n; (m, dd) = month_day y 1 d in (y, m, dd))"

lemma days_in_pos: "1 \<le> m \<Longrightarrow> m \<le> 12 \<Longrightarrow> 28 \<le> days_in y m \<and> days_in y m \<le> 31"
proof -
  assume "1 \<le> m" "m \<le> 12"
  then have "m \<in> {1, 2, 3, 4, 5, 6, 7, 8, 9, 10, 11, 12}" by simp presburger
  then show ?thesis by (auto simp: days_in_def)
qed

lemma days_before_month_Suc: "1 \<le> m \<Longrightarrow> days_before_month y (Suc m) = days_before_month y m + days_in y m"
  by (simp add: days_before_month_def)

lemma days_before_month_13: "days_before_month y 13 = (if leap_year y then 366 else 365)"
  by (simp add: days_before_month_def days_in_def upt_rec)

lemma days_before_month_1 [simp]: "days_before_month y 1 = 0" "days_before_month y (Suc 0) = 0"
  by (simp_all add: days_before_month_def)

lemma month_day_inverse:
  assumes "1 \<le> m" and "m \<le> 12" and "0 \<le> d" and "days_before_month y m + d < days_before_month y 13"
    and "month_day y m d = (m', dd)"
  shows "valid_date y m' dd \<and> days_before_month y m' + dd - 1 = days_before_month y m + d"
  using assms
proof (induction y m d rule: month_day.induct)
  case (1 y m d)
  show ?case
  proof (cases "12 \<le> m \<or> d < days_in y m")
    case True
    have "d < days_in y m"
    proof (cases "m = 12")
      case True
      then have "days_before_month y 13 = days_before_month y m + days_in y m"
        using days_before_month_Suc [of 12 y] by simp
      then show ?thesis using "1.prems" by linarith
    qed (use True "1.prems" in auto)
    then show ?thesis using "1.prems" True by (simp add: month_day.simps [of y m d] valid_date_def)
  next
    case False
    then show ?thesis
      using "1.IH" "1.prems" days_before_month_Suc [of m y] by (simp add: month_day.simps [of y m d])
  qed
qed

lemma year_bounds:
  assumes "year_day n = (y, d)"
  shows "days_before_year y + d = n \<and> 0 \<le> d \<and> d < days_before_month y 13"
proof -
  define e r where "e = n div 146097" and "r = n mod 146097"
  define c where "c = min 3 (r div 36524)"
  define r2 where "r2 = r - 36524 * c"
  define q r3 where "q = r2 div 1461" and "r3 = r2 mod 1461"
  define k where "k = min 3 (r3 div 365)"
  have n: "n = 146097 * e + r" "0 \<le> r" "r < 146097" by (simp_all add: e_def r_def)
  have c: "0 \<le> c" "c \<le> 3" "0 \<le> r2" "r2 < 36524 \<or> c = 3 \<and> r2 \<le> 36524"
    using n(2,3) unfolding c_def r2_def by linarith+
  have q: "r2 = 1461 * q + r3" "0 \<le> r3" "r3 < 1461" by (simp_all add: q_def r3_def)
  have q': "0 \<le> q" "q \<le> 24" using c(3,4) q by linarith+
  have k: "0 \<le> k" "k \<le> 3" "0 \<le> r3 - 365 * k" "r3 - 365 * k < 365 \<or> k = 3 \<and> r3 - 365 * k = 365"
    using q(2,3) unfolding k_def by linarith+
  have y: "y = 400 * e + 100 * c + 4 * q + k + 1" and d: "d = r3 - 365 * k"
    using assms by (simp_all add: year_day_def Let_def flip: e_def r_def, simp_all flip: c_def,
        simp_all flip: r2_def, simp_all flip: q_def r3_def, simp_all flip: k_def)
  have div: "(y - 1) div 4 = 100 * e + 25 * c + q" "(y - 1) div 100 = 4 * e + c" "(y - 1) div 400 = e"
    using y q' k(1,2) c(1,2) by linarith+
  have sum: "days_before_year y + d = n"
  proof -
    have "r = 36524 * c + 1461 * q + r3" using q(1) r2_def by linarith
    then show ?thesis unfolding days_before_year_def div by (simp add: y d n(1))
  qed
  have "leap_year y" if "k = 3" "d = 365"
  proof -
    have r3: "r3 = 1460" using that d by simp
    have y4: "y = 4 * (100 * e + 25 * c + q + 1)" and y100: "y = 100 * (4 * e + c) + (4 * q + 4)"
      using y that by simp_all
    have "y mod 4 = 0" unfolding y4 by simp
    moreover have "y mod 400 = 0" if "y mod 100 = 0"
    proof -
      have "y mod 100 = (4 * q + 4) mod 100" unfolding y100 by (rule mod_mult_self4)
      moreover have "(4 * q + 4) mod 100 = 4 * q + 4" if "q < 24" using that q' by simp
      ultimately have "q = 24" using that q' by force
      moreover from this have "c = 3" using c q r3 by linarith
      ultimately have "y = 400 * (e + 1)" using y \<open>k = 3\<close> by simp
      then show ?thesis by simp
    qed
    ultimately show ?thesis by (auto simp: leap_year_def)
  qed
  then show ?thesis using sum k d by (auto simp: days_before_month_13)
qed

lemma date_of_inverse:
  assumes "date_of n = (y, m, dd)" shows "valid_date y m dd \<and> day_number y m dd = n"
proof -
  obtain d where d: "year_day n = (y, d)" "month_day y 1 d = (m, dd)"
    using assms by (auto simp: date_of_def split: prod.splits)
  from year_bounds [OF d(1)] month_day_inverse [of 1 d y m dd] d(2)
  show ?thesis by (simp add: day_number_def)
qed

text \<open>\<open>time.Parse(time.DateOnly, s)\<close>\<close>

definition time_Parse_DateOnly :: "string \<Rightarrow> time option" where
  "time_Parse_DateOnly s =
     (let ys = take 4 s; ms = take 2 (drop 5 s); ds = take 2 (drop 8 s);
          m = nat (decimal ms); dd = decimal ds
      in if length s = 10 \<and> s ! 4 = CHR ''-'' \<and> s ! 7 = CHR ''-'' \<and> list_all digit (ys @ ms @ ds) \<and>
            valid_date (decimal ys) m dd
         then Some (date_time (decimal ys) m dd) else None)"

section \<open>The order of dates\<close>

lemma div_step: "0 < k \<Longrightarrow> x div k = (x - 1) div k + (if x mod k = 0 then 1 else 0)" for x k :: int
proof -
  assume k: "0 < k"
  have x: "x = k * (x div k) + x mod k" "0 \<le> x mod k" "x mod k < k" using k by simp_all
  show ?thesis
  proof (cases "x mod k = 0")
    case True
    then have "(x - 1) div k = x div k - 1"
      by (intro int_div_pos_eq [where r = "k - 1"]) (use x k in \<open>simp_all add: algebra_simps\<close>)
    then show ?thesis using True by simp
  next
    case False
    then have "0 \<le> x mod k - 1" "x mod k - 1 < k" using x by linarith+
    then have "(x - 1) div k = x div k"
      by (intro int_div_pos_eq [where r = "x mod k - 1"]) (use x in simp_all)
    then show ?thesis using False by simp
  qed
qed

lemma mod_dvd: "x mod (a * b) = 0 \<Longrightarrow> x mod a = 0" for x a b :: int
  by (metis mod_eq_0_iff_dvd dvd_mult_left)

lemma days_before_year_Suc: "days_before_year (y + 1) = days_before_year y + days_before_month y 13"
proof -
  have "y mod 400 = 0 \<Longrightarrow> y mod 100 = 0" "y mod 100 = 0 \<Longrightarrow> y mod 4 = 0"
    using mod_dvd [of y 100 4] mod_dvd [of y 4 25] by simp_all
  then show ?thesis
    unfolding days_before_year_def days_before_month_13 leap_year_def add_diff_cancel_right'
      div_step [of 4 y, simplified] div_step [of 100 y, simplified] div_step [of 400 y, simplified]
    by (cases "y mod 4 = 0"; cases "y mod 100 = 0"; cases "y mod 400 = 0") simp_all
qed

lemma days_before_year_mono: "y \<le> y' \<Longrightarrow> days_before_year y \<le> days_before_year y'"
proof (induction y' rule: int_ge_induct)
  case (step y')
  then show ?case by (simp add: days_before_year_Suc days_before_month_13 split: if_splits)
qed simp

lemma days_before_month_mono:
  assumes "1 \<le> m" and "m \<le> m'" and "m' \<le> 13"
  shows "days_before_month y m \<le> days_before_month y m'"
  using assms(2,3)
proof (induction rule: dec_induct)
  case (step k)
  then have "0 \<le> days_in y k" using assms(1) days_in_pos [of k y] by linarith
  then show ?case using step assms(1) days_before_month_Suc [of k y] by simp
qed simp

fun date_less :: "int \<times> nat \<times> int \<Rightarrow> int \<times> nat \<times> int \<Rightarrow> bool" where
  "date_less (y, m, dd) (y', m', dd') \<longleftrightarrow> y < y' \<or> y = y' \<and> (m < m' \<or> m = m' \<and> dd < dd')"

lemma in_year:
  assumes "valid_date y m dd"
  shows "days_before_year y \<le> day_number y m dd" "day_number y m dd < days_before_year (y + 1)"
proof -
  have "days_before_month y 1 \<le> days_before_month y m" "days_before_month y (Suc m) \<le> days_before_month y 13"
    using assms days_before_month_mono [of 1 m y] days_before_month_mono [of "Suc m" 13 y]
    by (simp_all add: valid_date_def)
  then show "days_before_year y \<le> day_number y m dd" "day_number y m dd < days_before_year (y + 1)"
    using assms days_before_month_Suc [of m y]
    by (simp_all add: valid_date_def day_number_def days_before_year_Suc)
qed

lemma day_number_mono:
  assumes "valid_date y m dd" and "valid_date y' m' dd'" and "date_less (y, m, dd) (y', m', dd')"
  shows "day_number y m dd < day_number y' m' dd'"
proof (cases "y < y'")
  case True
  then show ?thesis
    using in_year [OF assms(1)] in_year [OF assms(2)] days_before_year_mono [of "y + 1" y'] by linarith
next
  case False
  then have y: "y = y'" and "m < m' \<or> m = m' \<and> dd < dd'" using assms(3) by auto
  then show ?thesis
  proof (elim disjE)
    assume m: "m < m'"
    then have "days_before_month y (Suc m) \<le> days_before_month y m'"
      using assms(2) by (intro days_before_month_mono) (auto simp: valid_date_def)
    then show ?thesis using assms(1,2) y days_before_month_Suc [of m y]
      by (simp add: day_number_def valid_date_def)
  qed (simp add: day_number_def y)
qed

lemma day_number_less_iff:
  assumes "valid_date y m dd" and "valid_date y' m' dd'"
  shows "day_number y m dd < day_number y' m' dd' \<longleftrightarrow> date_less (y, m, dd) (y', m', dd')"
proof
  assume lt: "day_number y m dd < day_number y' m' dd'"
  show "date_less (y, m, dd) (y', m', dd')"
  proof (rule ccontr)
    assume "\<not> ?thesis"
    then have "(y, m, dd) = (y', m', dd') \<or> date_less (y', m', dd') (y, m, dd)" by auto
    then show False using lt day_number_mono [OF assms(2,1)] by auto
  qed
qed (rule day_number_mono [OF assms])

section \<open>RFC 3339\<close>

text \<open>\<open>t.Format(time.RFC3339)\<close> of an instant in UTC.\<close>

definition time_Format_RFC3339 :: "time \<Rightarrow> string" where
  "time_Format_RFC3339 t =
     (let u = t div Second; (y, m, dd) = date_of (u div 86400 + 719162); s = u mod 86400
      in appendInt y 4 @ ''-'' @ appendInt (int m) 2 @ ''-'' @ appendInt dd 2 @ ''T'' @
         appendInt (s div 3600) 2 @ '':'' @ appendInt (s div 60 mod 60) 2 @ '':'' @ appendInt (s mod 60) 2 @ ''Z'')"

text \<open>
  \<open>time.Parse(time.RFC3339, s)\<close> on the grammar of RFC 3339 in capitals: date, time, an optional
  fraction of a second, and \<open>Z\<close> or an offset. (The package also takes an hour of one digit and a
  comma before the fraction.)
\<close>

definition parse_zone :: "string \<Rightarrow> int option" where
  "parse_zone z =
     (if z = ''Z'' then Some 0
      else if length z = 6 \<and> (z ! 0 = CHR ''+'' \<or> z ! 0 = CHR ''-'') \<and> z ! 3 = CHR '':'' \<and>
          list_all digit (take 2 (drop 1 z) @ drop 4 z) \<and> decimal (take 2 (drop 1 z)) < 24 \<and> decimal (drop 4 z) < 60
      then Some ((if z ! 0 = CHR ''-'' then - 1 else 1) * (3600 * decimal (take 2 (drop 1 z)) + 60 * decimal (drop 4 z)))
      else None)"

definition parse_fraction :: "string \<Rightarrow> duration \<times> string" where
  "parse_fraction z =
     (case z of c # d # cs \<Rightarrow>
        if c = CHR ''.'' \<and> digit d then
          (let ds = takeWhile digit (d # cs)
           in (decimal (take 9 (ds @ replicate 9 (CHR ''0''))), dropWhile digit (d # cs)))
        else (0, z)
      | _ \<Rightarrow> (0, z))"

definition time_Parse_RFC3339 :: "string \<Rightarrow> time option" where
  "time_Parse_RFC3339 s =
     (let y = take 4 s; m = take 2 (drop 5 s); dd = take 2 (drop 8 s);
          h = take 2 (drop 11 s); mi = take 2 (drop 14 s); sc = take 2 (drop 17 s);
          (frac, z) = parse_fraction (drop 19 s)
      in if 20 \<le> length s \<and> s ! 4 = CHR ''-'' \<and> s ! 7 = CHR ''-'' \<and> s ! 10 = CHR ''T'' \<and> s ! 13 = CHR '':'' \<and>
            s ! 16 = CHR '':'' \<and> list_all digit (y @ m @ dd @ h @ mi @ sc) \<and>
            valid_date (decimal y) (nat (decimal m)) (decimal dd) \<and> decimal h < 24 \<and> decimal mi < 60 \<and> decimal sc < 60
         then (case parse_zone z of
                 None \<Rightarrow> None
               | Some offset \<Rightarrow>
                   Some (date_time (decimal y) (nat (decimal m)) (decimal dd) +
                     (3600 * decimal h + 60 * decimal mi + decimal sc - offset) * Second + frac))
         else None)"

text \<open>The instants whose year has at most four digits.\<close>

definition in_years :: "time \<Rightarrow> bool" where
  "in_years t \<longleftrightarrow> date_time 0 1 1 \<le> t \<and> t < date_time 10000 1 1"

text \<open>What the text of an instant is made of.\<close>

lemma in_years_date:
  assumes "in_years t" and "date_of (t div Second div 86400 + 719162) = (y, m, dd)"
  shows "valid_date y m dd \<and> 0 \<le> y \<and> y < 10000 \<and> day_number y m dd = t div Second div 86400 + 719162"
proof -
  let ?n = "t div Second div 86400 + 719162"
  have v: "valid_date y m dd" "day_number y m dd = ?n" using date_of_inverse [OF assms(2)] by auto
  have day: "t div Second div 86400 = t div Day" by (simp add: Day_def Minute_def Second_def zdiv_zmult2_eq)
  have t: "(day_number 0 1 1 - 719162) * Day \<le> t" "t < (day_number 10000 1 1 - 719162) * Day"
    using assms(1) by (simp_all add: in_years_def date_time_def)
  have pos: "0 < Day" by (simp add: Day_def)
  then have "day_number 0 1 1 - 719162 \<le> t div Day"
    using zdiv_mono1 [OF t(1) pos] by simp
  then have "\<not> date_less (y, m, dd) (0, 1, 1)"
    using day_number_less_iff [OF v(1), of 0 1 1] v(2) day by (simp add: valid_date_def days_in_def)
  moreover have "t div Day < day_number 10000 1 1 - 719162"
  proof (rule ccontr)
    assume "\<not> ?thesis"
    then have "(day_number 10000 1 1 - 719162) * Day \<le> t div Day * Day" using pos by simp
    moreover have "t div Day * Day \<le> t" using div_mult_mod_eq [of t Day] pos_mod_sign [OF pos, of t] by linarith
    ultimately show False using t(2) by linarith
  qed
  then have "date_less (y, m, dd) (10000, 1, 1)"
    using day_number_less_iff [OF v(1), of 10000 1 1] v(2) day by (simp add: valid_date_def days_in_def)
  ultimately show ?thesis using v by (auto simp: valid_date_def)
qed

lemma seconds_of_day:
  fixes s :: int
  assumes "0 \<le> s" and "s < 86400"
  shows "0 \<le> s div 3600 \<and> s div 3600 < 24 \<and> 0 \<le> s div 60 mod 60 \<and> s div 60 mod 60 < 60 \<and>
    0 \<le> s mod 60 \<and> s mod 60 < 60 \<and> 3600 * (s div 3600) + 60 * (s div 60 mod 60) + s mod 60 = s"
proof -
  have "s div 60 div 60 = s div 3600" using zdiv_zmult2_eq [of 60 s 60] by simp
  then have "3600 * (s div 3600) + 60 * (s div 60 mod 60) + s mod 60 = s"
    using mult_div_mod_eq [of 60 s] mult_div_mod_eq [of 60 "s div 60"] by linarith
  moreover have "0 \<le> s div 3600" "s div 3600 < 24" using assms by linarith+
  ultimately show ?thesis by simp
qed

text \<open>The fields of a formatted instant, each in its width.\<close>

lemma format_fields:
  assumes "in_years t"
  obtains y m dd s where "valid_date y m dd" and "0 \<le> y" "y < 10000" and "0 \<le> s" "s < 86400"
    and "t div Second = (day_number y m dd - 719162) * 86400 + s"
    and "time_Format_RFC3339 t = fixed_digits 4 (nat y) @ ''-'' @ fixed_digits 2 m @ ''-'' @ fixed_digits 2 (nat dd) @
      ''T'' @ fixed_digits 2 (nat (s div 3600)) @ '':'' @ fixed_digits 2 (nat (s div 60 mod 60)) @ '':'' @
      fixed_digits 2 (nat (s mod 60)) @ ''Z''"
proof -
  obtain y m dd where d: "date_of (t div Second div 86400 + 719162) = (y, m, dd)" by (metis prod_cases3)
  let ?s = "t div Second mod 86400"
  have v: "valid_date y m dd" "0 \<le> y" "y < 10000" "day_number y m dd = t div Second div 86400 + 719162"
    using in_years_date [OF assms d] by auto
  have s: "0 \<le> ?s" "?s < 86400" by simp_all
  have dd: "1 \<le> m" "m \<le> 12" "1 \<le> dd" "dd \<le> 31" using v(1) days_in_pos [of m y] by (auto simp: valid_date_def)
  show thesis
  proof (rule that [OF v(1-3) s])
    show "t div Second = (day_number y m dd - 719162) * 86400 + ?s" using v(4) by simp
    show "time_Format_RFC3339 t = fixed_digits 4 (nat y) @ ''-'' @ fixed_digits 2 m @ ''-'' @ fixed_digits 2 (nat dd) @
      ''T'' @ fixed_digits 2 (nat (?s div 3600)) @ '':'' @ fixed_digits 2 (nat (?s div 60 mod 60)) @ '':'' @
      fixed_digits 2 (nat (?s mod 60)) @ ''Z''"
      using v(2,3) dd seconds_of_day [OF s] by (simp add: time_Format_RFC3339_def d appendInt_fixed Let_def)
  qed
qed

lemma decimal_fixed_int: "0 \<le> x \<Longrightarrow> x < 10 ^ w \<Longrightarrow> decimal (fixed_digits w (nat x)) = x"
  by (simp add: decimal_fixed_digits nat_less_iff)

lemma parse_format:
  assumes "in_years t" shows "time_Parse_RFC3339 (time_Format_RFC3339 t) = Some (t div Second * Second)"
proof -
  obtain y m dd s where f: "valid_date y m dd" "0 \<le> y" "y < 10000" "0 \<le> s" "s < 86400"
    "t div Second = (day_number y m dd - 719162) * 86400 + s"
    "time_Format_RFC3339 t = fixed_digits 4 (nat y) @ ''-'' @ fixed_digits 2 m @ ''-'' @ fixed_digits 2 (nat dd) @
      ''T'' @ fixed_digits 2 (nat (s div 3600)) @ '':'' @ fixed_digits 2 (nat (s div 60 mod 60)) @ '':'' @
      fixed_digits 2 (nat (s mod 60)) @ ''Z''"
    by (rule format_fields [OF assms])
  have s: "0 \<le> s div 3600" "s div 3600 < 24" "0 \<le> s div 60 mod 60" "s div 60 mod 60 < 60" "0 \<le> s mod 60" "s mod 60 < 60"
    "3600 * (s div 3600) + 60 * (s div 60 mod 60) + s mod 60 = s" using seconds_of_day [OF f(4,5)] by auto
  have dd: "m \<le> 12" "1 \<le> dd" "dd \<le> 31" using f(1) days_in_pos [of m y] by (auto simp: valid_date_def)
  have two: "decimal (fixed_digits 2 (nat x)) = x" if "0 \<le> x" "x < 60" for x
    using decimal_fixed_int [of x 2] that by simp
  have num: "decimal (fixed_digits 4 (nat y)) = y" "decimal (fixed_digits 2 m) = int m" "decimal (fixed_digits 2 (nat dd)) = dd"
    using decimal_fixed_int [of y 4] decimal_fixed_digits [of m 2] two [of dd] f(2,3) dd by simp_all
  have hms: "decimal (fixed_digits 2 (nat (s div 3600))) = s div 3600"
    "decimal (fixed_digits 2 (nat (s div 60 mod 60))) = s div 60 mod 60"
    "decimal (fixed_digits 2 (nat (s mod 60))) = s mod 60"
    by (rule two; use s(1-6) in linarith)+
  show ?thesis
    unfolding f(7) time_Parse_RFC3339_def
    by (simp add: Let_def nth_append parse_fraction_def parse_zone_def num hms f s,
        simp add: date_time_def Day_def Minute_def algebra_simps)
qed

lemma seconds_less:
  fixes s s' :: int
  assumes "0 \<le> s" "s < 86400" "0 \<le> s'" "s' < 86400"
  shows "s < s' \<longleftrightarrow> s div 3600 < s' div 3600 \<or> s div 3600 = s' div 3600 \<and>
    (s div 60 mod 60 < s' div 60 mod 60 \<or> s div 60 mod 60 = s' div 60 mod 60 \<and> s mod 60 < s' mod 60)"
proof -
  have "3600 * h + 60 * mi + sc < 3600 * h' + 60 * mi' + sc' \<longleftrightarrow> h < h' \<or> h = h' \<and> (mi < mi' \<or> mi = mi' \<and> sc < sc')"
    if "0 \<le> mi" "mi < 60" "0 \<le> mi'" "mi' < 60" "0 \<le> sc" "sc < 60" "0 \<le> sc'" "sc' < 60"
    for h h' mi mi' sc sc' :: int
    using that by (cases h h' rule: linorder_cases; cases mi mi' rule: linorder_cases) auto
  from this [of "s div 60 mod 60" "s' div 60 mod 60" "s mod 60" "s' mod 60" "s div 3600" "s' div 3600"]
  show ?thesis using seconds_of_day [OF assms(1,2)] seconds_of_day [OF assms(3,4)] by simp
qed

lemma lexordp_same [simp]: "ord_class.lexordp (us @ xs) (us @ ys) \<longleftrightarrow> ord_class.lexordp xs ys"
  for us :: "'a :: linorder list"
  by (induction us) auto

lemma lexordp_field:
  assumes "i < 10 ^ w" and "j < 10 ^ w"
  shows "ord_class.lexordp (fixed_digits w i @ xs) (fixed_digits w j @ ys) \<longleftrightarrow>
    i < j \<or> i = j \<and> ord_class.lexordp xs ys"
proof -
  have "fixed_digits w i = fixed_digits w j \<longleftrightarrow> i = j"
    using assms by (metis decimal_fixed_digits of_nat_eq_iff)
  then show ?thesis using assms by (simp add: lexordp_append fixed_digits_less)
qed

lemma lexordp_int_field:
  assumes "0 \<le> i" "i < 10 ^ w" and "0 \<le> j" "j < 10 ^ w"
  shows "ord_class.lexordp (fixed_digits w (nat i) @ xs) (fixed_digits w (nat j) @ ys) \<longleftrightarrow>
    i < j \<or> i = j \<and> ord_class.lexordp xs ys"
  using assms by (subst lexordp_field) (auto simp: nat_less_iff)

lemma fields_less:
  assumes "0 \<le> y" "y < 10000" "m \<le> 12" "1 \<le> dd" "dd \<le> 31" "0 \<le> h" "h < 24" "0 \<le> mi" "mi < 60" "0 \<le> sc" "sc < 60"
    and "0 \<le> y'" "y' < 10000" "m' \<le> 12" "1 \<le> dd'" "dd' \<le> 31" "0 \<le> h'" "h' < 24" "0 \<le> mi'" "mi' < 60"
      "0 \<le> sc'" "sc' < 60"
  shows "ord_class.lexordp
    (fixed_digits 4 (nat y) @ ''-'' @ fixed_digits 2 m @ ''-'' @ fixed_digits 2 (nat dd) @ ''T'' @
       fixed_digits 2 (nat h) @ '':'' @ fixed_digits 2 (nat mi) @ '':'' @ fixed_digits 2 (nat sc) @ ''Z'')
    (fixed_digits 4 (nat y') @ ''-'' @ fixed_digits 2 m' @ ''-'' @ fixed_digits 2 (nat dd') @ ''T'' @
       fixed_digits 2 (nat h') @ '':'' @ fixed_digits 2 (nat mi') @ '':'' @ fixed_digits 2 (nat sc') @ ''Z'') \<longleftrightarrow>
    date_less (y, m, dd) (y', m', dd') \<or> (y, m, dd) = (y', m', dd') \<and>
      (h < h' \<or> h = h' \<and> (mi < mi' \<or> mi = mi' \<and> sc < sc'))"
proof -
  let ?lex = "ord_class.lexordp :: string \<Rightarrow> string \<Rightarrow> bool"
  have int: "?lex (fixed_digits w (nat i) @ xs) (fixed_digits w (nat j) @ ys) \<longleftrightarrow> i < j \<or> i = j \<and> ?lex xs ys"
    if "i \<in> {0..<10 ^ w}" "j \<in> {0..<10 ^ w}" for i j w xs ys
    using that by (intro lexordp_int_field) simp_all
  have "?lex (fixed_digits 2 m @ xs) (fixed_digits 2 m' @ ys) \<longleftrightarrow> m < m' \<or> m = m' \<and> ?lex xs ys" for xs ys
    using assms by (intro lexordp_field) simp_all
  note fields = this int [of y 4 y'] int [of dd 2 dd'] int [of h 2 h'] int [of mi 2 mi'] int [of sc 2 sc']
  have range: "y \<in> {0..<10 ^ 4}" "y' \<in> {0..<10 ^ 4}" "dd \<in> {0..<10 ^ 2}" "dd' \<in> {0..<10 ^ 2}" "h \<in> {0..<10 ^ 2}"
    "h' \<in> {0..<10 ^ 2}" "mi \<in> {0..<10 ^ 2}" "mi' \<in> {0..<10 ^ 2}" "sc \<in> {0..<10 ^ 2}" "sc' \<in> {0..<10 ^ 2}"
    using assms by simp_all
  have z: "?lex ''Z'' ''Z'' = False" by simp
  show ?thesis
    by (simp only: fields range lexordp_same z date_less.simps prod.inject) blast
qed

lemma format_less:
  assumes "in_years t" and "in_years t'"
  shows "ord_class.lexordp (time_Format_RFC3339 t) (time_Format_RFC3339 t') \<longleftrightarrow> t div Second < t' div Second"
proof -
  obtain y m dd s where f: "valid_date y m dd" "0 \<le> y" "y < 10000" "0 \<le> s" "s < 86400"
    "t div Second = (day_number y m dd - 719162) * 86400 + s"
    "time_Format_RFC3339 t = fixed_digits 4 (nat y) @ ''-'' @ fixed_digits 2 m @ ''-'' @ fixed_digits 2 (nat dd) @
      ''T'' @ fixed_digits 2 (nat (s div 3600)) @ '':'' @ fixed_digits 2 (nat (s div 60 mod 60)) @ '':'' @
      fixed_digits 2 (nat (s mod 60)) @ ''Z''"
    by (rule format_fields [OF assms(1)])
  obtain y' m' dd' s' where f': "valid_date y' m' dd'" "0 \<le> y'" "y' < 10000" "0 \<le> s'" "s' < 86400"
    "t' div Second = (day_number y' m' dd' - 719162) * 86400 + s'"
    "time_Format_RFC3339 t' = fixed_digits 4 (nat y') @ ''-'' @ fixed_digits 2 m' @ ''-'' @ fixed_digits 2 (nat dd') @
      ''T'' @ fixed_digits 2 (nat (s' div 3600)) @ '':'' @ fixed_digits 2 (nat (s' div 60 mod 60)) @ '':'' @
      fixed_digits 2 (nat (s' mod 60)) @ ''Z''"
    by (rule format_fields [OF assms(2)])
  have dd: "m \<le> 12" "1 \<le> dd" "dd \<le> 31" "m' \<le> 12" "1 \<le> dd'" "dd' \<le> 31"
    using f(1) f'(1) days_in_pos [of m y] days_in_pos [of m' y'] by (auto simp: valid_date_def)
  note s = seconds_of_day [OF f(4,5)] seconds_of_day [OF f'(4,5)]
  have "ord_class.lexordp (time_Format_RFC3339 t) (time_Format_RFC3339 t') \<longleftrightarrow>
      date_less (y, m, dd) (y', m', dd') \<or> (y, m, dd) = (y', m', dd') \<and> s < s'"
    unfolding f(7) f'(7) seconds_less [OF f(4,5) f'(4,5)]
    by (rule fields_less) (use f(2,3) f'(2,3) dd s in blast)+
  also have "\<dots> \<longleftrightarrow> t div Second < t' div Second"
  proof (cases "day_number y m dd" "day_number y' m' dd'" rule: linorder_cases)
    case less
    then have "(day_number y m dd - 719162) * 86400 + s < (day_number y' m' dd' - 719162) * 86400 + s'"
      using f(4,5) f'(4,5) by simp
    then show ?thesis
      unfolding f(6) f'(6) using less day_number_less_iff [OF f(1) f'(1)] by blast
  next
    case equal
    then have "(y, m, dd) = (y', m', dd')"
      using day_number_less_iff [OF f(1) f'(1)] day_number_less_iff [OF f'(1) f(1)] by auto
    then show ?thesis unfolding f(6) f'(6) by auto
  next
    case greater
    then have "\<not> date_less (y, m, dd) (y', m', dd')" "(y, m, dd) \<noteq> (y', m', dd')"
      using day_number_less_iff [OF f(1) f'(1)] by auto
    moreover have "\<not> (day_number y m dd - 719162) * 86400 + s < (day_number y' m' dd' - 719162) * 86400 + s'"
      using greater f(4,5) f'(4,5) by simp
    ultimately show ?thesis unfolding f(6) f'(6) by blast
  qed
  finally show ?thesis .
qed

end
