(* ===== verification/SQLite.thy ===== *)
theory SQLite
  imports MsgLog Limiter Times
begin

text \<open>
  \<open>internal/admin/sqlite.go\<close> with the row types of \<open>pkg/admin/types.go\<close>: the admin store. A table
  is the list of its rows; an operation is the effect of its SQL statement on the tables, with the
  PRIMARY KEY and UNIQUE constraints of the schema (SQLite does not enforce the REFERENCES
  clauses unless told to, which the code does not). A time column holds RFC 3339 text of UTC
  instants: it keeps whole seconds, and comparing the text compares the instants. The order that
  ORDER BY leaves open is the sorting function's. Every statement fails while the database does.
\<close>

section \<open>Rows\<close>

record Organization =
  Org_ID :: string
  Org_Name :: string
  Org_CreatedAt :: time

record User =
  U_ID :: string
  U_OrgID :: string
  Username :: string
  Password :: string
  U_Role :: Role
  U_CreatedAt :: time

type_synonym AgentStatus = string

definition AgentStatusActive :: AgentStatus where [wire]: "AgentStatusActive = ''active''"
definition AgentStatusSuspended :: AgentStatus where [wire]: "AgentStatusSuspended = ''suspended''"
definition AgentStatusRevoked :: AgentStatus where [wire]: "AgentStatusRevoked = ''revoked''"

record RegisteredAgent =
  A_ID :: string
  A_OrgID :: string
  A_AgentID :: string
  DisplayName :: string
  A_Status :: AgentStatus
  RegisteredBy :: string
  RegisteredAt :: time

record AuditEvent =
  E_ID :: string
  E_OrgID :: string
  E_UserID :: string
  E_Username :: string
  E_Action :: string
  E_TargetType :: string
  E_TargetID :: string
  E_Detail :: string
  E_CreatedAt :: time

text \<open>A zero time in the filter is \<open>None\<close>.\<close>

record MessageLogFilter =
  F_AgentID :: string
  F_ToolName :: string
  Since :: "time option"
  Until :: "time option"
  F_Limit :: int

section \<open>The database\<close>

record db =
  t_organizations :: "Organization list"
  t_users :: "User list"
  t_agents :: "RegisteredAgent list"
  t_audit :: "AuditEvent list"
  t_keys :: "APIKey list"
  t_policies :: "CommunicationPolicy list"
  t_logs :: "MessageLog list"
  t_limits :: "AgentLimits list"
  db_failure :: "string option"

datatype store_error = DBError string | UniqueViolation | ErrNoRows | UserNotFound string
  | KeyNotInOrg string string

definition empty_db :: db where
  "empty_db = \<lparr>t_organizations = [], t_users = [], t_agents = [], t_audit = [], t_keys = [],
     t_policies = [], t_logs = [], t_limits = [], db_failure = None\<rparr>"

text \<open>\<open>parseRFC3339(t.Format(time.RFC3339))\<close>\<close>

definition rfc3339 :: "time \<Rightarrow> time" where
  "rfc3339 t = t div Second * Second"

definition exec :: "(db \<Rightarrow> store_error option \<times> db) \<Rightarrow> db \<Rightarrow> store_error option \<times> db" where
  "exec stmt d = (case db_failure d of Some e \<Rightarrow> (Some (DBError e), d) | None \<Rightarrow> stmt d)"

definition query :: "(db \<Rightarrow> store_error + 'a) \<Rightarrow> db \<Rightarrow> store_error + 'a" where
  "query stmt d = (case db_failure d of Some e \<Rightarrow> Inl (DBError e) | None \<Rightarrow> stmt d)"

text \<open>\<open>row.Scan\<close> on a query for one row.\<close>

definition one_row :: "('r \<Rightarrow> bool) \<Rightarrow> 'r list \<Rightarrow> store_error + 'r" where
  "one_row P rows = (case find P rows of None \<Rightarrow> Inl ErrNoRows | Some r \<Rightarrow> Inr r)"

type_synonym 'r order_by = "('r \<Rightarrow> 'r \<Rightarrow> bool) \<Rightarrow> 'r list \<Rightarrow> 'r list"

section \<open>Organizations and users\<close>

definition CreateOrg :: "Organization \<Rightarrow> db \<Rightarrow> store_error option \<times> db" where
  "CreateOrg org = exec (\<lambda>d.
     if list_ex (\<lambda>r. Org_ID r = Org_ID org \<or> Org_Name r = Org_Name org) (t_organizations d)
     then (Some UniqueViolation, d)
     else (None, d\<lparr>t_organizations := t_organizations d @
             [org\<lparr>Org_CreatedAt := rfc3339 (Org_CreatedAt org)\<rparr>]\<rparr>))"

definition GetOrgByID :: "string \<Rightarrow> db \<Rightarrow> store_error + Organization" where
  "GetOrgByID i = query (\<lambda>d. one_row (\<lambda>r. Org_ID r = i) (t_organizations d))"

definition CreateUser :: "User \<Rightarrow> db \<Rightarrow> store_error option \<times> db" where
  "CreateUser u = exec (\<lambda>d.
     if list_ex (\<lambda>r. U_ID r = U_ID u \<or> Username r = Username u) (t_users d)
     then (Some UniqueViolation, d)
     else (None, d\<lparr>t_users := t_users d @ [u\<lparr>U_CreatedAt := rfc3339 (U_CreatedAt u)\<rparr>]\<rparr>))"

definition GetUserByUsername :: "string \<Rightarrow> db \<Rightarrow> store_error + User" where
  "GetUserByUsername n = query (\<lambda>d. one_row (\<lambda>r. Username r = n) (t_users d))"

definition GetUserByID :: "string \<Rightarrow> db \<Rightarrow> store_error + User" where
  "GetUserByID i = query (\<lambda>d. one_row (\<lambda>r. U_ID r = i) (t_users d))"

definition UpdateUserPassword :: "string \<Rightarrow> string \<Rightarrow> db \<Rightarrow> store_error option \<times> db" where
  "UpdateUserPassword i hashedPassword = exec (\<lambda>d.
     (if length (filter (\<lambda>r. U_ID r = i) (t_users d)) = 0 then Some (UserNotFound i) else None,
      d\<lparr>t_users := map (\<lambda>r. if U_ID r = i then r\<lparr>Password := hashedPassword\<rparr> else r) (t_users d)\<rparr>))"

section \<open>Agents\<close>

definition RegisterAgent :: "RegisteredAgent \<Rightarrow> db \<Rightarrow> store_error option \<times> db" where
  "RegisterAgent a = exec (\<lambda>d.
     if list_ex (\<lambda>r. A_ID r = A_ID a \<or> (A_OrgID r = A_OrgID a \<and> A_AgentID r = A_AgentID a)) (t_agents d)
     then (Some UniqueViolation, d)
     else (None, d\<lparr>t_agents := t_agents d @ [a\<lparr>RegisteredAt := rfc3339 (RegisteredAt a)\<rparr>]\<rparr>))"

definition GetAgent :: "string \<Rightarrow> string \<Rightarrow> db \<Rightarrow> store_error + RegisteredAgent" where
  "GetAgent org a = query (\<lambda>d. one_row (\<lambda>r. A_OrgID r = org \<and> A_AgentID r = a) (t_agents d))"

definition ListAgents :: "RegisteredAgent order_by \<Rightarrow> string \<Rightarrow> db \<Rightarrow> store_error + RegisteredAgent list"
where
  "ListAgents srt org = query (\<lambda>d.
     Inr (srt (\<lambda>x y. RegisteredAt x > RegisteredAt y) (filter (\<lambda>r. A_OrgID r = org) (t_agents d))))"

definition UpdateAgentStatus :: "string \<Rightarrow> string \<Rightarrow> AgentStatus \<Rightarrow> db \<Rightarrow> store_error option \<times> db" where
  "UpdateAgentStatus org a status = exec (\<lambda>d.
     (None, d\<lparr>t_agents := map (\<lambda>r. if A_OrgID r = org \<and> A_AgentID r = a
                                   then r\<lparr>A_Status := status\<rparr> else r) (t_agents d)\<rparr>))"

section \<open>Policies\<close>

definition CreatePolicy :: "CommunicationPolicy \<Rightarrow> db \<Rightarrow> store_error option \<times> db" where
  "CreatePolicy p = exec (\<lambda>d.
     if list_ex (\<lambda>r. PolicyID r = PolicyID p) (t_policies d) then (Some UniqueViolation, d)
     else (None, d\<lparr>t_policies := t_policies d @
             [p\<lparr>PolicyCreatedAt := rfc3339 (PolicyCreatedAt p)\<rparr>]\<rparr>))"

definition GetPolicy :: "string \<Rightarrow> db \<Rightarrow> store_error + CommunicationPolicy" where
  "GetPolicy i = query (\<lambda>d. one_row (\<lambda>r. PolicyID r = i) (t_policies d))"

definition ListPolicies :: "CommunicationPolicy order_by \<Rightarrow> string \<Rightarrow> db
    \<Rightarrow> store_error + CommunicationPolicy list" where
  "ListPolicies srt org = query (\<lambda>d.
     Inr (srt (\<lambda>x y. Priority x > Priority y) (filter (\<lambda>r. PolicyOrgID r = org) (t_policies d))))"

definition UpdatePolicy :: "CommunicationPolicy \<Rightarrow> db \<Rightarrow> store_error option \<times> db" where
  "UpdatePolicy p = exec (\<lambda>d.
     (None, d\<lparr>t_policies := map (\<lambda>r. if PolicyID r = PolicyID p
        then r\<lparr>SourceID := SourceID p, TargetID := TargetID p, Direction := Direction p,
               Action := Action p, Priority := Priority p\<rparr> else r) (t_policies d)\<rparr>))"

definition DeletePolicy :: "string \<Rightarrow> db \<Rightarrow> store_error option \<times> db" where
  "DeletePolicy i = exec (\<lambda>d. (None, d\<lparr>t_policies := filter (\<lambda>r. PolicyID r \<noteq> i) (t_policies d)\<rparr>))"

section \<open>Audit events\<close>

definition AppendAuditEvent :: "AuditEvent \<Rightarrow> db \<Rightarrow> store_error option \<times> db" where
  "AppendAuditEvent e = exec (\<lambda>d.
     if list_ex (\<lambda>r. E_ID r = E_ID e) (t_audit d) then (Some UniqueViolation, d)
     else (None, d\<lparr>t_audit := t_audit d @ [e\<lparr>E_CreatedAt := rfc3339 (E_CreatedAt e)\<rparr>]\<rparr>))"

text \<open>\<open>LIMIT n\<close>: a negative limit means no limit.\<close>

definition sql_limit :: "int \<Rightarrow> 'r list \<Rightarrow> 'r list" where
  "sql_limit n rows = (if n < 0 then rows else take (nat n) rows)"

definition ListAuditEvents :: "AuditEvent order_by \<Rightarrow> string \<Rightarrow> int \<Rightarrow> db
    \<Rightarrow> store_error + AuditEvent list" where
  "ListAuditEvents srt org lim = query (\<lambda>d.
     Inr (sql_limit lim (srt (\<lambda>x y. E_CreatedAt x > E_CreatedAt y)
            (filter (\<lambda>r. E_OrgID r = org) (t_audit d)))))"

section \<open>API keys\<close>

definition CreateAPIKey :: "APIKey \<Rightarrow> db \<Rightarrow> store_error option \<times> db" where
  "CreateAPIKey k = exec (\<lambda>d.
     if list_ex (\<lambda>r. K_ID r = K_ID k \<or> KeyHash r = KeyHash k) (t_keys d)
     then (Some UniqueViolation, d)
     else (None, d\<lparr>t_keys := t_keys d @
             [k\<lparr>K_CreatedAt := rfc3339 (K_CreatedAt k), RevokedAt := None\<rparr>]\<rparr>))"

definition GetAPIKeyByHash :: "string \<Rightarrow> db \<Rightarrow> store_error + APIKey" where
  "GetAPIKeyByHash h = query (\<lambda>d. one_row (\<lambda>r. KeyHash r = h) (t_keys d))"

definition GetAPIKeyByAgentID :: "APIKey order_by \<Rightarrow> string \<Rightarrow> string \<Rightarrow> db \<Rightarrow> store_error + APIKey" where
  "GetAPIKeyByAgentID srt org a = query (\<lambda>d.
     one_row (\<lambda>r. True) (srt (\<lambda>x y. K_CreatedAt x > K_CreatedAt y)
       (filter (\<lambda>r. K_OrgID r = org \<and> K_AgentID r = a \<and> RevokedAt r = None) (t_keys d))))"

definition ListAPIKeys :: "APIKey order_by \<Rightarrow> string \<Rightarrow> db \<Rightarrow> store_error + APIKey list" where
  "ListAPIKeys srt org = query (\<lambda>d.
     Inr (srt (\<lambda>x y. K_CreatedAt x > K_CreatedAt y)
       (filter (\<lambda>r. K_OrgID r = org \<and> RevokedAt r = None) (t_keys d))))"

definition RevokeAPIKey :: "time \<Rightarrow> string \<Rightarrow> string \<Rightarrow> db \<Rightarrow> store_error option \<times> db" where
  "RevokeAPIKey now org i = exec (\<lambda>d.
     (if length (filter (\<lambda>r. K_ID r = i \<and> K_OrgID r = org) (t_keys d)) = 0
      then Some (KeyNotInOrg i org) else None,
      d\<lparr>t_keys := map (\<lambda>r. if K_ID r = i \<and> K_OrgID r = org
                            then r\<lparr>RevokedAt := Some (rfc3339 now)\<rparr> else r) (t_keys d)\<rparr>))"

section \<open>Message logs\<close>

definition defaultMessageLogLimit :: int where "defaultMessageLogLimit = 200"

definition AppendMessageLog :: "MessageLog \<Rightarrow> db \<Rightarrow> store_error option \<times> db" where
  "AppendMessageLog row = exec (\<lambda>d.
     if list_ex (\<lambda>r. ML_ID r = ML_ID row) (t_logs d) then (Some UniqueViolation, d)
     else (None, d\<lparr>t_logs := t_logs d @ [row\<lparr>ML_CreatedAt := rfc3339 (ML_CreatedAt row)\<rparr>]\<rparr>))"

definition log_matches :: "string \<Rightarrow> MessageLogFilter \<Rightarrow> MessageLog \<Rightarrow> bool" where
  "log_matches org f r \<longleftrightarrow>
     ML_OrgID r = org \<and>
     (F_AgentID f \<noteq> '''' \<longrightarrow> ML_FromAgent r = F_AgentID f \<or> ML_ToAgent r = F_AgentID f) \<and>
     (F_ToolName f \<noteq> '''' \<longrightarrow> ML_ToolName r = F_ToolName f) \<and>
     (case Since f of None \<Rightarrow> True | Some t \<Rightarrow> ML_CreatedAt r \<ge> rfc3339 t) \<and>
     (case Until f of None \<Rightarrow> True | Some t \<Rightarrow> ML_CreatedAt r \<le> rfc3339 t)"

definition ListMessageLogs :: "MessageLog order_by \<Rightarrow> string \<Rightarrow> MessageLogFilter \<Rightarrow> db
    \<Rightarrow> store_error + MessageLog list" where
  "ListMessageLogs srt org f = query (\<lambda>d.
     (let lim = (if F_Limit f \<le> 0 then defaultMessageLogLimit else F_Limit f)
      in Inr (sql_limit lim (srt (\<lambda>x y. ML_CreatedAt x > ML_CreatedAt y)
                (filter (log_matches org f) (t_logs d))))))"

definition DeleteMessageLogsBefore :: "string \<Rightarrow> time \<Rightarrow> db \<Rightarrow> (store_error + int) \<times> db" where
  "DeleteMessageLogsBefore org before d =
     (case db_failure d of
        Some e \<Rightarrow> (Inl (DBError e), d)
      | None \<Rightarrow>
          (let old = (\<lambda>r. ML_OrgID r = org \<and> ML_CreatedAt r < rfc3339 before)
           in (Inr (int (length (filter old (t_logs d)))),
               d\<lparr>t_logs := filter (\<lambda>r. \<not> old r) (t_logs d)\<rparr>)))"

section \<open>Limits\<close>

text \<open>
  The upsert replaces the row of the same organization and agent, id included; a row of another
  agent that has the new id makes it fail.
\<close>

definition UpsertAgentLimits :: "AgentLimits \<Rightarrow> db \<Rightarrow> store_error option \<times> db" where
  "UpsertAgentLimits l = exec (\<lambda>d.
     (let same = (\<lambda>r. L_OrgID r = L_OrgID l \<and> L_AgentID r = L_AgentID l);
          row = l\<lparr>L_UpdatedAt := rfc3339 (L_UpdatedAt l)\<rparr>
      in if list_ex (\<lambda>r. L_ID r = L_ID l \<and> \<not> same r) (t_limits d) then (Some UniqueViolation, d)
         else if list_ex same (t_limits d)
         then (None, d\<lparr>t_limits := map (\<lambda>r. if same r then row else r) (t_limits d)\<rparr>)
         else (None, d\<lparr>t_limits := t_limits d @ [row]\<rparr>)))"

definition GetEffectiveLimits_db :: "db \<Rightarrow> string \<Rightarrow> string \<Rightarrow> AgentLimits option \<times> store_error option" where
  "GetEffectiveLimits_db d org a =
     (case query (\<lambda>d. one_row (\<lambda>r. L_OrgID r = org \<and> L_AgentID r = a) (t_limits d)) d of
        Inr l \<Rightarrow> (Some l, None)
      | Inl err \<Rightarrow>
          if err \<noteq> ErrNoRows then (None, Some err)
          else
            (case query (\<lambda>d. one_row (\<lambda>r. L_OrgID r = org \<and> L_AgentID r = ''*'') (t_limits d)) d of
               Inl err \<Rightarrow> if err = ErrNoRows then (None, None) else (None, Some err)
             | Inr l \<Rightarrow> (Some l, None)))"

text \<open>Text compares bytewise.\<close>

definition text_less :: "string \<Rightarrow> string \<Rightarrow> bool" where
  "text_less x y = ord_class.lexordp x y"

definition ListAgentLimits :: "AgentLimits order_by \<Rightarrow> string \<Rightarrow> db
    \<Rightarrow> store_error + AgentLimits list" where
  "ListAgentLimits srt org = query (\<lambda>d.
     Inr (srt (\<lambda>x y. text_less (L_AgentID x) (L_AgentID y)) (filter (\<lambda>r. L_OrgID r = org) (t_limits d))))"

definition DeleteAgentLimits :: "string \<Rightarrow> db \<Rightarrow> store_error option \<times> db" where
  "DeleteAgentLimits i = exec (\<lambda>d. (None, d\<lparr>t_limits := filter (\<lambda>r. L_ID r \<noteq> i) (t_limits d)\<rparr>))"

section \<open>The constraints are kept\<close>

datatype db_op = DoCreateOrg Organization | DoCreateUser User | DoUpdateUserPassword string string
  | DoRegisterAgent RegisteredAgent | DoUpdateAgentStatus string string AgentStatus
  | DoCreatePolicy CommunicationPolicy | DoUpdatePolicy CommunicationPolicy | DoDeletePolicy string
  | DoAppendAuditEvent AuditEvent | DoCreateAPIKey APIKey | DoRevokeAPIKey time string string
  | DoAppendMessageLog MessageLog | DoDeleteMessageLogsBefore string time
  | DoUpsertAgentLimits AgentLimits | DoDeleteAgentLimits string | DbFails "string option"

fun apply_op :: "db_op \<Rightarrow> db \<Rightarrow> db" where
  "apply_op (DoCreateOrg x) d = snd (CreateOrg x d)"
| "apply_op (DoCreateUser x) d = snd (CreateUser x d)"
| "apply_op (DoUpdateUserPassword i h) d = snd (UpdateUserPassword i h d)"
| "apply_op (DoRegisterAgent x) d = snd (RegisterAgent x d)"
| "apply_op (DoUpdateAgentStatus r a s) d = snd (UpdateAgentStatus r a s d)"
| "apply_op (DoCreatePolicy x) d = snd (CreatePolicy x d)"
| "apply_op (DoUpdatePolicy x) d = snd (UpdatePolicy x d)"
| "apply_op (DoDeletePolicy i) d = snd (DeletePolicy i d)"
| "apply_op (DoAppendAuditEvent x) d = snd (AppendAuditEvent x d)"
| "apply_op (DoCreateAPIKey x) d = snd (CreateAPIKey x d)"
| "apply_op (DoRevokeAPIKey t r i) d = snd (RevokeAPIKey t r i d)"
| "apply_op (DoAppendMessageLog x) d = snd (AppendMessageLog x d)"
| "apply_op (DoDeleteMessageLogsBefore r t) d = snd (DeleteMessageLogsBefore r t d)"
| "apply_op (DoUpsertAgentLimits x) d = snd (UpsertAgentLimits x d)"
| "apply_op (DoDeleteAgentLimits i) d = snd (DeleteAgentLimits i d)"
| "apply_op (DbFails e) d = d\<lparr>db_failure := e\<rparr>"

definition apply_ops :: "db_op list \<Rightarrow> db \<Rightarrow> db" where
  "apply_ops ops d = fold apply_op ops d"

definition unique_by :: "('r \<Rightarrow> 'k) \<Rightarrow> 'r list \<Rightarrow> bool" where
  "unique_by key rows = distinct (map key rows)"

definition db_ok :: "db \<Rightarrow> bool" where
  "db_ok d \<longleftrightarrow>
     unique_by Org_ID (t_organizations d) \<and> unique_by Org_Name (t_organizations d) \<and>
     unique_by U_ID (t_users d) \<and> unique_by Username (t_users d) \<and>
     unique_by A_ID (t_agents d) \<and> unique_by (\<lambda>r. (A_OrgID r, A_AgentID r)) (t_agents d) \<and>
     unique_by E_ID (t_audit d) \<and> unique_by K_ID (t_keys d) \<and> unique_by KeyHash (t_keys d) \<and>
     unique_by PolicyID (t_policies d) \<and> unique_by ML_ID (t_logs d) \<and>
     unique_by L_ID (t_limits d) \<and> unique_by (\<lambda>r. (L_OrgID r, L_AgentID r)) (t_limits d)"

lemma unique_by_snoc: "unique_by key (rows @ [r]) \<longleftrightarrow> unique_by key rows \<and> key r \<notin> key ` set rows"
  by (auto simp: unique_by_def)

lemma unique_by_filter: "unique_by key rows \<Longrightarrow> unique_by key (filter P rows)"
  by (simp add: unique_by_def distinct_map_filter)

lemma unique_by_map: "(\<And>r. key (f r) = key r) \<Longrightarrow> unique_by key (map f rows) = unique_by key rows"
  by (simp add: unique_by_def comp_def)

lemma unique_by_same: "unique_by key rows \<Longrightarrow> x \<in> set rows \<Longrightarrow> y \<in> set rows \<Longrightarrow> key x = key y \<Longrightarrow> x = y"
  by (auto simp: unique_by_def distinct_map dest: inj_onD)

text \<open>Replacing the one row of a key by a row whose own id no other row has.\<close>

lemma unique_by_replace:
  assumes "unique_by i rows" and "unique_by key rows"
    and "\<forall>r\<in>set rows. i r = i row \<longrightarrow> key r = key row"
  shows "unique_by i (map (\<lambda>r. if key r = key row then row else r) rows)"
  using assms
proof (induction rows)
  case (Cons r rows)
  have u: "unique_by i rows" "unique_by key rows" "i r \<notin> i ` set rows" "key r \<notin> key ` set rows"
    using Cons.prems by (auto simp: unique_by_def)
  have IH: "unique_by i (map (\<lambda>r. if key r = key row then row else r) rows)"
    using Cons u by simp
  have img: "i (if key r = key row then row else r) \<notin>
      i ` (\<lambda>r. if key r = key row then row else r) ` set rows"
  proof (cases "key r = key row")
    case True
    then have "\<forall>x\<in>set rows. key x \<noteq> key row" using u(4) by (metis imageI)
    then show ?thesis using True Cons.prems(3) by fastforce
  next
    case False
    then show ?thesis using u(3) Cons.prems(3) by force
  qed
  have "i (if key r = key row then row else r) \<notin>
      set (map i (map (\<lambda>r. if key r = key row then row else r) rows))"
    unfolding set_map by (rule img)
  then show ?case using IH unfolding unique_by_def list.map distinct.simps by blast
qed (simp add: unique_by_def)

lemma list_ex_False: "\<not> list_ex P xs \<longleftrightarrow> (\<forall>x\<in>set xs. \<not> P x)"
  by (simp add: list_ex_iff)

lemmas statements = CreateOrg_def CreateUser_def UpdateUserPassword_def RegisterAgent_def
  UpdateAgentStatus_def CreatePolicy_def UpdatePolicy_def DeletePolicy_def AppendAuditEvent_def
  CreateAPIKey_def RevokeAPIKey_def AppendMessageLog_def DeleteMessageLogsBefore_def
  DeleteAgentLimits_def exec_def

lemma Upsert_ok:
  assumes "db_ok d" shows "db_ok (snd (UpsertAgentLimits l d))"
proof -
  define row where "row = l\<lparr>L_UpdatedAt := rfc3339 (L_UpdatedAt l)\<rparr>"
  define key where "key = (\<lambda>r :: AgentLimits. (L_OrgID r, L_AgentID r))"
  have row: "L_ID row = L_ID l" "key row = (L_OrgID l, L_AgentID l)" by (simp_all add: row_def key_def)
  have same: "(L_OrgID r = L_OrgID l \<and> L_AgentID r = L_AgentID l) = (key r = key row)" for r
    unfolding row by (simp add: key_def)
  have u: "unique_by L_ID (t_limits d)" "unique_by key (t_limits d)"
    using assms by (simp_all add: db_ok_def key_def)
  show ?thesis
  proof (cases "db_failure d \<noteq> None \<or> list_ex (\<lambda>r. L_ID r = L_ID l \<and> key r \<noteq> key row) (t_limits d)")
    case True
    then have "snd (UpsertAgentLimits l d) = d"
      unfolding UpsertAgentLimits_def exec_def same by (auto simp: Let_def split: option.split)
    then show ?thesis using assms by simp
  next
    case False
    then have f: "db_failure d = None" and no: "\<forall>r\<in>set (t_limits d). L_ID r = L_ID row \<longrightarrow> key r = key row"
      by (auto simp: list_ex_iff row)
    show ?thesis
    proof (cases "list_ex (\<lambda>r. key r = key row) (t_limits d)")
      case True
      then have e: "snd (UpsertAgentLimits l d) =
          d\<lparr>t_limits := map (\<lambda>r. if key r = key row then row else r) (t_limits d)\<rparr>"
        using False f unfolding UpsertAgentLimits_def exec_def same row_def [symmetric] by (simp add: Let_def)
      have "map key (map (\<lambda>r. if key r = key row then row else r) (t_limits d)) = map key (t_limits d)"
        by simp
      then have "unique_by key (map (\<lambda>r. if key r = key row then row else r) (t_limits d))"
        using u(2) unfolding unique_by_def by metis
      with unique_by_replace [OF u no] assms show ?thesis
        unfolding e db_ok_def key_def [symmetric] by simp
    next
      case no_row: False
      then have e: "snd (UpsertAgentLimits l d) = d\<lparr>t_limits := t_limits d @ [row]\<rparr>"
        using False f unfolding UpsertAgentLimits_def exec_def same row_def [symmetric] by (simp add: Let_def)
      have "L_ID row \<notin> L_ID ` set (t_limits d)" "key row \<notin> key ` set (t_limits d)"
        using no no_row by (auto simp: list_ex_iff)
      then show ?thesis using assms u
        unfolding e db_ok_def key_def [symmetric] by (simp add: unique_by_snoc)
    qed
  qed
qed

lemma apply_op_ok:
  assumes "db_ok d" shows "db_ok (apply_op p d)"
proof (cases p)
  case (DoUpsertAgentLimits x)
  then show ?thesis using Upsert_ok [OF assms] by simp
qed (use assms in \<open>auto simp: db_ok_def statements unique_by_snoc unique_by_filter unique_by_map
      list_ex_False Let_def split: option.splits\<close>)

lemma apply_ops_ok: "db_ok d \<Longrightarrow> db_ok (apply_ops ops d)"
  unfolding apply_ops_def by (induction ops arbitrary: d) (simp_all add: apply_op_ok)

lemma empty_db_ok: "db_ok empty_db"
  by (simp add: db_ok_def empty_db_def unique_by_def)

end
