(* ===== verification/StoreFacts.thy ===== *)
theory StoreFacts
  imports SQLite
begin

text \<open>
  What the rest of the system relies on in the admin store: a revoked key stays revoked, limits
  resolve to the agent's row or else the default row, the queries with an order and a limit return
  the newest rows, and the audit trail only grows. The store's queries in the form in which the
  gateway's embedded implementations take them are at the end.
\<close>

section \<open>Queries for one row\<close>

lemma one_row_Inr: "one_row P rows = Inr r \<Longrightarrow> r \<in> set rows \<and> P r"
  by (auto simp: one_row_def dest: find_Some_set split: option.splits)

lemma one_row_none: "one_row P rows = Inl e \<longleftrightarrow> e = ErrNoRows \<and> (\<forall>r\<in>set rows. \<not> P r)"
  by (auto simp: one_row_def find_None_set split: option.splits dest: find_Some_set)

lemma one_row_unique:
  assumes "unique_by key rows" and "r \<in> set rows" and "P r" and "\<And>x. P x \<Longrightarrow> key x = key r"
  shows "one_row P rows = Inr r"
proof (cases "one_row P rows")
  case (Inl e)
  then show ?thesis using assms by (auto simp: one_row_none)
next
  case (Inr x)
  then have "x \<in> set rows" "P x" using one_row_Inr by fast+
  then show ?thesis using Inr unique_by_same [OF assms(1) _ assms(2)] assms(4) by auto
qed

lemma query_Inr: "query f d = Inr x \<longleftrightarrow> db_failure d = None \<and> f d = Inr x"
  by (auto simp: query_def split: option.splits)

lemma exec_None: "exec f d = (None, d') \<longleftrightarrow> db_failure d = None \<and> f d = (None, d')"
  by (auto simp: exec_def split: option.splits)

text \<open>A statement that fails changes nothing, and one that succeeds found the database working.\<close>

lemma exec_down: "db_failure d = Some e \<Longrightarrow> exec f d = (Some (DBError e), d)"
  by (simp add: exec_def)

lemma query_down: "db_failure d = Some e \<Longrightarrow> query f d = Inl (DBError e)"
  by (simp add: query_def)

section \<open>API keys\<close>

lemma GetAPIKeyByHash_iff:
  assumes "db_ok d"
  shows "GetAPIKeyByHash h d = Inr k \<longleftrightarrow> db_failure d = None \<and> k \<in> set (t_keys d) \<and> KeyHash k = h"
proof -
  have u: "unique_by KeyHash (t_keys d)" using assms by (simp add: db_ok_def)
  show ?thesis
    using one_row_Inr [of "\<lambda>r. KeyHash r = h" "t_keys d" k]
      one_row_unique [OF u, of k "\<lambda>r. KeyHash r = h"]
    by (auto simp: GetAPIKeyByHash_def query_Inr)
qed

text \<open>The contract an authenticator needs of a store whose content changes by steps.\<close>

locale key_store =
  fixes find_key :: "'d \<Rightarrow> string \<Rightarrow> string + APIKey"
    and step :: "'op \<Rightarrow> 'd \<Rightarrow> 'd"
    and revoked :: "'d \<Rightarrow> string \<Rightarrow> bool"
  assumes revoked_found: "revoked d h \<Longrightarrow> find_key d h = Inr k \<Longrightarrow> RevokedAt k \<noteq> None"
    and revoked_step: "revoked d h \<Longrightarrow> revoked (step p d) h"
begin

lemma revoked_run: "revoked d h \<Longrightarrow> revoked (fold step ops d) h"
  by (induction ops arbitrary: d) (simp_all add: revoked_step)

lemma never_binds_again:
  assumes "revoked d (sha rawKey)"
  shows "\<not> key_binds sha find_key (fold step ops d) rawKey a"
  using revoked_found [OF revoked_run [OF assms]] by (auto simp: key_binds_def)

end

definition revoked_in :: "db \<Rightarrow> string \<Rightarrow> bool" where
  "revoked_in d h \<longleftrightarrow> db_ok d \<and> (\<exists>k\<in>set (t_keys d). KeyHash k = h \<and> RevokedAt k \<noteq> None)"

lemma t_keys_step:
  "t_keys (apply_op p d) = t_keys d \<or>
   (\<exists>k. t_keys (apply_op p d) = t_keys d @ [k]) \<or>
   (\<exists>P t. t_keys (apply_op p d) = map (\<lambda>r. if P r then r\<lparr>RevokedAt := Some t\<rparr> else r) (t_keys d))"
  by (cases p) (auto simp: statements UpsertAgentLimits_def Let_def split: option.split)

lemma revoked_in_map:
  assumes "db_ok d'" and "t_keys d' = map (\<lambda>r. if P r then r\<lparr>RevokedAt := Some t\<rparr> else r) (t_keys d)"
    and "k \<in> set (t_keys d)" and "RevokedAt k \<noteq> None \<or> P k"
  shows "revoked_in d' (KeyHash k)"
  unfolding revoked_in_def
proof (intro conjI bexI)
  let ?k = "if P k then k\<lparr>RevokedAt := Some t\<rparr> else k"
  show "?k \<in> set (t_keys d')" using assms(2,3) by auto
  show "KeyHash ?k = KeyHash k" by simp
  show "RevokedAt ?k \<noteq> None" using assms(4) by auto
qed (rule assms(1))

lemma revoked_in_step:
  assumes "revoked_in d h" shows "revoked_in (apply_op p d) h"
proof -
  obtain k where k: "db_ok d" "k \<in> set (t_keys d)" "KeyHash k = h" "RevokedAt k \<noteq> None"
    using assms by (auto simp: revoked_in_def)
  have ok: "db_ok (apply_op p d)" using apply_op_ok [OF k(1)] .
  from t_keys_step [of p d] show ?thesis
  proof (elim disjE exE)
    fix P t
    assume "t_keys (apply_op p d) = map (\<lambda>r. if P r then r\<lparr>RevokedAt := Some t\<rparr> else r) (t_keys d)"
    from revoked_in_map [OF ok this k(2)] k(3,4) show ?thesis by simp
  qed (use k ok in \<open>auto simp: revoked_in_def\<close>)
qed

definition db_keys :: "(store_error \<Rightarrow> string) \<Rightarrow> db \<Rightarrow> string \<Rightarrow> string + APIKey" where
  "db_keys err_text d h = wrap_err err_text (GetAPIKeyByHash h d)"

interpretation sqlite_keys: key_store "db_keys err_text" apply_op revoked_in
proof unfold_locales
  fix d h k p
  show "RevokedAt k \<noteq> None" if "revoked_in d h" "db_keys err_text d h = Inr k"
  proof -
    from that(1) obtain r where r: "db_ok d" "r \<in> set (t_keys d)" "KeyHash r = h" "RevokedAt r \<noteq> None"
      by (auto simp: revoked_in_def)
    have k: "k \<in> set (t_keys d)" "KeyHash k = h"
      using that(2) r(1) by (simp_all add: db_keys_def GetAPIKeyByHash_iff)
    have "unique_by KeyHash (t_keys d)" using r(1) by (simp add: db_ok_def)
    then have "k = r" using unique_by_same k(1) r(2) k(2) r(3) by metis
    then show ?thesis using r(4) by simp
  qed
  show "revoked_in (apply_op p d) h" if "revoked_in d h" using revoked_in_step [OF that] .
qed

text \<open>A key is never removed, and nothing of it changes but its time of revocation.\<close>

lemma key_kept_op:
  assumes "k \<in> set (t_keys d)" shows "\<exists>t. k\<lparr>RevokedAt := t\<rparr> \<in> set (t_keys (apply_op p d))"
proof -
  have "k\<lparr>RevokedAt := RevokedAt k\<rparr> = k" by simp
  with t_keys_step [of p d] show ?thesis
  proof (elim disjE exE)
    fix P t
    assume "t_keys (apply_op p d) = map (\<lambda>r. if P r then r\<lparr>RevokedAt := Some t\<rparr> else r) (t_keys d)"
    then have "(if P k then k\<lparr>RevokedAt := Some t\<rparr> else k) \<in> set (t_keys (apply_op p d))" using assms by auto
    then show ?thesis using \<open>k\<lparr>RevokedAt := RevokedAt k\<rparr> = k\<close> by (cases "P k") (auto intro: exI [of _ "RevokedAt k"])
  qed (use assms in \<open>auto intro!: exI [of _ "RevokedAt k"]\<close>)
qed

lemma key_kept_ops:
  assumes "k \<in> set (t_keys d)" shows "\<exists>t. k\<lparr>RevokedAt := t\<rparr> \<in> set (t_keys (apply_ops ops d))"
  using assms
proof (induction ops arbitrary: d k)
  case Nil
  then show ?case by (intro exI [of _ "RevokedAt k"]) (simp add: apply_ops_def)
next
  case (Cons p ops)
  from key_kept_op [OF Cons.prems, of p] obtain t where "k\<lparr>RevokedAt := t\<rparr> \<in> set (t_keys (apply_op p d))" by blast
  from Cons.IH [OF this] show ?case by (simp add: apply_ops_def)
qed

text \<open>So it is found under its hash until it is revoked.\<close>

lemma key_found_until_revoked:
  assumes "db_ok d" and "k \<in> set (t_keys d)" and "RevokedAt k = None" and "db_failure (apply_ops ops d) = None"
    and "\<not> revoked_in (apply_ops ops d) (KeyHash k)"
  shows "GetAPIKeyByHash (KeyHash k) (apply_ops ops d) = Inr k"
proof -
  have ok: "db_ok (apply_ops ops d)" using apply_ops_ok [OF assms(1)] .
  obtain t where t: "k\<lparr>RevokedAt := t\<rparr> \<in> set (t_keys (apply_ops ops d))" using key_kept_ops [OF assms(2)] by blast
  then have "t = None" using assms(5) ok by (force simp: revoked_in_def)
  moreover have "k\<lparr>RevokedAt := None\<rparr> = k" using assms(3) by (cases k) simp
  ultimately show ?thesis using t by (simp add: GetAPIKeyByHash_iff [OF ok] assms(4))
qed

lemma RevokeAPIKey_revokes:
  assumes "db_ok d" and "RevokeAPIKey t org i d = (None, d')"
    and "k \<in> set (t_keys d)" and "K_ID k = i" and "K_OrgID k = org"
  shows "revoked_in d' (KeyHash k)"
proof -
  have "apply_op (DoRevokeAPIKey t org i) d = d'" using assms(2) by simp
  then have "db_ok d'" using apply_op_ok [OF assms(1), of "DoRevokeAPIKey t org i"] by simp
  moreover have "t_keys d' = map (\<lambda>r. if K_ID r = i \<and> K_OrgID r = org
      then r\<lparr>RevokedAt := Some (rfc3339 t)\<rparr> else r) (t_keys d)"
    using assms(2) by (auto simp: RevokeAPIKey_def exec_None split: if_splits)
  ultimately show ?thesis by (rule revoked_in_map) (use assms(3-5) in simp_all)
qed

section \<open>Limits\<close>

definition find_limits :: "string \<Rightarrow> string \<Rightarrow> AgentLimits list \<Rightarrow> AgentLimits option" where
  "find_limits org a rows = find (\<lambda>r. L_OrgID r = org \<and> L_AgentID r = a) rows"

lemma GetEffectiveLimits_find:
  assumes "db_failure d = None"
  shows "GetEffectiveLimits_db d org a =
    (case find_limits org a (t_limits d) of
       Some l \<Rightarrow> (Some l, None) | None \<Rightarrow> (find_limits org ''*'' (t_limits d), None))"
  using assms
  by (simp add: GetEffectiveLimits_db_def query_def one_row_def find_limits_def split: option.split)

lemma find_limits_append: "find_limits org a (rows @ [l]) =
    (case find_limits org a rows of
       Some r \<Rightarrow> Some r | None \<Rightarrow> if L_OrgID l = org \<and> L_AgentID l = a then Some l else None)"
  by (induction rows) (auto simp: find_limits_def)

lemma find_limits_replace:
  assumes "\<exists>r\<in>set rows. L_OrgID r = L_OrgID l \<and> L_AgentID r = L_AgentID l"
  shows "find_limits org a (map (\<lambda>r. if L_OrgID r = L_OrgID l \<and> L_AgentID r = L_AgentID l then l else r) rows) =
    (if org = L_OrgID l \<and> a = L_AgentID l then Some l else find_limits org a rows)"
  using assms
proof (induction rows)
  case (Cons r rows)
  show ?case
  proof (cases "\<exists>r\<in>set rows. L_OrgID r = L_OrgID l \<and> L_AgentID r = L_AgentID l")
    case True
    then show ?thesis using Cons.IH by (auto simp: find_limits_def)
  next
    case False
    then have "map (\<lambda>r. if L_OrgID r = L_OrgID l \<and> L_AgentID r = L_AgentID l then l else r) rows = rows"
      by (intro map_idI) auto
    then show ?thesis using False Cons.prems by (auto simp: find_limits_def)
  qed
qed simp

lemma find_limits_None: "find_limits org a rows = None \<longleftrightarrow>
    \<not> (\<exists>r\<in>set rows. L_OrgID r = org \<and> L_AgentID r = a)"
  by (auto simp: find_limits_def find_None_set)

lemma Upsert_find:
  assumes "UpsertAgentLimits l d = (None, d')"
  shows "find_limits org a (t_limits d') =
    (if org = L_OrgID l \<and> a = L_AgentID l then Some (l\<lparr>L_UpdatedAt := rfc3339 (L_UpdatedAt l)\<rparr>)
     else find_limits org a (t_limits d)) \<and> db_failure d = None \<and> db_failure d' = None"
proof -
  let ?row = "l\<lparr>L_UpdatedAt := rfc3339 (L_UpdatedAt l)\<rparr>"
  show ?thesis
  proof (cases "\<exists>r\<in>set (t_limits d). L_OrgID r = L_OrgID l \<and> L_AgentID r = L_AgentID l")
    case True
    then have "t_limits d' = map (\<lambda>r. if L_OrgID r = L_OrgID ?row \<and> L_AgentID r = L_AgentID ?row then ?row else r)
        (t_limits d)" and "db_failure d = None" "db_failure d' = None"
      using assms by (auto simp: UpsertAgentLimits_def exec_None Let_def list_ex_iff split: if_splits)
    then show ?thesis using True find_limits_replace [of "t_limits d" ?row org a] by simp
  next
    case False
    then have "t_limits d' = t_limits d @ [?row]" and "db_failure d = None" "db_failure d' = None"
      using assms by (auto simp: UpsertAgentLimits_def exec_None Let_def list_ex_iff split: if_splits)
    moreover have "find_limits (L_OrgID l) (L_AgentID l) (t_limits d) = None"
      using False by (simp add: find_limits_None)
    ultimately show ?thesis by (auto simp: find_limits_append split: option.split)
  qed
qed

section \<open>Queries with an order and a limit\<close>

context slice_sorter
begin

lemma take_newest:
  fixes key :: "'a \<Rightarrow> int"
  assumes "ys = take n (srt (\<lambda>a b. key b < key a) xs)"
  shows "mset ys \<subseteq># mset xs" and "sorted_wrt (\<lambda>a b. key b \<le> key a) ys"
    and "length ys = min n (length xs)"
    and "x \<in># mset xs - mset ys \<Longrightarrow> y \<in> set ys \<Longrightarrow> key x \<le> key y"
proof -
  define s where "s = srt (\<lambda>a b. key b < key a) xs"
  define zs where "zs = drop n s"
  have ys: "ys = take n s" "s = ys @ zs" by (simp_all add: assms s_def zs_def)
  have so: "sorted_wrt (\<lambda>a b. key b \<le> key a) (ys @ zs)"
    unfolding ys(2) [symmetric] unfolding s_def by (rule sort_order)
  have m: "mset xs = mset ys + mset zs"
    using sort_perm [of "\<lambda>a b. key b < key a" xs] unfolding s_def [symmetric] ys(2) by simp
  show "mset ys \<subseteq># mset xs" by (simp add: m)
  show "sorted_wrt (\<lambda>a b. key b \<le> key a) ys" using so by (simp add: sorted_wrt_append)
  have "length s = length xs"
    using arg_cong [OF sort_perm [of "\<lambda>a b. key b < key a" xs], of size] by (simp add: s_def)
  then show "length ys = min n (length xs)" by (simp add: ys(1) min.commute)
  show "key x \<le> key y" if "x \<in># mset xs - mset ys" "y \<in> set ys"
    using that so by (simp add: m sorted_wrt_append)
qed

end

section \<open>The audit trail\<close>

lemma t_audit_step: "\<exists>es. t_audit (apply_op p d) = t_audit d @ es"
  by (cases p) (auto simp: statements UpsertAgentLimits_def Let_def split: option.split)

lemma t_audit_run: "\<exists>es. t_audit (apply_ops ops d) = t_audit d @ es"
  unfolding apply_ops_def
proof (induction ops arbitrary: d)
  case (Cons p ops)
  obtain es where "t_audit (apply_op p d) = t_audit d @ es" using t_audit_step by blast
  then show ?case using Cons.IH [of "apply_op p d"] by auto
qed simp

section \<open>The store behind the gateway\<close>

text \<open>
  The queries as the embedded implementations of the gateway call them; \<open>err_text\<close> is the text of
  an error.
\<close>

definition db_policies :: "(store_error \<Rightarrow> string) \<Rightarrow> slice_sort \<Rightarrow> db policy_lister" where
  "db_policies err_text srt d org = wrap_err err_text (ListPolicies srt org d)"

definition db_limits :: "(store_error \<Rightarrow> string) \<Rightarrow> db limit_getter" where
  "db_limits err_text d org a = apsnd (map_option err_text) (GetEffectiveLimits_db d org a)"

definition db_append_log :: "(store_error \<Rightarrow> string) \<Rightarrow> db log_appender" where
  "db_append_log err_text d m = apfst (map_option err_text) (AppendMessageLog m d)"

text \<open>
  A store that does not answer: authentication and the policy check fail closed, the limits
  fail open.
\<close>

lemma store_down:
  assumes "db_failure d = Some e"
  shows "db_keys err_text d h = Inl (err_text (DBError e))"
    and "db_policies err_text srt d org = Inl (err_text (DBError e))"
    and "db_limits err_text d org a = (None, Some (err_text (DBError e)))"
  using assms
  by (simp_all add: db_keys_def GetAPIKeyByHash_def db_policies_def ListPolicies_def db_limits_def
      GetEffectiveLimits_db_def query_down)

text \<open>Policy decisions over the store: the rows of the organisation decide, whatever their order.\<close>

lemma db_permits_iff:
  assumes "slice_sorter srt" and "db_failure d = None"
    and "unambiguous (filter (\<lambda>r. PolicyOrgID r = org) (t_policies d)) s t"
  shows "policy_permits srt (db_policies err_text srt) org d s t \<longleftrightarrow>
    policy_decides (filter (\<lambda>r. PolicyOrgID r = org) (t_policies d)) s t PolicyActionAllow"
proof -
  define rows where "rows = filter (\<lambda>r. PolicyOrgID r = org) (t_policies d)"
  define ls where "ls = srt (\<lambda>x y. Priority x > Priority y) rows"
  have ls: "set ls = set rows" unfolding ls_def by (rule slice_sorter.sort_set [OF assms(1)])
  have l: "db_policies err_text srt d org = Inr ls"
    using assms(2) by (simp add: db_policies_def ListPolicies_def query_def ls_def rows_def)
  have u: "unambiguous ls s t" using assms(3) unambiguous_set_eq [OF ls] by (simp add: rows_def)
  have "Evaluate srt ls s t = PolicyActionAllow \<longleftrightarrow> policy_decides ls s t PolicyActionAllow"
    using Evaluate_decides [OF assms(1), of ls s t] Evaluate_eqI [OF assms(1) u] by metis
  then show ?thesis
    unfolding policy_permits_def l using policy_decides_set_eq [OF ls] by (simp add: rows_def)
qed

end
