(* ===== verification/Admin.thy ===== *)
theory Admin
  imports StoreFacts Parser
begin

text \<open>
  \<open>internal/admin\<close>, the frame of the admin web server: requests and responses, what a request finds
  outside (\<open>web_env\<close>), the sessions (\<open>session.go\<close>), the middleware (\<open>middleware.go\<close>) and the audit
  trail (\<open>audit.go\<close>). A handler takes the request
  and the database and returns the response and the new database.
\<close>

section \<open>Sessions and requests\<close>

record sessionData =
  SD_UserID :: string
  SD_OrgID :: string
  SD_Username :: string
  SD_Role :: string
  ExpiresAt :: time

text \<open>
  \<open>wr_RawQuery\<close> is the query of the URL; \<open>wr_Form\<close> is what \<open>ParseForm\<close> makes of the request: an error,
  or the value that \<open>FormValue\<close> returns for each key; \<open>wr_Body\<close> is what reading the limited body yields.
\<close>

record WebRequest =
  wr_Method :: string
  wr_Path :: string
  wr_RawQuery :: string
  wr_Authorization :: string
  wr_Cookie :: "string \<Rightarrow> string option"
  wr_Form :: "string + (string \<Rightarrow> string)"
  wr_Body :: "nat \<Rightarrow> string + bytes"

record dashboardStats =
  AgentsActive :: int
  AgentsSuspended :: int
  AgentsRevoked :: int
  PoliciesAllow :: int
  PoliciesDeny :: int

text \<open>The pages with the data that is rendered into them, in the order of the Go structs.\<close>

datatype page =
    loginPage string string
  | profilePage sessionData string string
  | agentListPage sessionData "RegisteredAgent list" string
  | agentDetailPage sessionData RegisteredAgent "CommunicationPolicy list"
  | agentNewPage sessionData string string string
  | policyListPage sessionData "CommunicationPolicy list" bool
  | policyEditPage sessionData CommunicationPolicy "RegisteredAgent list" bool string
  | apiKeyListPage sessionData "APIKey list" string
  | limitsListPage sessionData "AgentLimits list" bool
  | limitsEditPage sessionData AgentLimits bool string
  | messageLogPage sessionData "MessageLog list" MessageLogFilter
  | auditPage sessionData "AuditEvent list" string
  | dashboardPage sessionData dashboardStats "AuditEvent list"

datatype reply = Redirect string | HttpError int string | NotFoundReply | NoContent
  | JSONReply bytes | PageReply page | StaticFile string

datatype cookie_change = SetSessionCookie string time | ClearSessionCookie

record WebResponse =
  w_reply :: reply
  w_cookie :: "cookie_change option"

definition reply_with :: "reply \<Rightarrow> WebResponse" where
  "reply_with r = \<lparr>w_reply = r, w_cookie = None\<rparr>"

definition StatusBadRequest :: int where "StatusBadRequest = 400"
definition StatusForbidden :: int where "StatusForbidden = 403"
definition StatusInternalServerError :: int where "StatusInternalServerError = 500"

text \<open>The body of \<open>MessageLogEntry\<close> as the ingest endpoint decodes it.\<close>

record ingestEntry =
  in_EnvelopeID :: string
  in_ThreadID :: string
  in_FromAgent :: string
  in_ToAgent :: string
  in_MsgType :: string
  in_Direction :: string
  in_ToolName :: string
  in_Body :: string

text \<open>
  What a request finds outside: the cookie codec (\<open>securecookie\<close>), \<open>bcrypt\<close>, \<open>crypto/rand\<close>, SHA-256, the
  JSON encoders and the decoder, the verb \<open>%q\<close>, the text of a store error, the order the
  database gives to rows that ORDER BY does not separate, \<open>sort.Slice\<close>, two fresh UUIDs, and the readings of the
  clock by the session check, by the row that is written, and by the audit event.
\<close>

record web_env =
  sc_Encode :: "string \<Rightarrow> sessionData \<Rightarrow> string + string"
  sc_Decode :: "string \<Rightarrow> string \<Rightarrow> string + sessionData"
  CompareHashAndPassword :: "string \<Rightarrow> string \<Rightarrow> string option"
  GenerateFromPassword :: "string \<Rightarrow> string + string"
  rand_Read :: "nat \<Rightarrow> string + bytes"
  sha256_hex :: "string \<Rightarrow> string"
  json_auth :: "string \<Rightarrow> bytes"
  json_action :: "string \<Rightarrow> bytes"
  json_limits :: "LimitInfo \<Rightarrow> bytes"
  json_entry :: "bytes \<Rightarrow> string + ingestEntry"
  quoted :: "string \<Rightarrow> string"
  err_text :: "store_error \<Rightarrow> string"
  by_agents :: "RegisteredAgent order_by"
  by_policies :: "CommunicationPolicy order_by"
  by_audit :: "AuditEvent order_by"
  by_keys :: "APIKey order_by"
  by_logs :: "MessageLog order_by"
  by_limits :: "AgentLimits order_by"
  sort_Slice :: slice_sort
  uuid_row :: string
  uuid_audit :: string
  t_session :: time
  t_row :: time
  t_audit_event :: time

section \<open>Sessions (session.go)\<close>

definition sessionCookieName :: string where "sessionCookieName = ''aga2aga_admin''"

datatype session_error = NoSessionCookie | InvalidSession | SessionExpired

definition sessions_Get :: "web_env \<Rightarrow> WebRequest \<Rightarrow> session_error + sessionData" where
  "sessions_Get env r =
     (case wr_Cookie r sessionCookieName of
        None \<Rightarrow> Inl NoSessionCookie
      | Some v \<Rightarrow>
          (case sc_Decode env sessionCookieName v of
             Inl err \<Rightarrow> Inl InvalidSession
           | Inr sd \<Rightarrow> if t_session env > ExpiresAt sd then Inl SessionExpired else Inr sd))"

definition sessions_Set :: "web_env \<Rightarrow> sessionData \<Rightarrow> string + cookie_change" where
  "sessions_Set env sd =
     (case sc_Encode env sessionCookieName sd of
        Inl err \<Rightarrow> Inl err
      | Inr encoded \<Rightarrow> Inr (SetSessionCookie encoded (ExpiresAt sd)))"

definition sessions_Clear :: cookie_change where
  "sessions_Clear = ClearSessionCookie"

section \<open>Middleware (middleware.go)\<close>

type_synonym 'r handler = "web_env \<Rightarrow> WebRequest \<Rightarrow> db \<Rightarrow> 'r \<times> db"

text \<open>A handler behind \<open>requireAuth\<close> finds the session in the context: its first argument.\<close>

type_synonym 'r session_handler = "sessionData \<Rightarrow> 'r handler"

definition role_order :: "Role \<Rightarrow> int" where
  "role_order role =
     (if role = RoleViewer then 1 else if role = RoleOperator then 2
      else if role = RoleAdmin then 3 else 0)"

definition roleAtLeast :: "Role \<Rightarrow> Role \<Rightarrow> bool" where
  "roleAtLeast role minimum \<longleftrightarrow> role_order role \<ge> role_order minimum"

definition requireAuth :: "WebResponse session_handler \<Rightarrow> WebResponse handler" where
  "requireAuth next_handler env r d =
     (case sessions_Get env r of
        Inl err \<Rightarrow> (reply_with (Redirect ''/login''), d)
      | Inr sd \<Rightarrow> next_handler sd env r d)"

definition requireRole :: "Role \<Rightarrow> WebResponse session_handler \<Rightarrow> WebResponse session_handler" where
  "requireRole minimum next_handler sd env r d =
     (if \<not> roleAtLeast (SD_Role sd) minimum
      then (reply_with (HttpError StatusForbidden ''Forbidden''), d)
      else next_handler sd env r d)"

lemma roleAtLeast_iff:
  "roleAtLeast role RoleViewer \<longleftrightarrow> role \<in> {RoleViewer, RoleOperator, RoleAdmin}"
  "roleAtLeast role RoleOperator \<longleftrightarrow> role \<in> {RoleOperator, RoleAdmin}"
  "roleAtLeast role RoleAdmin \<longleftrightarrow> role = RoleAdmin"
  by (auto simp: roleAtLeast_def role_order_def wire)

section \<open>The audit trail (audit.go)\<close>

definition audit_event :: "web_env \<Rightarrow> sessionData \<Rightarrow> string \<Rightarrow> string \<Rightarrow> string \<Rightarrow> string \<Rightarrow> AuditEvent" where
  "audit_event env sd action targetType targetID detail =
     \<lparr>E_ID = uuid_audit env, E_OrgID = SD_OrgID sd, E_UserID = SD_UserID sd,
      E_Username = SD_Username sd, E_Action = action, E_TargetType = targetType,
      E_TargetID = targetID, E_Detail = detail, E_CreatedAt = t_audit_event env\<rparr>"

text \<open>The error of the append is only printed.\<close>

definition recordAudit :: "web_env \<Rightarrow> sessionData \<Rightarrow> string \<Rightarrow> string \<Rightarrow> string \<Rightarrow> string \<Rightarrow> db \<Rightarrow> db" where
  "recordAudit env sd action targetType targetID detail d =
     snd (AppendAuditEvent (audit_event env sd action targetType targetID detail) d)"

lemma recordAudit_tables [simp]:
  "t_organizations (recordAudit env sd a tt ti de d) = t_organizations d"
  "t_users (recordAudit env sd a tt ti de d) = t_users d"
  "t_agents (recordAudit env sd a tt ti de d) = t_agents d"
  "t_keys (recordAudit env sd a tt ti de d) = t_keys d"
  "t_policies (recordAudit env sd a tt ti de d) = t_policies d"
  "t_logs (recordAudit env sd a tt ti de d) = t_logs d"
  "t_limits (recordAudit env sd a tt ti de d) = t_limits d"
  "db_failure (recordAudit env sd a tt ti de d) = db_failure d"
  by (auto simp: recordAudit_def AppendAuditEvent_def exec_def split: option.split)

definition stored_event :: "web_env \<Rightarrow> sessionData \<Rightarrow> string \<Rightarrow> string \<Rightarrow> string \<Rightarrow> string \<Rightarrow> AuditEvent" where
  "stored_event env sd action targetType targetID detail =
     (audit_event env sd action targetType targetID detail)\<lparr>E_CreatedAt := rfc3339 (t_audit_event env)\<rparr>"

lemma recordAudit_appends:
  assumes "db_failure d = None" and "uuid_audit env \<notin> E_ID ` set (t_audit d)"
  shows "t_audit (recordAudit env sd a tt ti de d) = t_audit d @ [stored_event env sd a tt ti de]"
proof -
  have "\<not> list_ex (\<lambda>r. E_ID r = uuid_audit env) (t_audit d)"
    unfolding list_ex_iff using assms(2) by (blast intro: rev_image_eqI sym)
  then show ?thesis using assms(1)
    by (simp add: recordAudit_def AppendAuditEvent_def exec_def audit_event_def stored_event_def)
qed

lemma recordAudit_or:
  "t_audit (recordAudit env sd a tt ti de d) \<in> {t_audit d, t_audit d @ [stored_event env sd a tt ti de]}"
  by (auto simp: recordAudit_def AppendAuditEvent_def exec_def audit_event_def stored_event_def
      split: option.split)

section \<open>Strings from the request\<close>

text \<open>\<open>hex.EncodeToString\<close>\<close>

definition lowerhex :: string where "lowerhex = ''0123456789abcdef''"

definition hex_EncodeToString :: "bytes \<Rightarrow> string" where
  "hex_EncodeToString b = concat (map (\<lambda>c. [lowerhex ! (of_char c div 16), lowerhex ! (of_char c mod 16)]) b)"

text \<open>\<open>strings.Cut\<close> and \<open>strings.CutPrefix\<close>\<close>

definition strings_Cut :: "string \<Rightarrow> char \<Rightarrow> string \<times> string" where
  "strings_Cut s c = (takeWhile (\<lambda>x. x \<noteq> c) s, tl (dropWhile (\<lambda>x. x \<noteq> c) s))"

definition strings_CutPrefix :: "string \<Rightarrow> string \<Rightarrow> string option" where
  "strings_CutPrefix s p = (if has_prefix p s then Some (drop (length p) s) else None)"

text \<open>
  \<open>url.ParseQuery\<close>, of which \<open>Query\<close> drops the error: pairs separated by \<open>&\<close>; a pair with a semicolon
  or a malformed escape is left out. \<open>Get\<close> returns the first value of a key or the empty string.
\<close>

fun split_at_char :: "char \<Rightarrow> string \<Rightarrow> string list" where
  "split_at_char c [] = [[]]"
| "split_at_char c (x # xs) =
     (if x = c then [] # split_at_char c xs
      else (case split_at_char c xs of [] \<Rightarrow> [[x]] | y # ys \<Rightarrow> (x # y) # ys))"

definition query_pair :: "string \<Rightarrow> (string \<times> string) list" where
  "query_pair p =
     (if CHR '';'' \<in> set p \<or> p = '''' then []
      else (let (k, v) = strings_Cut p (CHR ''='')
            in case (url_QueryUnescape k, url_QueryUnescape v) of
                 (Some k, Some v) \<Rightarrow> [(k, v)]
               | _ \<Rightarrow> []))"

definition url_ParseQuery :: "string \<Rightarrow> (string \<times> string) list" where
  "url_ParseQuery q = concat (map query_pair (split_at_char (CHR ''&'') q))"

definition query_Get :: "WebRequest \<Rightarrow> string \<Rightarrow> string" where
  "query_Get r key =
     (case find (\<lambda>(k, v). k = key) (url_ParseQuery (wr_RawQuery r)) of
        None \<Rightarrow> '''' | Some (k, v) \<Rightarrow> v)"

text \<open>
  \<open>strconv.Atoi\<close>: the value and whether an error is returned with it. A number out of range comes
  with an error and with the nearest 64-bit integer; a malformed one with 0.
\<close>

definition strconv_Atoi :: "string \<Rightarrow> int \<times> bool" where
  "strconv_Atoi s =
     (let (neg, ds) = (case s of [] \<Rightarrow> (False, []) | c # cs \<Rightarrow>
            if c = CHR ''-'' then (True, cs) else if c = CHR ''+'' then (False, cs) else (False, s))
      in if ds = [] \<or> list_ex (\<lambda>c. \<not> digit c) ds then (0, True)
         else
           (let v = decimal ds
            in if neg then (if v > 2 ^ 63 then (- (2 ^ 63), True) else (- v, False))
               else (if v \<ge> 2 ^ 63 then (2 ^ 63 - 1, True) else (v, False))))"

definition nonzero_time :: "time \<Rightarrow> time option" where
  "nonzero_time t = (if t = zero_time then None else Some t)"

text \<open>\<open>formInt\<close> (handlers_limits.go) ignores the error of \<open>Atoi\<close> but not its value.\<close>

definition formInt :: "(string \<Rightarrow> string) \<Rightarrow> string \<Rightarrow> int" where
  "formInt form key =
     (let (v, _) = strconv_Atoi (form key) in if v < 0 then 0 else v)"

lemma formInt_range: "0 \<le> formInt form key \<and> formInt form key < 2 ^ 63"
  using decimal_nonneg [of "tl (form key)"]
  by (auto simp: formInt_def strconv_Atoi_def Let_def split: prod.split list.split)

lemma formInt_overflow: "formInt (\<lambda>k. ''99999999999999999999'') key = 2 ^ 63 - 1"
  by (simp add: formInt_def strconv_Atoi_def decimal_def digit_def less_eq_char_def)

end
