(* ===== verification/AdminHandlers.thy ===== *)
theory AdminHandlers
  imports Admin
begin

text \<open>
  The pages of the admin server: \<open>handlers_auth.go\<close>, \<open>handlers_dashboard.go\<close>, \<open>handlers_agent.go\<close>,
  \<open>handlers_policy.go\<close>, \<open>handlers_apikey.go\<close>, \<open>handlers_limits.go\<close>, \<open>handlers_msglog.go\<close> and
  \<open>handlers_audit.go\<close>. A handler with a path parameter takes its value as first argument. Rendering
  yields the page with its data; the HTML templates and their errors are not modelled.
\<close>

abbreviation (input) render :: "page \<Rightarrow> WebResponse" where
  "render p \<equiv> reply_with (PageReply p)"

section \<open>Login, profile, logout (handlers_auth.go)\<close>

definition Hour :: duration where "Hour = 60 * Minute"

definition handleLoginGet :: "WebResponse handler" where
  "handleLoginGet env r d =
     (case sessions_Get env r of
        Inr _ \<Rightarrow> (reply_with (Redirect ''/''), d)
      | Inl _ \<Rightarrow> (render (loginPage '''' ''''), d))"

definition handleLoginPost :: "WebResponse handler" where
  "handleLoginPost env r d =
     (case wr_Form r of
        Inl err \<Rightarrow> (reply_with (HttpError StatusBadRequest ''bad request''), d)
      | Inr form \<Rightarrow>
     (let uname = form ''username''; pw = form ''password''
      in case GetUserByUsername uname d of
        Inl err \<Rightarrow> (render (loginPage ''Invalid username or password.'' uname), d)
      | Inr u \<Rightarrow>
     (case CompareHashAndPassword env (Password u) pw of
        Some err \<Rightarrow> (render (loginPage ''Invalid username or password.'' uname), d)
      | None \<Rightarrow>
     (let sd = \<lparr>SD_UserID = U_ID u, SD_OrgID = U_OrgID u, SD_Username = Username u,
                SD_Role = U_Role u, ExpiresAt = t_row env + 8 * Hour\<rparr>
      in case sessions_Set env sd of
        Inl err \<Rightarrow> (reply_with (HttpError StatusInternalServerError ''session error''), d)
      | Inr cookie \<Rightarrow>
          (\<lparr>w_reply = Redirect ''/'', w_cookie = Some cookie\<rparr>,
           recordAudit env sd ''user.login'' ''session'' (U_ID u) ''logged in'' d)))))"

definition handleProfileGet :: "WebResponse session_handler" where
  "handleProfileGet sd env r d = (render (profilePage sd '''' ''''), d)"

definition minPasswordLen :: nat where "minPasswordLen = 8"
definition maxPasswordLen :: nat where "maxPasswordLen = 72"

definition handleProfilePost :: "WebResponse session_handler" where
  "handleProfilePost sd env r d =
     (case wr_Form r of
        Inl err \<Rightarrow> (reply_with (HttpError StatusBadRequest ''bad request''), d)
      | Inr form \<Rightarrow>
     (let cur = form ''current_password''; newPw = form ''new_password'';
          confirm = form ''confirm_password'';
          renderErr = (\<lambda>msg. (render (profilePage sd '''' msg), d))
      in if length newPw < minPasswordLen then renderErr ''Password must be at least 8 characters.''
         else if length newPw > maxPasswordLen then renderErr ''Password must not exceed 72 characters.''
         else if newPw \<noteq> confirm then renderErr ''New password and confirmation do not match.''
         else case GetUserByID (SD_UserID sd) d of
           Inl err \<Rightarrow> renderErr ''Could not load user.''
         | Inr u \<Rightarrow>
        (case CompareHashAndPassword env (Password u) cur of
           Some err \<Rightarrow> renderErr ''Current password is incorrect.''
         | None \<Rightarrow>
        (case GenerateFromPassword env newPw of
           Inl err \<Rightarrow> (reply_with (HttpError StatusInternalServerError ''internal error''), d)
         | Inr hashed \<Rightarrow>
        (let (err, d) = UpdateUserPassword (SD_UserID sd) hashed d
         in case err of
           Some err \<Rightarrow> (reply_with (HttpError StatusInternalServerError ''failed to update password''), d)
         | None \<Rightarrow>
             (render (profilePage sd ''Password changed successfully.'' ''''),
              recordAudit env sd ''user.password_change'' ''user'' (SD_UserID sd) ''changed password'' d))))))"

definition handleLogout :: "WebResponse handler" where
  "handleLogout env r d =
     (\<lparr>w_reply = Redirect ''/login'', w_cookie = Some sessions_Clear\<rparr>,
      (case sessions_Get env r of
         Inr sd \<Rightarrow> recordAudit env sd ''user.logout'' ''session'' (SD_UserID sd) ''logged out'' d
       | Inl _ \<Rightarrow> d))"

section \<open>Dashboard (handlers_dashboard.go)\<close>

definition count_agent :: "RegisteredAgent \<Rightarrow> dashboardStats \<Rightarrow> dashboardStats" where
  "count_agent a st =
     (if A_Status a = AgentStatusActive then st\<lparr>AgentsActive := AgentsActive st + 1\<rparr>
      else if A_Status a = AgentStatusSuspended then st\<lparr>AgentsSuspended := AgentsSuspended st + 1\<rparr>
      else if A_Status a = AgentStatusRevoked then st\<lparr>AgentsRevoked := AgentsRevoked st + 1\<rparr>
      else st)"

definition count_policy :: "CommunicationPolicy \<Rightarrow> dashboardStats \<Rightarrow> dashboardStats" where
  "count_policy p st =
     (if Action p = PolicyActionAllow then st\<lparr>PoliciesAllow := PoliciesAllow st + 1\<rparr>
      else if Action p = PolicyActionDeny then st\<lparr>PoliciesDeny := PoliciesDeny st + 1\<rparr>
      else st)"

definition handleDashboard :: "WebResponse session_handler" where
  "handleDashboard sd env r d =
     (if wr_Path r \<noteq> ''/'' then (reply_with NotFoundReply, d)
      else case ListAgents (by_agents env) (SD_OrgID sd) d of
        Inl err \<Rightarrow> (reply_with (HttpError StatusInternalServerError ''failed to load agents''), d)
      | Inr agents \<Rightarrow>
     (case ListPolicies (by_policies env) (SD_OrgID sd) d of
        Inl err \<Rightarrow> (reply_with (HttpError StatusInternalServerError ''failed to load policies''), d)
      | Inr policies \<Rightarrow>
     (let stats = fold count_policy policies (fold count_agent agents
                    \<lparr>AgentsActive = 0, AgentsSuspended = 0, AgentsRevoked = 0,
                     PoliciesAllow = 0, PoliciesDeny = 0\<rparr>)
      in case ListAuditEvents (by_audit env) (SD_OrgID sd) 10 d of
        Inl err \<Rightarrow> (reply_with (HttpError StatusInternalServerError ''failed to load audit events''), d)
      | Inr recentEvents \<Rightarrow> (render (dashboardPage sd stats recentEvents), d))))"

section \<open>Agents (handlers_agent.go)\<close>

definition handleAgentList :: "WebResponse session_handler" where
  "handleAgentList sd env r d =
     (case ListAgents (by_agents env) (SD_OrgID sd) d of
        Inl err \<Rightarrow> (reply_with (HttpError StatusInternalServerError ''failed to load agents''), d)
      | Inr all \<Rightarrow>
          (let status = query_Get r ''status'';
               agents = filter (\<lambda>a. status = '''' \<or> A_Status a = status) all
           in (render (agentListPage sd agents status), d)))"

definition handleAgentNewGet :: "WebResponse session_handler" where
  "handleAgentNewGet sd env r d = (render (agentNewPage sd '''' '''' ''''), d)"

definition handleAgentNewPost :: "WebResponse session_handler" where
  "handleAgentNewPost sd env r d =
     (case wr_Form r of
        Inl err \<Rightarrow> (reply_with (HttpError StatusBadRequest ''bad request''), d)
      | Inr form \<Rightarrow>
     (let agentID = form ''agent_id''; displayName = form ''display_name''
      in if agentID = '''' then (render (agentNewPage sd ''Agent ID is required.'' '''' displayName), d)
         else case GetAgent (SD_OrgID sd) agentID d of
           Inr existing \<Rightarrow>
             (render (agentNewPage sd (''Agent '' @ quoted env agentID @ '' is already registered.'')
                agentID displayName), d)
         | Inl _ \<Rightarrow>
        (let (err, d) = RegisterAgent
               \<lparr>A_ID = uuid_row env, A_OrgID = SD_OrgID sd, A_AgentID = agentID,
                DisplayName = displayName, A_Status = AgentStatusActive,
                RegisteredBy = SD_UserID sd, RegisteredAt = t_row env\<rparr> d
         in case err of
           Some err \<Rightarrow>
             (render (agentNewPage sd (''Failed to register agent: '' @ err_text env err) agentID displayName), d)
         | None \<Rightarrow>
             (reply_with (Redirect ''/agents''),
              recordAudit env sd ''agent.register'' ''agent'' agentID (''registered '' @ agentID) d))))"

definition handleAgentDetail :: "string \<Rightarrow> WebResponse session_handler" where
  "handleAgentDetail agentID sd env r d =
     (case GetAgent (SD_OrgID sd) agentID d of
        Inl err \<Rightarrow> (reply_with NotFoundReply, d)
      | Inr a \<Rightarrow>
     (case ListPolicies (by_policies env) (SD_OrgID sd) d of
        Inl err \<Rightarrow> (reply_with (HttpError StatusInternalServerError ''failed to load policies''), d)
      | Inr all \<Rightarrow>
          (let related = filter (\<lambda>p. SourceID p = agentID \<or> TargetID p = agentID \<or>
                                      SourceID p = Wildcard \<or> TargetID p = Wildcard) all
           in (render (agentDetailPage sd a related), d))))"

definition setAgentStatus :: "AgentStatus \<Rightarrow> string \<Rightarrow> WebResponse session_handler" where
  "setAgentStatus status agentID sd env r d =
     (let (err, d) = UpdateAgentStatus (SD_OrgID sd) agentID status d
      in case err of
        Some err \<Rightarrow> (reply_with (HttpError StatusInternalServerError (''update failed: '' @ err_text env err)), d)
      | None \<Rightarrow>
          (reply_with (Redirect (''/agents/'' @ agentID)),
           recordAudit env sd (''agent.'' @ status) ''agent'' agentID (status @ '' '' @ agentID) d))"

definition handleAgentSuspend :: "string \<Rightarrow> WebResponse session_handler" where
  "handleAgentSuspend = setAgentStatus AgentStatusSuspended"

definition handleAgentActivate :: "string \<Rightarrow> WebResponse session_handler" where
  "handleAgentActivate = setAgentStatus AgentStatusActive"

definition handleAgentRevoke :: "string \<Rightarrow> WebResponse session_handler" where
  "handleAgentRevoke = setAgentStatus AgentStatusRevoked"

section \<open>Policies (handlers_policy.go)\<close>

definition zero_policy :: CommunicationPolicy where
  "zero_policy = \<lparr>PolicyID = '''', PolicyOrgID = '''', SourceID = '''', TargetID = '''', Direction = '''',
     Action = '''', Priority = 0, PolicyCreatedBy = '''', PolicyCreatedAt = zero_time\<rparr>"

definition listAgentsForForm :: "web_env \<Rightarrow> string \<Rightarrow> db \<Rightarrow> RegisteredAgent list" where
  "listAgentsForForm env org d =
     (case ListAgents (by_agents env) org d of Inl err \<Rightarrow> [] | Inr agents \<Rightarrow> agents)"

text \<open>The error of \<open>ParseForm\<close>, or the policy, whose id and creation time the caller fills in.\<close>

definition policyFromForm :: "WebRequest \<Rightarrow> string \<Rightarrow> string \<Rightarrow> string + CommunicationPolicy" where
  "policyFromForm r org userID =
     (case wr_Form r of
        Inl err \<Rightarrow> Inl err
      | Inr form \<Rightarrow>
          (let (v, err) = strconv_Atoi (form ''priority'');
               prio = (if err then 10 else v)
           in Inr (zero_policy\<lparr>PolicyOrgID := org, SourceID := form ''source_id'',
                    TargetID := form ''target_id'', Direction := form ''direction'',
                    Action := form ''action'', Priority := prio, PolicyCreatedBy := userID\<rparr>)))"

definition arrow :: string where "arrow = [CHR 0xE2, CHR 0x86, CHR 0x92]"

definition handlePolicyList :: "WebResponse session_handler" where
  "handlePolicyList sd env r d =
     (case ListPolicies (by_policies env) (SD_OrgID sd) d of
        Inl err \<Rightarrow> (reply_with (HttpError StatusInternalServerError ''failed to load policies''), d)
      | Inr policies \<Rightarrow>
          (render (policyListPage sd policies (roleAtLeast (SD_Role sd) RoleOperator)), d))"

definition handlePolicyNewGet :: "WebResponse session_handler" where
  "handlePolicyNewGet sd env r d =
     (case ListAgents (by_agents env) (SD_OrgID sd) d of
        Inl err \<Rightarrow> (reply_with (HttpError StatusInternalServerError ''failed to load agents''), d)
      | Inr agents \<Rightarrow>
          (render (policyEditPage sd (zero_policy\<lparr>SourceID := ''*'', TargetID := ''*'',
             Direction := DirectionUnidirectional, Priority := 10\<rparr>) agents True ''''), d))"

definition handlePolicyNewPost :: "WebResponse session_handler" where
  "handlePolicyNewPost sd env r d =
     (case policyFromForm r (SD_OrgID sd) (SD_UserID sd) of
        Inl err \<Rightarrow>
          (render (policyEditPage sd zero_policy (listAgentsForForm env (SD_OrgID sd) d) True err), d)
      | Inr p \<Rightarrow>
     (let p = p\<lparr>PolicyID := uuid_row env, PolicyCreatedAt := t_row env\<rparr>;
          (err, d) = CreatePolicy p d
      in case err of
        Some err \<Rightarrow>
          (render (policyEditPage sd p (listAgentsForForm env (SD_OrgID sd) d) True
             (''Failed to save policy: '' @ err_text env err)), d)
      | None \<Rightarrow>
          (reply_with (Redirect ''/policies''),
           recordAudit env sd ''policy.create'' ''policy'' (PolicyID p)
             (''created policy '' @ SourceID p @ arrow @ TargetID p @ '' '' @ Action p) d)))"

definition handlePolicyEditGet :: "string \<Rightarrow> WebResponse session_handler" where
  "handlePolicyEditGet i sd env r d =
     (case GetPolicy i d of
        Inl err \<Rightarrow> (reply_with NotFoundReply, d)
      | Inr p \<Rightarrow> (render (policyEditPage sd p (listAgentsForForm env (SD_OrgID sd) d) False ''''), d))"

definition handlePolicyEditPost :: "string \<Rightarrow> WebResponse session_handler" where
  "handlePolicyEditPost i sd env r d =
     (case policyFromForm r (SD_OrgID sd) (SD_UserID sd) of
        Inl err \<Rightarrow>
          (render (policyEditPage sd zero_policy (listAgentsForForm env (SD_OrgID sd) d) False err), d)
      | Inr p \<Rightarrow>
     (let p = p\<lparr>PolicyID := i\<rparr>;
          (err, d) = UpdatePolicy p d
      in case err of
        Some err \<Rightarrow>
          (render (policyEditPage sd p (listAgentsForForm env (SD_OrgID sd) d) False
             (''Failed to update policy: '' @ err_text env err)), d)
      | None \<Rightarrow>
          (reply_with (Redirect ''/policies''),
           recordAudit env sd ''policy.update'' ''policy'' (PolicyID p)
             (''updated policy '' @ SourceID p @ arrow @ TargetID p @ '' '' @ Action p) d)))"

definition handlePolicyDelete :: "string \<Rightarrow> WebResponse session_handler" where
  "handlePolicyDelete i sd env r d =
     (let (err, d) = DeletePolicy i d
      in case err of
        Some err \<Rightarrow> (reply_with (HttpError StatusInternalServerError (''delete failed: '' @ err_text env err)), d)
      | None \<Rightarrow>
          (reply_with (Redirect ''/policies''),
           recordAudit env sd ''policy.delete'' ''policy'' i (''deleted policy '' @ i) d))"

section \<open>API keys (handlers_apikey.go)\<close>

definition generateAPIKey :: "web_env \<Rightarrow> string + (string \<times> string)" where
  "generateAPIKey env =
     (case rand_Read env 32 of
        Inl err \<Rightarrow> Inl err
      | Inr b \<Rightarrow> (let raw = hex_EncodeToString b in Inr (raw, sha256_hex env raw)))"

definition handleAPIKeyList :: "WebResponse session_handler" where
  "handleAPIKeyList sd env r d =
     (case ListAPIKeys (by_keys env) (SD_OrgID sd) d of
        Inl err \<Rightarrow> (reply_with (HttpError StatusInternalServerError ''failed to load API keys''), d)
      | Inr keys \<Rightarrow> (render (apiKeyListPage sd keys ''''), d))"

text \<open>The agent binding for the role of the form, or the refusal.\<close>

definition key_binding :: "Role \<Rightarrow> string \<Rightarrow> string + string" where
  "key_binding role agentID =
     (if role = RoleOperator \<or> role = RoleViewer then Inr ''''
      else if role = RoleAgent then
        (if \<not> IsValidAgentID agentID then Inl ''role=agent requires a valid agent_id'' else Inr agentID)
      else Inl ''role must be operator, viewer, or agent'')"

definition handleAPIKeyNewPost :: "WebResponse session_handler" where
  "handleAPIKeyNewPost sd env r d =
     (case wr_Form r of
        Inl err \<Rightarrow> (reply_with (HttpError StatusBadRequest ''bad request''), d)
      | Inr form \<Rightarrow>
     (let name = form ''name''; role = form ''role''
      in if name = '''' then (reply_with (HttpError StatusBadRequest ''name is required''), d)
         else case key_binding role (form ''agent_id'') of
           Inl msg \<Rightarrow> (reply_with (HttpError StatusBadRequest msg), d)
         | Inr agentID \<Rightarrow>
        (case generateAPIKey env of
           Inl err \<Rightarrow> (reply_with (HttpError StatusInternalServerError ''failed to generate key''), d)
         | Inr (rawKey, hash) \<Rightarrow>
        (let (err, d) = CreateAPIKey
               \<lparr>K_ID = uuid_row env, K_OrgID = SD_OrgID sd, K_Name = name, KeyHash = hash,
                K_Role = role, K_AgentID = agentID, K_CreatedBy = SD_UserID sd,
                K_CreatedAt = t_row env, RevokedAt = None\<rparr> d
         in case err of
           Some err \<Rightarrow>
             (reply_with (HttpError StatusInternalServerError (''failed to save key: '' @ err_text env err)), d)
         | None \<Rightarrow>
        (let d = recordAudit env sd ''apikey.create'' ''apikey'' (uuid_row env)
                   (''created API key '' @ quoted env name @ '' with role '' @ role) d;
             keys = (case ListAPIKeys (by_keys env) (SD_OrgID sd) d of Inl err \<Rightarrow> [] | Inr ks \<Rightarrow> ks)
         in (render (apiKeyListPage sd keys rawKey), d))))))"

definition handleAPIKeyRevoke :: "string \<Rightarrow> WebResponse session_handler" where
  "handleAPIKeyRevoke i sd env r d =
     (let (err, d) = RevokeAPIKey (t_row env) (SD_OrgID sd) i d
      in case err of
        Some err \<Rightarrow> (reply_with (HttpError StatusInternalServerError (''revoke failed: '' @ err_text env err)), d)
      | None \<Rightarrow>
          (reply_with (Redirect ''/api-keys''),
           recordAudit env sd ''apikey.revoke'' ''apikey'' i (''revoked API key '' @ i) d))"

section \<open>Limits (handlers_limits.go)\<close>

definition handleLimitsList :: "WebResponse session_handler" where
  "handleLimitsList sd env r d =
     (case ListAgentLimits (by_limits env) (SD_OrgID sd) d of
        Inl err \<Rightarrow> (reply_with (HttpError StatusInternalServerError ''failed to load limits''), d)
      | Inr ls \<Rightarrow> (render (limitsListPage sd ls (roleAtLeast (SD_Role sd) RoleOperator)), d))"

definition zero_limits :: AgentLimits where
  "zero_limits = \<lparr>L_ID = '''', L_OrgID = '''', L_AgentID = '''', MaxBodyBytes = 0, MaxSendPerMin = 0,
     MaxPendingTasks = 0, MaxStreamLen = 0, L_UpdatedAt = zero_time, L_UpdatedBy = ''''\<rparr>"

definition handleLimitsNewGet :: "WebResponse session_handler" where
  "handleLimitsNewGet sd env r d =
     (render (limitsEditPage sd (zero_limits\<lparr>L_AgentID := ''*''\<rparr>) True ''''), d)"

text \<open>The row both posts build from the form, and the check they make on it.\<close>

definition limits_form :: "string \<Rightarrow> sessionData \<Rightarrow> web_env \<Rightarrow> (string \<Rightarrow> string) \<Rightarrow> AgentLimits" where
  "limits_form i sd env form =
     \<lparr>L_ID = i, L_OrgID = SD_OrgID sd, L_AgentID = form ''agent_id'',
      MaxBodyBytes = formInt form ''max_body_bytes'', MaxSendPerMin = formInt form ''max_send_per_min'',
      MaxPendingTasks = formInt form ''max_pending'', MaxStreamLen = formInt form ''max_stream_len'',
      L_UpdatedAt = t_row env, L_UpdatedBy = SD_UserID sd\<rparr>"

definition limits_form_bad :: "AgentLimits \<Rightarrow> bool" where
  "limits_form_bad l \<longleftrightarrow> L_AgentID l = '''' \<or> (\<not> IsValidAgentID (L_AgentID l) \<and> L_AgentID l \<noteq> ''*'')"

definition bad_agent_id :: string where
  "bad_agent_id = ''Agent ID must be a valid agent ID or '' @ [CHR 0x27] @ ''*'' @ [CHR 0x27] @
     '' for global default.''"

definition handleLimitsNewPost :: "WebResponse session_handler" where
  "handleLimitsNewPost sd env r d =
     (case wr_Form r of
        Inl err \<Rightarrow> (reply_with (HttpError StatusBadRequest ''bad request''), d)
      | Inr form \<Rightarrow>
     (let l = limits_form (uuid_row env) sd env form
      in if limits_form_bad l then (render (limitsEditPage sd l True bad_agent_id), d)
         else
        (let (err, d) = UpsertAgentLimits l d
         in case err of
           Some err \<Rightarrow> (reply_with (HttpError StatusInternalServerError ''failed to save limits''), d)
         | None \<Rightarrow> (reply_with (Redirect ''/limits''), d))))"

definition handleLimitsEditGet :: "string \<Rightarrow> WebResponse session_handler" where
  "handleLimitsEditGet i sd env r d =
     (case ListAgentLimits (by_limits env) (SD_OrgID sd) d of
        Inl err \<Rightarrow> (reply_with (HttpError StatusInternalServerError ''failed to load limits''), d)
      | Inr ls \<Rightarrow>
          (case find (\<lambda>l. L_ID l = i) ls of
             Some l \<Rightarrow> (render (limitsEditPage sd l False ''''), d)
           | None \<Rightarrow> (reply_with NotFoundReply, d)))"

definition handleLimitsEditPost :: "string \<Rightarrow> WebResponse session_handler" where
  "handleLimitsEditPost i sd env r d =
     (case wr_Form r of
        Inl err \<Rightarrow> (reply_with (HttpError StatusBadRequest ''bad request''), d)
      | Inr form \<Rightarrow>
     (let l = limits_form i sd env form
      in if limits_form_bad l then (render (limitsEditPage sd l False bad_agent_id), d)
         else
        (let (err, d) = UpsertAgentLimits l d
         in case err of
           Some err \<Rightarrow> (reply_with (HttpError StatusInternalServerError ''failed to update limits''), d)
         | None \<Rightarrow> (reply_with (Redirect ''/limits''), d))))"

definition handleLimitsDelete :: "string \<Rightarrow> WebResponse session_handler" where
  "handleLimitsDelete i sd env r d =
     (let (err, d) = DeleteAgentLimits i d
      in case err of
        Some err \<Rightarrow> (reply_with (HttpError StatusInternalServerError ''failed to delete limits''), d)
      | None \<Rightarrow> (reply_with (Redirect ''/limits''), d))"

section \<open>Message logs and audit (handlers_msglog.go, handlers_audit.go)\<close>

definition log_filter :: "WebRequest \<Rightarrow> MessageLogFilter" where
  "log_filter r =
     \<lparr>F_AgentID = query_Get r ''agent'', F_ToolName = query_Get r ''tool'',
      Since = (let s = query_Get r ''since'' in if s \<noteq> '''' then
                 Option.bind (time_Parse_DateOnly s) nonzero_time else None),
      Until = (let u = query_Get r ''until'' in if u \<noteq> '''' then
                 Option.bind (time_Parse_DateOnly u) (\<lambda>t. nonzero_time (t + 24 * Hour)) else None),
      F_Limit = 0\<rparr>"

definition handleMessageLogList :: "WebResponse session_handler" where
  "handleMessageLogList sd env r d =
     (let flt = log_filter r
      in case ListMessageLogs (by_logs env) (SD_OrgID sd) flt d of
        Inl err \<Rightarrow> (reply_with (HttpError StatusInternalServerError ''failed to load message logs''), d)
      | Inr ls \<Rightarrow> (render (messageLogPage sd ls flt), d))"

definition handleAuditList :: "WebResponse session_handler" where
  "handleAuditList sd env r d =
     (let prefix = query_Get r ''action''
      in case ListAuditEvents (by_audit env) (SD_OrgID sd) 200 d of
        Inl err \<Rightarrow> (reply_with (HttpError StatusInternalServerError ''failed to load audit log''), d)
      | Inr events \<Rightarrow>
          (let events = (if prefix \<noteq> '''' then filter (\<lambda>e. has_prefix prefix (E_Action e)) events
                         else events)
           in (render (auditPage sd events prefix), d)))"

end
