(* ===== verification/AdminAPI.thy ===== *)
theory AdminAPI
  imports AdminHandlers Protocol
begin

text \<open>
  The JSON API of the admin server (\<open>handlers_api.go\<close>, and the endpoints of \<open>handlers_limits.go\<close> and
  \<open>handlers_msglog.go\<close>) and its routing table with the authentication and role of each route
  (\<open>Server.Handler\<close> in \<open>server.go\<close>).
\<close>

section \<open>The API\<close>

definition apiKeyFromRequest :: "web_env \<Rightarrow> WebRequest \<Rightarrow> db \<Rightarrow> APIKey option" where
  "apiKeyFromRequest env r d =
     (case strings_CutPrefix (wr_Authorization r) ''Bearer '' of
        None \<Rightarrow> None
      | Some raw \<Rightarrow>
          if raw = '''' then None
          else
            (let hash = sha256_hex env raw
             in case GetAPIKeyByHash hash d of
                  Inl err \<Rightarrow> None
                | Inr k \<Rightarrow> if RevokedAt k \<noteq> None then None else Some k))"

definition json_error :: "string \<Rightarrow> string" where
  "json_error msg = ''{\"error\":\"'' @ msg @ ''\"}''"

definition handleAPIAuth :: "WebResponse handler" where
  "handleAPIAuth env r d =
     (case apiKeyFromRequest env r d of
        None \<Rightarrow> (reply_with (HttpError StatusUnauthorized (json_error ''unauthorized'')), d)
      | Some k \<Rightarrow>
          if K_Role k \<noteq> RoleAgent
          then (reply_with (HttpError StatusUnauthorized (json_error ''unauthorized'')), d)
          else (reply_with (JSONReply (json_auth env (K_AgentID k))), d))"

definition handleAPIEvaluate :: "WebResponse handler" where
  "handleAPIEvaluate env r d =
     (case apiKeyFromRequest env r d of
        None \<Rightarrow> (reply_with (HttpError StatusUnauthorized (json_error ''unauthorized'')), d)
      | Some k \<Rightarrow>
     (let source = query_Get r ''source''; target = query_Get r ''target''
      in if source = '''' \<or> target = ''''
         then (reply_with (HttpError StatusBadRequest (json_error ''source and target are required'')), d)
         else case ListPolicies (by_policies env) (K_OrgID k) d of
           Inl err \<Rightarrow> (reply_with (HttpError StatusInternalServerError (json_error ''internal error'')), d)
         | Inr policies \<Rightarrow>
             (let act = Evaluate (sort_Slice env) policies source target
              in (reply_with (JSONReply (json_action env act)), d))))"

definition may_ingest :: "APIKey option \<Rightarrow> bool" where
  "may_ingest k \<longleftrightarrow> (case k of None \<Rightarrow> False | Some k \<Rightarrow> K_Role k = RoleOperator \<or> K_Role k = RoleAdmin)"

definition handleAPILimitsCheck :: "WebResponse handler" where
  "handleAPILimitsCheck env r d =
     (let k = apiKeyFromRequest env r d
      in if \<not> may_ingest k
         then (reply_with (HttpError StatusUnauthorized (json_error ''unauthorized'')), d)
         else
     (let agentID = query_Get r ''agent''
      in if agentID = ''''
         then (reply_with (HttpError StatusBadRequest (json_error ''agent is required'')), d)
         else if \<not> IsValidAgentID agentID
         then (reply_with (HttpError StatusBadRequest (json_error ''invalid agent id'')), d)
         else
     (let (l, err) = GetEffectiveLimits_db d (K_OrgID (the k)) agentID
      in case err of
        Some err \<Rightarrow> (reply_with (HttpError StatusInternalServerError (json_error ''store error'')), d)
      | None \<Rightarrow> (reply_with (JSONReply (json_limits env (info_of l))), d))))"

definition validMsgLogDirections :: "string list" where
  "validMsgLogDirections = [''send'', ''receive'']"

definition validMsgLogTools :: "string list" where
  "validMsgLogTools =
     [''send_message'', ''receive_message'', ''get_task'', ''complete_task'', ''fail_task'']"

text \<open>The checks on an ingested entry: the message of the first that fails.\<close>

definition ingest_error :: "ingestEntry \<Rightarrow> string option" where
  "ingest_error e =
     (if in_FromAgent e \<noteq> '''' \<and> \<not> IsValidAgentID (in_FromAgent e) then Some ''invalid from_agent''
      else if in_ToAgent e \<noteq> '''' \<and> \<not> IsValidAgentID (in_ToAgent e) then Some ''invalid to_agent''
      else if in_Direction e \<notin> set validMsgLogDirections then Some ''invalid direction''
      else if in_ToolName e \<notin> set validMsgLogTools then Some ''invalid tool_name''
      else if Lookup (in_MsgType e) = None then Some ''invalid msg_type''
      else None)"

definition handleAPIMessageLog :: "WebResponse handler" where
  "handleAPIMessageLog env r d =
     (let k = apiKeyFromRequest env r d
      in if \<not> may_ingest k
         then (reply_with (HttpError StatusUnauthorized (json_error ''unauthorized'')), d)
         else case wr_Body r (nat MaxDocumentBytes) of
           Inl err \<Rightarrow> (reply_with (HttpError StatusBadRequest (json_error ''read error'')), d)
         | Inr body \<Rightarrow>
        (case json_entry env body of
           Inl err \<Rightarrow> (reply_with (HttpError StatusBadRequest (json_error ''invalid JSON'')), d)
         | Inr entry \<Rightarrow>
        (case ingest_error entry of
           Some msg \<Rightarrow> (reply_with (HttpError StatusBadRequest (json_error msg)), d)
         | None \<Rightarrow>
        (let (err, d) = AppendMessageLog
               \<lparr>ML_ID = uuid_row env, ML_OrgID = K_OrgID (the k), ML_EnvelopeID = in_EnvelopeID entry,
                ML_ThreadID = in_ThreadID entry, ML_FromAgent = in_FromAgent entry,
                ML_ToAgent = in_ToAgent entry, ML_MsgType = in_MsgType entry,
                ML_Direction = in_Direction entry, ML_ToolName = in_ToolName entry,
                ML_BodySize = int (length (in_Body entry)), ML_Body = in_Body entry,
                ML_CreatedAt = t_row env\<rparr> d
         in case err of
           Some err \<Rightarrow> (reply_with (HttpError StatusInternalServerError (json_error ''store error'')), d)
         | None \<Rightarrow> (reply_with NoContent, d)))))"

section \<open>Routes (server.go)\<close>

text \<open>
  The patterns of the multiplexer, with the segments of the path; \<open>{id}\<close> matches one segment that is
  not empty, and \<open>GET /\<close> whatever no other GET pattern matches. A GET pattern also serves HEAD.
\<close>

datatype endpoint = Static | LoginGet | LoginPost | Logout | ProfileGet | ProfilePost | Dashboard
  | AgentList | AgentNewGet | AgentNewPost | AgentDetail string | AgentSuspend string
  | AgentActivate string | AgentRevoke string
  | PolicyList | PolicyNewGet | PolicyNewPost | PolicyEditGet string | PolicyEditPost string
  | PolicyDelete string | AuditList | MessageLogList
  | LimitsList | LimitsNewGet | LimitsNewPost | LimitsEditGet string | LimitsEditPost string
  | LimitsDelete string | APIKeyList | APIKeyNewPost | APIKeyRevoke string
  | APIEvaluate | APIAuth | APIMessageLog | APILimitsCheck

definition get_route :: "string list \<Rightarrow> endpoint" where
  "get_route segs =
     (if segs \<noteq> [] \<and> hd segs = ''static'' \<and> length segs > 1 then Static
      else if segs = [''login''] then LoginGet
      else if segs = [''profile''] then ProfileGet
      else if segs = [''agents''] then AgentList
      else if segs = [''agents'', ''new''] then AgentNewGet
      else if segs = [''policies''] then PolicyList
      else if segs = [''policies'', ''new''] then PolicyNewGet
      else if segs = [''audit''] then AuditList
      else if segs = [''messages''] then MessageLogList
      else if segs = [''limits''] then LimitsList
      else if segs = [''limits'', ''new''] then LimitsNewGet
      else if segs = [''api-keys''] then APIKeyList
      else if segs = [''api'', ''v1'', ''evaluate''] then APIEvaluate
      else if segs = [''api'', ''v1'', ''limits'', ''check''] then APILimitsCheck
      else
        (case segs of
           [x, i] \<Rightarrow> if x = ''agents'' \<and> i \<noteq> '''' then AgentDetail i else Dashboard
         | [x, i, z] \<Rightarrow>
             if x = ''policies'' \<and> i \<noteq> '''' \<and> z = ''edit'' then PolicyEditGet i
             else if x = ''limits'' \<and> i \<noteq> '''' \<and> z = ''edit'' then LimitsEditGet i
             else Dashboard
         | _ \<Rightarrow> Dashboard))"

definition post_route :: "string list \<Rightarrow> endpoint option" where
  "post_route segs =
     (if segs = [''login''] then Some LoginPost
      else if segs = [''logout''] then Some Logout
      else if segs = [''profile''] then Some ProfilePost
      else if segs = [''agents'', ''new''] then Some AgentNewPost
      else if segs = [''policies'', ''new''] then Some PolicyNewPost
      else if segs = [''limits'', ''new''] then Some LimitsNewPost
      else if segs = [''api-keys'', ''new''] then Some APIKeyNewPost
      else if segs = [''api'', ''v1'', ''auth''] then Some APIAuth
      else if segs = [''api'', ''v1'', ''message-log''] then Some APIMessageLog
      else
        (case segs of
           [x, i, z] \<Rightarrow>
             if i = '''' then None
             else if x = ''agents'' \<and> z = ''suspend'' then Some (AgentSuspend i)
             else if x = ''agents'' \<and> z = ''activate'' then Some (AgentActivate i)
             else if x = ''agents'' \<and> z = ''revoke'' then Some (AgentRevoke i)
             else if x = ''policies'' \<and> z = ''edit'' then Some (PolicyEditPost i)
             else if x = ''policies'' \<and> z = ''delete'' then Some (PolicyDelete i)
             else if x = ''limits'' \<and> z = ''edit'' then Some (LimitsEditPost i)
             else if x = ''limits'' \<and> z = ''delete'' then Some (LimitsDelete i)
             else if x = ''api-keys'' \<and> z = ''revoke'' then Some (APIKeyRevoke i)
             else None
         | _ \<Rightarrow> None))"

definition StatusMethodNotAllowed :: int where "StatusMethodNotAllowed = 405"

definition route_request :: "WebRequest \<Rightarrow> endpoint option" where
  "route_request r =
     (let segs = split_at_char (CHR ''/'') (tl (wr_Path r))
      in if wr_Method r = ''GET'' \<or> wr_Method r = ''HEAD'' then Some (get_route segs)
         else if wr_Method r = ''POST'' then post_route segs else None)"

text \<open>The handler registered for each pattern.\<close>

fun serve :: "endpoint \<Rightarrow> WebResponse handler" where
  "serve Static env r d = (reply_with (StaticFile (wr_Path r)), d)"
| "serve LoginGet env r d = handleLoginGet env r d"
| "serve LoginPost env r d = handleLoginPost env r d"
| "serve Logout env r d = handleLogout env r d"
| "serve ProfileGet env r d = requireAuth handleProfileGet env r d"
| "serve ProfilePost env r d = requireAuth handleProfilePost env r d"
| "serve Dashboard env r d = requireAuth handleDashboard env r d"
| "serve AgentList env r d = requireAuth handleAgentList env r d"
| "serve AgentNewGet env r d = requireAuth handleAgentNewGet env r d"
| "serve AgentNewPost env r d = requireAuth (requireRole RoleOperator handleAgentNewPost) env r d"
| "serve (AgentDetail i) env r d = requireAuth (handleAgentDetail i) env r d"
| "serve (AgentSuspend i) env r d = requireAuth (requireRole RoleAdmin (handleAgentSuspend i)) env r d"
| "serve (AgentActivate i) env r d = requireAuth (requireRole RoleAdmin (handleAgentActivate i)) env r d"
| "serve (AgentRevoke i) env r d = requireAuth (requireRole RoleAdmin (handleAgentRevoke i)) env r d"
| "serve PolicyList env r d = requireAuth handlePolicyList env r d"
| "serve PolicyNewGet env r d = requireAuth handlePolicyNewGet env r d"
| "serve PolicyNewPost env r d = requireAuth (requireRole RoleOperator handlePolicyNewPost) env r d"
| "serve (PolicyEditGet i) env r d = requireAuth (handlePolicyEditGet i) env r d"
| "serve (PolicyEditPost i) env r d =
     requireAuth (requireRole RoleOperator (handlePolicyEditPost i)) env r d"
| "serve (PolicyDelete i) env r d = requireAuth (requireRole RoleOperator (handlePolicyDelete i)) env r d"
| "serve AuditList env r d = requireAuth handleAuditList env r d"
| "serve MessageLogList env r d = requireAuth handleMessageLogList env r d"
| "serve LimitsList env r d = requireAuth handleLimitsList env r d"
| "serve LimitsNewGet env r d = requireAuth handleLimitsNewGet env r d"
| "serve LimitsNewPost env r d = requireAuth (requireRole RoleOperator handleLimitsNewPost) env r d"
| "serve (LimitsEditGet i) env r d =
     requireAuth (requireRole RoleOperator (handleLimitsEditGet i)) env r d"
| "serve (LimitsEditPost i) env r d =
     requireAuth (requireRole RoleOperator (handleLimitsEditPost i)) env r d"
| "serve (LimitsDelete i) env r d = requireAuth (requireRole RoleOperator (handleLimitsDelete i)) env r d"
| "serve APIKeyList env r d = requireAuth (requireRole RoleAdmin handleAPIKeyList) env r d"
| "serve APIKeyNewPost env r d = requireAuth (requireRole RoleAdmin handleAPIKeyNewPost) env r d"
| "serve (APIKeyRevoke i) env r d = requireAuth (requireRole RoleAdmin (handleAPIKeyRevoke i)) env r d"
| "serve APIEvaluate env r d = handleAPIEvaluate env r d"
| "serve APIAuth env r d = handleAPIAuth env r d"
| "serve APIMessageLog env r d = handleAPIMessageLog env r d"
| "serve APILimitsCheck env r d = handleAPILimitsCheck env r d"

definition Handler :: "WebResponse handler" where
  "Handler env r d =
     (case route_request r of
        None \<Rightarrow> (reply_with (HttpError StatusMethodNotAllowed ''Method Not Allowed''), d)
      | Some e \<Rightarrow> serve e env r d)"

text \<open>The response on the wire, as far as the gateway's HTTP clients read it.\<close>

fun on_wire :: "reply \<Rightarrow> HTTPResponse" where
  "on_wire (Redirect u) = \<lparr>StatusCode = 303, resp_Body = ''''\<rparr>"
| "on_wire (HttpError code msg) = \<lparr>StatusCode = code, resp_Body = msg @ [CHR 0x0A]\<rparr>"
| "on_wire NotFoundReply = \<lparr>StatusCode = 404, resp_Body = ''404 page not found'' @ [CHR 0x0A]\<rparr>"
| "on_wire NoContent = \<lparr>StatusCode = 204, resp_Body = ''''\<rparr>"
| "on_wire (JSONReply b) = \<lparr>StatusCode = StatusOK, resp_Body = b\<rparr>"
| "on_wire (PageReply p) = \<lparr>StatusCode = StatusOK, resp_Body = ''''\<rparr>"
| "on_wire (StaticFile f) = \<lparr>StatusCode = StatusOK, resp_Body = ''''\<rparr>"

end
