(* ===== verification/AdminFacts.thy ===== *)
theory AdminFacts
  imports AdminAPI
begin

text \<open>
  What a request to the admin server can do: at most one operation on the store and one audit
  event, each permitted to whoever sent it (\<open>permitted\<close>). So the invariants of the store hold
  under the server, and the effects of a request stay in its organisation, but for three operations
  that take a bare id.
\<close>

section \<open>Permitted operations\<close>

definition session_of :: "web_env \<Rightarrow> WebRequest \<Rightarrow> sessionData \<Rightarrow> bool" where
  "session_of env r sd \<longleftrightarrow> sessions_Get env r = Inr sd"

definition with_role :: "web_env \<Rightarrow> WebRequest \<Rightarrow> Role set \<Rightarrow> (sessionData \<Rightarrow> bool) \<Rightarrow> bool" where
  "with_role env r roles P \<longleftrightarrow> (\<exists>sd. session_of env r sd \<and> SD_Role sd \<in> roles \<and> P sd)"

text \<open>The user a login request names and proves to be, as the session it gets.\<close>

definition proves_login :: "web_env \<Rightarrow> WebRequest \<Rightarrow> db \<Rightarrow> User \<Rightarrow> bool" where
  "proves_login env r d u \<longleftrightarrow>
     (\<exists>form. wr_Form r = Inr form \<and> GetUserByUsername (form ''username'') d = Inr u \<and>
        CompareHashAndPassword env (Password u) (form ''password'') = None)"

text \<open>
  Who may do what. The operations that no route performs are not permitted to anyone.
\<close>

fun permitted :: "web_env \<Rightarrow> WebRequest \<Rightarrow> db \<Rightarrow> db_op \<Rightarrow> bool" where
  "permitted env r d (DoCreateAPIKey k) =
     with_role env r {RoleAdmin} (\<lambda>sd. K_OrgID k = SD_OrgID sd \<and> K_CreatedBy k = SD_UserID sd \<and>
       (K_Role k = RoleAgent \<and> IsValidAgentID (K_AgentID k) \<or>
        K_Role k \<in> {RoleOperator, RoleViewer} \<and> K_AgentID k = ''''))"
| "permitted env r d (DoRevokeAPIKey t org i) = with_role env r {RoleAdmin} (\<lambda>sd. org = SD_OrgID sd)"
| "permitted env r d (DoRegisterAgent a) =
     with_role env r {RoleOperator, RoleAdmin} (\<lambda>sd. A_OrgID a = SD_OrgID sd \<and> RegisteredBy a = SD_UserID sd)"
| "permitted env r d (DoUpdateAgentStatus org a st) = with_role env r {RoleAdmin} (\<lambda>sd. org = SD_OrgID sd)"
| "permitted env r d (DoCreatePolicy p) =
     with_role env r {RoleOperator, RoleAdmin} (\<lambda>sd. PolicyOrgID p = SD_OrgID sd \<and> PolicyCreatedBy p = SD_UserID sd)"
| "permitted env r d (DoUpdatePolicy p) = with_role env r {RoleOperator, RoleAdmin} (\<lambda>sd. True)"
| "permitted env r d (DoDeletePolicy i) = with_role env r {RoleOperator, RoleAdmin} (\<lambda>sd. True)"
| "permitted env r d (DoUpsertAgentLimits l) =
     with_role env r {RoleOperator, RoleAdmin} (\<lambda>sd. L_OrgID l = SD_OrgID sd \<and> L_UpdatedBy l = SD_UserID sd \<and>
       (IsValidAgentID (L_AgentID l) \<or> L_AgentID l = ''*'') \<and>
       (\<forall>n\<in>{MaxBodyBytes l, MaxSendPerMin l, MaxPendingTasks l, MaxStreamLen l}. 0 \<le> n \<and> n < 2 ^ 63))"
| "permitted env r d (DoDeleteAgentLimits i) = with_role env r {RoleOperator, RoleAdmin} (\<lambda>sd. True)"
| "permitted env r d (DoUpdateUserPassword i h) \<longleftrightarrow>
     (\<exists>sd form u. session_of env r sd \<and> i = SD_UserID sd \<and> wr_Form r = Inr form \<and>
        GetUserByID i d = Inr u \<and> CompareHashAndPassword env (Password u) (form ''current_password'') = None \<and>
        GenerateFromPassword env (form ''new_password'') = Inr h \<and>
        length (form ''new_password'') \<in> {8..72})"
| "permitted env r d (DoAppendAuditEvent e) \<longleftrightarrow>
     (\<exists>sd. session_of env r sd \<and> E_OrgID e = SD_OrgID sd \<and> E_UserID e = SD_UserID sd) \<or>
     (\<exists>u. proves_login env r d u \<and> E_OrgID e = U_OrgID u \<and> E_UserID e = U_ID u)"
| "permitted env r d (DoAppendMessageLog m) \<longleftrightarrow>
     (\<exists>k. apiKeyFromRequest env r d = Some k \<and> K_Role k \<in> {RoleOperator, RoleAdmin} \<and>
        ML_OrgID m = K_OrgID k \<and> ML_BodySize m = int (length (ML_Body m)) \<and>
        ML_Direction m \<in> {''send'', ''receive''} \<and> Lookup (ML_MsgType m) \<noteq> None)"
| "permitted env r d _ = False"

definition does :: "web_env \<Rightarrow> WebRequest \<Rightarrow> db \<Rightarrow> db \<Rightarrow> bool" where
  "does env r d d' \<longleftrightarrow>
     (\<exists>ops. d' = apply_ops ops d \<and> length ops \<le> 2 \<and> (\<forall>p\<in>set ops. permitted env r d p))"

lemma does_nothing [simp]: "does env r d d"
  unfolding does_def by (intro exI [of _ "[]"]) (simp add: apply_ops_def)

lemma does_op:
  assumes "permitted env r d p" and "apply_op p d = d'"
  shows "does env r d d'"
  unfolding does_def using assms by (intro exI [of _ "[p]"]) (simp add: apply_ops_def)

definition audit_of :: "web_env \<Rightarrow> WebRequest \<Rightarrow> db \<Rightarrow> sessionData \<Rightarrow> bool" where
  "audit_of env r d sd \<longleftrightarrow> session_of env r sd \<or>
     (\<exists>u. proves_login env r d u \<and> SD_OrgID sd = U_OrgID u \<and> SD_UserID sd = U_ID u)"

lemma recordAudit_op:
  "recordAudit env sd a tt ti de d = apply_op (DoAppendAuditEvent (audit_event env sd a tt ti de)) d"
  by (simp add: recordAudit_def)

lemma audit_permitted: "audit_of env r d sd \<Longrightarrow> permitted env r d (DoAppendAuditEvent (audit_event env sd a tt ti de))"
  by (auto simp: audit_of_def audit_event_def)

lemma does_audit: "audit_of env r d sd \<Longrightarrow> does env r d (recordAudit env sd a tt ti de d)"
  by (rule does_op [OF audit_permitted]) (simp_all add: recordAudit_op)

lemma does_audited_op:
  assumes "permitted env r d p" and "apply_op p d = d'" and "session_of env r sd"
  shows "does env r d (recordAudit env sd a tt ti de d')"
  unfolding does_def
proof (intro exI [of _ "[p, DoAppendAuditEvent (audit_event env sd a tt ti de)]"] conjI ballI)
  show "recordAudit env sd a tt ti de d' = apply_ops [p, DoAppendAuditEvent (audit_event env sd a tt ti de)] d"
    using assms(2) by (simp add: apply_ops_def recordAudit_op)
  show "permitted env r d q" if "q \<in> set [p, DoAppendAuditEvent (audit_event env sd a tt ti de)]" for q
    using that assms(1,3) audit_permitted [of env r d sd] by (auto simp: audit_of_def simp del: permitted.simps)
qed simp

lemma does_auth:
  "(\<And>sd. session_of env r sd \<Longrightarrow> does env r d (snd (h sd env r d))) \<Longrightarrow>
     does env r d (snd (requireAuth h env r d))"
  by (simp add: requireAuth_def session_of_def split: sum.split)

lemma does_role:
  "(roleAtLeast (SD_Role sd) minimum \<Longrightarrow> does env r d (snd (h sd env r d))) \<Longrightarrow>
     does env r d (snd (requireRole minimum h sd env r d))"
  by (simp add: requireRole_def)

section \<open>The handlers\<close>

lemmas read_only_defs = handleLoginGet_def handleProfileGet_def handleDashboard_def handleAgentList_def
  handleAgentNewGet_def handleAgentDetail_def handlePolicyList_def handlePolicyNewGet_def
  handlePolicyEditGet_def handleAuditList_def handleMessageLogList_def handleLimitsList_def
  handleLimitsNewGet_def handleLimitsEditGet_def handleAPIKeyList_def handleAPIEvaluate_def
  handleAPIAuth_def handleAPILimitsCheck_def

lemma read_only [simp]:
  "snd (handleLoginGet env r d) = d" "snd (handleProfileGet sd env r d) = d"
  "snd (handleDashboard sd env r d) = d" "snd (handleAgentList sd env r d) = d"
  "snd (handleAgentNewGet sd env r d) = d" "snd (handleAgentDetail i sd env r d) = d"
  "snd (handlePolicyList sd env r d) = d" "snd (handlePolicyNewGet sd env r d) = d"
  "snd (handlePolicyEditGet i sd env r d) = d" "snd (handleAuditList sd env r d) = d"
  "snd (handleMessageLogList sd env r d) = d" "snd (handleLimitsList sd env r d) = d"
  "snd (handleLimitsNewGet sd env r d) = d" "snd (handleLimitsEditGet i sd env r d) = d"
  "snd (handleAPIKeyList sd env r d) = d" "snd (handleAPIEvaluate env r d) = d"
  "snd (handleAPIAuth env r d) = d" "snd (handleAPILimitsCheck env r d) = d"
  by (simp_all add: read_only_defs Let_def split: sum.split option.split prod.split)

lemma does_pair:
  assumes "res = (err, d')" and "apply_op p d = snd res" and "permitted env r d p"
    and "session_of env r sd"
  shows "does env r d d' \<and> does env r d (recordAudit env sd a tt ti de d')"
proof -
  have p: "apply_op p d = d'" using assms(1,2) by simp
  then show ?thesis using does_op [OF assms(3) p] does_audited_op [OF assms(3) p assms(4)] by simp
qed

lemma does_LoginPost: "does env r d (snd (handleLoginPost env r d))"
proof -
  have "does env r d (recordAudit env sd a tt ti de d)"
    if "wr_Form r = Inr form" "GetUserByUsername (form ''username'') d = Inr u"
      "CompareHashAndPassword env (Password u) (form ''password'') = None"
      "SD_OrgID sd = U_OrgID u" "SD_UserID sd = U_ID u" for form u sd a tt ti de
    using that by (intro does_audit) (auto simp: audit_of_def proves_login_def)
  then show ?thesis
    by (auto simp: handleLoginPost_def Let_def split: sum.split option.split)
qed

lemma does_Logout: "does env r d (snd (handleLogout env r d))"
  by (auto simp: handleLogout_def audit_of_def session_of_def intro!: does_audit split: sum.split)

lemma does_ProfilePost:
  assumes "session_of env r sd" shows "does env r d (snd (handleProfilePost sd env r d))"
proof -
  have st: "does env r d d' \<and> does env r d (recordAudit env sd a tt ti de d')"
    if "wr_Form r = Inr form" "GetUserByID (SD_UserID sd) d = Inr u"
      "CompareHashAndPassword env (Password u) (form ''current_password'') = None"
      "GenerateFromPassword env (form ''new_password'') = Inr h"
      "form ''new_password'' = form ''confirm_password''"
      "\<not> length (form ''confirm_password'') < 8" "\<not> 72 < length (form ''confirm_password'')"
      "UpdateUserPassword (SD_UserID sd) h d = (err, d')" for form u h err d' a tt ti de
  proof -
    have "permitted env r d (DoUpdateUserPassword (SD_UserID sd) h)" using that assms by auto
    then show ?thesis by (rule does_pair [OF that(8) _ _ assms, rotated]) simp
  qed
  show ?thesis
    by (auto simp: handleProfilePost_def Let_def minPasswordLen_def maxPasswordLen_def
        split: sum.split option.split prod.split
        intro: st [THEN conjunct1] st [THEN conjunct2])
qed

lemma with_roleI: "session_of env r sd \<Longrightarrow> roleAtLeast (SD_Role sd) RoleOperator \<Longrightarrow> P sd \<Longrightarrow>
    with_role env r {RoleOperator, RoleAdmin} P"
  "session_of env r sd \<Longrightarrow> roleAtLeast (SD_Role sd) RoleAdmin \<Longrightarrow> P sd \<Longrightarrow> with_role env r {RoleAdmin} P"
  by (auto simp: with_role_def roleAtLeast_iff)

lemma does_AgentNewPost:
  assumes "session_of env r sd" and "roleAtLeast (SD_Role sd) RoleOperator"
  shows "does env r d (snd (handleAgentNewPost sd env r d))"
proof -
  have "does env r d d' \<and> does env r d (recordAudit env sd a tt ti de d')"
    if "RegisterAgent x d = (err, d')" "A_OrgID x = SD_OrgID sd" "RegisteredBy x = SD_UserID sd"
    for x err d' a tt ti de
    by (rule does_pair [OF that(1) _ _ assms(1), of "DoRegisterAgent x"])
      (use assms that(2,3) in \<open>auto intro!: with_roleI\<close>)
  then show ?thesis
    by (simp add: handleAgentNewPost_def Let_def split: sum.split option.split prod.split)
qed

lemma does_setAgentStatus:
  assumes "session_of env r sd" and "roleAtLeast (SD_Role sd) RoleAdmin"
  shows "does env r d (snd (setAgentStatus st i sd env r d))"
proof -
  have "does env r d d' \<and> does env r d (recordAudit env sd a tt ti de d')"
    if "UpdateAgentStatus (SD_OrgID sd) i st d = (err, d')" for err d' a tt ti de
    by (rule does_pair [OF that _ _ assms(1), of "DoUpdateAgentStatus (SD_OrgID sd) i st"])
      (use assms in \<open>auto intro!: with_roleI\<close>)
  then show ?thesis
    by (simp add: setAgentStatus_def Let_def split: option.split prod.split)
qed

lemma does_PolicyNewPost:
  assumes "session_of env r sd" and "roleAtLeast (SD_Role sd) RoleOperator"
  shows "does env r d (snd (handlePolicyNewPost sd env r d))"
proof -
  have "does env r d d' \<and> does env r d (recordAudit env sd a tt ti de d')"
    if "CreatePolicy p d = (err, d')" "PolicyOrgID p = SD_OrgID sd" "PolicyCreatedBy p = SD_UserID sd"
    for p err d' a tt ti de
    by (rule does_pair [OF that(1) _ _ assms(1), of "DoCreatePolicy p"])
      (use assms that(2,3) in \<open>auto intro!: with_roleI\<close>)
  moreover have "PolicyOrgID p = SD_OrgID sd \<and> PolicyCreatedBy p = SD_UserID sd"
    if "policyFromForm r (SD_OrgID sd) (SD_UserID sd) = Inr p" for p
    using that by (auto simp: policyFromForm_def Let_def split: sum.splits prod.splits)
  ultimately show ?thesis
    by (simp add: handlePolicyNewPost_def Let_def split: sum.split option.split prod.split)
qed

lemma does_PolicyEditPost:
  assumes "session_of env r sd" and "roleAtLeast (SD_Role sd) RoleOperator"
  shows "does env r d (snd (handlePolicyEditPost i sd env r d))"
    and "does env r d (snd (handlePolicyDelete i sd env r d))"
proof -
  have u: "does env r d d' \<and> does env r d (recordAudit env sd a tt ti de d')"
    if "UpdatePolicy p d = (err, d')" for p err d' a tt ti de
    by (rule does_pair [OF that(1) _ _ assms(1), of "DoUpdatePolicy p"])
      (use assms in \<open>auto intro!: with_roleI\<close>)
  show "does env r d (snd (handlePolicyEditPost i sd env r d))"
    using u by (simp add: handlePolicyEditPost_def Let_def split: sum.split option.split prod.split)
  have x: "does env r d d' \<and> does env r d (recordAudit env sd a tt ti de d')"
    if "DeletePolicy i d = (err, d')" for err d' a tt ti de
    by (rule does_pair [OF that(1) _ _ assms(1), of "DoDeletePolicy i"])
      (use assms in \<open>auto intro!: with_roleI\<close>)
  show "does env r d (snd (handlePolicyDelete i sd env r d))"
    using x by (simp add: handlePolicyDelete_def Let_def split: sum.split option.split prod.split)
qed

lemma key_binding_Inr: "key_binding role x = Inr a \<longleftrightarrow>
    role \<in> {RoleOperator, RoleViewer} \<and> a = '''' \<or> role = RoleAgent \<and> IsValidAgentID x \<and> a = x"
  by (auto simp: key_binding_def wire)

lemma does_APIKeyPosts:
  assumes "session_of env r sd" and "roleAtLeast (SD_Role sd) RoleAdmin"
  shows "does env r d (snd (handleAPIKeyNewPost sd env r d))"
    and "does env r d (snd (handleAPIKeyRevoke i sd env r d))"
proof -
  have c: "does env r d d' \<and> does env r d (recordAudit env sd a tt ti de d')"
    if "CreateAPIKey k d = (err, d')" "K_OrgID k = SD_OrgID sd" "K_CreatedBy k = SD_UserID sd"
      "key_binding (K_Role k) x = Inr (K_AgentID k)" for k x err d' a tt ti de
    by (rule does_pair [OF that(1) _ _ assms(1), of "DoCreateAPIKey k"])
      (use assms that(2-) in \<open>auto intro!: with_roleI simp: key_binding_Inr\<close>)
  show "does env r d (snd (handleAPIKeyNewPost sd env r d))"
    using c by (simp add: handleAPIKeyNewPost_def Let_def split: sum.split option.split prod.split)
  have x: "does env r d d' \<and> does env r d (recordAudit env sd a tt ti de d')"
    if "RevokeAPIKey (t_row env) (SD_OrgID sd) i d = (err, d')" for err d' a tt ti de
    by (rule does_pair [OF that(1) _ _ assms(1), of "DoRevokeAPIKey (t_row env) (SD_OrgID sd) i"])
      (use assms in \<open>auto intro!: with_roleI\<close>)
  show "does env r d (snd (handleAPIKeyRevoke i sd env r d))"
    using x by (simp add: handleAPIKeyRevoke_def Let_def split: sum.split option.split prod.split)
qed

lemma does_LimitsPosts:
  assumes "session_of env r sd" and "roleAtLeast (SD_Role sd) RoleOperator"
  shows "does env r d (snd (handleLimitsNewPost sd env r d))"
    and "does env r d (snd (handleLimitsEditPost i sd env r d))"
    and "does env r d (snd (handleLimitsDelete i sd env r d))"
proof -
  have up: "does env r d d'"
    if "UpsertAgentLimits (limits_form j sd env form) d = (err, d')"
      "\<not> limits_form_bad (limits_form j sd env form)" for j form err d'
  proof -
    have "permitted env r d (DoUpsertAgentLimits (limits_form j sd env form))"
      using that(2) assms formInt_range [of form] unfolding permitted.simps
      by (intro with_roleI) (auto simp: limits_form_def limits_form_bad_def)
    then show ?thesis by (rule does_op) (simp add: that(1))
  qed
  show "does env r d (snd (handleLimitsNewPost sd env r d))"
    "does env r d (snd (handleLimitsEditPost i sd env r d))"
    using up by (auto simp: handleLimitsNewPost_def handleLimitsEditPost_def Let_def
        split: sum.split option.split prod.split)
  have x: "does env r d d'" if "DeleteAgentLimits i d = (err, d')" for err d'
    by (rule does_op [of env r d "DoDeleteAgentLimits i"]) (use assms that in \<open>auto intro!: with_roleI\<close>)
  show "does env r d (snd (handleLimitsDelete i sd env r d))"
    using x by (simp add: handleLimitsDelete_def Let_def split: option.split prod.split)
qed

lemma does_APIMessageLog: "does env r d (snd (handleAPIMessageLog env r d))"
proof -
  have "does env r d d'"
    if "AppendMessageLog m d = (err, d')" "may_ingest (apiKeyFromRequest env r d)"
      "ML_OrgID m = K_OrgID (the (apiKeyFromRequest env r d))"
      "ML_BodySize m = int (length (ML_Body m))" "ML_Direction m = in_Direction e" "ML_MsgType m = in_MsgType e"
      "ingest_error e = None" for m err d' e
  proof -
    from that(2) obtain k where "apiKeyFromRequest env r d = Some k" "K_Role k \<in> {RoleOperator, RoleAdmin}"
      by (auto simp: may_ingest_def split: option.splits)
    then have "permitted env r d (DoAppendMessageLog m)"
      using that(3-) by (auto simp: ingest_error_def validMsgLogDirections_def split: if_splits)
    then show ?thesis by (rule does_op) (simp add: that(1))
  qed
  then show ?thesis
    by (simp add: handleAPIMessageLog_def Let_def split: sum.split option.split prod.split)
qed

lemma does_serve: "does env r d (snd (serve e env r d))"
  by (cases e)
    (auto intro!: does_auth does_role does_LoginPost does_Logout does_ProfilePost does_AgentNewPost
      does_setAgentStatus does_PolicyNewPost does_PolicyEditPost does_APIKeyPosts does_LimitsPosts
      does_APIMessageLog
      simp: handleAgentSuspend_def handleAgentActivate_def handleAgentRevoke_def)

lemma does_Handler: "does env r d (snd (Handler env r d))"
  using does_serve by (simp add: Handler_def split: option.split)

section \<open>Effects stay in the organisation\<close>

lemma filter_map_frame:
  assumes "\<And>x. P x \<Longrightarrow> f x = x" and "\<And>x. P (f x) \<Longrightarrow> P x"
  shows "filter P (map f xs) = filter P xs"
proof (induction xs)
  case (Cons x xs)
  then show ?case using assms(1,2) [of x] by (cases "P x") auto
qed simp

definition same_elsewhere :: "sessionData \<Rightarrow> string \<Rightarrow> db \<Rightarrow> db \<Rightarrow> bool" where
  "same_elsewhere sd org d d' \<longleftrightarrow>
     filter (\<lambda>k. K_OrgID k = org) (t_keys d') = filter (\<lambda>k. K_OrgID k = org) (t_keys d) \<and>
     filter (\<lambda>a. A_OrgID a = org) (t_agents d') = filter (\<lambda>a. A_OrgID a = org) (t_agents d) \<and>
     filter (\<lambda>u. U_ID u \<noteq> SD_UserID sd) (t_users d') = filter (\<lambda>u. U_ID u \<noteq> SD_UserID sd) (t_users d) \<and>
     t_organizations d' = t_organizations d"

lemma same_elsewhere_refl [simp]: "same_elsewhere sd org d d"
  by (simp add: same_elsewhere_def)

lemma same_elsewhere_op:
  assumes "permitted env r d0 p" and "session_of env r sd" and "org \<noteq> SD_OrgID sd"
  shows "same_elsewhere sd org d (apply_op p d)"
proof -
  have sd: "session_of env r sd' \<Longrightarrow> sd' = sd" for sd' using assms(2) by (simp add: session_of_def)
  have o: "SD_OrgID sd \<noteq> org" using assms(3) by simp
  show ?thesis
  proof (cases p)
    case (DoRevokeAPIKey t og i)
    then have "og = SD_OrgID sd" using assms(1) sd by (auto simp: with_role_def)
    with DoRevokeAPIKey o show ?thesis
      by (auto simp: same_elsewhere_def RevokeAPIKey_def exec_def intro!: filter_map_frame split: option.split if_splits)
  next
    case (DoUpdateAgentStatus og a st)
    then have "og = SD_OrgID sd" using assms(1) sd by (auto simp: with_role_def)
    with DoUpdateAgentStatus o show ?thesis
      by (auto simp: same_elsewhere_def UpdateAgentStatus_def exec_def intro!: filter_map_frame split: option.split if_splits)
  next
    case (DoUpdateUserPassword i h)
    then have "i = SD_UserID sd" using assms(1) sd by auto
    with DoUpdateUserPassword show ?thesis
      by (auto simp: same_elsewhere_def UpdateUserPassword_def exec_def intro!: filter_map_frame split: option.split if_splits)
  next
    case (DoCreateAPIKey k)
    then have "K_OrgID k = SD_OrgID sd" using assms(1) sd by (auto simp: with_role_def)
    with DoCreateAPIKey o show ?thesis
      by (auto simp: same_elsewhere_def CreateAPIKey_def exec_def split: option.split)
  next
    case (DoRegisterAgent a)
    then have "A_OrgID a = SD_OrgID sd" using assms(1) sd by (auto simp: with_role_def)
    with DoRegisterAgent o show ?thesis
      by (auto simp: same_elsewhere_def RegisterAgent_def exec_def split: option.split)
  qed (use assms(1) in \<open>auto simp: same_elsewhere_def statements UpsertAgentLimits_def Let_def split: option.split\<close>)
qed

lemma same_elsewhere_ops:
  assumes "\<forall>p\<in>set ops. permitted env r d0 p" and "session_of env r sd" and "org \<noteq> SD_OrgID sd"
  shows "same_elsewhere sd org d (apply_ops ops d)"
  using assms(1) unfolding apply_ops_def
proof (induction ops arbitrary: d)
  case (Cons p ops)
  have "permitted env r d0 p" using Cons.prems by simp
  then have "same_elsewhere sd org d (apply_op p d)" by (rule same_elsewhere_op [OF _ assms(2,3)])
  moreover have "same_elsewhere sd org (apply_op p d) (fold apply_op ops (apply_op p d))"
    using Cons by simp
  ultimately show ?case by (simp add: same_elsewhere_def)
qed simp

section \<open>What is audited\<close>

text \<open>Nothing but limits and logs changed, or the change was recorded in the session's name.\<close>

definition audited :: "web_env \<Rightarrow> WebRequest \<Rightarrow> db \<Rightarrow> db \<Rightarrow> bool" where
  "audited env r d d' \<longleftrightarrow>
     (t_keys d' = t_keys d \<and> t_agents d' = t_agents d \<and> t_policies d' = t_policies d \<and> t_users d' = t_users d) \<or>
     (\<exists>sd a tt ti de d1. session_of env r sd \<and> d' = recordAudit env sd a tt ti de d1 \<and>
        t_audit d1 = t_audit d \<and> db_failure d1 = db_failure d)"

lemma audited_refl [simp]: "audited env r d d" by (simp add: audited_def)

lemma audited_only: "audited env r d (recordAudit env sd a tt ti de d)" by (simp add: audited_def)

lemma audited_rec:
  "session_of env r sd \<Longrightarrow> t_audit d1 = t_audit d \<Longrightarrow> db_failure d1 = db_failure d \<Longrightarrow>
     audited env r d (recordAudit env sd a tt ti de d1)"
  unfolding audited_def by blast

text \<open>A statement that fails leaves the tables; none of these writes the audit table.\<close>

lemma no_rows_map: "length (filter P xs) = 0 \<Longrightarrow> map (\<lambda>x. if P x then f x else x) xs = xs"
  by (induction xs) (auto split: if_splits)

lemma UpdateUserPassword_fails: "UpdateUserPassword i h d = (Some e, d') \<Longrightarrow> d' = d"
  using no_rows_map [of "\<lambda>r. U_ID r = i" "t_users d" "\<lambda>r. r\<lparr>Password := h\<rparr>"]
  by (auto simp: UpdateUserPassword_def exec_def split: option.splits if_splits)

lemma RevokeAPIKey_fails: "RevokeAPIKey t org i d = (Some e, d') \<Longrightarrow> d' = d"
  using no_rows_map [of "\<lambda>r. K_ID r = i \<and> K_OrgID r = org" "t_keys d" "\<lambda>r. r\<lparr>RevokedAt := Some (rfc3339 t)\<rparr>"]
  by (auto simp: RevokeAPIKey_def exec_def split: option.splits if_splits)

lemma others_fail:
  "RegisterAgent x d = (Some e, d') \<Longrightarrow> d' = d" "UpdateAgentStatus o1 a st d = (Some e, d') \<Longrightarrow> d' = d"
  "CreatePolicy p d = (Some e, d') \<Longrightarrow> d' = d" "UpdatePolicy p d = (Some e, d') \<Longrightarrow> d' = d"
  "DeletePolicy i d = (Some e, d') \<Longrightarrow> d' = d" "CreateAPIKey k d = (Some e, d') \<Longrightarrow> d' = d"
  by (auto simp: statements split: option.splits if_splits)

lemma audit_frame:
  "UpdateUserPassword i h d = (e, d') \<Longrightarrow> t_audit d' = t_audit d \<and> db_failure d' = db_failure d"
  "RevokeAPIKey t o1 i d = (e, d') \<Longrightarrow> t_audit d' = t_audit d \<and> db_failure d' = db_failure d"
  "RegisterAgent x d = (e, d') \<Longrightarrow> t_audit d' = t_audit d \<and> db_failure d' = db_failure d"
  "UpdateAgentStatus o1 a st d = (e, d') \<Longrightarrow> t_audit d' = t_audit d \<and> db_failure d' = db_failure d"
  "CreatePolicy p d = (e, d') \<Longrightarrow> t_audit d' = t_audit d \<and> db_failure d' = db_failure d"
  "UpdatePolicy p d = (e, d') \<Longrightarrow> t_audit d' = t_audit d \<and> db_failure d' = db_failure d"
  "DeletePolicy i d = (e, d') \<Longrightarrow> t_audit d' = t_audit d \<and> db_failure d' = db_failure d"
  "CreateAPIKey k d = (e, d') \<Longrightarrow> t_audit d' = t_audit d \<and> db_failure d' = db_failure d"
  by (auto simp: statements split: option.splits if_splits)

lemma audited_after: "t_audit d1 = t_audit d \<and> db_failure d1 = db_failure d \<Longrightarrow> session_of env r sd \<Longrightarrow>
    audited env r d (recordAudit env sd a tt ti de d1)"
  by (rule audited_rec) simp_all

lemmas audited_statement = audit_frame [THEN audited_after]

lemma audited_handlers:
  assumes "session_of env r sd"
  shows "audited env r d (snd (handleProfilePost sd env r d))"
    and "audited env r d (snd (handleAgentNewPost sd env r d))"
    and "audited env r d (snd (setAgentStatus st i sd env r d))"
    and "audited env r d (snd (handlePolicyNewPost sd env r d))"
    and "audited env r d (snd (handlePolicyEditPost i sd env r d))"
    and "audited env r d (snd (handlePolicyDelete i sd env r d))"
    and "audited env r d (snd (handleAPIKeyNewPost sd env r d))"
    and "audited env r d (snd (handleAPIKeyRevoke i sd env r d))"
  using assms
  by (auto simp: handleProfilePost_def handleAgentNewPost_def setAgentStatus_def handlePolicyNewPost_def
      handlePolicyEditPost_def handlePolicyDelete_def handleAPIKeyNewPost_def handleAPIKeyRevoke_def Let_def
      split: sum.split option.split prod.split
      dest: UpdateUserPassword_fails RevokeAPIKey_fails others_fail
      intro: audited_statement)

lemma limits_unaudited:
  "d' = snd (handleLimitsNewPost sd env r d) \<or> d' = snd (handleLimitsEditPost i sd env r d) \<or>
   d' = snd (handleLimitsDelete i sd env r d) \<or> d' = snd (handleAPIMessageLog env r d) \<Longrightarrow>
     t_keys d' = t_keys d \<and> t_agents d' = t_agents d \<and> t_policies d' = t_policies d \<and> t_users d' = t_users d \<and>
     t_audit d' = t_audit d"
  by (auto simp: handleLimitsNewPost_def handleLimitsEditPost_def handleLimitsDelete_def handleAPIMessageLog_def
      UpsertAgentLimits_def DeleteAgentLimits_def AppendMessageLog_def exec_def Let_def
      split: sum.split option.split prod.split)

lemma requireAuth_cases: "snd (requireAuth h env r d) = d \<or>
    (\<exists>sd. session_of env r sd \<and> snd (requireAuth h env r d) = snd (h sd env r d))"
  by (auto simp: requireAuth_def session_of_def split: sum.split)

lemma requireRole_cases: "snd (requireRole m h sd env r d) \<in> {d, snd (h sd env r d)}"
  by (simp add: requireRole_def)

lemma audited_auth:
  "(\<And>sd. session_of env r sd \<Longrightarrow> audited env r d (snd (h sd env r d))) \<Longrightarrow>
     audited env r d (snd (requireAuth h env r d))"
  using requireAuth_cases [of h env r d] by auto

lemma audited_role: "audited env r d (snd (h sd env r d)) \<Longrightarrow>
    audited env r d (snd (requireRole m h sd env r d))"
  using requireRole_cases [of m h sd env r d] by auto

lemma audited_open: "audited env r d (snd (handleLoginPost env r d))" "audited env r d (snd (handleLogout env r d))"
  by (auto simp: handleLoginPost_def handleLogout_def Let_def intro: audited_only split: sum.split option.split)

lemma audited_unaudited:
  "audited env r d (snd (handleLimitsNewPost sd env r d))"
  "audited env r d (snd (handleLimitsEditPost i sd env r d))"
  "audited env r d (snd (handleLimitsDelete i sd env r d))"
  "audited env r d (snd (handleAPIMessageLog env r d))"
  using limits_unaudited [OF disjI1 [OF refl]] limits_unaudited [OF disjI2 [OF disjI1 [OF refl]]]
    limits_unaudited [OF disjI2 [OF disjI2 [OF disjI1 [OF refl]]]]
    limits_unaudited [OF disjI2 [OF disjI2 [OF disjI2 [OF refl]]]]
  by (simp_all add: audited_def)

lemma audited_Handler: "audited env r d (snd (Handler env r d))"
proof -
  have "audited env r d (snd (serve e env r d))" for e
    by (cases e)
      (auto intro!: audited_auth audited_role audited_handlers audited_open audited_unaudited
        simp: handleAgentSuspend_def handleAgentActivate_def handleAgentRevoke_def)
  then show ?thesis by (simp add: Handler_def split: option.split)
qed

text \<open>The limits change only by the three posts of the limits pages.\<close>

lemma limits_frame:
  "t_limits (snd (handleLoginPost env r d)) = t_limits d" "t_limits (snd (handleLogout env r d)) = t_limits d"
  "t_limits (snd (handleProfilePost sd env r d)) = t_limits d"
  "t_limits (snd (handleAgentNewPost sd env r d)) = t_limits d"
  "t_limits (snd (setAgentStatus st i sd env r d)) = t_limits d"
  "t_limits (snd (handlePolicyNewPost sd env r d)) = t_limits d"
  "t_limits (snd (handlePolicyEditPost i sd env r d)) = t_limits d"
  "t_limits (snd (handlePolicyDelete i sd env r d)) = t_limits d"
  "t_limits (snd (handleAPIKeyNewPost sd env r d)) = t_limits d"
  "t_limits (snd (handleAPIKeyRevoke i sd env r d)) = t_limits d"
  "t_limits (snd (handleAPIMessageLog env r d)) = t_limits d"
  by (auto simp: handleLoginPost_def handleLogout_def handleProfilePost_def handleAgentNewPost_def
      setAgentStatus_def handlePolicyNewPost_def handlePolicyEditPost_def handlePolicyDelete_def
      handleAPIKeyNewPost_def handleAPIKeyRevoke_def handleAPIMessageLog_def statements Let_def
      split: sum.splits option.splits prod.splits if_splits)

lemma limits_or_audit:
  "t_limits (snd (Handler env r d)) = t_limits d \<or> t_audit (snd (Handler env r d)) = t_audit d"
proof -
  have auth: "(\<And>sd. P (snd (h sd env r d))) \<Longrightarrow> P d \<Longrightarrow> P (snd (requireAuth h env r d))" for P h
    using requireAuth_cases [of h env r d] by metis
  have role: "P (snd (h sd env r d)) \<Longrightarrow> P d \<Longrightarrow> P (snd (requireRole m h sd env r d))" for P h sd m
    using requireRole_cases [of m h sd env r d] by auto
  define P where "P = (\<lambda>d' :: db. t_limits d' = t_limits d \<or> t_audit d' = t_audit d)"
  have u: "P (snd (handleLimitsNewPost sd env r d))" "P (snd (handleLimitsEditPost i sd env r d))"
    "P (snd (handleLimitsDelete i sd env r d))" for sd i
    using limits_unaudited unfolding P_def by blast+
  have Pd: "P d" by (simp add: P_def)
  have frame: "t_limits d' = t_limits d \<Longrightarrow> P d'" for d' by (simp add: P_def)
  note frames = limits_frame [THEN frame]
  have "P (snd (serve e env r d))" for e
    by (cases e)
      (auto intro!: auth [of P] role [of P] u frames Pd simp: handleAgentSuspend_def handleAgentActivate_def
        handleAgentRevoke_def)
  then show ?thesis by (simp add: P_def Handler_def split: option.split)
qed

section \<open>Who gets a session\<close>

lemma reply_with_cookie [simp]: "w_cookie (reply_with x) = None" "w_reply (reply_with x) = x"
  by (simp_all add: reply_with_def)

lemma no_cookie:
  "w_cookie (fst (handleProfilePost sd env r d)) = None" "w_cookie (fst (handleAgentNewPost sd env r d)) = None"
  "w_cookie (fst (setAgentStatus st i sd env r d)) = None" "w_cookie (fst (handlePolicyNewPost sd env r d)) = None"
  "w_cookie (fst (handlePolicyEditPost i sd env r d)) = None" "w_cookie (fst (handlePolicyDelete i sd env r d)) = None"
  "w_cookie (fst (handleAPIKeyNewPost sd env r d)) = None" "w_cookie (fst (handleAPIKeyRevoke i sd env r d)) = None"
  "w_cookie (fst (handleLimitsNewPost sd env r d)) = None" "w_cookie (fst (handleLimitsEditPost i sd env r d)) = None"
  "w_cookie (fst (handleLimitsDelete i sd env r d)) = None" "w_cookie (fst (handleAPIMessageLog env r d)) = None"
  by (auto simp: handleProfilePost_def handleAgentNewPost_def setAgentStatus_def handlePolicyNewPost_def
      handlePolicyEditPost_def handlePolicyDelete_def handleAPIKeyNewPost_def handleAPIKeyRevoke_def
      handleLimitsNewPost_def handleLimitsEditPost_def handleLimitsDelete_def handleAPIMessageLog_def Let_def
      split: sum.split option.split prod.split)

lemma no_cookie_read:
  "w_cookie (fst (handleLoginGet env r d)) = None" "w_cookie (fst (handleProfileGet sd env r d)) = None"
  "w_cookie (fst (handleDashboard sd env r d)) = None" "w_cookie (fst (handleAgentList sd env r d)) = None"
  "w_cookie (fst (handleAgentNewGet sd env r d)) = None" "w_cookie (fst (handleAgentDetail i sd env r d)) = None"
  "w_cookie (fst (handlePolicyList sd env r d)) = None" "w_cookie (fst (handlePolicyNewGet sd env r d)) = None"
  "w_cookie (fst (handlePolicyEditGet i sd env r d)) = None" "w_cookie (fst (handleAuditList sd env r d)) = None"
  "w_cookie (fst (handleMessageLogList sd env r d)) = None" "w_cookie (fst (handleLimitsList sd env r d)) = None"
  "w_cookie (fst (handleLimitsNewGet sd env r d)) = None" "w_cookie (fst (handleLimitsEditGet i sd env r d)) = None"
  "w_cookie (fst (handleAPIKeyList sd env r d)) = None" "w_cookie (fst (handleAPIEvaluate env r d)) = None"
  "w_cookie (fst (handleAPIAuth env r d)) = None" "w_cookie (fst (handleAPILimitsCheck env r d)) = None"
  by (simp_all add: read_only_defs Let_def split: sum.split option.split prod.split)

lemma session_only_by_login:
  assumes "w_cookie (fst (Handler env r d)) = Some (SetSessionCookie v exp)"
  shows "route_request r = Some LoginPost"
proof -
  have auth: "(\<And>sd. w_cookie (fst (h sd env r d)) = None) \<Longrightarrow> w_cookie (fst (requireAuth h env r d)) = None" for h
    by (simp add: requireAuth_def split: sum.split)
  have role: "w_cookie (fst (h sd env r d)) = None \<Longrightarrow> w_cookie (fst (requireRole m h sd env r d)) = None" for h m sd
    by (simp add: requireRole_def)
  have out: "w_cookie (fst (handleLogout env r d)) = Some ClearSessionCookie"
    by (simp add: handleLogout_def sessions_Clear_def)
  have "e = LoginPost" if "w_cookie (fst (serve e env r d)) = Some (SetSessionCookie v exp)" for e
    using that by (cases e)
      (simp_all add: auth role no_cookie no_cookie_read out handleAgentSuspend_def handleAgentActivate_def
        handleAgentRevoke_def)
  then show ?thesis using assms by (simp add: Handler_def split: option.splits)
qed

lemma login_cookie:
  assumes "w_cookie (fst (handleLoginPost env r d)) = Some (SetSessionCookie v exp)"
  obtains u where "proves_login env r d u"
    "sc_Encode env sessionCookieName \<lparr>SD_UserID = U_ID u, SD_OrgID = U_OrgID u, SD_Username = Username u,
       SD_Role = U_Role u, ExpiresAt = t_row env + 8 * Hour\<rparr> = Inr v"
    "exp = t_row env + 8 * Hour"
proof -
  obtain form where f: "wr_Form r = Inr form" using assms by (auto simp: handleLoginPost_def split: sum.splits)
  obtain u where u: "GetUserByUsername (form ''username'') d = Inr u"
    "CompareHashAndPassword env (Password u) (form ''password'') = None"
    using assms f by (auto simp: handleLoginPost_def Let_def split: sum.splits option.splits)
  show thesis
    using that [of u] assms f u
    by (auto simp: handleLoginPost_def sessions_Set_def proves_login_def Let_def split: sum.splits)
qed

section \<open>Keys that are issued\<close>

text \<open>No request makes the database fail.\<close>

lemma permitted_failure: "permitted env r d0 p \<Longrightarrow> db_failure (apply_op p d) = db_failure d"
  by (cases p) (auto simp: statements UpsertAgentLimits_def Let_def split: option.split)

lemma Handler_failure: "db_failure (snd (Handler env r d)) = db_failure d"
proof -
  have "\<forall>p\<in>set ops. permitted env r d0 p \<Longrightarrow> db_failure (fold apply_op ops d) = db_failure d" for ops d0 d
    by (induction ops arbitrary: d) (auto simp: permitted_failure simp del: permitted.simps)
  then show ?thesis using does_Handler [of env r d] by (auto simp: does_def apply_ops_def)
qed


lemma CreateAPIKey_found:
  assumes "db_ok d" and "CreateAPIKey k d = (None, d')"
  shows "GetAPIKeyByHash (KeyHash k) d' = Inr (k\<lparr>K_CreatedAt := rfc3339 (K_CreatedAt k), RevokedAt := None\<rparr>)"
    and "db_ok d'"
proof -
  have "apply_op (DoCreateAPIKey k) d = d'" using assms(2) by simp
  then have ok: "db_ok d'" using apply_op_ok [OF assms(1), of "DoCreateAPIKey k"] by simp
  have "db_failure d' = None \<and> t_keys d' = t_keys d @ [k\<lparr>K_CreatedAt := rfc3339 (K_CreatedAt k), RevokedAt := None\<rparr>]"
    using assms(2) by (auto simp: CreateAPIKey_def exec_None split: if_splits)
  then show "GetAPIKeyByHash (KeyHash k) d' = Inr (k\<lparr>K_CreatedAt := rfc3339 (K_CreatedAt k), RevokedAt := None\<rparr>)"
    by (simp add: GetAPIKeyByHash_iff [OF ok])
  show "db_ok d'" by (rule ok)
qed

lemma GetAPIKeyByHash_audit [simp]: "GetAPIKeyByHash h (recordAudit env sd a tt ti de d) = GetAPIKeyByHash h d"
  by (simp add: GetAPIKeyByHash_def query_def split: option.split)

lemma APIKeyNewPost_page:
  assumes "w_reply (fst (handleAPIKeyNewPost sd env r d)) = PageReply (apiKeyListPage sd keys raw)"
    and "wr_Form r = Inr form"
  obtains k d1 where "CreateAPIKey k d = (None, d1)" "KeyHash k = sha256_hex env raw" "K_Role k = form ''role''"
    "K_OrgID k = SD_OrgID sd" "key_binding (form ''role'') (form ''agent_id'') = Inr (K_AgentID k)"
    "\<exists>b. rand_Read env 32 = Inr b \<and> raw = hex_EncodeToString b"
    "\<exists>de. snd (handleAPIKeyNewPost sd env r d) = recordAudit env sd ''apikey.create'' ''apikey'' (K_ID k) de d1"
proof -
  obtain a where a: "key_binding (form ''role'') (form ''agent_id'') = Inr a"
    using assms by (auto simp: handleAPIKeyNewPost_def Let_def split: if_splits sum.splits)
  obtain b where b: "rand_Read env 32 = Inr b"
    using assms a by (auto simp: handleAPIKeyNewPost_def generateAPIKey_def Let_def split: if_splits sum.splits)
  define k where "k = \<lparr>K_ID = uuid_row env, K_OrgID = SD_OrgID sd, K_Name = form ''name'',
    KeyHash = sha256_hex env (hex_EncodeToString b), K_Role = form ''role'', K_AgentID = a,
    K_CreatedBy = SD_UserID sd, K_CreatedAt = t_row env, RevokedAt = None\<rparr>"
  obtain e d1 where c: "CreateAPIKey k d = (e, d1)" by fastforce
  have "e = None" "raw = hex_EncodeToString b"
    "snd (handleAPIKeyNewPost sd env r d) = recordAudit env sd ''apikey.create'' ''apikey'' (uuid_row env)
       (''created API key '' @ quoted env (form ''name'') @ '' with role '' @ form ''role'') d1"
    using assms a b c
    by (auto simp: handleAPIKeyNewPost_def generateAPIKey_def k_def Let_def split: if_splits option.splits)
  then show thesis using that [of k d1] a b c by (auto simp: k_def)
qed

end
