(* ===== verification/AdminProps.thy ===== *)
theory AdminProps
  imports AdminFacts
begin

text \<open>
  The properties of the admin store and the admin server.
\<close>

section \<open>A sample server\<close>

text \<open>
  A server at which the hypotheses of the properties are seen to hold: the cookie \<open>s\<close> is a session
  of the administrator \<open>u1\<close> of the organisation \<open>o\<close> that expires at 100, \<open>t\<close> one of the operator
  \<open>u2\<close> of the organisation \<open>o2\<close>; passwords and keys are their own hashes.
\<close>

definition sample_session :: "string \<Rightarrow> string \<Rightarrow> Role \<Rightarrow> sessionData" where
  "sample_session u org role =
     \<lparr>SD_UserID = u, SD_OrgID = org, SD_Username = u, SD_Role = role, ExpiresAt = 100\<rparr>"

definition sample_unseal :: "string \<Rightarrow> string \<Rightarrow> string + sessionData" where
  "sample_unseal name v =
     (if v = ''s'' then Inr (sample_session ''u1'' ''o'' RoleAdmin)
      else if v = ''t'' then Inr (sample_session ''u2'' ''o2'' RoleOperator) else Inl ''bad'')"

definition sample_web :: web_env where
  "sample_web =
     \<lparr>sc_Encode = (\<lambda>name sd. Inr ''s''), sc_Decode = sample_unseal,
      CompareHashAndPassword = (\<lambda>h p. if h = p then None else Some ''mismatch''),
      GenerateFromPassword = Inr, rand_Read = (\<lambda>n. Inr (replicate n (CHR ''a''))), sha256_hex = id,
      json_auth = (\<lambda>a. ''A'' @ a), json_action = (\<lambda>a. a), json_limits = (\<lambda>l. ''''),
      json_entry = (\<lambda>b. Inl ''''), quoted = id, err_text = (\<lambda>e. ''error''),
      by_agents = insertion_sort, by_policies = insertion_sort, by_audit = insertion_sort,
      by_keys = insertion_sort, by_logs = insertion_sort, by_limits = insertion_sort,
      sort_Slice = insertion_sort, uuid_row = ''r1'', uuid_audit = ''e1'', t_session = 50, t_row = 50,
      t_audit_event = 50\<rparr>"

definition sample_request :: "string \<Rightarrow> string \<Rightarrow> string \<Rightarrow> (string \<Rightarrow> string) \<Rightarrow> WebRequest" where
  "sample_request meth pth cookie form =
     \<lparr>wr_Method = meth, wr_Path = pth, wr_RawQuery = '''', wr_Authorization = '''',
      wr_Cookie = (\<lambda>n. if cookie = '''' then None else Some cookie), wr_Form = Inr form,
      wr_Body = (\<lambda>n. Inr '''')\<rparr>"

lemmas sample_web_simps = sample_web_def sample_request_def sample_unseal_def sample_session_def
  sessions_Get_def sessionCookieName_def

section \<open>The store\<close>

text \<open>A run of the server: requests one after another, each with what it finds outside.\<close>

definition handle_requests :: "(web_env \<times> WebRequest) list \<Rightarrow> db \<Rightarrow> db" where
  "handle_requests reqs d = fold (\<lambda>(env, r) d. snd (Handler env r d)) reqs d"

lemma handle_requests_ops: "\<exists>ops. handle_requests reqs d = apply_ops ops d"
  unfolding handle_requests_def
proof (induction reqs arbitrary: d)
  case Nil
  show ?case by (intro exI [of _ "[]"]) (simp add: apply_ops_def)
next
  case (Cons q reqs)
  obtain env r where q: "q = (env, r)" by fastforce
  obtain ops where "snd (Handler env r d) = apply_ops ops d"
    using does_Handler [of env r d] by (auto simp: does_def)
  moreover obtain ops' where "fold (\<lambda>(env, r) d. snd (Handler env r d)) reqs (apply_ops ops d) =
      apply_ops ops' (apply_ops ops d)" using Cons.IH by blast
  ultimately show ?case
    by (intro exI [of _ "ops @ ops'"]) (simp add: q apply_ops_def)
qed

lemma handle_requests_failure: "db_failure (handle_requests reqs d) = db_failure d"
  by (induction reqs arbitrary: d) (auto simp: handle_requests_def Handler_failure)

text \<open>
  C14: The store's invariants under the server. Whatever requests the admin server handles, from a
  new database or any consistent one, with whatever outcome of each: the keys of every table stay
  unique, the audit trail is only appended to, and a revoked API key stays revoked.
\<close>

theorem store_invariants:
  assumes "db_ok d"
  shows "db_ok (handle_requests reqs d) \<and>
    (\<exists>es. t_audit (handle_requests reqs d) = t_audit d @ es) \<and>
    (revoked_in d h \<longrightarrow> revoked_in (handle_requests reqs d) h)"
proof -
  obtain ops where o: "handle_requests reqs d = apply_ops ops d" using handle_requests_ops by blast
  show ?thesis
    unfolding o using apply_ops_ok [OF assms] t_audit_run sqlite_keys.revoked_run [of d h ops]
    by (auto simp: apply_ops_def)
qed

lemma store_invariants_witness: "db_ok (handle_requests [(sample_web, sample_request ''POST'' ''/agents/new'' ''s'' id)] empty_db)"
  using store_invariants [OF empty_db_ok] by blast

text \<open>
  C20: The limits of an agent. A successful \<open>UpsertAgentLimits\<close> changes the limits in effect of exactly
  those agents the row is meant for: its own agent, or, for the default row, every agent of the
  organisation without a row of its own.
\<close>

theorem limits_resolution:
  assumes "UpsertAgentLimits l d = (None, d')"
  shows "GetEffectiveLimits_db d' org a =
    (if org = L_OrgID l \<and> (a = L_AgentID l \<or> L_AgentID l = ''*'' \<and> find_limits org a (t_limits d) = None)
     then (Some (l\<lparr>L_UpdatedAt := rfc3339 (L_UpdatedAt l)\<rparr>), None)
     else GetEffectiveLimits_db d org a)"
proof -
  note f = Upsert_find [OF assms]
  have w: "db_failure d = None" "db_failure d' = None" using f by auto
  show ?thesis
    unfolding GetEffectiveLimits_find [OF w(1)] GetEffectiveLimits_find [OF w(2)]
    using f [of org a] f [of org "''*''"] by (auto split: option.split)
qed

lemma limits_resolution_witness:
  "\<exists>d. GetEffectiveLimits_db d ''o'' ''a1'' = (Some (zero_limits\<lparr>L_OrgID := ''o'', L_AgentID := ''*'',
     L_UpdatedAt := rfc3339 zero_time\<rparr>), None)"
proof -
  have "UpsertAgentLimits (zero_limits\<lparr>L_OrgID := ''o'', L_AgentID := ''*''\<rparr>) empty_db =
      (None, empty_db\<lparr>t_limits := [zero_limits\<lparr>L_OrgID := ''o'', L_AgentID := ''*'',
         L_UpdatedAt := rfc3339 zero_time\<rparr>]\<rparr>)"
    by (simp add: UpsertAgentLimits_def exec_def empty_db_def zero_limits_def Let_def)
  from limits_resolution [OF this, of "''o''" "''a1''"] show ?thesis
    by (auto simp: zero_limits_def find_limits_def empty_db_def)
qed

text \<open>
  Reading the message log. \<open>ListMessageLogs\<close> returns rows of the organisation that match the
  filter, newest first, as many as there are up to the limit (200 by default), and every
  matching row it leaves out is no newer than any it returns.
\<close>

theorem ListMessageLogs_newest:
  assumes "slice_sorter srt" and "ListMessageLogs srt org f d = Inr ls"
  defines "rows \<equiv> filter (log_matches org f) (t_logs d)"
  shows "mset ls \<subseteq># mset rows \<and> sorted_wrt (\<lambda>x y. ML_CreatedAt y \<le> ML_CreatedAt x) ls \<and>
    length ls = min (nat (if F_Limit f \<le> 0 then 200 else F_Limit f)) (length rows) \<and>
    (\<forall>x y. x \<in># mset rows - mset ls \<longrightarrow> y \<in> set ls \<longrightarrow> ML_CreatedAt x \<le> ML_CreatedAt y)"
proof -
  let ?n = "nat (if F_Limit f \<le> 0 then 200 else F_Limit f)"
  have "ls = take ?n (srt (\<lambda>x y. ML_CreatedAt y < ML_CreatedAt x) rows)"
    using assms(2) by (auto simp: ListMessageLogs_def query_Inr sql_limit_def defaultMessageLogLimit_def rows_def)
  from slice_sorter.take_newest [OF assms(1) this] show ?thesis by blast
qed

lemma ListMessageLogs_newest_witness:
  "ListMessageLogs insertion_sort ''o'' (log_filter (sample_request ''GET'' ''/messages'' ''s'' id)) empty_db = Inr [] \<and>
   mset ([] :: MessageLog list) \<subseteq># mset []"
proof -
  have e: "ListMessageLogs insertion_sort ''o'' (log_filter (sample_request ''GET'' ''/messages'' ''s'' id)) empty_db = Inr []"
    by (simp add: ListMessageLogs_def query_def empty_db_def insertion_sort_def sql_limit_def Let_def)
  from ListMessageLogs_newest [OF go_sort.slice_sorter_axioms e] e show ?thesis by (simp add: empty_db_def)
qed

section \<open>The server\<close>

text \<open>
  C3: Access control of the admin server. Handling any request amounts to at most two operations on
  the store, each of which the sender is permitted: keys and agent status by an administrator,
  policies, limits and registration by an operator or administrator, the own password after
  proving the current one, log entries by an operator or administrator key, audit events in the
  name of the session's user.
\<close>

theorem web_request_permitted:
  "\<exists>ops. snd (Handler env r d) = apply_ops ops d \<and> length ops \<le> 2 \<and> list_all (permitted env r d) ops"
  using does_Handler by (simp add: does_def list_all_iff)

text \<open>
  C6: Tenant isolation. A request with a session leaves the API keys and the registered agents of
  every other organisation, the rows of every other user, and the organisations as they were.
\<close>

theorem tenant_isolation:
  assumes "sessions_Get env r = Inr sd" and "org \<noteq> SD_OrgID sd" and "Handler env r d = (resp, d')"
  shows "filter (\<lambda>k. K_OrgID k = org) (t_keys d') = filter (\<lambda>k. K_OrgID k = org) (t_keys d) \<and>
    filter (\<lambda>a. A_OrgID a = org) (t_agents d') = filter (\<lambda>a. A_OrgID a = org) (t_agents d) \<and>
    filter (\<lambda>u. U_ID u \<noteq> SD_UserID sd) (t_users d') = filter (\<lambda>u. U_ID u \<noteq> SD_UserID sd) (t_users d) \<and>
    t_organizations d' = t_organizations d"
proof -
  obtain ops where "d' = apply_ops ops d" "\<forall>p\<in>set ops. permitted env r d p"
    using does_Handler [of env r d] assms(3) by (auto simp: does_def)
  moreover have "session_of env r sd" using assms(1) by (simp add: session_of_def)
  ultimately show ?thesis using same_elsewhere_ops assms(2) by (simp add: same_elsewhere_def)
qed

definition sample_apikey :: "string \<Rightarrow> string \<Rightarrow> APIKey" where
  "sample_apikey org h = \<lparr>K_ID = h, K_OrgID = org, K_Name = ''n'', KeyHash = h, K_Role = RoleAgent,
     K_AgentID = ''a1'', K_CreatedBy = ''u1'', K_CreatedAt = 0, RevokedAt = None\<rparr>"

definition sample_db :: db where
  "sample_db = empty_db\<lparr>t_keys := [sample_apikey ''o'' ''k'', sample_apikey ''o2'' ''k2'']\<rparr>"

lemma sample_db_ok: "db_ok sample_db"
  by (simp add: db_ok_def sample_db_def empty_db_def unique_by_def sample_apikey_def)

lemma tenant_isolation_witness:
  "filter (\<lambda>k. K_OrgID k = ''o2'') (t_keys (snd (Handler sample_web
     (sample_request ''POST'' ''/api-keys/k2/revoke'' ''s'' id) sample_db))) = [sample_apikey ''o2'' ''k2'']"
proof -
  let ?r = "sample_request ''POST'' ''/api-keys/k2/revoke'' ''s'' id"
  have "sessions_Get sample_web ?r = Inr (sample_session ''u1'' ''o'' RoleAdmin)"
    by (simp add: sample_web_simps)
  from tenant_isolation [OF this, of "''o2''", OF _ surjective_pairing, of sample_db] show ?thesis
    by (simp add: sample_session_def sample_db_def sample_apikey_def)
qed

text \<open>
  C37: Policies cross tenants. The isolation does not extend to policies: the edit form of a policy takes
  its id without a look at the organisation. An operator of any organisation who posts a
  wildcard allow rule of the highest priority to the id of a policy of another organisation
  opens the gateway of that organisation to every pair of agents.
\<close>

theorem cross_tenant_policy_edit:
  assumes "route_request r = Some (PolicyEditPost (PolicyID p))" and "sessions_Get env r = Inr sd"
    and "SD_Role sd = RoleOperator" and "SD_OrgID sd \<noteq> PolicyOrgID p"
    and "p \<in> set (t_policies d)" and "db_failure d = None" and "slice_sorter srt" and "slice_sorter srt'"
    and "wr_Form r = Inr form" and "form ''source_id'' = Wildcard" and "form ''target_id'' = Wildcard"
    and "form ''action'' = PolicyActionAllow" and "strconv_Atoi (form ''priority'') = (n, False)"
    and "\<forall>q\<in>set (t_policies d). PolicyOrgID q = PolicyOrgID p \<longrightarrow> Priority q < n"
  shows "Allowed (EmbeddedEnforcer srt (db_policies txt srt') (PolicyOrgID p)) (snd (Handler env r d)) s t = Inr True"
proof -
  let ?f = "\<lambda>q. if PolicyID q = PolicyID p then q\<lparr>SourceID := Wildcard, TargetID := Wildcard,
      Direction := form ''direction'', Action := PolicyActionAllow, Priority := n\<rparr> else q"
  define d' where "d' = snd (Handler env r d)"
  have h: "handlePolicyEditPost (PolicyID p) sd env r d = (resp, d'') \<Longrightarrow> d' = d''" for resp d''
    using assms(1-3) by (simp add: d'_def Handler_def requireAuth_def requireRole_def roleAtLeast_def)
  have d': "t_policies d' = map ?f (t_policies d) \<and> db_failure d' = None"
    unfolding h [OF surjective_pairing] using assms(6,9-13)
    by (simp add: handlePolicyEditPost_def policyFromForm_def zero_policy_def UpdatePolicy_def exec_def Let_def)
  define rows where "rows = filter (\<lambda>q. PolicyOrgID q = PolicyOrgID p) (t_policies d')"
  define ls where "ls = srt' (\<lambda>x y. Priority x > Priority y) rows"
  have ls: "set ls = set rows" unfolding ls_def by (rule slice_sorter.sort_set [OF assms(8)])
  have l: "db_policies txt srt' d' (PolicyOrgID p) = Inr ls"
    using d' by (simp add: db_policies_def ListPolicies_def query_def ls_def rows_def)
  have fp: "?f p \<in> set ls" unfolding ls using assms(5) d' by (auto simp: rows_def)
  have m: "matches (?f p) s t" by (simp add: matches_def)
  obtain q where q: "q \<in> set ls" "matches q s t" "Action q = Evaluate srt ls s t" "Priority (?f p) \<le> Priority q"
    using policy_decides_max [OF Evaluate_decides [OF assms(7)] fp m] by blast
  then obtain q0 where "q0 \<in> set (t_policies d)" "q = ?f q0" "PolicyOrgID q0 = PolicyOrgID p"
    using d' unfolding ls by (auto simp: rows_def split: if_splits)
  then have "Evaluate srt ls s t = PolicyActionAllow"
    using q(3,4) assms(14) by (auto split: if_splits)
  then show ?thesis
    unfolding d'_def [symmetric] by (simp add: EmbeddedEnforcer_def embedded_Allowed_def l)
qed

definition sample_rule :: CommunicationPolicy where
  "sample_rule = \<lparr>PolicyID = ''p'', PolicyOrgID = ''o'', SourceID = ''*'', TargetID = ''*'',
     Direction = DirectionBidirectional, Action = PolicyActionDeny, Priority = 5,
     PolicyCreatedBy = ''u1'', PolicyCreatedAt = 0\<rparr>"

definition open_form :: "string \<Rightarrow> string" where
  "open_form k = (if k = ''action'' then ''allow'' else if k = ''priority'' then ''9'' else ''*'')"

lemma cross_tenant_policy_edit_witness:
  "Allowed (EmbeddedEnforcer insertion_sort (db_policies (\<lambda>e. '''') insertion_sort) ''o'')
     (snd (Handler sample_web (sample_request ''POST'' ''/policies/p/edit'' ''t'' open_form)
       (empty_db\<lparr>t_policies := [sample_rule]\<rparr>))) ''a1'' ''b1'' = Inr True"
proof -
  let ?r = "sample_request ''POST'' ''/policies/p/edit'' ''t'' open_form"
  have "sessions_Get sample_web ?r = Inr (sample_session ''u2'' ''o2'' RoleOperator)"
    "route_request ?r = Some (PolicyEditPost (PolicyID sample_rule))"
    by (simp_all add: sample_web_simps route_request_def post_route_def sample_rule_def)
  moreover have "strconv_Atoi (open_form ''priority'') = (9, False)"
    by (simp add: open_form_def strconv_Atoi_def decimal_def digit_def less_eq_char_def)
  ultimately have "Allowed (EmbeddedEnforcer insertion_sort (db_policies (\<lambda>e. '''') insertion_sort) (PolicyOrgID sample_rule))
     (snd (Handler sample_web ?r (empty_db\<lparr>t_policies := [sample_rule]\<rparr>))) ''a1'' ''b1'' = Inr True"
    by (intro cross_tenant_policy_edit [where sd = "sample_session ''u2'' ''o2'' RoleOperator" and form = open_form and n = 9])
      (simp_all add: go_sort.slice_sorter_axioms sample_session_def sample_rule_def empty_db_def
        sample_request_def open_form_def wire)
  then show ?thesis by (simp add: sample_rule_def)
qed

text \<open>
  C24: What the audit trail shows. While the database works and the event's id is new, a request that
  changes a key, an agent, a policy or a user appends exactly one audit event, in the name
  of the session's user and organisation. A request that changes limits appends none.
\<close>

theorem changes_are_audited:
  assumes "Handler env r d = (resp, d')" and "db_failure d = None" and "uuid_audit env \<notin> E_ID ` set (t_audit d)"
  shows "(t_keys d' \<noteq> t_keys d \<or> t_agents d' \<noteq> t_agents d \<or> t_policies d' \<noteq> t_policies d \<or> t_users d' \<noteq> t_users d \<longrightarrow>
      (\<exists>sd e. sessions_Get env r = Inr sd \<and> t_audit d' = t_audit d @ [e] \<and> E_OrgID e = SD_OrgID sd \<and>
         E_UserID e = SD_UserID sd \<and> E_Username e = SD_Username sd)) \<and>
    (t_limits d' \<noteq> t_limits d \<longrightarrow> t_audit d' = t_audit d)"
proof (intro conjI impI)
  have d': "d' = snd (Handler env r d)" using assms(1) by simp
  show "t_audit d' = t_audit d" if "t_limits d' \<noteq> t_limits d"
    using limits_or_audit [of env r d] that d' by simp
  assume ch: "t_keys d' \<noteq> t_keys d \<or> t_agents d' \<noteq> t_agents d \<or> t_policies d' \<noteq> t_policies d \<or> t_users d' \<noteq> t_users d"
  have "audited env r d d'" unfolding d' by (rule audited_Handler)
  with ch obtain sd a tt ti de d1 where
    s: "session_of env r sd" "d' = recordAudit env sd a tt ti de d1" "t_audit d1 = t_audit d" "db_failure d1 = db_failure d"
    unfolding audited_def by blast
  then have "t_audit d' = t_audit d @ [stored_event env sd a tt ti de]"
    using recordAudit_appends [of d1 env] assms(2,3) by simp
  with s(1) show "\<exists>sd e. sessions_Get env r = Inr sd \<and> t_audit d' = t_audit d @ [e] \<and> E_OrgID e = SD_OrgID sd \<and>
      E_UserID e = SD_UserID sd \<and> E_Username e = SD_Username sd"
    by (auto simp: session_of_def stored_event_def audit_event_def)
qed

lemma sample_revoke:
  "Handler sample_web (sample_request ''POST'' ''/api-keys/k/revoke'' ''s'' id) sample_db =
     (reply_with (Redirect ''/api-keys''),
      sample_db\<lparr>t_keys := [(sample_apikey ''o'' ''k'')\<lparr>RevokedAt := Some 0\<rparr>, sample_apikey ''o2'' ''k2''],
        t_audit := [stored_event sample_web (sample_session ''u1'' ''o'' RoleAdmin) ''apikey.revoke'' ''apikey'' ''k''
          ''revoked API key k'']\<rparr>)"
  by (simp add: Handler_def route_request_def post_route_def requireAuth_def requireRole_def roleAtLeast_iff
      sample_web_simps handleAPIKeyRevoke_def RevokeAPIKey_def exec_def sample_db_def empty_db_def
      sample_apikey_def rfc3339_def Second_def recordAudit_def AppendAuditEvent_def audit_event_def stored_event_def)

lemma changes_are_audited_witness:
  "\<exists>e. t_audit (snd (Handler sample_web (sample_request ''POST'' ''/api-keys/k/revoke'' ''s'' id) sample_db)) = [e] \<and>
     E_UserID e = ''u1'' \<and> E_OrgID e = ''o''"
proof -
  have "sessions_Get sample_web (sample_request ''POST'' ''/api-keys/k/revoke'' ''s'' id) =
      Inr (sample_session ''u1'' ''o'' RoleAdmin)"
    by (simp add: sample_web_simps)
  then show ?thesis
    using changes_are_audited [OF sample_revoke]
    by (simp add: sample_revoke) (simp add: sample_db_def empty_db_def sample_session_def sample_apikey_def)
qed

text \<open>
  C25: Sessions. A response sets a session cookie only when the request proved the password of an
  existing user; the cookie holds that user's id, organisation and role, and whoever presents it
  later acts as that user until exactly eight hours after the login.
\<close>

theorem login_session:
  assumes "Handler env r d = (resp, d')" and "w_cookie resp = Some (SetSessionCookie v exp)"
  shows "\<exists>u sd. proves_login env r d u \<and> sc_Encode env sessionCookieName sd = Inr v \<and>
    SD_UserID sd = U_ID u \<and> SD_OrgID sd = U_OrgID u \<and> SD_Role sd = U_Role u \<and> exp = t_row env + 8 * Hour \<and>
    (sc_Decode env' sessionCookieName v = Inr sd \<longrightarrow> wr_Cookie r' sessionCookieName = Some v \<longrightarrow>
       sessions_Get env' r' = (if t_session env' > t_row env + 8 * Hour then Inl SessionExpired else Inr sd))"
proof -
  have c: "w_cookie (fst (Handler env r d)) = Some (SetSessionCookie v exp)" using assms by simp
  then have "w_cookie (fst (handleLoginPost env r d)) = Some (SetSessionCookie v exp)"
    using session_only_by_login [OF c] by (simp add: Handler_def)
  then obtain u where u: "proves_login env r d u"
    "sc_Encode env sessionCookieName \<lparr>SD_UserID = U_ID u, SD_OrgID = U_OrgID u, SD_Username = Username u,
       SD_Role = U_Role u, ExpiresAt = t_row env + 8 * Hour\<rparr> = Inr v" "exp = t_row env + 8 * Hour"
    by (rule login_cookie)
  then show ?thesis
    by (intro exI [of _ u] exI [of _ "\<lparr>SD_UserID = U_ID u, SD_OrgID = U_OrgID u, SD_Username = Username u,
       SD_Role = U_Role u, ExpiresAt = t_row env + 8 * Hour\<rparr>"]) (simp add: sessions_Get_def)
qed

definition sample_user :: User where
  "sample_user = \<lparr>U_ID = ''u1'', U_OrgID = ''o'', Username = ''me'', Password = ''me'', U_Role = RoleAdmin, U_CreatedAt = 0\<rparr>"

lemma login_session_witness:
  "\<exists>u. proves_login sample_web (sample_request ''POST'' ''/login'' '''' (\<lambda>k. ''me'')) (empty_db\<lparr>t_users := [sample_user]\<rparr>) u \<and>
     U_Role u = RoleAdmin"
proof -
  let ?r = "sample_request ''POST'' ''/login'' '''' (\<lambda>k. ''me'')" and ?d = "empty_db\<lparr>t_users := [sample_user]\<rparr>"
  have u: "GetUserByUsername ''me'' ?d = Inr sample_user"
    by (simp add: GetUserByUsername_def query_def one_row_def empty_db_def sample_user_def)
  have pw: "Password sample_user = ''me''" by (simp add: sample_user_def)
  have "w_cookie (fst (Handler sample_web ?r ?d)) = Some (SetSessionCookie ''s'' (50 + 8 * Hour))"
    by (simp add: Handler_def route_request_def post_route_def handleLoginPost_def u pw sample_web_def sessions_Set_def
        sample_request_def Let_def)
  from login_session [OF surjective_pairing this, of sample_web ?r]
  obtain x where x: "proves_login sample_web ?r ?d x" by blast
  then have "x = sample_user" by (auto simp: proves_login_def sample_request_def u)
  with x show ?thesis by (auto simp: sample_user_def)
qed

text \<open>
  C26: A key that was issued works. When the form for a new key of role agent answers with the page that
  shows the raw key, that key authenticates exactly the agent id of the form, which is a valid
  identifier, and does so after any further requests that the server handles until the key is revoked,
  whatever organisation the issuing administrator belongs to.
\<close>

theorem issued_key_works:
  assumes "db_ok d" and "route_request r = Some APIKeyNewPost" and "Handler env r d = (resp, d')"
    and "w_reply resp = PageReply (apiKeyListPage sd keys raw)" and "wr_Form r = Inr form"
    and "form ''role'' = RoleAgent"
  shows "sessions_Get env r = Inr sd \<and> SD_Role sd = RoleAdmin \<and> IsValidAgentID (form ''agent_id'') \<and>
    EmbeddedAuthenticator (sha256_hex env) (db_keys txt) d' raw = Inr (form ''agent_id'') \<and>
    (\<forall>reqs. \<not> revoked_in (handle_requests reqs d') (sha256_hex env raw) \<longrightarrow>
       EmbeddedAuthenticator (sha256_hex env) (db_keys txt) (handle_requests reqs d') raw = Inr (form ''agent_id''))"
proof -
  have p: "w_reply (fst (Handler env r d)) = PageReply (apiKeyListPage sd keys raw)" using assms(3,4) by simp
  then obtain sd' where s: "sessions_Get env r = Inr sd'" "SD_Role sd' = RoleAdmin"
    "Handler env r d = handleAPIKeyNewPost sd' env r d"
    using assms(2) by (auto simp: Handler_def requireAuth_def requireRole_def roleAtLeast_iff split: sum.splits if_splits)
  have sd': "sd' = sd"
    using p unfolding s(3)
    by (auto simp: handleAPIKeyNewPost_def Let_def split: sum.splits option.splits prod.splits if_splits)
  have "w_reply (fst (handleAPIKeyNewPost sd env r d)) = PageReply (apiKeyListPage sd keys raw)"
    using p s(3) sd' by simp
  from APIKeyNewPost_page [OF this assms(5)] obtain k d1 de where
    k: "CreateAPIKey k d = (None, d1)" "KeyHash k = sha256_hex env raw" "K_Role k = RoleAgent"
    "key_binding RoleAgent (form ''agent_id'') = Inr (K_AgentID k)"
    "snd (handleAPIKeyNewPost sd env r d) = recordAudit env sd ''apikey.create'' ''apikey'' (K_ID k) de d1"
    using assms(6) by metis
  let ?k = "k\<lparr>K_CreatedAt := rfc3339 (K_CreatedAt k), RevokedAt := None\<rparr>"
  have g: "GetAPIKeyByHash (sha256_hex env raw) d' = Inr ?k"
    using CreateAPIKey_found(1) [OF assms(1) k(1)] k(2,5) assms(3) s(3) sd' by simp
  have v: "IsValidAgentID (form ''agent_id'')" "K_AgentID k = form ''agent_id''"
    using k(4) by (auto simp: key_binding_Inr wire)
  have ok: "db_ok d'"
  proof -
    obtain ops where "d' = apply_ops ops d"
      using handle_requests_ops [of "[(env, r)]" d] assms(3) by (auto simp: handle_requests_def)
    then show ?thesis using apply_ops_ok [OF assms(1)] by simp
  qed
  then have row: "?k \<in> set (t_keys d')" "db_failure d' = None" using g by (simp_all add: GetAPIKeyByHash_iff)
  have later: "GetAPIKeyByHash (sha256_hex env raw) (handle_requests reqs d') = Inr ?k"
    if "\<not> revoked_in (handle_requests reqs d') (sha256_hex env raw)" for reqs
  proof -
    obtain ops where o: "handle_requests reqs d' = apply_ops ops d'" using handle_requests_ops by blast
    have "db_failure (handle_requests reqs d') = None" using row(2) handle_requests_failure by simp
    from key_found_until_revoked [OF ok row(1) _ this [unfolded o]] show ?thesis using that k(2) o by simp
  qed
  show ?thesis
    using s(1,2) sd' k(3) g later v by (simp add: EmbeddedAuthenticator_def db_keys_def)
qed

definition key_form :: "string \<Rightarrow> string" where
  "key_form k = (if k = ''role'' then ''agent'' else ''a1'')"

lemma issued_key_works_witness:
  "\<exists>d raw. EmbeddedAuthenticator id (db_keys (\<lambda>e. '''')) d raw = Inr ''a1''"
proof -
  let ?r = "sample_request ''POST'' ''/api-keys/new'' ''s'' key_form"
  let ?h = "handleAPIKeyNewPost (sample_session ''u1'' ''o'' RoleAdmin) sample_web ?r empty_db"
  have route: "route_request ?r = Some APIKeyNewPost"
    by (simp add: route_request_def post_route_def sample_request_def)
  have "IsValidAgentID ''a1''" by (simp add: IsValidAgentID_rules agent_id_rules_def middle_class_def alnum_class_def less_eq_char_def)
  then have b: "key_binding (key_form ''role'') (key_form ''agent_id'') = Inr ''a1''"
    by (simp add: key_binding_def key_form_def wire)
  have "Handler sample_web ?r empty_db = ?h"
    using route by (simp add: Handler_def requireAuth_def requireRole_def roleAtLeast_iff sample_web_simps)
  moreover have "wr_Form ?r = Inr key_form" "key_form ''name'' \<noteq> ''''"
    by (simp_all add: sample_request_def key_form_def)
  then have "\<exists>keys raw. w_reply (fst ?h) = PageReply (apiKeyListPage (sample_session ''u1'' ''o'' RoleAdmin) keys raw)"
    using b by (simp add: handleAPIKeyNewPost_def generateAPIKey_def sample_web_def CreateAPIKey_def exec_def
        empty_db_def Let_def)
  ultimately obtain keys raw d' resp where
    h: "Handler sample_web ?r empty_db = (resp, d')"
    "w_reply resp = PageReply (apiKeyListPage (sample_session ''u1'' ''o'' RoleAdmin) keys raw)"
    by (metis prod.collapse)
  have "EmbeddedAuthenticator (sha256_hex sample_web) (db_keys (\<lambda>e. '''')) d' raw = Inr (key_form ''agent_id'')"
    using issued_key_works [OF empty_db_ok route h, of key_form]
    by (simp add: sample_request_def key_form_def wire)
  then show ?thesis by (auto simp: sample_web_def key_form_def)
qed

end
