(* ===== verification/Deployment.thy ===== *)
theory Deployment
  imports AdminFacts ToolFacts
begin

text \<open>
  The processes and how they are put together: the wiring of the gateway in \<open>cmd/gateway/main.go\<close>
  with the HTTP handler of \<open>internal/gateway/http_handler.go\<close>, and the requests of a remote gateway
  (\<open>HTTPAuthenticator\<close>, \<open>HTTPEnforcer\<close>, \<open>HTTPMessageLogger\<close>) as they arrive at the admin server.
\<close>

section \<open>Starting a gateway (cmd/gateway/main.go)\<close>

record Flags =
  redis_addr :: string
  mcp_transport :: string
  listen_addr :: string
  policy_mode :: string
  admin_db :: string
  admin_url :: string
  admin_api_key :: string
  pending_ttl :: duration
  agent_id :: string
  task_read_timeout :: duration
  require_agent_key :: bool
  message_log :: bool
  enforce_limits :: bool
  gateway_org_id :: string

text \<open>The defaults of \<open>flag.String\<close>, \<open>flag.Duration\<close> and \<open>flag.Bool\<close>.\<close>

definition default_flags :: Flags where
  "default_flags =
     \<lparr>redis_addr = ''localhost:6379'', mcp_transport = ''stdio'', listen_addr = '':3000'',
      policy_mode = ''embedded'', admin_db = ''admin.db'', admin_url = '''', admin_api_key = '''',
      pending_ttl = Hour, agent_id = ''mcp-gateway'', task_read_timeout = 5 * Second,
      require_agent_key = False, message_log = True, enforce_limits = False, gateway_org_id = ''default''\<rparr>"

text \<open>
  What the process finds: the environment variables, the opening of a store at a path (with the
  resolution of symbolic links), the HTTP library, and what the embedded implementations take.
\<close>

record host =
  os_Getenv :: "string \<Rightarrow> string"
  open_store :: "string \<Rightarrow> string option"
  http :: "db http_lib"
  host_sha256 :: "string \<Rightarrow> string"
  host_sort :: slice_sort
  host_by_policies :: "CommunicationPolicy order_by"
  host_err :: "store_error \<Rightarrow> string"

datatype fatal = AdminKeyRequired | StoreUnavailable string | AdminURLRequired | BadAdminURL policy_error
  | UnknownPolicyMode string | UnknownTransport string

definition mustEnforcer :: "host \<Rightarrow> string \<Rightarrow> string \<Rightarrow> string \<Rightarrow> string \<Rightarrow> fatal + db PolicyEnforcer" where
  "mustEnforcer h mode adminDB adminURL adminAPIKey =
     (if mode = ''embedded'' then
        (case open_store h adminDB of
           Some err \<Rightarrow> Inl (StoreUnavailable err)
         | None \<Rightarrow> Inr (EmbeddedEnforcer (host_sort h) (db_policies (host_err h) (host_by_policies h)) ''default''))
      else if mode = ''remote'' then
        (if adminURL = '''' then Inl AdminURLRequired
         else case NewHTTPEnforcer (http h) adminURL adminAPIKey of
           Inl err \<Rightarrow> Inl (BadAdminURL err)
         | Inr enf \<Rightarrow> Inr enf)
      else Inl (UnknownPolicyMode mode))"

definition mustAuthenticator :: "host \<Rightarrow> string \<Rightarrow> string \<Rightarrow> string \<Rightarrow> fatal + db AgentAuthenticator" where
  "mustAuthenticator h mode adminDB adminURL =
     (if mode = ''embedded'' then
        (case open_store h adminDB of
           Some err \<Rightarrow> Inl (StoreUnavailable err)
         | None \<Rightarrow> Inr (EmbeddedAuthenticator (host_sha256 h) (db_keys (host_err h))))
      else if mode = ''remote'' then
        (if adminURL = '''' then Inl AdminURLRequired
         else case NewHTTPAuthenticator (http h) adminURL of
           Inl err \<Rightarrow> Inl (BadAdminURL err)
         | Inr a \<Rightarrow> Inr a)
      else Inl (UnknownPolicyMode mode))"

text \<open>Which logger and which limiter, with the organisation they write to and read from.\<close>

datatype logger_choice = NoopLogger | EmbeddedLogger string | HTTPLogger HTTPMessageLogger

definition mustMessageLogger :: "host \<Rightarrow> bool \<Rightarrow> string \<Rightarrow> string \<Rightarrow> string \<Rightarrow> string \<Rightarrow> string
    \<Rightarrow> fatal + logger_choice" where
  "mustMessageLogger h enabled mode adminDB adminURL adminAPIKey org =
     (if \<not> enabled then Inr NoopLogger
      else if mode = ''embedded'' then
        (case open_store h adminDB of
           Some err \<Rightarrow> Inl (StoreUnavailable err) | None \<Rightarrow> Inr (EmbeddedLogger org))
      else if mode = ''remote'' then
        (if adminURL = '''' then Inr NoopLogger
         else case NewHTTPMessageLogger (http h) adminURL adminAPIKey of
           Inl err \<Rightarrow> Inl (BadAdminURL err)
         | Inr l \<Rightarrow> Inr (HTTPLogger l))
      else Inr NoopLogger)"

datatype limiter_choice = NoopLimiter | EmbeddedLimiter EmbeddedLimitEnforcer

definition mustLimitEnforcer :: "host \<Rightarrow> bool \<Rightarrow> string \<Rightarrow> string \<Rightarrow> string \<Rightarrow> fatal + limiter_choice" where
  "mustLimitEnforcer h enabled mode adminDB org =
     (if \<not> enabled then Inr NoopLimiter
      else if mode = ''embedded'' then
        (case open_store h adminDB of
           Some err \<Rightarrow> Inl (StoreUnavailable err)
         | None \<Rightarrow> Inr (EmbeddedLimiter (NewEmbeddedLimitEnforcer org)))
      else Inr NoopLimiter)"

datatype service = ServeStdio | ServeHTTP string

record wiring =
  w_enforcer :: "db PolicyEnforcer"
  w_auth :: "db AgentAuthenticator option"
  w_logger :: logger_choice
  w_limiter :: limiter_choice
  w_cfg :: Config
  w_service :: service

text \<open>\<open>main\<close> up to the point where it serves: the fatal error it exits with, or what it has wired.\<close>

definition gateway_main :: "host \<Rightarrow> Flags \<Rightarrow> fatal + wiring" where
  "gateway_main h f =
     (let envKey = os_Getenv h ''ADMIN_API_KEY'';
          adminAPIKey = (if envKey \<noteq> '''' then envKey else admin_api_key f)
      in if policy_mode f = ''remote'' \<and> adminAPIKey = '''' then Inl AdminKeyRequired
         else then_do (mustEnforcer h (policy_mode f) (admin_db f) (admin_url f) adminAPIKey) (\<lambda>enf.
         then_do (if require_agent_key f
                  then map_sum id Some (mustAuthenticator h (policy_mode f) (admin_db f) (admin_url f))
                  else Inr None) (\<lambda>au.
         let cfg = DefaultConfig\<lparr>AgentID := agent_id f, TaskReadTimeout := task_read_timeout f,
                     PendingTTL := pending_ttl f, DefaultAgentName := os_Getenv h ''AGA2AGA_AGENT_NAME'',
                     DefaultAgentKey := os_Getenv h ''AGA2AGA_API_KEY''\<rparr>;
             cfg = (if mcp_transport f = ''http''
                    then cfg\<lparr>DefaultAgentName := '''', DefaultAgentKey := ''''\<rparr> else cfg)
         in then_do (mustMessageLogger h (message_log f) (policy_mode f) (admin_db f) (admin_url f)
                       adminAPIKey (gateway_org_id f)) (\<lambda>lg.
            then_do (mustLimitEnforcer h (enforce_limits f) (policy_mode f) (admin_db f) (gateway_org_id f)) (\<lambda>li.
            let w = (\<lambda>sv. \<lparr>w_enforcer = enf, w_auth = au, w_logger = lg, w_limiter = li, w_cfg = cfg,
                           w_service = sv\<rparr>)
            in if mcp_transport f = ''stdio'' then Inr (w ServeStdio)
               else if mcp_transport f = ''http'' then Inr (w (ServeHTTP (listen_addr f)))
               else Inl (UnknownTransport (mcp_transport f)))))))"

text \<open>What has been wired when \<open>main\<close> gets that far.\<close>

lemma map_sum_Some: "map_sum id Some r = Inr x \<longleftrightarrow> (\<exists>a. r = Inr a \<and> x = Some a)"
  by (cases r) auto

lemma gateway_main_Inr:
  assumes "gateway_main h f = Inr w"
  defines "key \<equiv> if os_Getenv h ''ADMIN_API_KEY'' \<noteq> '''' then os_Getenv h ''ADMIN_API_KEY'' else admin_api_key f"
  shows "policy_mode f = ''remote'' \<longrightarrow> key \<noteq> ''''"
    and "mustEnforcer h (policy_mode f) (admin_db f) (admin_url f) key = Inr (w_enforcer w)"
    and "if require_agent_key f
         then \<exists>a. mustAuthenticator h (policy_mode f) (admin_db f) (admin_url f) = Inr a \<and> w_auth w = Some a
         else w_auth w = None"
    and "mustMessageLogger h (message_log f) (policy_mode f) (admin_db f) (admin_url f) key (gateway_org_id f) =
         Inr (w_logger w)"
    and "mustLimitEnforcer h (enforce_limits f) (policy_mode f) (admin_db f) (gateway_org_id f) = Inr (w_limiter w)"
    and "mcp_transport f = ''http'' \<longrightarrow> DefaultAgentName (w_cfg w) = '''' \<and> DefaultAgentKey (w_cfg w) = ''''"
proof -
  note m = assms(1) [unfolded gateway_main_def Let_def, folded key_def]
  show "policy_mode f = ''remote'' \<longrightarrow> key \<noteq> ''''" using m by (auto split: if_splits)
  then have n: "\<not> (policy_mode f = ''remote'' \<and> key = '''')" by blast
  note m = m [unfolded if_not_P [OF n] then_do_Inr]
  show "mustEnforcer h (policy_mode f) (admin_db f) (admin_url f) key = Inr (w_enforcer w)"
    "if require_agent_key f
         then \<exists>a. mustAuthenticator h (policy_mode f) (admin_db f) (admin_url f) = Inr a \<and> w_auth w = Some a
         else w_auth w = None"
    "mustMessageLogger h (message_log f) (policy_mode f) (admin_db f) (admin_url f) key (gateway_org_id f) =
         Inr (w_logger w)"
    "mustLimitEnforcer h (enforce_limits f) (policy_mode f) (admin_db f) (gateway_org_id f) = Inr (w_limiter w)"
    "mcp_transport f = ''http'' \<longrightarrow> DefaultAgentName (w_cfg w) = '''' \<and> DefaultAgentKey (w_cfg w) = ''''"
    using m by (auto simp: map_sum_Some split: if_splits)
qed

section \<open>The HTTP handler (http_handler.go)\<close>

datatype mcp_route = McpNotFound | McpServer

definition oauth_paths :: "string list" where
  "oauth_paths = [''/.well-known/oauth-protected-resource'', ''/.well-known/oauth-authorization-server'',
     ''/.well-known/openid-configuration'']"

definition NewMCPHTTPHandler :: "string \<Rightarrow> string \<Rightarrow> mcp_route" where
  "NewMCPHTTPHandler meth path =
     (if (meth = ''GET'' \<or> meth = ''HEAD'') \<and>
         list_ex (\<lambda>p. path = p \<or> has_prefix (p @ ''/'') path) oauth_paths
      then McpNotFound else McpServer)"

section \<open>A remote gateway's requests at the admin server\<close>

text \<open>
  What \<open>net/http\<close> makes of a header value: it refuses control characters other than the tab, and blanks at
  both ends do not arrive (\<open>textproto.TrimString\<close>). The bound on the length stands for the server's limit on
  all headers of a request, 1 MiB by default.
\<close>

definition header_blank :: "char \<Rightarrow> bool" where
  "header_blank c \<longleftrightarrow> c \<in> {CHR '' '', CHR 0x09, CHR 0x0A, CHR 0x0D}"

definition header_trim :: "string \<Rightarrow> string" where
  "header_trim v = rev (dropWhile header_blank (rev (dropWhile header_blank v)))"

definition header_text :: "string \<Rightarrow> bool" where
  "header_text v \<longleftrightarrow> length v \<le> 65536 \<and>
     (\<forall>c\<in>set v. c = CHR 0x09 \<or> (32 :: nat) \<le> of_char c \<and> of_char c \<noteq> (127 :: nat))"

text \<open>A key or token that arrives as it is behind \<open>Bearer\<close>; the keys that the admin server issues do.\<close>

definition header_safe :: "string \<Rightarrow> bool" where
  "header_safe key \<longleftrightarrow> header_text (''Bearer '' @ key) \<and> header_trim (''Bearer '' @ key) = ''Bearer '' @ key"

text \<open>
  The request that arrives: the target is what the URL has behind its authority, without a fragment.
\<close>

definition request_target :: "string \<Rightarrow> string" where
  "request_target url =
     takeWhile (\<lambda>c. c \<noteq> CHR ''#'')
       (dropWhile (\<lambda>c. c \<notin> {CHR ''/'', CHR ''?'', CHR ''#''}) (drop 3 (dropWhile (\<lambda>c. c \<noteq> CHR '':'') url)))"

definition server_request :: "HTTPRequest \<Rightarrow> bytes \<Rightarrow> WebRequest" where
  "server_request req body =
     (let (path, query) = strings_Cut (request_target (req_URL req)) (CHR ''?'')
      in \<lparr>wr_Method = req_Method req, wr_Path = path, wr_RawQuery = query,
          wr_Authorization = header_trim (req_Authorization req), wr_Cookie = (\<lambda>n. None), wr_Form = Inr (\<lambda>k. ''''),
          wr_Body = (\<lambda>n. Inr (take n body))\<rparr>)"

text \<open>The base URL of a server that is not behind a path: a scheme and an authority, and no slash at the end.\<close>

definition bare_base :: "string \<Rightarrow> bool" where
  "bare_base base \<longleftrightarrow> (\<exists>host. host \<noteq> '''' \<and> set host \<inter> {CHR ''/'', CHR ''?'', CHR ''#''} = {} \<and>
     (base = ''http://'' @ host \<or> base = ''https://'' @ host))"

text \<open>
  The network carries the gateway's requests to the server and its answers back, if their header is one that
  \<open>net/http\<close> sends.
\<close>

definition admin_urls :: "string \<Rightarrow> string set" where
  "admin_urls base = insert (base @ ''/api/v1/auth'')
     {base @ ''/api/v1/evaluate?source='' @ url_QueryEscape s @ ''&target='' @ url_QueryEscape t | s t. True}"

definition connected :: "db http_lib \<Rightarrow> string \<Rightarrow> web_env \<Rightarrow> bool" where
  "connected lib base env \<longleftrightarrow> bare_base base \<and>
     (\<forall>url \<in> admin_urls base. \<forall>meth. NewRequestErr lib meth url = None \<and>
        (\<forall>d a. header_text a \<longrightarrow>
           (let req = \<lparr>req_Method = meth, req_URL = url, req_Authorization = a\<rparr>
            in Do lib d req = Inr (on_wire (w_reply (fst (Handler env (server_request req '''') d)))))))"

lemma request_target_base:
  assumes "bare_base base" and "CHR ''#'' \<notin> set p"
  shows "request_target (base @ CHR ''/'' # p) = CHR ''/'' # p"
proof -
  obtain host where host: "set host \<inter> {CHR ''/'', CHR ''?'', CHR ''#''} = {}"
    "base = ''http://'' @ host \<or> base = ''https://'' @ host" using assms(1) unfolding bare_base_def by blast
  have "drop 3 (dropWhile (\<lambda>c. c \<noteq> CHR '':'') (base @ CHR ''/'' # p)) = host @ CHR ''/'' # p"
    using host(2) by (elim disjE) (simp_all add: numeral_3_eq_3)
  moreover have "dropWhile (\<lambda>c. c \<notin> {CHR ''/'', CHR ''?'', CHR ''#''}) (host @ CHR ''/'' # p) = CHR ''/'' # p"
    using host(1) by (induction host) fastforce+
  moreover have "takeWhile (\<lambda>c. c \<noteq> CHR ''#'') (CHR ''/'' # p) = CHR ''/'' # p"
    using assms(2) by (simp only: takeWhile_eq_all_conv) auto
  ultimately show ?thesis by (simp only: request_target_def)
qed

text \<open>The gateway's decoders read what the server's encoders wrote.\<close>

definition json_codec :: "db http_lib \<Rightarrow> web_env \<Rightarrow> bool" where
  "json_codec lib env \<longleftrightarrow>
     (\<forall>a. IsValidAgentID a \<longrightarrow> decode_auth lib (take maxAuthResponseBytes (json_auth env a)) = Inr (True, a)) \<and>
     (\<forall>a. decode_action lib (take maxEvaluateResponseBytes (json_action env a)) = Inr PolicyActionAllow \<longleftrightarrow>
        a = PolicyActionAllow)"

text \<open>Every key of role agent is bound to a valid identifier: the server issues no other.\<close>

definition agent_keys_valid :: "db \<Rightarrow> bool" where
  "agent_keys_valid d \<longleftrightarrow> (\<forall>k\<in>set (t_keys d). K_Role k = RoleAgent \<longrightarrow> IsValidAgentID (K_AgentID k))"

lemma agent_keys_valid_op:
  assumes "permitted env r d0 p" and "agent_keys_valid d"
  shows "agent_keys_valid (apply_op p d)"
proof (cases p)
  case (DoCreateAPIKey k)
  then show ?thesis using assms
    by (auto simp: agent_keys_valid_def CreateAPIKey_def exec_def with_role_def wire split: option.split)
qed (use assms(2) in \<open>auto simp: agent_keys_valid_def statements UpsertAgentLimits_def Let_def split: option.split\<close>)

lemma agent_keys_valid_Handler:
  assumes "agent_keys_valid d" shows "agent_keys_valid (snd (Handler env r d))"
proof -
  have "\<forall>p\<in>set ops. permitted env r d p \<Longrightarrow> agent_keys_valid d1 \<Longrightarrow> agent_keys_valid (fold apply_op ops d1)" for ops d1
    by (induction ops arbitrary: d1) (auto intro: agent_keys_valid_op simp del: permitted.simps)
  then show ?thesis using does_Handler [of env r d] assms by (auto simp: does_def apply_ops_def)
qed

subsection \<open>Authentication\<close>

lemma header_safe_text: "header_safe key \<Longrightarrow> header_text (''Bearer '' @ key)"
  by (simp add: header_safe_def)

lemma header_safe_trim: "header_safe key \<Longrightarrow> header_trim (''Bearer '' @ key) = ''Bearer '' @ key"
  by (simp add: header_safe_def)

lemma header_safe_nonempty: "header_safe key \<Longrightarrow> key \<noteq> ''''"
proof -
  have "header_trim ''Bearer '' \<noteq> ''Bearer ''" by (simp add: header_trim_def header_blank_def)
  then show "header_safe key \<Longrightarrow> key \<noteq> ''''" by (auto simp: header_safe_def)
qed

lemma header_trim_same:
  assumes "v \<noteq> ''''" and "\<not> header_blank (hd v)" and "\<not> header_blank (last v)"
  shows "header_trim v = v"
proof -
  have "dropWhile header_blank v = v" using assms(1,2) by (cases v) simp_all
  moreover have "dropWhile header_blank (rev v) = rev v" using assms(1,3) by (cases v rule: rev_cases) simp_all
  ultimately show ?thesis by (simp add: header_trim_def)
qed

text \<open>The keys that the server issues, 32 bytes in hexadecimal, are such.\<close>

lemma issued_key_header_safe:
  assumes "length b = 32" shows "header_safe (hex_EncodeToString b)"
proof -
  let ?key = "hex_EncodeToString b"
  have nth: "lowerhex ! n \<in> set lowerhex" if "n < 16" for n using that by (intro nth_mem) (simp add: lowerhex_def)
  have d: "(of_char c :: nat) div 16 < 16" for c :: char using nat_of_char_less_256 [of c] by linarith
  have sub: "set ?key \<subseteq> set lowerhex" using nth d by (auto simp: hex_EncodeToString_def)
  have len: "length ?key = 64"
  proof -
    have "length (hex_EncodeToString xs) = 2 * length xs" for xs
      by (induction xs) (simp_all add: hex_EncodeToString_def)
    then show ?thesis using assms by simp
  qed
  have ok: "32 \<le> (of_char c :: nat) \<and> of_char c \<noteq> (127 :: nat) \<and> \<not> header_blank c" if "c \<in> set lowerhex" for c
    using that by (auto simp: lowerhex_def header_blank_def)
  have ne: "?key \<noteq> ''''" using len by auto
  then have "last ?key \<in> set ?key" by (rule last_in_set)
  then have "\<not> header_blank (last ?key)" using ok sub by blast
  then have "header_trim (''Bearer '' @ ?key) = ''Bearer '' @ ?key"
    using ne by (intro header_trim_same) (simp_all add: header_blank_def)
  moreover have "header_text (''Bearer '' @ ?key)"
    using ok sub len by (auto simp: header_text_def)
  ultimately show ?thesis by (simp add: header_safe_def)
qed

lemma auth_request:
  assumes "bare_base base"
  shows "server_request \<lparr>req_Method = ''POST'', req_URL = base @ ''/api/v1/auth'', req_Authorization = a\<rparr> body =
     \<lparr>wr_Method = ''POST'', wr_Path = ''/api/v1/auth'', wr_RawQuery = '''', wr_Authorization = header_trim a,
      wr_Cookie = (\<lambda>n. None), wr_Form = Inr (\<lambda>k. ''''), wr_Body = (\<lambda>n. Inr (take n body))\<rparr>"
  by (simp add: server_request_def strings_Cut_def request_target_base [OF assms])

lemma apiKeyFromRequest_bearer:
  assumes "wr_Authorization r = ''Bearer '' @ raw" and "raw \<noteq> ''''"
  shows "apiKeyFromRequest env r d = Some k \<longleftrightarrow>
    GetAPIKeyByHash (sha256_hex env raw) d = Inr k \<and> RevokedAt k = None"
  using assms by (auto simp: apiKeyFromRequest_def strings_CutPrefix_def Let_def split: sum.split)

lemma remote_authenticates_iff:
  assumes "connected lib base env" and "json_codec lib env" and "db_ok d" and "agent_keys_valid d" and "header_safe raw"
  shows "HTTPAuthenticator lib base d raw = Inr a \<longleftrightarrow>
    EmbeddedAuthenticator (sha256_hex env) (db_keys txt) d raw = Inr a"
proof -
  let ?req = "\<lparr>req_Method = ''POST'', req_URL = base @ ''/api/v1/auth'', req_Authorization = ''Bearer '' @ raw\<rparr>"
  let ?r = "server_request ?req ''''"
  have base: "bare_base base" using assms(1) by (simp add: connected_def)
  note auth_request = auth_request [OF base]
  have "route_request ?r = Some APIAuth" by (simp add: auth_request route_request_def post_route_def)
  then have h: "Handler env ?r d = handleAPIAuth env ?r d" by (simp add: Handler_def)
  have k: "apiKeyFromRequest env ?r d = Some k \<longleftrightarrow>
      GetAPIKeyByHash (sha256_hex env raw) d = Inr k \<and> RevokedAt k = None" for k
    by (rule apiKeyFromRequest_bearer)
      (simp_all only: auth_request WebRequest.simps header_safe_trim [OF assms(5)] header_safe_nonempty [OF assms(5)]
        not_False_eq_True)
  have net: "NewRequestErr lib ''POST'' (base @ ''/api/v1/auth'') = None"
    "Do lib d ?req = Inr (on_wire (w_reply (fst (handleAPIAuth env ?r d))))"
    using assms(1) h header_safe_text [OF assms(5)] by (simp_all add: connected_def admin_urls_def Let_def)
  show ?thesis
  proof (cases "\<exists>k. apiKeyFromRequest env ?r d = Some k \<and> K_Role k = RoleAgent")
    case True
    then obtain k where s: "apiKeyFromRequest env ?r d = Some k" "K_Role k = RoleAgent" by blast
    then have g: "GetAPIKeyByHash (sha256_hex env raw) d = Inr k" "RevokedAt k = None" using s(1) unfolding k by simp_all
    then have "IsValidAgentID (K_AgentID k)"
      using s(2) assms(4) GetAPIKeyByHash_iff [OF assms(3)] by (simp add: agent_keys_valid_def)
    then show ?thesis using net s g assms(2)
      by (simp add: HTTPAuthenticator_def EmbeddedAuthenticator_def db_keys_def handleAPIAuth_def json_codec_def
          io_LimitReader_def StatusOK_def StatusUnauthorized_def)
  next
    case False
    then have "fst (handleAPIAuth env ?r d) = reply_with (HttpError StatusUnauthorized (json_error ''unauthorized''))"
      by (auto simp: handleAPIAuth_def split: option.split)
    then have "HTTPAuthenticator lib base d raw = Inl Unauthorized"
      using net by (simp add: HTTPAuthenticator_def Let_def)
    moreover have "EmbeddedAuthenticator (sha256_hex env) (db_keys txt) d raw \<noteq> Inr a"
      using False k by (auto simp: EmbeddedAuthenticator_def db_keys_def split: sum.splits if_splits)
    ultimately show ?thesis by simp
  qed
qed

subsection \<open>Policy evaluation\<close>

lemma split_at_char_one: "c \<notin> set s \<Longrightarrow> split_at_char c s = [s]"
  by (induction s) auto

lemma split_at_char_append: "c \<notin> set s \<Longrightarrow> split_at_char c (s @ c # t) = s # split_at_char c t"
  by (induction s) auto

lemma strings_Cut_append: "c \<notin> set k \<Longrightarrow> strings_Cut (k @ c # v) c = (k, v)"
  unfolding strings_Cut_def by (induction k) auto

lemma escape_no_semicolon: "CHR '';'' \<notin> set (url_QueryEscape s)"
proof -
  have h: "upperhex ! n \<noteq> CHR '';''" if "n < 16" for n
    using upperhex_nth [OF that] by (auto simp: upperhex_def)
  have "CHR '';'' \<notin> set (escape_char c)" for c
  proof -
    have "(of_char c :: nat) div 16 < 16" using nat_of_char_less_256 [of c] by linarith
    then show ?thesis
      using h [of "of_char c div 16"] h [of "of_char c mod 16"]
      by (auto simp: escape_char_def unreserved_def alnum_class_def less_eq_char_def)
  qed
  then show ?thesis by (auto simp: url_QueryEscape_def)
qed

lemma query_pair_escaped:
  assumes "CHR ''='' \<notin> set k" and "CHR '';'' \<notin> set k" and "url_QueryUnescape k = Some k"
  shows "query_pair (k @ CHR ''='' # url_QueryEscape v) = [(k, v)]"
  using assms escape_no_semicolon [of v] by (simp add: query_pair_def strings_Cut_append Unescape_Escape)

lemma evaluate_query:
  "url_ParseQuery (''source='' @ url_QueryEscape s @ ''&target='' @ url_QueryEscape t) =
     [(''source'', s), (''target'', t)]"
proof -
  have amp: "CHR ''&'' \<notin> set (''source'' @ CHR ''='' # url_QueryEscape s)"
    "CHR ''&'' \<notin> set (''target'' @ CHR ''='' # url_QueryEscape t)"
    using QueryEscape_safe by fastforce+
  have k: "query_pair (''source'' @ CHR ''='' # url_QueryEscape s) = [(''source'', s)]"
    "query_pair (''target'' @ CHR ''='' # url_QueryEscape t) = [(''target'', t)]"
    by (rule query_pair_escaped; simp)+
  have "split_at_char (CHR ''&'') ((''source'' @ CHR ''='' # url_QueryEscape s) @ CHR ''&'' #
      (''target'' @ CHR ''='' # url_QueryEscape t)) =
      [''source'' @ CHR ''='' # url_QueryEscape s, ''target'' @ CHR ''='' # url_QueryEscape t]"
    by (simp only: split_at_char_append [OF amp(1)] split_at_char_one [OF amp(2)])
  then show ?thesis using k by (simp add: url_ParseQuery_def)
qed

lemma remote_allows_iff:
  assumes "connected lib base env" and "json_codec lib env" and "header_safe token" and "s \<noteq> ''''" and "t \<noteq> ''''"
  shows "http_Allowed lib base token d s t = Inr True \<longleftrightarrow>
    (\<exists>k. GetAPIKeyByHash (sha256_hex env token) d = Inr k \<and> RevokedAt k = None \<and>
       embedded_Allowed (sort_Slice env) (db_policies txt (by_policies env)) (K_OrgID k) d s t = Inr True)"
proof -
  define q where "q = ''source='' @ url_QueryEscape s @ ''&target='' @ url_QueryEscape t"
  define url where "url = base @ ''/api/v1/evaluate'' @ CHR ''?'' # q"
  define req where "req = \<lparr>req_Method = ''GET'', req_URL = url, req_Authorization = ''Bearer '' @ token\<rparr>"
  define r where "r = server_request req ''''"
  have cut: "strings_Cut (''/api/v1/evaluate'' @ CHR ''?'' # q) (CHR ''?'') = (''/api/v1/evaluate'', q)"
    by (rule strings_Cut_append) simp
  have "CHR ''#'' \<notin> set (url_QueryEscape x)" for x using QueryEscape_safe [of _ x] by blast
  then have "request_target url = ''/api/v1/evaluate'' @ CHR ''?'' # q"
    using assms(1) request_target_base [of base "tl (''/api/v1/evaluate'' @ CHR ''?'' # q)"]
    by (simp add: connected_def url_def q_def)
  then have rf: "wr_Method r = ''GET''" "wr_Path r = ''/api/v1/evaluate''" "wr_RawQuery r = q"
    "wr_Authorization r = ''Bearer '' @ token"
    unfolding r_def req_def server_request_def
    by (simp_all add: cut [simplified] header_safe_trim [OF assms(3), simplified])
  have "route_request r = Some APIEvaluate" by (simp add: rf route_request_def get_route_def)
  then have h: "Handler env r d = handleAPIEvaluate env r d" by (simp add: Handler_def)
  have g: "query_Get r ''source'' = s" "query_Get r ''target'' = t"
    by (simp_all add: query_Get_def rf(3) q_def evaluate_query [simplified])
  have in_urls: "url \<in> admin_urls base" unfolding admin_urls_def url_def q_def by auto
  have net: "NewRequestErr lib ''GET'' url = None"
    "Do lib d req = Inr (on_wire (w_reply (fst (handleAPIEvaluate env r d))))"
    using assms(1) h header_safe_text [OF assms(3)] in_urls unfolding connected_def r_def req_def Let_def by simp_all
  have a: "http_Allowed lib base token d s t = Inr True \<longleftrightarrow>
      (\<exists>b. w_reply (fst (handleAPIEvaluate env r d)) = JSONReply b \<and>
         decode_action lib (take maxEvaluateResponseBytes b) = Inr PolicyActionAllow)"
  proof -
    have u: "base @ ''/api/v1/evaluate?source='' @ url_QueryEscape s @ ''&target='' @ url_QueryEscape t = url"
      by (simp add: url_def q_def)
    show ?thesis
      unfolding http_Allowed_def u Let_def net(1) option.case req_def [symmetric] net(2) sum.case
      by (cases "w_reply (fst (handleAPIEvaluate env r d))")
        (auto simp: handleAPIEvaluate_def StatusOK_def StatusUnauthorized_def StatusBadRequest_def
          StatusInternalServerError_def io_LimitReader_def Let_def split: option.splits sum.splits if_splits)
  qed
  have k: "apiKeyFromRequest env r d = Some k \<longleftrightarrow>
      GetAPIKeyByHash (sha256_hex env token) d = Inr k \<and> RevokedAt k = None" for k
    by (rule apiKeyFromRequest_bearer) (simp_all add: rf(4) header_safe_nonempty [OF assms(3)])
  show ?thesis
  proof (cases "apiKeyFromRequest env r d")
    case None
    then have "\<not> (GetAPIKeyByHash (sha256_hex env token) d = Inr k \<and> RevokedAt k = None)" for k
      using k [of k] by simp
    then show ?thesis unfolding a using None by (auto simp: handleAPIEvaluate_def)
  next
    case (Some k0)
    then have k0: "GetAPIKeyByHash (sha256_hex env token) d = Inr k0" "RevokedAt k0 = None"
      using k [of k0] by simp_all
    show ?thesis unfolding a using Some k0 assms(2,4,5)
      by (auto simp: handleAPIEvaluate_def g embedded_Allowed_def db_policies_def json_codec_def Let_def split: sum.split)
  qed
qed

subsection \<open>Calls\<close>

text \<open>
  Two gateways that differ only in how they check keys and policies, and whose checks agree for a
  call, treat it alike. \<open>get_my_policies\<close> is the exception: it asks the enforcer for more.
\<close>

lemma call_agree:
  assumes "caller (cfg g) call = (agent, apiKey)" and "auth g = Some u" and "\<forall>i. call \<noteq> GetMyPolicies i"
    and "authenticateAgent (Some u') (world env) agent apiKey = None \<longleftrightarrow>
      authenticateAgent (Some u) (world env) agent apiKey = None"
    and "\<And>target. policy_target call = Some target \<Longrightarrow> IsValidAgentID agent \<Longrightarrow> target \<noteq> '''' \<Longrightarrow>
      Allowed enf' (world env) agent target = Inr True \<longleftrightarrow> Allowed (enforcer g) (world env) agent target = Inr True"
  shows "call_tool (g\<lparr>enforcer := enf', auth := Some u'\<rparr>) env call s = call_tool g env call s \<or>
    (\<exists>e e'. call_tool g env call s = (Inl e, s) \<and>
       call_tool (g\<lparr>enforcer := enf', auth := Some u'\<rparr>) env call s = (Inl e', s))"
proof -
  let ?g' = "g\<lparr>enforcer := enf', auth := Some u'\<rparr>"
  have orch: "policy_target call = Some PolicyTargetOrchestrator \<Longrightarrow> IsValidAgentID agent \<Longrightarrow>
      Allowed enf' (world env) agent PolicyTargetOrchestrator = Inr True \<longleftrightarrow>
      Allowed (enforcer g) (world env) agent PolicyTargetOrchestrator = Inr True"
    using assms(5) [of PolicyTargetOrchestrator] by (simp add: PolicyTargetOrchestrator_def)
  have adm: "admitted ?g' env call \<longleftrightarrow> admitted g env call"
  proof (cases call)
    case (SendMessage i)
    have "IsValidAgentID agent \<Longrightarrow> IsValidAgentID (sm_To i) \<Longrightarrow>
        Allowed enf' (world env) agent (sm_To i) = Inr True \<longleftrightarrow> Allowed (enforcer g) (world env) agent (sm_To i) = Inr True"
      using assms(5) [of "sm_To i"] valid_id_nonempty [of "sm_To i"] SendMessage by simp
    then show ?thesis using SendMessage assms(1,2,4) by (simp add: admitted_def cong: conj_cong)
  qed (use assms(1,2,4) orch in \<open>simp_all add: admitted_def cong: conj_cong\<close>)
  show ?thesis
  proof (cases "admitted g env call")
    case True
    have sel: "cfg ?g' = cfg g" "trans ?g' = trans g" "limiter ?g' = limiter g" "logger ?g' = logger g" by simp_all
    have "admitted ?g' env call" using adm True by simp
    then have "call_tool ?g' env call s = call_tool g env call s"
      using True assms(1-3)
      by (cases call; hypsubst; unfold call_tool.simps handlers sel) (simp_all add: admitted_def)
    then show ?thesis ..
  next
    case False
    then show ?thesis using refused [of g env call s] refused [of ?g' env call s] adm by blast
  qed
qed

section \<open>Remote logging\<close>

text \<open>
  The post that one call of \<open>HTTPMessageLogger.Log\<close> sends, if it sends one, and what it does to the
  store of the admin server.
\<close>

definition log_post :: "'w http_lib \<Rightarrow> (MessageLogEntry \<Rightarrow> string + bytes) \<Rightarrow> HTTPMessageLogger
    \<Rightarrow> MessageLogEntry \<Rightarrow> (HTTPRequest \<times> bytes) option" where
  "log_post lib to_json h entry =
     (case to_json entry of
        Inl err \<Rightarrow> None
      | Inr body \<Rightarrow>
          (case NewRequestErr lib ''POST'' (hl_endpoint h) of
             Some err \<Rightarrow> None
           | None \<Rightarrow> Some (\<lparr>req_Method = ''POST'', req_URL = hl_endpoint h,
                           req_Authorization = ''Bearer '' @ hl_token h\<rparr>, body)))"

fun receive_post :: "web_env \<Rightarrow> (HTTPRequest \<times> bytes) option \<Rightarrow> db \<Rightarrow> db" where
  "receive_post env None d = d"
| "receive_post env (Some (req, body)) d =
     (if header_text (req_Authorization req) then snd (Handler env (server_request req body) d) else d)"

definition ingest_of :: "MessageLogEntry \<Rightarrow> ingestEntry" where
  "ingest_of e = \<lparr>in_EnvelopeID = EnvelopeID e, in_ThreadID = LE_ThreadID e, in_FromAgent = FromAgent e,
     in_ToAgent = ToAgent e, in_MsgType = MsgType e, in_Direction = LE_Direction e, in_ToolName = ToolName e,
     in_Body = LE_Body e\<rparr>"

lemma report_entry_ingests:
  assumes "IsValidAgentID a" and "IsValidAgentID b"
    and "(tool, mt) \<in> {(''complete_task'', TaskResult), (''fail_task'', TaskFail), (''send_message'', AgentMessage)}"
  shows "ingest_error (ingest_of (report_entry u a b mt tool body)) = None"
proof -
  have "mt \<in> set Registered" using assms(3) by (auto simp: Registered_def registry_entries_def)
  then have "Lookup mt \<noteq> None" using Lookup_registered by blast
  then show ?thesis using assms
    by (auto simp: ingest_error_def ingest_of_def report_entry_def validMsgLogDirections_def validMsgLogTools_def)
qed

lemma log_post_received:
  assumes "hl_endpoint h = base @ ''/api/v1/message-log''" and "NewRequestErr lib ''POST'' (hl_endpoint h) = None"
    and "to_json e = Inr body" and "bare_base base" and "header_safe (hl_token h)"
  shows "receive_post env (log_post lib to_json h e) d =
    snd (handleAPIMessageLog env \<lparr>wr_Method = ''POST'', wr_Path = ''/api/v1/message-log'', wr_RawQuery = '''',
      wr_Authorization = ''Bearer '' @ hl_token h, wr_Cookie = (\<lambda>n. None), wr_Form = Inr (\<lambda>k. ''''),
      wr_Body = (\<lambda>n. Inr (take n body))\<rparr> d)"
  using assms(2,3) header_safe_text [OF assms(5)] header_safe_trim [OF assms(5)]
  by (simp add: log_post_def assms(1) server_request_def strings_Cut_def request_target_base [OF assms(4)] Handler_def
      route_request_def post_route_def)

lemma ingest_written:
  assumes "apiKeyFromRequest env r d = Some k" and "K_Role k \<in> {RoleOperator, RoleAdmin}"
    and "wr_Body r (nat MaxDocumentBytes) = Inr body" and "json_entry env body = Inr (ingest_of e)"
    and "ingest_error (ingest_of e) = None" and "db_failure d = None" and "uuid_row env \<notin> ML_ID ` set (t_logs d)"
    and "BodySize e = int (length (LE_Body e))"
  shows "t_logs (snd (handleAPIMessageLog env r d)) =
    t_logs d @ [row_of (K_OrgID k) (uuid_row env) (rfc3339 (t_row env)) e]"
proof -
  have "\<not> list_ex (\<lambda>m. ML_ID m = uuid_row env) (t_logs d)"
    unfolding list_ex_iff using assms(7) by (blast intro: rev_image_eqI sym)
  then show ?thesis using assms(1-6,8)
    by (simp add: handleAPIMessageLog_def may_ingest_def AppendMessageLog_def exec_def row_of_def ingest_of_def Let_def)
qed

lemma ingest_rejected:
  assumes "wr_Body r (nat MaxDocumentBytes) = Inr body" and "json_entry env body = Inl err"
  shows "snd (handleAPIMessageLog env r d) = d"
  using assms by (simp add: handleAPIMessageLog_def Let_def)

end
