(* ===== verification/DeploymentProps.thy ===== *)
theory DeploymentProps
  imports Deployment AdminProps GatewayProps
begin

text \<open>
  The properties of the processes together: the admin server and a gateway over its store, embedded
  or remote.
\<close>

section \<open>A sample deployment\<close>

text \<open>A remote gateway's HTTP library that reaches the sample server at \<open>http://admin\<close>.\<close>

definition sample_base :: string where "sample_base = ''http://admin''"

definition sample_remote :: "db http_lib" where
  "sample_remote =
     \<lparr>url_Parse = (\<lambda>u. Inr (''http'', ''admin'')), NewRequestErr = (\<lambda>m u. None),
      Do = (\<lambda>d req. Inr (on_wire (w_reply (fst (Handler sample_web (server_request req '''') d))))),
      decode_auth = (\<lambda>b. Inr (True, tl b)), decode_action = Inr\<rparr>"

definition idle_trans :: "(unit, unit) Transport" where
  "idle_trans = \<lparr>Publish = (\<lambda>t doc opts n. (None, n)), Subscribe = (\<lambda>t n. (Inr (), n)),
     Receive = (\<lambda>c n. (TimedOut, n)), Ack = (\<lambda>t i n. (None, n))\<rparr>"

definition deployed :: "db PolicyEnforcer \<Rightarrow> db AgentAuthenticator \<Rightarrow> (db, unit, unit, unit, unit) Gateway" where
  "deployed enf au = \<lparr>trans = idle_trans, enforcer = enf, auth = Some au, logger = noopMessageLogger,
     limiter = noopLimitEnforcer, cfg = DefaultConfig\<rparr>"

definition deployed_env :: "db \<Rightarrow> (db, unit, unit, unit, unit) call_env" where
  "deployed_env d = \<lparr>world = d, doclib = sample_lib, docValidator = Inr sample_validator, uuid = ''u'',
     created = ''t'', now = 0, clk1 = sample_clock, clk2 = sample_clock\<rparr>"

definition embedded_sample :: "(db, unit, unit, unit, unit) Gateway" where
  "embedded_sample = deployed (EmbeddedEnforcer insertion_sort (db_policies (\<lambda>e. '''') insertion_sort) ''o'')
     (EmbeddedAuthenticator id (db_keys (\<lambda>e. '''')))"

section \<open>Keys\<close>

text \<open>
  C4: Revocation is final. Once an administrator has revoked a key through the server, no call of any
  tool that presents it is served or has an effect on a gateway over that store, whatever
  requests the server has handled in between and whatever organisation they came from.
\<close>

theorem revoked_key_is_dead:
  assumes "db_ok d" and "route_request r = Some (APIKeyRevoke (K_ID k))" and "sessions_Get env r = Inr sd"
    and "SD_Role sd = RoleAdmin" and "SD_OrgID sd = K_OrgID k" and "k \<in> set (t_keys d)" and "db_failure d = None"
    and "auth g = Some (EmbeddedAuthenticator sha (db_keys et))" and "KeyHash k = sha (snd (caller (cfg g) call))"
    and "world cenv = handle_requests ((env, r) # reqs) d"
  shows "\<exists>e. call_tool g cenv call s = (Inl e, s)"
proof -
  define d1 where "d1 = snd (RevokeAPIKey (t_row env) (SD_OrgID sd) (K_ID k) d)"
  have rv: "RevokeAPIKey (t_row env) (K_OrgID k) (K_ID k) d = (None, d1)"
    using assms(5-7) by (auto simp: d1_def RevokeAPIKey_def exec_def filter_empty_conv)
  define d2 where "d2 = snd (Handler env r d)"
  have "\<exists>a tt ti de. d2 = recordAudit env sd a tt ti de d1"
    using assms(2-5) rv
    by (auto simp: d2_def Handler_def requireAuth_def requireRole_def roleAtLeast_iff handleAPIKeyRevoke_def)
  then obtain e where "d2 = apply_op (DoAppendAuditEvent e) d1" by (auto simp: recordAudit_def)
  moreover have "revoked_in d1 (KeyHash k)" by (rule RevokeAPIKey_revokes [OF assms(1) rv assms(6)]) simp_all
  ultimately have "revoked_in d2 (KeyHash k)" using revoked_in_step by blast
  moreover obtain ops where "world cenv = fold apply_op ops d2"
    using handle_requests_ops [of reqs d2] assms(10) by (auto simp: handle_requests_def d2_def apply_ops_def)
  ultimately have dead: "\<not> key_binds sha (db_keys et) (world cenv) (snd (caller (cfg g) call)) a" for a
    using sqlite_keys.never_binds_again [of d2 sha "snd (caller (cfg g) call)" et ops a] assms(9) by simp
  have "\<not> admitted g cenv call"
  proof
    assume "admitted g cenv call"
    then have "\<exists>a. authenticateAgent (auth g) (world cenv) a (snd (caller (cfg g) call)) = None"
      using assms(8) by (cases call) (auto simp: admitted_def split: prod.splits)
    then show False using dead assms(8) embedded_keys.authenticated_iff by metis
  qed
  then show ?thesis by (rule refused)
qed

lemma revoked_key_is_dead_witness:
  "\<exists>e. call_tool embedded_sample (deployed_env (handle_requests
     [(sample_web, sample_request ''POST'' ''/api-keys/k/revoke'' ''s'' id)] sample_db))
     (Heartbeat \<lparr>hb_Agent = ''a1'', hb_APIKey = ''k''\<rparr>) (New () () ()) = (Inl e, New () () ())"
proof -
  let ?r = "sample_request ''POST'' ''/api-keys/k/revoke'' ''s'' id" and ?k = "sample_apikey ''o'' ''k''"
  have "sessions_Get sample_web ?r = Inr (sample_session ''u1'' ''o'' RoleAdmin)" by (simp add: sample_web_simps)
  moreover have "route_request ?r = Some (APIKeyRevoke (K_ID ?k))"
    by (simp add: sample_web_simps route_request_def post_route_def sample_apikey_def)
  ultimately show ?thesis
    by (intro revoked_key_is_dead [OF sample_db_ok, where k = ?k and env = sample_web and r = ?r and reqs = "[]" and
          sha = id and et = "\<lambda>e. ''''" and sd = "sample_session ''u1'' ''o'' RoleAdmin"])
      (simp_all add: sample_session_def sample_db_def empty_db_def sample_apikey_def embedded_sample_def
        deployed_def deployed_env_def applyDefaults_def DefaultConfig_def)
qed

text \<open>
  C27: The type of authenticated names. Over a database that only the server has changed since it was
  empty, whatever name the authenticator returns for a key, hence every name an embedded
  gateway accepts, is a well-formed agent identifier.
\<close>

theorem authenticated_id_valid:
  assumes "EmbeddedAuthenticator sha (db_keys et) (handle_requests reqs empty_db) rawKey = Inr a"
  shows "IsValidAgentID a"
proof -
  let ?d = "handle_requests reqs empty_db"
  have "agent_keys_valid (fold (\<lambda>(env, r) d. snd (Handler env r d)) reqs d)" if "agent_keys_valid d" for d
    using that by (induction reqs arbitrary: d) (auto intro: agent_keys_valid_Handler)
  moreover have "agent_keys_valid empty_db" by (simp add: agent_keys_valid_def empty_db_def)
  ultimately have v: "agent_keys_valid ?d" by (simp add: handle_requests_def)
  obtain ops where "?d = apply_ops ops empty_db" using handle_requests_ops by blast
  then have "db_ok ?d" using apply_ops_ok [OF empty_db_ok] by simp
  then show ?thesis
    using assms v GetAPIKeyByHash_iff
    by (auto simp: EmbeddedAuthenticator_def db_keys_def agent_keys_valid_def split: sum.splits if_splits)
qed


lemma authenticated_id_valid_witness: "IsValidAgentID (key_form ''agent_id'')"
proof -
  let ?r = "sample_request ''POST'' ''/api-keys/new'' ''s'' key_form"
  let ?d = "handle_requests [(sample_web, ?r)] empty_db"
  have route: "route_request ?r = Some APIKeyNewPost" by (simp add: route_request_def post_route_def sample_request_def)
  have b: "key_binding (key_form ''role'') (key_form ''agent_id'') = Inr ''a1''"
    using ab_valid(1) by (simp add: key_binding_def key_form_def wire)
  have role: "key_form ''role'' = RoleAgent" by (simp add: key_form_def wire)
  have "?d = snd (handleAPIKeyNewPost (sample_session ''u1'' ''o'' RoleAdmin) sample_web ?r empty_db)"
    using route by (simp add: handle_requests_def Handler_def requireAuth_def requireRole_def roleAtLeast_iff sample_web_simps)
  moreover have "wr_Form ?r = Inr key_form" "key_form ''name'' \<noteq> ''''"
    by (simp_all add: sample_request_def key_form_def)
  ultimately have "\<exists>k. t_keys ?d = [k] \<and> RevokedAt k = None \<and> K_Role k = RoleAgent \<and> K_AgentID k = ''a1'' \<and> db_failure ?d = None"
    using b role by (simp add: handleAPIKeyNewPost_def generateAPIKey_def sample_web_def CreateAPIKey_def exec_def
        empty_db_def Let_def)
  then obtain k where k: "t_keys ?d = [k]" "RevokedAt k = None" "K_Role k = RoleAgent" "K_AgentID k = ''a1''" "db_failure ?d = None"
    by blast
  then have "EmbeddedAuthenticator id (db_keys (\<lambda>e. '''')) ?d (KeyHash k) = Inr (key_form ''agent_id'')"
    by (simp add: EmbeddedAuthenticator_def db_keys_def GetAPIKeyByHash_def query_def one_row_def key_form_def)
  then show ?thesis by (rule authenticated_id_valid)
qed

section \<open>Remote gateways\<close>

text \<open>
  C8: A remote gateway decides as an embedded one. Connected to the admin server with a working token of
  an organisation, it treats every call with a key as a gateway embedded in that
  organisation's store does: both serve it with the same result and the same effects, or both
  refuse it without any. The exception is \<open>get_my_policies\<close>, which a remote gateway always
  answers with an empty list, whatever policies there are. The key of the call and the token have to
  be \<open>header_safe\<close>, as every issued key is (\<open>issued_key_header_safe\<close>): \<open>net/http\<close> refuses control characters
  in a header and drops blanks at the end of a key, so that a remote gateway serves a valid key
  with a blank behind it, which an embedded one refuses.
\<close>

theorem remote_equals_embedded:
  assumes "connected lib base env" and "json_codec lib env" and "db_ok (world cenv)" and "agent_keys_valid (world cenv)"
    and "auth g = Some (EmbeddedAuthenticator (sha256_hex env) (db_keys et))"
    and "enforcer g = EmbeddedEnforcer (sort_Slice env) (db_policies et (by_policies env)) (K_OrgID tk)"
    and "header_safe token" and "GetAPIKeyByHash (sha256_hex env token) (world cenv) = Inr tk" and "RevokedAt tk = None"
    and "header_safe (snd (caller (cfg g) call))"
    and "call_tool (g\<lparr>enforcer := HTTPEnforcer lib base token, auth := Some (HTTPAuthenticator lib base)\<rparr>) cenv call s = (r, s')"
  shows "((\<forall>i. call \<noteq> GetMyPolicies i) \<longrightarrow>
      call_tool g cenv call s = (r, s') \<or> (\<exists>e e'. call_tool g cenv call s = (Inl e, s) \<and> (r, s') = (Inl e', s))) \<and>
    (\<forall>i res. call = GetMyPolicies i \<longrightarrow> r = Inr res \<longrightarrow> res = OutGetMyPolicies \<lparr>Policies = []\<rparr>)"
proof (intro conjI impI allI)
  assume "\<forall>i. call \<noteq> GetMyPolicies i"
  obtain agent apiKey where c: "caller (cfg g) call = (agent, apiKey)" by fastforce
  have "authenticateAgent (Some (HTTPAuthenticator lib base)) (world cenv) agent apiKey = None \<longleftrightarrow>
      authenticateAgent (Some (EmbeddedAuthenticator (sha256_hex env) (db_keys et))) (world cenv) agent apiKey = None"
    unfolding http_access.authenticated_iff embedded_keys.authenticated_iff
    unfolding http_access.accepts_iff [symmetric] embedded_keys.accepts_iff [symmetric]
    by (rule remote_authenticates_iff [OF assms(1-4)]) (use assms(10) c in simp)
  moreover have "Allowed (HTTPEnforcer lib base token) (world cenv) agent target = Inr True \<longleftrightarrow>
      Allowed (enforcer g) (world cenv) agent target = Inr True"
    if "IsValidAgentID agent" "target \<noteq> ''''" for target
    using remote_allows_iff [OF assms(1,2,7), of agent target "world cenv" et] valid_id_nonempty [OF that(1)] that(2)
      assms(6,8,9) by (simp add: HTTPEnforcer_def EmbeddedEnforcer_def)
  ultimately show "call_tool g cenv call s = (r, s') \<or> (\<exists>e e'. call_tool g cenv call s = (Inl e, s) \<and> (r, s') = (Inl e', s))"
    using call_agree [OF c assms(5) \<open>\<forall>i. call \<noteq> GetMyPolicies i\<close>, of "HTTPAuthenticator lib base" cenv
        "HTTPEnforcer lib base token" s] assms(11) by auto
next
  fix i res
  assume "call = GetMyPolicies i" and "r = Inr res"
  then show "res = OutGetMyPolicies \<lparr>Policies = []\<rparr>"
    using assms(11)
    by (auto simp: handleGetMyPolicies_def HTTPEnforcer_def split: prod.splits option.splits if_splits)
qed

lemma sample_bare: "bare_base sample_base"
  unfolding bare_base_def sample_base_def by (rule exI [of _ "''admin''"]) simp

lemma sample_safe: "header_safe ''k''"
  by (simp add: header_safe_def header_trim_def header_text_def header_blank_def)

lemma sample_json_codec: "json_codec sample_remote sample_web"
  unfolding json_codec_def
proof (intro conjI allI impI)
  show "decode_auth sample_remote (take maxAuthResponseBytes (json_auth sample_web a)) = Inr (True, a)"
    if "IsValidAgentID a" for a
    using that
    by (simp add: IsValidAgentID_rules agent_id_rules_def sample_remote_def sample_web_def maxAuthResponseBytes_def)
  show "decode_action sample_remote (take maxEvaluateResponseBytes (json_action sample_web a)) = Inr PolicyActionAllow \<longleftrightarrow>
      a = PolicyActionAllow" for a
  proof -
    have "take 4096 a = ''allow'' \<longleftrightarrow> a = ''allow''"
    proof
      assume h: "take 4096 a = ''allow''"
      have "length (take 4096 a) = 5" by (simp only: h) simp
      then have "min (length a) 4096 = 5" by (simp only: length_take)
      then show "a = ''allow''" using h by (simp add: min_def split: if_splits)
    qed simp
    then show ?thesis
      by (simp add: sample_remote_def sample_web_def maxEvaluateResponseBytes_def PolicyActionAllow_def)
  qed
qed

lemma remote_equals_embedded_witness:
  "call_tool (embedded_sample\<lparr>enforcer := HTTPEnforcer sample_remote sample_base ''k'',
       auth := Some (HTTPAuthenticator sample_remote sample_base)\<rparr>) (deployed_env sample_db)
     (Heartbeat \<lparr>hb_Agent = ''a1'', hb_APIKey = ''k''\<rparr>) (New () () ()) = (Inr (OutHeartbeat \<lparr>hb_Status = ''ok''\<rparr>), New () () ())"
proof -
  let ?g = "embedded_sample\<lparr>enforcer := HTTPEnforcer sample_remote sample_base ''k'',
       auth := Some (HTTPAuthenticator sample_remote sample_base)\<rparr>"
  let ?c = "Heartbeat \<lparr>hb_Agent = ''a1'', hb_APIKey = ''k''\<rparr>"
  have con: "connected sample_remote sample_base sample_web"
    using sample_bare by (simp add: connected_def sample_remote_def)
  have "GetAPIKeyByHash ''k'' sample_db = Inr (sample_apikey ''o'' ''k'')"
    by (simp add: GetAPIKeyByHash_def query_def one_row_def sample_db_def empty_db_def sample_apikey_def)
  moreover have "agent_keys_valid sample_db"
    using ab_valid(1) by (simp add: agent_keys_valid_def sample_db_def empty_db_def sample_apikey_def)
  moreover have "call_tool embedded_sample (deployed_env sample_db) ?c (New () () ()) = (Inr (OutHeartbeat \<lparr>hb_Status = ''ok''\<rparr>), New () () ())"
    by (simp add: embedded_sample_def deployed_def deployed_env_def handleHeartbeat_def applyDefaults_def
        authenticateAgent_def EmbeddedAuthenticator_def db_keys_def GetAPIKeyByHash_def query_def one_row_def
        sample_db_def empty_db_def sample_apikey_def ConstantTimeCompare_eq)
  moreover obtain r s' where h: "call_tool ?g (deployed_env sample_db) ?c (New () () ()) = (r, s')" by fastforce
  ultimately show ?thesis
    using remote_equals_embedded [OF con sample_json_codec _ _ _ _ _ _ _ _ h, of "\<lambda>e. ''''" "sample_apikey ''o'' ''k''"]
      sample_db_ok sample_safe unfolding h
    by (simp add: deployed_env_def embedded_sample_def deployed_def sample_web_def sample_apikey_def applyDefaults_def
        del: call_tool.simps)
qed


section \<open>Remote logging\<close>

text \<open>
  C33: The message log of a remote gateway. For a report or message between valid agents, the entry the
  gateway posts with an operator's or administrator's token becomes exactly the row that an
  embedded gateway of the token's organisation would have written, as long as its JSON text
  fits into 64 KiB. A longer text is cut off by the server, which then rejects it: the entry
  is lost, although the gateway accepts bodies of up to 64 KiB by themselves. The base URL is a
  scheme and an authority without a slash behind them: the logger keeps such a slash, and its posts
  then go to another path. The token is \<open>header_safe\<close>, as in the claim on remote calls.
\<close>

theorem remote_log_ingested:
  assumes "NewHTTPMessageLogger lib base token = Inr h"
    and "NewRequestErr lib ''POST'' (base @ ''/api/v1/message-log'') = None"
    and "e = report_entry u a b mt tool text" and "IsValidAgentID a" and "IsValidAgentID b"
    and "(tool, mt) \<in> {(''complete_task'', TaskResult), (''fail_task'', TaskFail), (''send_message'', AgentMessage)}"
    and "to_json e = Inr body" and "json_entry env body = Inr (ingest_of e)"
    and "\<forall>n<length body. \<exists>err. json_entry env (take n body) = Inl err"
    and "bare_base base" and "header_safe token" and "GetAPIKeyByHash (sha256_hex env token) d = Inr k" and "RevokedAt k = None"
    and "K_Role k \<in> {RoleOperator, RoleAdmin}" and "uuid_row env \<notin> ML_ID ` set (t_logs d)"
  shows "t_logs (receive_post env (log_post lib to_json h e) d) =
    (if int (length body) \<le> MaxDocumentBytes
     then t_logs d @ [row_of (K_OrgID k) (uuid_row env) (rfc3339 (t_row env)) e] else t_logs d)"
proof -
  define r where "r = \<lparr>wr_Method = ''POST'', wr_Path = ''/api/v1/message-log'', wr_RawQuery = '''',
      wr_Authorization = ''Bearer '' @ hl_token h, wr_Cookie = (\<lambda>n. None), wr_Form = Inr (\<lambda>k. ''''),
      wr_Body = (\<lambda>n. Inr (take n body))\<rparr>"
  have h: "hl_endpoint h = base @ ''/api/v1/message-log''" "hl_token h = token"
    using assms(1) by (auto simp: NewHTTPMessageLogger_def split: sum.splits if_splits)
  have res: "receive_post env (log_post lib to_json h e) d = snd (handleAPIMessageLog env r d)"
    unfolding r_def by (rule log_post_received) (use h assms(2,7,10,11) in simp_all)
  show ?thesis
  proof (cases "int (length body) \<le> MaxDocumentBytes")
    case True
    have "apiKeyFromRequest env r d = Some k"
      using assms(12,13) header_safe_nonempty [OF assms(11)] apiKeyFromRequest_bearer [of r token env d k] by (simp add: r_def h)
    moreover have "wr_Body r (nat MaxDocumentBytes) = Inr body" using True by (simp add: r_def)
    moreover have "ingest_error (ingest_of e) = None" unfolding assms(3) by (rule report_entry_ingests [OF assms(4-6)])
    moreover have "db_failure d = None" using assms(12) by (simp add: GetAPIKeyByHash_def query_Inr)
    moreover have "BodySize e = int (length (LE_Body e))" by (simp add: assms(3) report_entry_def)
    ultimately show ?thesis
      using True ingest_written [of env r d k body e] assms(8,14,15) by (simp add: res)
  next
    case False
    then have "nat MaxDocumentBytes < length body" by (simp add: MaxDocumentBytes_def)
    then obtain err where "json_entry env (take (nat MaxDocumentBytes) body) = Inl err" using assms(9) by blast
    then show ?thesis using False ingest_rejected [of r "take (nat MaxDocumentBytes) body" env err d] by (simp add: res r_def)
  qed
qed

definition sample_log_web :: web_env where
  "sample_log_web = sample_web\<lparr>json_entry := (\<lambda>b. if b = ''J''
     then Inr (ingest_of (report_entry ''u'' ''a1'' ''b1'' AgentMessage ''send_message'' ''hi'')) else Inl ''bad'')\<rparr>"

definition sample_operator :: APIKey where
  "sample_operator = (sample_apikey ''o'' ''k'')\<lparr>K_Role := RoleOperator\<rparr>"

lemma remote_log_ingested_witness:
  "map LE_Body [report_entry ''u'' ''a1'' ''b1'' AgentMessage ''send_message'' ''hi''] =
   map ML_Body (t_logs (receive_post sample_log_web (log_post sample_remote (\<lambda>e. Inr ''J'')
     \<lparr>hl_endpoint = sample_base @ ''/api/v1/message-log'', hl_token = ''k'', hl_inflight = []\<rparr>
     (report_entry ''u'' ''a1'' ''b1'' AgentMessage ''send_message'' ''hi''))
     (empty_db\<lparr>t_keys := [sample_operator]\<rparr>)))"
proof -
  let ?h = "\<lparr>hl_endpoint = sample_base @ ''/api/v1/message-log'', hl_token = ''k'', hl_inflight = []\<rparr>"
  let ?e = "report_entry ''u'' ''a1'' ''b1'' AgentMessage ''send_message'' ''hi''"
  let ?d = "empty_db\<lparr>t_keys := [sample_operator]\<rparr>"
  have h: "NewHTTPMessageLogger sample_remote sample_base ''k'' = Inr ?h"
    by (simp add: NewHTTPMessageLogger_def sample_remote_def)
  have k: "GetAPIKeyByHash (sha256_hex sample_log_web ''k'') ?d = Inr sample_operator"
    by (simp add: GetAPIKeyByHash_def query_def one_row_def empty_db_def sample_operator_def sample_apikey_def
        sample_log_web_def sample_web_def)
  have "t_logs (receive_post sample_log_web (log_post sample_remote (\<lambda>e. Inr ''J'') ?h ?e) ?d) =
    (if int (length ''J'') \<le> MaxDocumentBytes
     then t_logs ?d @ [row_of (K_OrgID sample_operator) (uuid_row sample_log_web) (rfc3339 (t_row sample_log_web)) ?e]
     else t_logs ?d)"
    by (rule remote_log_ingested [OF h _ refl ab_valid _ _ _ _ sample_bare sample_safe k])
      (simp_all add: sample_remote_def sample_log_web_def sample_operator_def sample_apikey_def empty_db_def)
  then show ?thesis by (simp add: MaxDocumentBytes_def empty_db_def row_of_def)
qed

section \<open>Wiring\<close>

text \<open>
  C39: What \<open>main\<close> wires. A gateway that starts has an authenticator exactly if it was asked to require
  keys. Over HTTP it has no default identity, so a call that names no agent is refused except for
  a heartbeat. In remote mode it has a key for the admin server, no policies to show and no
  limits, even when told to enforce them. In embedded mode it logs and limits for the configured
  organisation but takes its policies from the organisation \<open>default\<close>, whatever was configured:
  the policies of all other organisations make no difference to it.
\<close>

theorem gateway_wiring:
  assumes "gateway_main h f = Inr w"
  shows "(w_auth w = None \<longleftrightarrow> \<not> require_agent_key f) \<and>
    (mcp_transport f = ''http'' \<longrightarrow> cfg g = w_cfg w \<longrightarrow> fst (given call) = '''' \<longrightarrow> (\<forall>i. call \<noteq> Heartbeat i) \<longrightarrow>
       call_tool g env call s = (Inl (InvalidAgentID ''''), s)) \<and>
    (policy_mode f = ''remote'' \<longrightarrow> PolicyQuerier (w_enforcer w) = None \<and> w_limiter w = NoopLimiter \<and>
       (os_Getenv h ''ADMIN_API_KEY'' \<noteq> '''' \<or> admin_api_key f \<noteq> '''')) \<and>
    (policy_mode f = ''embedded'' \<longrightarrow>
       w_logger w = (if message_log f then EmbeddedLogger (gateway_org_id f) else NoopLogger) \<and>
       w_limiter w = (if enforce_limits f
         then EmbeddedLimiter (NewEmbeddedLimitEnforcer (gateway_org_id f)) else NoopLimiter) \<and>
       (db_failure d = db_failure d' \<longrightarrow>
        filter (\<lambda>p. PolicyOrgID p = ''default'') (t_policies d) = filter (\<lambda>p. PolicyOrgID p = ''default'') (t_policies d') \<longrightarrow>
        Allowed (w_enforcer w) d a t = Allowed (w_enforcer w) d' a t))"
proof (intro conjI impI)
  note m = gateway_main_Inr [OF assms]
  show "w_auth w = None \<longleftrightarrow> \<not> require_agent_key f" using m(3) by (auto split: if_splits)
  show "call_tool g env call s = (Inl (InvalidAgentID ''''), s)"
    if "mcp_transport f = ''http''" "cfg g = w_cfg w" "fst (given call) = ''''" "\<forall>i. call \<noteq> Heartbeat i"
  proof -
    have "applyDefaults (cfg g) '''' k = ('''', k)" for k using m(6) that(1,2) by (simp add: applyDefaults_def)
    moreover have "\<not> IsValidAgentID ''''" using valid_id_nonempty by blast
    ultimately show ?thesis using that(3,4) by (cases call) (simp_all add: handlers)
  qed
  show "w_limiter w = NoopLimiter" if "policy_mode f = ''remote''"
    using m(5) that by (auto simp: mustLimitEnforcer_def split: if_splits)
  show "PolicyQuerier (w_enforcer w) = None" if "policy_mode f = ''remote''"
  proof -
    have "\<exists>base key. HTTPEnforcer (http h) base key = w_enforcer w"
      using m(2) that by (auto simp: mustEnforcer_def NewHTTPEnforcer_def split: if_splits sum.splits)
    then show ?thesis by (auto simp: HTTPEnforcer_def dest: arg_cong [of _ _ PolicyQuerier])
  qed
  show "os_Getenv h ''ADMIN_API_KEY'' \<noteq> '''' \<or> admin_api_key f \<noteq> ''''" if "policy_mode f = ''remote''"
    using m(1) that by (auto split: if_splits)
  show "w_logger w = (if message_log f then EmbeddedLogger (gateway_org_id f) else NoopLogger)"
    if "policy_mode f = ''embedded''"
    using m(4) that by (auto simp: mustMessageLogger_def split: if_splits option.splits)
  show "w_limiter w = (if enforce_limits f then EmbeddedLimiter (NewEmbeddedLimitEnforcer (gateway_org_id f)) else NoopLimiter)"
    if "policy_mode f = ''embedded''"
    using m(5) that by (auto simp: mustLimitEnforcer_def split: if_splits option.splits)
  show "Allowed (w_enforcer w) d a t = Allowed (w_enforcer w) d' a t"
    if "policy_mode f = ''embedded''" "db_failure d = db_failure d'"
      "filter (\<lambda>p. PolicyOrgID p = ''default'') (t_policies d) = filter (\<lambda>p. PolicyOrgID p = ''default'') (t_policies d')"
  proof -
    have "EmbeddedEnforcer (host_sort h) (db_policies (host_err h) (host_by_policies h)) ''default'' = w_enforcer w"
      using m(2) that(1) by (auto simp: mustEnforcer_def split: if_splits option.splits)
    moreover have "db_policies et srt d ''default'' = db_policies et srt d' ''default''" for et srt
      using that(2,3) by (simp add: db_policies_def ListPolicies_def query_def split: option.split)
    ultimately show ?thesis by (auto simp: EmbeddedEnforcer_def embedded_Allowed_def dest!: arg_cong [of _ _ Allowed] sym [of _ "Allowed (w_enforcer w)"])
  qed
qed

definition sample_host :: host where
  "sample_host = \<lparr>os_Getenv = (\<lambda>v. if v = ''AGA2AGA_AGENT_NAME'' then ''a1'' else ''''), open_store = (\<lambda>p. None),
     http = sample_remote, host_sha256 = id, host_sort = insertion_sort, host_by_policies = insertion_sort,
     host_err = (\<lambda>e. '''')\<rparr>"

lemma gateway_wiring_witness:
  "\<exists>w. gateway_main sample_host (default_flags\<lparr>mcp_transport := ''http'', gateway_org_id := ''o''\<rparr>) = Inr w \<and>
     w_auth w = None \<and> w_logger w = EmbeddedLogger ''o'' \<and> w_limiter w = NoopLimiter"
proof -
  have "\<exists>w. gateway_main sample_host (default_flags\<lparr>mcp_transport := ''http'', gateway_org_id := ''o''\<rparr>) = Inr w"
    by (simp add: gateway_main_def default_flags_def sample_host_def mustEnforcer_def mustMessageLogger_def
        mustLimitEnforcer_def Let_def)
  then obtain w where w: "gateway_main sample_host (default_flags\<lparr>mcp_transport := ''http'', gateway_org_id := ''o''\<rparr>) = Inr w" ..
  then have "w_auth w = None \<and> w_logger w = EmbeddedLogger ''o'' \<and> w_limiter w = NoopLimiter"
    using gateway_wiring [OF w, of undefined undefined undefined undefined undefined undefined]
    unfolding default_flags_def Flags.simps by fastforce
  with w show ?thesis by blast
qed

end
