(* ===== verification/Payload.thy ===== *)
theory Payload
  imports Validator
begin

text \<open>
  The typed payloads (\<open>pkg/document/types_genome.go\<close>, \<open>types_evaluation.go\<close>, \<open>types_lifecycle.go\<close>,
  \<open>types_spawn.go\<close>, \<open>types_task.go\<close>). These structs have no methods: the code uses them only as the
  type argument of \<open>As\<close> and \<open>ParseAs\<close>, through \<open>yaml.v3\<close>, which works on a struct by reflection. So
  each struct is what reflection sees of it, the list of its fields with name, YAML tag,
  \<open>omitempty\<close> and type; and \<open>decode\<close> is how \<open>yaml.v3\<close> documents that it fills one: by tag, a
  missing key or a null leaves the zero value, an unknown key is ignored. How scalars convert is
  an argument.
\<close>

named_theorems payload

section \<open>Struct types and their values\<close>

datatype go_type = GString | GInt | GFloat | GBool | GMapAny | GSlice go_type | GPtr go_type
  | GStruct "(string \<times> string \<times> bool \<times> go_type) list"

datatype go_val = VString string | VInt int | VFloat string | VBool bool
  | VMap "(string \<times> yval) list" | VSlice "go_val list" | VNil | VStruct "(string \<times> go_val) list"

fun zero_of :: "go_type \<Rightarrow> go_val" where
  "zero_of GString = VString ''''"
| "zero_of GInt = VInt 0"
| "zero_of GFloat = VFloat ''0''"
| "zero_of GBool = VBool False"
| "zero_of GMapAny = VMap []"
| "zero_of (GSlice t) = VSlice []"
| "zero_of (GPtr t) = VNil"
| "zero_of (GStruct fs) = VStruct (map (\<lambda>(name, tag, omit, t). (name, zero_of t)) fs)"

record 'e scalars =
  to_string :: "yval \<Rightarrow> 'e + string"
  to_int :: "yval \<Rightarrow> 'e + int"
  to_float :: "yval \<Rightarrow> 'e + string"
  to_bool :: "yval \<Rightarrow> 'e + bool"
  mismatch :: "yval \<Rightarrow> 'e"

fun all_right :: "('e + 'a) list \<Rightarrow> 'e + 'a list" where
  "all_right [] = Inr []"
| "all_right (r # rs) = then_do r (\<lambda>x. then_do (all_right rs) (\<lambda>xs. Inr (x # xs)))"

lemma all_right_Inr: "all_right rs = Inr xs \<longleftrightarrow> rs = map Inr xs"
  by (induction rs arbitrary: xs) (auto simp: then_do_Inr)

fun decode :: "'e scalars \<Rightarrow> go_type \<Rightarrow> yval \<Rightarrow> 'e + go_val" where
  "decode sc t YNull = Inr (zero_of t)"
| "decode sc GString v = map_sum id VString (to_string sc v)"
| "decode sc GInt v = map_sum id VInt (to_int sc v)"
| "decode sc GFloat v = map_sum id VFloat (to_float sc v)"
| "decode sc GBool v = map_sum id VBool (to_bool sc v)"
| "decode sc GMapAny (YMap kvs) = Inr (VMap kvs)"
| "decode sc (GSlice t) (YSeq vs) = map_sum id VSlice (all_right (map (decode sc t) vs))"
| "decode sc (GPtr t) v = decode sc t v"
| "decode sc (GStruct fs) (YMap kvs) =
     map_sum id VStruct (all_right (map (\<lambda>(name, tag, omit, t).
       (case map_of kvs tag of
          None \<Rightarrow> Inr (name, zero_of t)
        | Some v \<Rightarrow> map_sum id (Pair name) (decode sc t v))) fs))"
| "decode sc t v = Inl (mismatch sc v)"

section \<open>The structs\<close>

subsection \<open>types_genome.go\<close>

definition Identity_struct :: go_type where
  [payload]: "Identity_struct = GStruct
     [(''PublicKey'', ''public_key'', False, GString),
      (''Pseudonym'', ''pseudonym'', True, GString)]"

definition Lineage_struct :: go_type where
  [payload]: "Lineage_struct = GStruct
     [(''Parents'', ''parents'', True, GSlice GString),
      (''Generation'', ''generation'', True, GInt)]"

definition Capabilities_struct :: go_type where
  [payload]: "Capabilities_struct = GStruct
     [(''Skills'', ''skills'', False, GSlice GString),
      (''Domains'', ''domains'', True, GSlice GString)]"

definition Tools_struct :: go_type where
  [payload]: "Tools_struct = GStruct
     [(''Allowed'', ''allowed'', False, GSlice GString),
      (''PreferredOrder'', ''preferred_order'', True, GSlice GString)]"

definition ModelPolicy_struct :: go_type where
  [payload]: "ModelPolicy_struct = GStruct
     [(''Provider'', ''provider'', False, GString),
      (''ModelClass'', ''model_class'', True, GString), (''Model'', ''model'', True, GString),
      (''Temperature'', ''temperature'', True, GFloat),
      (''MaxContextTokens'', ''max_context_tokens'', True, GInt)]"

definition PromptPolicy_struct :: go_type where
  [payload]: "PromptPolicy_struct = GStruct
     [(''Profile'', ''profile'', False, GString), (''Style'', ''style'', True, GMapAny)]"

definition EscalationRule_struct :: go_type where
  [payload]: "EscalationRule_struct = GStruct
     [(''Condition'', ''condition'', False, GString), (''Target'', ''target'', False, GString)]"

definition RoutingPolicy_struct :: go_type where
  [payload]: "RoutingPolicy_struct = GStruct
     [(''Accepts'', ''accepts'', False, GSlice GString),
      (''DelegatesTo'', ''delegates_to'', True, GSlice GString),
      (''EscalationRules'', ''escalation_rules'', True, GSlice EscalationRule_struct)]"

definition MemoryPolicy_struct :: go_type where
  [payload]: "MemoryPolicy_struct = GStruct
     [(''ShortTermWindow'', ''short_term_window'', True, GInt),
      (''LongTermEnabled'', ''long_term_enabled'', True, GBool),
      (''LongTermScope'', ''long_term_scope'', True, GSlice GString)]"

definition Thresholds_struct :: go_type where
  [payload]: "Thresholds_struct = GStruct
     [(''ConfidenceMin'', ''confidence_min'', True, GFloat),
      (''CommitMin'', ''commit_min'', True, GFloat), (''RejectMin'', ''reject_min'', True, GFloat)]"

definition Economics_struct :: go_type where
  [payload]: "Economics_struct = GStruct
     [(''CostWeight'', ''cost_weight'', True, GFloat),
      (''LatencyWeight'', ''latency_weight'', True, GFloat),
      (''QualityWeight'', ''quality_weight'', True, GFloat)]"

definition FitnessMetrics_struct :: go_type where
  [payload]: "FitnessMetrics_struct = GStruct
     [(''Quality'', ''quality'', True, GFloat), (''Reliability'', ''reliability'', True, GFloat),
      (''Latency'', ''latency'', True, GFloat),
      (''CostEfficiency'', ''cost_efficiency'', True, GFloat),
      (''Collaboration'', ''collaboration'', True, GFloat), (''Safety'', ''safety'', True, GFloat),
      (''WeightedTotal'', ''weighted_total'', True, GFloat)]"

definition Fitness_struct :: go_type where
  [payload]: "Fitness_struct = GStruct
     [(''Objectives'', ''objectives'', True, FitnessMetrics_struct)]"

definition Constraints_struct :: go_type where
  [payload]: "Constraints_struct = GStruct
     [(''Hard'', ''hard'', False, GSlice GString), (''Soft'', ''soft'', True, GSlice GString)]"

definition MutationPolicy_struct :: go_type where
  [payload]: "MutationPolicy_struct = GStruct
     [(''Allowed'', ''allowed'', False, GSlice GString),
      (''Forbidden'', ''forbidden'', True, GSlice GString)]"

definition RetirementPolicy_struct :: go_type where
  [payload]: "RetirementPolicy_struct = GStruct
     [(''IfBelowFitness'', ''if_below_fitness'', True, GFloat),
      (''MinEvaluations'', ''min_evaluations'', True, GInt)]"

definition SandboxPolicy_struct :: go_type where
  [payload]: "SandboxPolicy_struct = GStruct
     [(''MaxTasks'', ''max_tasks'', True, GInt),
      (''CanTouchProduction'', ''can_touch_production'', True, GBool)]"

definition GenomePatch_struct :: go_type where
  [payload]: "GenomePatch_struct = GStruct
     [(''Capabilities'', ''capabilities'', True, GPtr Capabilities_struct),
      (''Tools'', ''tools'', True, GPtr Tools_struct),
      (''ModelPolicy'', ''model_policy'', True, GPtr ModelPolicy_struct),
      (''PromptPolicy'', ''prompt_policy'', True, GPtr PromptPolicy_struct),
      (''RoutingPolicy'', ''routing_policy'', True, GPtr RoutingPolicy_struct),
      (''MemoryPolicy'', ''memory_policy'', True, GPtr MemoryPolicy_struct),
      (''Thresholds'', ''thresholds'', True, GPtr Thresholds_struct),
      (''Economics'', ''economics'', True, GPtr Economics_struct),
      (''SoftConstraints'', ''soft_constraints'', True, GSlice GString),
      (''Tags'', ''tags'', True, GSlice GString)]"

definition AgentGenome_struct :: go_type where
  [payload]: "AgentGenome_struct = GStruct
     [(''AgentID'', ''agent_id'', False, GString), (''Kind'', ''kind'', False, GString),
      (''Status'', ''status'', False, GString), (''CreatedBy'', ''created_by'', True, GString),
      (''Lineage'', ''lineage'', True, GPtr Lineage_struct),
      (''Identity'', ''identity'', False, Identity_struct),
      (''Capabilities'', ''capabilities'', False, Capabilities_struct),
      (''Tools'', ''tools'', False, Tools_struct),
      (''ModelPolicy'', ''model_policy'', False, ModelPolicy_struct),
      (''PromptPolicy'', ''prompt_policy'', False, PromptPolicy_struct),
      (''RoutingPolicy'', ''routing_policy'', False, RoutingPolicy_struct),
      (''MemoryPolicy'', ''memory_policy'', True, GPtr MemoryPolicy_struct),
      (''Thresholds'', ''thresholds'', False, Thresholds_struct),
      (''Economics'', ''economics'', True, GPtr Economics_struct),
      (''Fitness'', ''fitness'', True, GPtr Fitness_struct),
      (''Constraints'', ''constraints'', False, Constraints_struct),
      (''MutationPolicy'', ''mutation_policy'', False, MutationPolicy_struct),
      (''RetirementPolicy'', ''retirement_policy'', True, GPtr RetirementPolicy_struct),
      (''SandboxPolicy'', ''sandbox_policy'', True, GPtr SandboxPolicy_struct),
      (''Tags'', ''tags'', True, GSlice GString)]"

subsection \<open>types_evaluation.go\<close>

definition SuccessCriteria_struct :: go_type where
  [payload]: "SuccessCriteria_struct = GStruct
     [(''QualityMin'', ''quality_min'', True, GFloat),
      (''SafetyViolationsMax'', ''safety_violations_max'', True, GInt),
      (''CostDeltaMax'', ''cost_delta_max'', True, GFloat),
      (''LatencyDeltaMax'', ''latency_delta_max'', True, GFloat)]"

definition MetricsComparison_struct :: go_type where
  [payload]: "MetricsComparison_struct = GStruct
     [(''ParentQualityDelta'', ''parent_quality_delta'', True, GFloat),
      (''ParentLatencyDelta'', ''parent_latency_delta'', True, GFloat),
      (''BaselineQualityDelta'', ''baseline_quality_delta'', True, GFloat)]"

definition EvaluationRequest_struct :: go_type where
  [payload]: "EvaluationRequest_struct = GStruct
     [(''TargetAgent'', ''target_agent'', False, GString),
      (''BenchmarkID'', ''benchmark_id'', False, GString), (''Mode'', ''mode'', False, GString),
      (''NumTasks'', ''num_tasks'', True, GInt),
      (''CompareAgainst'', ''compare_against'', True, GSlice GString),
      (''SuccessCriteria'', ''success_criteria'', True, GPtr SuccessCriteria_struct)]"

definition EvaluationResult_struct :: go_type where
  [payload]: "EvaluationResult_struct = GStruct
     [(''TargetAgent'', ''target_agent'', False, GString),
      (''BenchmarkID'', ''benchmark_id'', True, GString), (''Mode'', ''mode'', True, GString),
      (''OverallDecision'', ''overall_decision'', False, GString),
      (''Metrics'', ''metrics'', False, FitnessMetrics_struct),
      (''HardConstraintsPassed'', ''hard_constraints_passed'', False, GBool),
      (''SafetyViolations'', ''safety_violations'', True, GInt),
      (''Comparison'', ''comparison'', True, GPtr MetricsComparison_struct)]"

subsection \<open>types_lifecycle.go\<close>

definition Promotion_struct :: go_type where
  [payload]: "Promotion_struct = GStruct
     [(''TargetAgent'', ''target_agent'', False, GString),
      (''FromStatus'', ''from_status'', False, GString),
      (''ToStatus'', ''to_status'', False, GString), (''Reason'', ''reason'', True, GString)]"

definition Rollback_struct :: go_type where
  [payload]: "Rollback_struct = GStruct
     [(''TargetAgent'', ''target_agent'', False, GString),
      (''FromStatus'', ''from_status'', False, GString),
      (''ToStatus'', ''to_status'', False, GString), (''Reason'', ''reason'', True, GString)]"

definition Quarantine_struct :: go_type where
  [payload]: "Quarantine_struct = GStruct
     [(''TargetAgent'', ''target_agent'', False, GString), (''Reason'', ''reason'', False, GString),
      (''FromStatus'', ''from_status'', True, GString),
      (''InvestigationRequired'', ''investigation_required'', True, GBool)]"

definition Retirement_struct :: go_type where
  [payload]: "Retirement_struct = GStruct
     [(''TargetAgent'', ''target_agent'', False, GString), (''Reason'', ''reason'', False, GString),
      (''FromStatus'', ''from_status'', True, GString),
      (''RetirementMode'', ''retirement_mode'', True, GString),
      (''ReplaceWith'', ''replace_with'', True, GSlice GString)]"

definition RecombineProposal_struct :: go_type where
  [payload]: "RecombineProposal_struct = GStruct
     [(''CandidateID'', ''candidate_id'', False, GString),
      (''ParentIDs'', ''parent_ids'', False, GSlice GString),
      (''Goal'', ''goal'', False, GString)]"

subsection \<open>types_spawn.go\<close>

definition SpawnProposal_struct :: go_type where
  [payload]: "SpawnProposal_struct = GStruct
     [(''CandidateID'', ''candidate_id'', False, GString),
      (''ParentIDs'', ''parent_ids'', False, GSlice GString),
      (''Generation'', ''generation'', True, GInt),
      (''SpawnReason'', ''spawn_reason'', False, GString),
      (''RiskLevel'', ''risk_level'', True, GString),
      (''EvaluationPlan'', ''evaluation_plan'', True, GString),
      (''GenomePatch'', ''genome_patch'', True, GPtr GenomePatch_struct)]"

definition SpawnApproval_struct :: go_type where
  [payload]: "SpawnApproval_struct = GStruct
     [(''CandidateID'', ''candidate_id'', False, GString),
      (''Decision'', ''decision'', False, GString)]"

definition SpawnRejection_struct :: go_type where
  [payload]: "SpawnRejection_struct = GStruct
     [(''CandidateID'', ''candidate_id'', False, GString),
      (''Decision'', ''decision'', False, GString)]"

subsection \<open>types_task.go\<close>

definition TaskRequest_struct :: go_type where
  [payload]: "TaskRequest_struct = GStruct
     [(''Step'', ''step'', False, GString)]"

definition TaskResult_struct :: go_type where
  [payload]: "TaskResult_struct = GStruct
     [(''Step'', ''step'', False, GString)]"

definition TaskFail_struct :: go_type where
  [payload]: "TaskFail_struct = GStruct
     [(''Step'', ''step'', False, GString), (''Error'', ''error'', True, GString)]"

definition TaskProgress_struct :: go_type where
  [payload]: "TaskProgress_struct = GStruct
     [(''Step'', ''step'', False, GString), (''Percent'', ''percent'', True, GFloat)]"

section \<open>Which struct belongs to which message type\<close>

text \<open>The comments \<open>Wire type\<close> of the structs; messages and negotiation have no struct.\<close>

definition payload_struct :: "(MessageType \<times> go_type) list" where
  "payload_struct =
     [(AgentGenome, AgentGenome_struct), (AgentSpawnProposal, SpawnProposal_struct),
      (AgentSpawnApproval, SpawnApproval_struct), (AgentSpawnRejection, SpawnRejection_struct),
      (AgentEvaluationRequest, EvaluationRequest_struct), (AgentEvaluationResult, EvaluationResult_struct),
      (AgentPromotion, Promotion_struct), (AgentRollback, Rollback_struct),
      (AgentRetirement, Retirement_struct), (AgentQuarantine, Quarantine_struct),
      (AgentRecombineProposal, RecombineProposal_struct), (TaskRequest, TaskRequest_struct),
      (TaskResult, TaskResult_struct), (TaskFail, TaskFail_struct), (TaskProgress, TaskProgress_struct)]"

fun struct_fields :: "go_type \<Rightarrow> (string \<times> string \<times> bool \<times> go_type) list" where
  "struct_fields (GStruct fs) = fs"
| "struct_fields _ = []"

definition tags :: "go_type \<Rightarrow> string list" where
  "tags t = map (\<lambda>(name, tag, omit, k). tag) (struct_fields t)"

text \<open>The tags without \<open>omitempty\<close>: the fields a sender always writes.\<close>

definition mandatory :: "go_type \<Rightarrow> string list" where
  "mandatory t = map (\<lambda>(name, tag, omit, k). tag) (filter (\<lambda>(name, tag, omit, k). \<not> omit) (struct_fields t))"

fun field_of :: "go_val \<Rightarrow> string \<Rightarrow> go_val option" where
  "field_of (VStruct vs) name = map_of vs name"
| "field_of _ name = None"

section \<open>Filling a struct\<close>

lemma map_sum_Inr: "map_sum f g r = Inr y \<longleftrightarrow> (\<exists>x. r = Inr x \<and> y = g x)"
  by (cases r) auto

lemma all_right_map_of:
  assumes "all_right (map (\<lambda>(name, tag, omit, t). map_sum id (Pair name) (get tag t)) fs) = Inr vs"
    and "distinct (map fst fs)" and "(name, tag, omit, t) \<in> set fs"
  shows "\<exists>x. map_of vs name = Some x \<and> get tag t = Inr x"
  using assms
proof (induction fs arbitrary: vs)
  case (Cons f fs)
  obtain n g o' k where f: "f = (n, g, o', k)" by (cases f)
  then obtain x ws where v: "get g k = Inr x" "vs = (n, x) # ws"
    "all_right (map (\<lambda>(name, tag, omit, t). map_sum id (Pair name) (get tag t)) fs) = Inr ws"
    using Cons.prems(1) by (auto simp: then_do_Inr map_sum_Inr id_def)
  show ?case
  proof (cases "(name, tag, omit, t) = f")
    case True
    then show ?thesis using f v by auto
  next
    case False
    then have "(name, tag, omit, t) \<in> set fs" using Cons.prems(3) by auto
    moreover then have "name \<in> fst ` set fs" by (force intro: rev_image_eqI)
    ultimately show ?thesis using Cons.IH [OF v(3)] Cons.prems(2) f v(2) by auto
  qed
qed simp

lemma decode_struct_field:
  assumes "decode sc (GStruct fs) (YMap kvs) = Inr v" and "distinct (map fst fs)"
    and "(name, tag, omit, t) \<in> set fs"
  shows "\<exists>x. field_of v name = Some x \<and>
    (case map_of kvs tag of None \<Rightarrow> x = zero_of t | Some y \<Rightarrow> decode sc t y = Inr x)"
proof -
  let ?get = "\<lambda>tag t. case map_of kvs tag of None \<Rightarrow> Inr (zero_of t) | Some v \<Rightarrow> decode sc t v"
  have e: "(\<lambda>(name, tag, omit, t). case map_of kvs tag of None \<Rightarrow> Inr (name, zero_of t)
       | Some v \<Rightarrow> map_sum id (Pair name) (decode sc t v)) =
      (\<lambda>(name, tag :: string, omit :: bool, t). map_sum id (Pair name) (?get tag t))"
    by (auto simp: fun_eq_iff split: option.split)
  obtain vs where vs: "v = VStruct vs"
    "all_right (map (\<lambda>(name, tag :: string, omit :: bool, t). map_sum id (Pair name) (?get tag t)) fs) = Inr vs"
    using assms(1) unfolding decode.simps e by (auto simp: map_sum_Inr)
  then obtain x where "map_of vs name = Some x" "?get tag t = Inr x"
    using all_right_map_of [OF vs(2) assms(2,3)] by blast
  then show ?thesis using vs(1) by (auto split: option.splits)
qed

text \<open>
  \<open>reads_into t marshal unmarshal\<close>: \<open>yaml.Unmarshal\<close> into a struct of type \<open>t\<close> fills it from the map that
  \<open>yaml.Marshal\<close> wrote.
\<close>

definition reads_into :: "'e scalars \<Rightarrow> go_type \<Rightarrow> ((string, yval) fmap \<Rightarrow> 'e + bytes)
    \<Rightarrow> (bytes \<Rightarrow> 'e + go_val) \<Rightarrow> bool" where
  "reads_into sc t marshal unmarshal \<longleftrightarrow>
     (\<forall>m b. marshal m = Inr b \<longrightarrow>
        (\<exists>kvs. map_of kvs = fmlookup m \<and> unmarshal b = decode sc t (YMap kvs)))"

lemma As_field:
  assumes "reads_into sc (GStruct fs) marshal unmarshal" and "As marshal unmarshal (Some doc) = Inr v"
    and "distinct (map fst fs)" and "(name, tag, omit, t) \<in> set fs"
  shows "\<exists>x. field_of v name = Some x \<and>
    (case (if tag \<in> set envelopeKeys then None else fmlookup (Extra doc) tag) of
       None \<Rightarrow> x = zero_of t | Some y \<Rightarrow> decode sc t y = Inr x)"
proof -
  obtain b where b: "marshal (filtered_extra (Extra doc)) = Inr b" "unmarshal b = Inr v"
    using assms(2) by (auto split: sum.splits)
  then obtain kvs where k: "map_of kvs = fmlookup (filtered_extra (Extra doc))"
    "decode sc (GStruct fs) (YMap kvs) = Inr v"
    using assms(1) unfolding reads_into_def by metis
  show ?thesis using decode_struct_field [OF k(2) assms(3,4)] by (simp add: k(1) filtered_extra_lookup)
qed

end
