(* ===== verification/Enveloper.thy ===== *)
theory Enveloper
  imports Builder
begin

text \<open>
  The command line \<open>cmd/enveloper\<close>: \<open>readAndParseFile\<close> and the commands \<open>validate\<close>, \<open>create\<close> and
  \<open>inspect\<close>. A command is a function of its flags, which \<open>cobra\<close> parses, and of the host (files,
  clock, output); its result is its error, if any, with what it printed and wrote.
\<close>

section \<open>The host and the outcome of a command\<close>

text \<open>
  \<open>open_file\<close> is \<open>os.Open\<close>, and what reading at most so many bytes from the file gives;
  \<open>show_extra\<close> is the verb \<open>%v\<close> on a map, \<open>json_Encode\<close> the indenting JSON encoder.
\<close>

datatype inspect_val = IString string | IStrings "string list" | IExtra "(string, yval) fmap"

record cli_host =
  EvalSymlinks :: "string \<Rightarrow> string + string"
  open_file :: "string \<Rightarrow> string + (nat \<Rightarrow> string + bytes)"
  WriteFile :: "string \<Rightarrow> bytes \<Rightarrow> string option"
  stdout_Write :: "bytes \<Rightarrow> string option"
  build_time :: string
  show_extra :: "(string, yval) fmap \<Rightarrow> string"
  json_Encode :: "(string, inspect_val) fmap \<Rightarrow> string + bytes"

datatype cli_error = OpenErr string string | ReadErr string string | ErrDocumentTooLarge
  | ParseErr string "string parse_error" | CreateValidatorErr new_validator_error
  | ValidationFailedErr nat | StructuralErrors nat | UnknownFormat string
  | NoSuchType string | FieldFormat string | BuildErr build_error
  | SerializeErr "string serialize_error" | WriteErr string string | OutputErr string

record outcome =
  failure :: "cli_error option"
  stdout :: bytes
  stderr :: "ValidationError list"
  wrote :: "(string \<times> bytes) option"

definition fails :: "cli_error \<Rightarrow> outcome" where
  "fails e = \<lparr>failure = Some e, stdout = '''', stderr = [], wrote = None\<rparr>"

definition prints :: "bytes \<Rightarrow> outcome" where
  "prints b = \<lparr>failure = None, stdout = b, stderr = [], wrote = None\<rparr>"

section \<open>Paths (path/filepath)\<close>

fun split_slash :: "string \<Rightarrow> string list" where
  "split_slash [] = [[]]"
| "split_slash (c # s) =
     (if c = CHR ''/'' then [] # split_slash s
      else (case split_slash s of [] \<Rightarrow> [[c]] | x # xs \<Rightarrow> (c # x) # xs))"

definition join_with :: "string \<Rightarrow> string list \<Rightarrow> string" where
  "join_with sep ss = (case ss of [] \<Rightarrow> '''' | x # xs \<Rightarrow> x @ concat (map (\<lambda>y. sep @ y) xs))"

text \<open>\<open>Clean\<close>: no empty element, no \<open>.\<close>, and \<open>..\<close> only at the front of a relative path.\<close>

definition clean_step :: "bool \<Rightarrow> string \<Rightarrow> string list \<Rightarrow> string list" where
  "clean_step rooted seg stack =
     (if seg = '''' \<or> seg = ''.'' then stack
      else if seg = ''..'' then
        (if stack \<noteq> [] \<and> last stack \<noteq> ''..'' then butlast stack
         else if rooted then stack else stack @ [''..''])
      else stack @ [seg])"

definition filepath_Clean :: "string \<Rightarrow> string" where
  "filepath_Clean path =
     (let rooted = (path \<noteq> '''' \<and> hd path = CHR ''/'');
          out = (if rooted then ''/'' else '''') @
                join_with ''/'' (fold (clean_step rooted) (split_slash path) [])
      in if out = '''' then ''.'' else out)"

text \<open>\<open>Base\<close>: the last element without trailing slashes.\<close>

definition filepath_Base :: "string \<Rightarrow> string" where
  "filepath_Base path =
     (if path = '''' then ''.''
      else (let stripped = bytes_TrimRight path (CHR ''/'')
            in if stripped = '''' then ''/'' else last (split_slash stripped)))"

section \<open>Reading a document (helpers.go)\<close>

definition readAndParseFile :: "cli_host \<Rightarrow> (bytes \<Rightarrow> string + Document) \<Rightarrow> string \<Rightarrow> cli_error + Document" where
  "readAndParseFile h unmarshal path =
     (case EvalSymlinks h (filepath_Clean path) of
        Inl err \<Rightarrow> Inl (OpenErr (filepath_Base path) err)
      | Inr resolved \<Rightarrow>
     (case open_file h resolved of
        Inl err \<Rightarrow> Inl (OpenErr (filepath_Base path) err)
      | Inr f \<Rightarrow>
     (case f (nat MaxDocumentBytes + 1) of
        Inl err \<Rightarrow> Inl (ReadErr (filepath_Base path) err)
      | Inr raw \<Rightarrow>
        if int (length raw) > MaxDocumentBytes then Inl ErrDocumentTooLarge
        else wrap_err (ParseErr (filepath_Base path)) (Parse unmarshal raw))))"

section \<open>validate (validate.go)\<close>

definition validate_cmd :: "cli_host \<Rightarrow> ('a, 'j, 'c, 's) doc_lib \<Rightarrow> new_validator_error + 's Validator
    \<Rightarrow> (bytes \<Rightarrow> string + Document) \<Rightarrow> bool \<Rightarrow> string \<Rightarrow> outcome" where
  "validate_cmd h lib dv unmarshal strict path =
     (case readAndParseFile h unmarshal path of
        Inl err \<Rightarrow> fails err
      | Inr doc \<Rightarrow>
     (case dv of
        Inl err \<Rightarrow> fails (CreateValidatorErr err)
      | Inr v \<Rightarrow>
     (let errs = Validate lib v (Some doc);
          fatal = filter (\<lambda>e. strict \<or> Layer e \<noteq> LayerSemantic) errs
      in if length fatal > 0 then (fails (ValidationFailedErr (length fatal)))\<lparr>stderr := errs\<rparr>
         else (prints (''OK: '' @ filepath_Base path @ [LF]))\<lparr>stderr := errs\<rparr>)))"

section \<open>create (create.go)\<close>

record create_flags =
  flagID :: string
  flagFrom :: string
  flagTo :: "string list"
  flagExecID :: string
  flagFields :: "string list"
  flagOut :: string

text \<open>\<open>strings.SplitN(kv, "=", 2)\<close>, when it yields two parts.\<close>

definition split_field :: "string \<Rightarrow> (string \<times> string) option" where
  "split_field kv =
     (if CHR ''='' \<in> set kv
      then Some (takeWhile (\<lambda>c. c \<noteq> CHR ''='') kv, tl (dropWhile (\<lambda>c. c \<noteq> CHR ''='') kv))
      else None)"

fun add_fields :: "string list \<Rightarrow> Builder \<Rightarrow> cli_error + Builder" where
  "add_fields [] b = Inr b"
| "add_fields (kv # kvs) b =
     (case split_field kv of
        None \<Rightarrow> Inl (FieldFormat kv)
      | Some (k, v) \<Rightarrow> add_fields kvs (set_Field k (YString v) b))"

definition start_builder :: "create_flags \<Rightarrow> MessageType \<Rightarrow> Builder" where
  "start_builder f mt =
     (let b = NewBuilder mt;
          b = (if flagID f \<noteq> '''' then set_ID (flagID f) b else b);
          b = (if flagFrom f \<noteq> '''' then set_From (flagFrom f) b else b);
          b = (if length (flagTo f) > 0 then set_To (flagTo f) b else b)
      in if flagExecID f \<noteq> '''' then set_ExecID (flagExecID f) b else b)"

definition create_cmd :: "cli_host \<Rightarrow> ('a, 'j, 'c, 's) doc_lib \<Rightarrow> new_validator_error + 's Validator
    \<Rightarrow> create_flags \<Rightarrow> string \<Rightarrow> outcome" where
  "create_cmd h lib dv f arg =
     (if Lookup arg = None then fails (NoSuchType arg)
      else case add_fields (flagFields f) (start_builder f arg) of
        Inl err \<Rightarrow> fails err
      | Inr b \<Rightarrow>
     (case Build lib dv (build_time h) b of
        Inl err \<Rightarrow> fails (BuildErr err)
      | Inr doc \<Rightarrow>
     (case Serialize (yaml_Marshal lib) (Some doc) of
        Inl err \<Rightarrow> fails (SerializeErr err)
      | Inr raw \<Rightarrow>
        if flagOut f \<noteq> '''' then
          (case WriteFile h (flagOut f) raw of
             Some err \<Rightarrow> fails (WriteErr (flagOut f) err)
           | None \<Rightarrow> \<lparr>failure = None, stdout = '''', stderr = [], wrote = Some (flagOut f, raw)\<rparr>)
        else
          (case stdout_Write h raw of
             Some err \<Rightarrow> fails (OutputErr err)
           | None \<Rightarrow> prints raw))))"

section \<open>inspect (inspect.go)\<close>

text \<open>A line of the text format, padded as the code pads it, and the verb \<open>%s\<close> on a list.\<close>

definition text_line :: "string \<Rightarrow> string \<Rightarrow> string" where
  "text_line label v = label @ v @ [LF]"

definition optional_line :: "string \<Rightarrow> string \<Rightarrow> string" where
  "optional_line label v = (if v \<noteq> '''' then text_line label v else '''')"

definition printInspectText :: "cli_host \<Rightarrow> Document \<Rightarrow> bytes" where
  "printInspectText h e =
     text_line ''type:     '' (Type e) @ text_line ''version:  '' (Version e) @
     optional_line ''id:       '' (ID e) @ optional_line ''from:     '' (From e) @
     (if length (To e) > 0 then text_line ''to:       '' (''['' @ join_with '' '' (To e) @ '']'') else '''') @
     optional_line ''exec_id:  '' (ExecID e) @ optional_line ''status:   '' (Status e) @
     optional_line ''in_reply_to: '' (InReplyTo e) @ optional_line ''thread_id: '' (ThreadID e) @
     optional_line ''created_at: '' (CreatedAt e) @
     (if fmlen (Extra e) > 0 then text_line ''extra:    '' (show_extra h (Extra e)) else '''')"

definition put_string :: "string \<Rightarrow> string \<Rightarrow> (string, inspect_val) fmap \<Rightarrow> (string, inspect_val) fmap" where
  "put_string k v m = (if v \<noteq> '''' then fmupd k (IString v) m else m)"

definition inspect_map :: "Document \<Rightarrow> (string, inspect_val) fmap" where
  "inspect_map doc =
     (let m = fmupd ''version'' (IString (Version doc)) (fmupd ''type'' (IString (Type doc)) fmempty);
          m = put_string ''id'' (ID doc) m;
          m = put_string ''from'' (From doc) m;
          m = (if length (To doc) > 0 then fmupd ''to'' (IStrings (To doc)) m else m);
          m = put_string ''exec_id'' (ExecID doc) m;
          m = put_string ''status'' (Status doc) m;
          m = put_string ''in_reply_to'' (InReplyTo doc) m;
          m = put_string ''thread_id'' (ThreadID doc) m;
          m = put_string ''created_at'' (CreatedAt doc) m
      in if fmlen (Extra doc) > 0 then fmupd ''extra'' (IExtra (Extra doc)) m else m)"

definition printInspectJSON :: "cli_host \<Rightarrow> Document \<Rightarrow> outcome" where
  "printInspectJSON h doc =
     (case json_Encode h (inspect_map doc) of
        Inl err \<Rightarrow> fails (OutputErr err)
      | Inr b \<Rightarrow> prints b)"

definition inspect_cmd :: "cli_host \<Rightarrow> new_validator_error + 's Validator \<Rightarrow> (bytes \<Rightarrow> string + Document)
    \<Rightarrow> string \<Rightarrow> string \<Rightarrow> outcome" where
  "inspect_cmd h dv unmarshal format path =
     (case readAndParseFile h unmarshal path of
        Inl err \<Rightarrow> fails err
      | Inr doc \<Rightarrow>
     (case dv of
        Inl err \<Rightarrow> fails (CreateValidatorErr err)
      | Inr v \<Rightarrow>
     (let errs = ValidateStructural (Some doc)
      in if length errs > 0 then (fails (StructuralErrors (length errs)))\<lparr>stderr := errs\<rparr>
         else if format = ''text'' then prints (printInspectText h doc)
         else if format = ''json'' then printInspectJSON h doc
         else fails (UnknownFormat format))))"

section \<open>The program (main.go)\<close>

datatype command = ShowVersion | ValidateFile bool string | CreateDoc create_flags string | InspectFile string string

fun newRootCmd :: "cli_host \<Rightarrow> ('a, 'j, 'c, 's) doc_lib \<Rightarrow> new_validator_error + 's Validator
    \<Rightarrow> (bytes \<Rightarrow> string + Document) \<Rightarrow> command \<Rightarrow> outcome" where
  "newRootCmd h lib dv unmarshal ShowVersion =
     prints (''aga2aga-enveloper protocol version '' @ ProtocolVersion @ [LF])"
| "newRootCmd h lib dv unmarshal (ValidateFile strict path) = validate_cmd h lib dv unmarshal strict path"
| "newRootCmd h lib dv unmarshal (CreateDoc f arg) = create_cmd h lib dv f arg"
| "newRootCmd h lib dv unmarshal (InspectFile format path) = inspect_cmd h dv unmarshal format path"

text \<open>\<open>main\<close> exits with status 1 when the command fails.\<close>

definition exit_status :: "outcome \<Rightarrow> int" where
  "exit_status res = (if failure res \<noteq> None then 1 else 0)"

section \<open>What create builds\<close>

lemma add_fields_keeps:
  assumes "add_fields kvs b = Inr b'"
  shows "msgType b' = msgType b \<and> b_status b' = b_status b \<and> b_threadID b' = b_threadID b \<and>
    b_inReplyTo b' = b_inReplyTo b"
  using assms
proof (induction kvs arbitrary: b)
  case (Cons kv kvs)
  then obtain k v where "split_field kv = Some (k, v)" "add_fields kvs (set_Field k (YString v) b) = Inr b'"
    by (auto split: option.splits)
  then show ?case using Cons.IH [of "set_Field k (YString v) b"] by (auto simp: set_Field_def split: if_splits option.splits)
qed simp

lemma start_builder_keeps:
  "msgType (start_builder f mt) = mt" "b_status (start_builder f mt) = ''''"
  "b_threadID (start_builder f mt) = ''''" "b_inReplyTo (start_builder f mt) = ''''"
  by (simp_all add: start_builder_def setters Let_def)

text \<open>The document of a \<open>create\<close> command, if its fields are well formed.\<close>

definition created_doc :: "cli_host \<Rightarrow> create_flags \<Rightarrow> string \<Rightarrow> Document option" where
  "created_doc h f arg =
     (case add_fields (flagFields f) (start_builder f arg) of
        Inl err \<Rightarrow> None | Inr b \<Rightarrow> Some (assemble (build_time h) b))"

lemma created_doc_fields:
  assumes "created_doc h f arg = Some doc"
  shows "Type doc = arg" "Status doc = ''''" "ThreadID doc = ''''" "InReplyTo doc = ''''"
  using assms add_fields_keeps [of "flagFields f" "start_builder f arg"]
  by (auto simp: created_doc_def assemble_def start_builder_keeps split: sum.splits)

text \<open>A \<open>create\<close> that succeeds has serialised a valid document.\<close>

lemma create_success:
  assumes "failure (create_cmd h lib dv f arg) = None"
  obtains doc v raw where "created_doc h f arg = Some doc" "dv = Inr v" "Validate lib v (Some doc) = []"
    "Serialize (yaml_Marshal lib) (Some doc) = Inr raw"
    "create_cmd h lib dv f arg =
       (if flagOut f \<noteq> '''' then \<lparr>failure = None, stdout = '''', stderr = [], wrote = Some (flagOut f, raw)\<rparr>
        else prints raw)"
proof -
  obtain b where b: "add_fields (flagFields f) (start_builder f arg) = Inr b"
    using assms by (auto simp: create_cmd_def fails_def split: if_splits sum.splits)
  then obtain doc where d: "Build lib dv (build_time h) b = Inr doc"
    using assms by (auto simp: create_cmd_def fails_def split: if_splits sum.splits)
  then obtain raw where r: "Serialize (yaml_Marshal lib) (Some doc) = Inr raw"
    using assms b by (auto simp: create_cmd_def fails_def simp del: Serialize.simps split: if_splits sum.splits)
  have "create_cmd h lib dv f arg =
       (if flagOut f \<noteq> '''' then \<lparr>failure = None, stdout = '''', stderr = [], wrote = Some (flagOut f, raw)\<rparr>
        else prints raw)"
    using assms b d r by (auto simp: create_cmd_def fails_def simp del: Serialize.simps split: if_splits option.splits)
  moreover have "created_doc h f arg = Some doc" "\<exists>v. dv = Inr v \<and> Validate lib v (Some doc) = []"
    using b d by (auto simp: created_doc_def Build_Inr)
  ultimately show thesis using that r by blast
qed

section \<open>Reading back\<close>

text \<open>\<open>holds_file h path c\<close>: the path resolves to a file with the content \<open>c\<close>.\<close>

definition holds_file :: "cli_host \<Rightarrow> string \<Rightarrow> bytes \<Rightarrow> bool" where
  "holds_file h path c \<longleftrightarrow>
     (\<exists>p. EvalSymlinks h (filepath_Clean path) = Inr p \<and> open_file h p = Inr (\<lambda>n. Inr (take n c)))"

text \<open>The file is parsed as a whole or refused, never in part.\<close>

lemma readAndParseFile_whole:
  assumes "holds_file h path c"
  shows "readAndParseFile h unmarshal path =
    (if int (length c) > MaxDocumentBytes then Inl ErrDocumentTooLarge
     else wrap_err (ParseErr (filepath_Base path)) (Parse unmarshal c))"
proof -
  have "int (length (take (nat MaxDocumentBytes + 1) c)) > MaxDocumentBytes \<longleftrightarrow> int (length c) > MaxDocumentBytes"
    by (simp add: MaxDocumentBytes_def min_def)
  moreover have "take (nat MaxDocumentBytes + 1) c = c" if "\<not> int (length c) > MaxDocumentBytes"
    using that by (simp add: MaxDocumentBytes_def)
  ultimately show ?thesis using assms by (auto simp: holds_file_def readAndParseFile_def)
qed

text \<open>Validation does not look at \<open>Raw\<close>, which \<open>yaml.v3\<close> leaves out.\<close>

lemma Validate_Raw:
  assumes "yaml_Marshal lib (doc\<lparr>Raw := r\<rparr>) = yaml_Marshal lib doc"
  shows "Validate lib v (Some (doc\<lparr>Raw := r\<rparr>)) = Validate lib v (Some doc)"
proof -
  have h: "docHasField (doc\<lparr>Raw := r\<rparr>) f = docHasField doc f" for f by (simp add: docHasField_def)
  have "ValidateStructural (Some (doc\<lparr>Raw := r\<rparr>)) = ValidateStructural (Some doc)"
    by (simp add: check_required_eq h split: option.split)
  moreover have "ValidateSchema lib v (Some (doc\<lparr>Raw := r\<rparr>)) = ValidateSchema lib v (Some doc)"
    using assms by (simp add: docToJSONValue_def split: option.split)
  moreover have "ValidateSemantic (Some (doc\<lparr>Raw := r\<rparr>)) = ValidateSemantic (Some doc)"
    by (simp add: validateTerminalTransition_def validateLifecycleTransition_def extra_string_def Let_def)
  ultimately show ?thesis by (simp only: Validate_def)
qed

end
