(* ===== verification/CommandProps.thy ===== *)
theory CommandProps
  imports Payload Enveloper DocumentProps
begin

text \<open>
  The properties of the typed payloads and of the command line.
\<close>

section \<open>Typed payloads\<close>

text \<open>
  The registry and the structs agree. For every message type with a struct, the fields that the
  registry requires outside the envelope, or under a tag of the struct, are exactly the tags
  without \<open>omitempty\<close>; and names and tags of a struct are distinct.
\<close>

theorem payload_required:
  assumes "(mt, t) \<in> set payload_struct" and "Lookup mt = Some m"
  shows "set (mandatory t) = {f \<in> set (RequiredFields m). f \<notin> set envelopeKeys \<or> f \<in> set (tags t)} \<and>
    distinct (tags t) \<and> distinct (map fst (struct_fields t))"
proof -
  have "list_all (\<lambda>(mt, t). case Lookup mt of None \<Rightarrow> False | Some m \<Rightarrow>
      set (mandatory t) = set (filter (\<lambda>f. f \<notin> set envelopeKeys \<or> f \<in> set (tags t)) (RequiredFields m)) \<and>
      distinct (tags t) \<and> distinct (map fst (struct_fields t))) payload_struct"
    by code_simp
  then show ?thesis using assms by (auto simp: list_all_iff)
qed

lemma payload_required_witness:
  "set (mandatory TaskFail_struct) =
     {f \<in> set [''id'', ''from'', ''to'', ''exec_id'', ''step'']. f \<notin> set envelopeKeys \<or> f \<in> set (tags TaskFail_struct)}"
proof -
  have "(TaskFail, TaskFail_struct) \<in> set payload_struct" by (simp add: payload_struct_def)
  moreover have "Lookup TaskFail = Some \<lparr>RequiredFields = [''id'', ''from'', ''to'', ''exec_id'', ''step''], SchemaRef = ''''\<rparr>"
    by code_simp
  ultimately show ?thesis using payload_required [of TaskFail TaskFail_struct] by simp
qed

text \<open>
  C40: Typed access to a genome loses its status. A genome that passes the structural layer has a
  status, which is an envelope field; but the struct has a \<open>Status\<close> of its own under the same tag,
  and what \<open>As\<close> returns there is always empty. Every other field of the struct is filled from the
  extra field of its tag.
\<close>

theorem genome_status_lost:
  assumes "ValidateStructural (Some doc) = []" and "Type doc = AgentGenome"
    and "reads_into sc AgentGenome_struct marshal unmarshal" and "As marshal unmarshal (Some doc) = Inr v"
  shows "Status doc \<noteq> '''' \<and> field_of v ''Status'' = Some (VString '''') \<and>
    (\<forall>name tag omit t. (name, tag, omit, t) \<in> set (struct_fields AgentGenome_struct) \<longrightarrow> tag \<noteq> ''status'' \<longrightarrow>
       (\<exists>x. field_of v name = Some x \<and>
         (case fmlookup (Extra doc) tag of None \<Rightarrow> x = zero_of t | Some y \<Rightarrow> decode sc t y = Inr x)))"
proof (intro conjI allI impI)
  let ?fs = "struct_fields AgentGenome_struct"
  have g: "GStruct ?fs = AgentGenome_struct" by (simp add: AgentGenome_struct_def)
  have r: "reads_into sc (GStruct ?fs) marshal unmarshal" using assms(3) by (simp only: g)
  have c: "list_all (\<lambda>(name, tag, omit, t). tag = ''status'' \<or> tag \<notin> set envelopeKeys) ?fs \<and> distinct (map fst ?fs) \<and>
      (''Status'', ''status'', False, GString) \<in> set ?fs \<and> ''status'' \<in> set envelopeKeys"
    by code_simp
  note f = As_field [OF r assms(4)]
  obtain m where "Lookup AgentGenome = Some m" "\<forall>f\<in>set (RequiredFields m). docHasField doc f"
    using assms(1,2) unfolding ValidateStructural_ok by auto
  moreover have "case Lookup AgentGenome of None \<Rightarrow> False | Some m \<Rightarrow> ''status'' \<in> set (RequiredFields m)" by code_simp
  ultimately have "docHasField doc ''status''" by simp
  then show "Status doc \<noteq> ''''" by (simp add: docHasField_def)
  show "field_of v ''Status'' = Some (VString '''')"
    using f [of "''Status''" "''status''" False GString] c by simp
  show "\<exists>x. field_of v name = Some x \<and>
         (case fmlookup (Extra doc) tag of None \<Rightarrow> x = zero_of t | Some y \<Rightarrow> decode sc t y = Inr x)"
    if "(name, tag, omit, t) \<in> set ?fs" "tag \<noteq> ''status''" for name tag omit t
    using f [OF _ that(1)] c that by (auto simp: list_all_iff)
qed

definition sample_genome_fields :: "(string \<times> yval) list" where
  "sample_genome_fields = [(''agent_id'', YString ''a1''), (''kind'', YString ''k''), (''identity'', YMap []),
     (''capabilities'', YMap []), (''tools'', YMap []), (''model_policy'', YMap []), (''prompt_policy'', YMap []),
     (''routing_policy'', YMap []), (''thresholds'', YMap []), (''constraints'', YMap []), (''mutation_policy'', YMap [])]"

definition sample_genome :: Document where
  "sample_genome = zero_document\<lparr>Type := AgentGenome, Version := ''v1'', Status := ''active'',
     Extra := fmap_of_list sample_genome_fields\<rparr>"

definition sample_scalars :: "unit scalars" where
  "sample_scalars = \<lparr>to_string = (\<lambda>v. case v of YString s \<Rightarrow> Inr s | _ \<Rightarrow> Inl ()), to_int = (\<lambda>v. Inl ()),
     to_float = (\<lambda>v. Inl ()), to_bool = (\<lambda>v. Inl ()), mismatch = (\<lambda>v. ())\<rparr>"

lemma genome_status_lost_witness:
  "\<exists>v. decode sample_scalars AgentGenome_struct (YMap sample_genome_fields) = Inr v \<and>
     field_of v ''Status'' = Some (VString '''') \<and> field_of v ''AgentID'' = Some (VString ''a1'')"
proof -
  let ?marshal = "\<lambda>m. if m = filtered_extra (Extra sample_genome) then Inr ''g'' else Inl ()"
  let ?unmarshal = "\<lambda>b :: bytes. decode sample_scalars AgentGenome_struct (YMap sample_genome_fields)"
  have k: "map_of sample_genome_fields = fmlookup (filtered_extra (Extra sample_genome))"
    by (auto simp: fun_eq_iff filtered_extra_lookup sample_genome_def sample_genome_fields_def fmlookup_of_list envelopeKeys_def)
  have r: "reads_into sample_scalars AgentGenome_struct ?marshal ?unmarshal"
    using k by (auto simp: reads_into_def split: if_splits)
  have s: "ValidateStructural (Some sample_genome) = []" by code_simp
  have "case decode sample_scalars AgentGenome_struct (YMap sample_genome_fields) of Inl e \<Rightarrow> False | Inr v \<Rightarrow> True"
    by code_simp
  then obtain v where v: "decode sample_scalars AgentGenome_struct (YMap sample_genome_fields) = Inr v"
    by (auto split: sum.splits)
  then have a: "As ?marshal ?unmarshal (Some sample_genome) = Inr v" by simp
  have ty: "Type sample_genome = AgentGenome" by (simp add: sample_genome_def)
  have "\<exists>x. field_of v ''AgentID'' = Some x \<and> (case fmlookup (Extra sample_genome) ''agent_id'' of
      None \<Rightarrow> x = zero_of GString | Some y \<Rightarrow> decode sample_scalars GString y = Inr x)"
    using genome_status_lost [OF s ty r a]
    by (elim conjE allE [of _ "''AgentID''"] allE [of _ "''agent_id''"] allE [of _ False] allE [of _ GString])
      (simp add: AgentGenome_struct_def)
  moreover have "fmlookup (Extra sample_genome) ''agent_id'' = Some (YString ''a1'')"
    by (simp add: sample_genome_def sample_genome_fields_def fmlookup_of_list)
  ultimately show ?thesis
    using v genome_status_lost [OF s ty r a] by (auto simp: sample_scalars_def)
qed

section \<open>The command line\<close>

text \<open>
  C34: What \<open>create\<close> writes, \<open>validate\<close> accepts. If \<open>create\<close> succeeds and its output, on standard output or
  in the file it was told to write, fits into the size limit and is what a file holds, then
  \<open>validate\<close> accepts that file without any complaint, strict or not. This rests on the YAML codec
  reading back the front matter it wrote.
\<close>

theorem created_file_validates:
  assumes "failure (create_cmd h lib dv f arg) = None"
    and "raw = (case wrote (create_cmd h lib dv f arg) of None \<Rightarrow> stdout (create_cmd h lib dv f arg) | Some (p, c) \<Rightarrow> c)"
    and "int (length raw) \<le> MaxDocumentBytes" and "holds_file h' path raw"
    and "\<And>doc y. created_doc h f arg = Some doc \<Longrightarrow> yaml_Marshal lib doc = Inr y \<Longrightarrow>
      y \<noteq> [] \<and> findClosingDelimiter (front_matter y) = None \<and>
      unmarshal (front_matter y) = Inr (doc\<lparr>Body := '''', Raw := ''''\<rparr>) \<and>
      yaml_Marshal lib (doc\<lparr>Raw := raw\<rparr>) = yaml_Marshal lib doc"
  shows "validate_cmd h' lib dv unmarshal strict path = prints (''OK: '' @ filepath_Base path @ [LF])"
proof -
  obtain doc v c where d: "created_doc h f arg = Some doc" "dv = Inr v" "Validate lib v (Some doc) = []"
    "Serialize (yaml_Marshal lib) (Some doc) = Inr c"
    "create_cmd h lib dv f arg = (if flagOut f \<noteq> '''' then \<lparr>failure = None, stdout = '''', stderr = [], wrote = Some (flagOut f, c)\<rparr>
        else prints c)"
    using assms(1) by (rule create_success)
  have raw: "raw = c" using assms(2) d(5) by (auto simp: prints_def)
  obtain y where y: "yaml_Marshal lib doc = Inr y" using d(4) by (auto split: sum.splits)
  note codec = assms(5) [OF d(1) y]
  have "SplitFrontMatter raw = Inr (front_matter y, Body doc)"
    using SplitFrontMatter_Serialize [of "yaml_Marshal lib" doc y] codec y d(4) raw by force
  then have "Parse unmarshal raw = Inr (doc\<lparr>Raw := raw\<rparr>)" using codec assms(3) by (simp add: Parse_def)
  then have "readAndParseFile h' unmarshal path = Inr (doc\<lparr>Raw := raw\<rparr>)"
    using readAndParseFile_whole [OF assms(4)] assms(3) by simp
  moreover have "Validate lib v (Some (doc\<lparr>Raw := raw\<rparr>)) = []"
    using Validate_Raw [of lib raw doc v] codec d(3) by simp
  ultimately show ?thesis using d(2) by (simp add: validate_cmd_def prints_def)
qed

definition sample_flags :: create_flags where
  "sample_flags = \<lparr>flagID = ''i'', flagFrom = ''a1'', flagTo = [''b1''], flagExecID = '''', flagFields = [''x=y''], flagOut = ''''\<rparr>"

definition sample_files :: "bytes \<Rightarrow> cli_host" where
  "sample_files c = \<lparr>EvalSymlinks = Inr, open_file = (\<lambda>p. Inr (\<lambda>n. Inr (take n c))), WriteFile = (\<lambda>p b. None),
     stdout_Write = (\<lambda>b. None), build_time = ''t'', show_extra = (\<lambda>m. ''''), json_Encode = (\<lambda>m. Inr '''')\<rparr>"

definition sample_codec :: "(unit, unit, unit, unit) doc_lib" where
  "sample_codec = sample_lib\<lparr>yaml_Marshal := (\<lambda>d. Inr ''id: m1'')\<rparr>"

lemma created_file_validates_witness:
  "\<exists>raw unmarshal. stdout (create_cmd (sample_files '''') sample_codec (Inr sample_validator) sample_flags AgentMessage) = raw \<and>
     validate_cmd (sample_files raw) sample_codec (Inr sample_validator) unmarshal True ''d.md'' = prints (''OK: d.md'' @ [LF])"
proof -
  let ?c = "create_cmd (sample_files '''') sample_codec (Inr sample_validator) sample_flags AgentMessage"
  define raw where "raw = stdout ?c"
  have "failure ?c = None \<and> wrote ?c = None \<and> length (stdout ?c) < 100" by code_simp
  then have c: "failure ?c = None" "wrote ?c = None" "int (length raw) \<le> MaxDocumentBytes"
    by (simp_all add: raw_def MaxDocumentBytes_def)
  have h: "holds_file (sample_files raw) ''d.md'' raw" by (simp add: holds_file_def sample_files_def)
  have "validate_cmd (sample_files raw) sample_codec (Inr sample_validator)
      (\<lambda>b. Inr (the (created_doc (sample_files '''') sample_flags AgentMessage)\<lparr>Body := '''', Raw := ''''\<rparr>)) True ''d.md'' =
    prints (''OK: '' @ filepath_Base ''d.md'' @ [LF])"
  proof (rule created_file_validates [OF c(1) _ c(3) h])
    show "raw = (case wrote ?c of None \<Rightarrow> stdout ?c | Some (p, c) \<Rightarrow> c)" by (simp add: c(2) raw_def)
  qed (auto simp: sample_codec_def sample_front)
  moreover have "filepath_Base ''d.md'' = ''d.md''" by code_simp
  ultimately show ?thesis unfolding raw_def by auto
qed

definition uncreatable :: "MessageType list" where
  "uncreatable = [AgentGenome, AgentSpawnApproval, AgentSpawnRejection, NegotiationPropose, NegotiationAccept,
     NegotiationReject, NegotiationCounter, NegotiationClarify, NegotiationDelegate, NegotiationCommit, NegotiationAbort]"

text \<open>
  What \<open>create\<close> cannot create. The command has no flag for the status, the thread or the message
  replied to, and \<open>--field\<close> refuses them as reserved. So it fails for eleven of the registered
  types, whatever flags are given: genomes, answers to a spawn proposal, and all of negotiation.
\<close>

theorem create_impossible:
  assumes "arg \<in> set uncreatable"
  shows "arg \<in> set Registered \<and> failure (create_cmd h lib dv f arg) \<noteq> None"
proof (intro conjI notI)
  have "list_all (\<lambda>mt. mt \<in> set Registered \<and> (case Lookup mt of None \<Rightarrow> False
      | Some m \<Rightarrow> list_ex (\<lambda>f. f \<in> set (RequiredFields m)) [''status'', ''thread_id'', ''in_reply_to''])) uncreatable"
    by code_simp
  then have c: "arg \<in> set Registered \<and> (case Lookup arg of None \<Rightarrow> False
      | Some m \<Rightarrow> list_ex (\<lambda>f. f \<in> set (RequiredFields m)) [''status'', ''thread_id'', ''in_reply_to''])"
    using assms unfolding list_all_iff by blast
  then obtain m where m: "Lookup arg = Some m" by (cases "Lookup arg") auto
  with c have u: "arg \<in> set Registered"
    "\<exists>f. f \<in> set (RequiredFields m) \<and> f \<in> {''status'', ''thread_id'', ''in_reply_to''}"
    by auto
  show "arg \<in> set Registered" by (rule u(1))
  assume "failure (create_cmd h lib dv f arg) = None"
  then obtain doc v raw where d: "created_doc h f arg = Some doc" "Validate lib v (Some doc) = []"
    by (rule create_success)
  then have "ValidateStructural (Some doc) = []" by (auto simp: Validate_def Let_def split: if_splits)
  then have "\<forall>f\<in>set (RequiredFields m). docHasField doc f"
    unfolding ValidateStructural_ok by (simp add: created_doc_fields [OF d(1)] m)
  then show False
    using u(2) created_doc_fields [OF d(1)] by (auto simp: docHasField_def)
qed

lemma create_impossible_witness:
  "NegotiationPropose \<in> set Registered \<and>
   failure (create_cmd (sample_files '''') sample_lib (Inr sample_validator) sample_flags NegotiationPropose) \<noteq> None"
  by (rule create_impossible) (simp add: uncreatable_def)

text \<open>
  The exit status of \<open>validate\<close>. It is 0 exactly if the file is within the size limit and parses,
  the validator is available, and no layer complains; without \<open>--strict\<close>, if at most the semantic
  layer does, which is where an illegal lifecycle transition is found.
\<close>

theorem validate_exit:
  assumes "holds_file h path c"
  shows "exit_status (validate_cmd h lib dv unmarshal strict path) = 0 \<longleftrightarrow>
    int (length c) \<le> MaxDocumentBytes \<and>
    (\<exists>doc v. Parse unmarshal c = Inr doc \<and> dv = Inr v \<and>
       ValidateStructural (Some doc) = [] \<and> ValidateSchema lib v (Some doc) = [] \<and>
       (strict \<longrightarrow> ValidateSemantic (Some doc) = []))"
proof -
  have fatal: "filter (\<lambda>e. strict \<or> Layer e \<noteq> LayerSemantic) (Validate lib v (Some doc)) = [] \<longleftrightarrow>
      ValidateStructural (Some doc) = [] \<and> ValidateSchema lib v (Some doc) = [] \<and>
      (strict \<longrightarrow> ValidateSemantic (Some doc) = [])" for v doc
  proof -
    let ?P = "\<lambda>e. strict \<or> Layer e \<noteq> LayerSemantic"
    have "filter ?P (ValidateStructural (Some doc)) = ValidateStructural (Some doc)"
      using ValidateStructural_layer by (auto simp: filter_id_conv wire simp del: ValidateStructural.simps)
    moreover have "filter ?P (ValidateSchema lib v (Some doc)) = ValidateSchema lib v (Some doc)"
      using ValidateSchema_layer [of _ lib v "Some doc"] by (auto simp: filter_id_conv wire simp del: ValidateSchema.simps)
    moreover have "filter ?P (ValidateSemantic (Some doc)) = (if strict then ValidateSemantic (Some doc) else [])"
      using semantic_layer by (auto simp: filter_id_conv filter_empty_conv simp del: ValidateSemantic.simps)
    ultimately show ?thesis by (simp add: Validate_def Let_def del: ValidateStructural.simps ValidateSchema.simps ValidateSemantic.simps)
  qed
  show ?thesis
  proof (cases "\<exists>doc v. int (length c) \<le> MaxDocumentBytes \<and> Parse unmarshal c = Inr doc \<and> dv = Inr v")
    case True
    then obtain doc v where d: "int (length c) \<le> MaxDocumentBytes" "Parse unmarshal c = Inr doc" "dv = Inr v" by blast
    then have "readAndParseFile h unmarshal path = Inr doc" by (simp add: readAndParseFile_whole [OF assms])
    then have "exit_status (validate_cmd h lib dv unmarshal strict path) = 0 \<longleftrightarrow>
        filter (\<lambda>e. strict \<or> Layer e \<noteq> LayerSemantic) (Validate lib v (Some doc)) = []"
      using d(3) by (simp add: validate_cmd_def exit_status_def fails_def prints_def Let_def)
    then show ?thesis unfolding fatal using d by (auto simp del: ValidateStructural.simps ValidateSchema.simps ValidateSemantic.simps)
  next
    case False
    then have "\<exists>e. validate_cmd h lib dv unmarshal strict path = fails e"
      unfolding validate_cmd_def readAndParseFile_whole [OF assms]
      by (cases "Parse unmarshal c"; cases dv) auto
    then show ?thesis using False by (auto simp: exit_status_def fails_def simp del: ValidateStructural.simps ValidateSchema.simps
        ValidateSemantic.simps)
  qed
qed

lemma validate_exit_witness:
  "exit_status (validate_cmd (sample_files ''no'') sample_lib (Inr sample_validator) (\<lambda>b. Inr zero_document) True ''d.md'') \<noteq> 0"
proof -
  have h: "holds_file (sample_files ''no'') ''d.md'' ''no''" by (simp add: holds_file_def sample_files_def)
  have "\<not> (\<exists>doc. Parse (\<lambda>b. Inr zero_document :: string + Document) ''no'' = Inr doc)"
    using SplitFrontMatter_body_bound [of "''no''"] by (auto simp: Parse_def split: if_splits sum.splits)
  then show ?thesis using validate_exit [OF h, of sample_lib "Inr sample_validator"] by blast
qed

text \<open>
  What \<open>inspect --format json\<close> shows. Each envelope field it knows appears exactly if the document
  has it, with the document's value; type-specific fields appear only below \<open>extra\<close>, so that a
  sender cannot shadow an envelope field.
\<close>

theorem inspect_json:
  "fmlookup (inspect_map doc) k =
     (if k = ''type'' then Some (IString (Type doc))
      else if k = ''version'' then Some (IString (Version doc))
      else if k = ''to'' then if docHasField doc ''to'' then Some (IStrings (To doc)) else None
      else if k = ''extra'' then if Extra doc \<noteq> fmempty then Some (IExtra (Extra doc)) else None
      else if k \<in> {''id'', ''from'', ''exec_id'', ''status'', ''in_reply_to'', ''thread_id'', ''created_at''} \<and> docHasField doc k
      then Some (IString (if k = ''id'' then ID doc else if k = ''from'' then From doc
        else if k = ''exec_id'' then ExecID doc else if k = ''status'' then Status doc
        else if k = ''in_reply_to'' then InReplyTo doc else if k = ''thread_id'' then ThreadID doc else CreatedAt doc))
      else None)"
proof -
  have e: "fmlen (Extra doc) > 0 \<longleftrightarrow> Extra doc \<noteq> fmempty"
  proof -
    have "fmlen (Extra doc) = 0 \<longleftrightarrow> fmdom (Extra doc) = {||}" by (simp add: fmlen_def fcard_0_eq)
    also have "\<dots> \<longleftrightarrow> Extra doc = fmempty" by (metis fmdom_empty fmrestrict_fset_dom fmrestrict_fset_null)
    finally show ?thesis by (simp flip: neq0_conv)
  qed
  have p: "fmlookup (put_string a v m) x = (if v \<noteq> '''' \<and> x = a then Some (IString v) else fmlookup m x)" for a v m x
    by (simp add: put_string_def)
  show ?thesis unfolding inspect_map_def Let_def e by (simp add: p docHasField_def)
qed

end
