(* ===== verification/Pool.thy ===== *)
theory Pool
  imports Prelude
begin

text \<open>
  Goroutines that share state. What a goroutine does to the state is a sequence of atomic actions (the
  bodies of critical sections, calls of components that lock themselves); a pool of such sequences
  runs under an arbitrary schedule, with steps of anything else in between. A ghost value can
  accompany each goroutine along its actions, and the locale \<open>pool_invariant\<close> ties the ghosts of
  the pool to the shared state.
\<close>

section \<open>Sequences of atomic actions\<close>

text \<open>
  An action changes the state and continues with what the state it found decides; the end of a
  sequence is its answer.
\<close>

datatype ('st, 'r) act = Ret 'r | Act "'st \<Rightarrow> ('st, 'r) act" "'st \<Rightarrow> 'st"

primrec run :: "('st, 'r) act \<Rightarrow> 'st \<Rightarrow> 'r \<times> 'st" where
  "run (Ret r) = (\<lambda>s. (r, s))"
| "run (Act nxt eff) = (\<lambda>s. run (nxt s) (eff s))"

definition atomically :: "('st \<Rightarrow> 'a \<times> 'st) \<Rightarrow> ('a \<Rightarrow> ('st, 'r) act) \<Rightarrow> ('st, 'r) act" where
  "atomically f k = Act (\<lambda>s. k (fst (f s))) (\<lambda>s. snd (f s))"

lemma run_atomically [simp]: "run (atomically f k) s = (let (a, s') = f s in run (k a) s')"
  by (simp add: atomically_def case_prod_unfold Let_def)

fun advance :: "('st, 'r) act \<Rightarrow> 'st \<Rightarrow> ('st, 'r) act \<times> 'st" where
  "advance (Ret r) s = (Ret r, s)"
| "advance (Act nxt eff) s = (nxt s, eff s)"

fun answer :: "('st, 'r) act \<Rightarrow> 'r option" where
  "answer (Ret r) = Some r"
| "answer (Act nxt eff) = None"

lemma answer_Some [simp]: "answer act = Some r \<longleftrightarrow> act = Ret r"
  by (cases act) auto

lemma answer_None: "answer act = None \<longleftrightarrow> (\<forall>r. act \<noteq> Ret r)"
  by (cases act) auto

section \<open>The pool\<close>

text \<open>
  A thread is what it was begun with and what is left of it. A turn of the schedule begins a thread,
  lets a thread perform its next action, or is a step of something else.
\<close>

datatype ('c, 'e) move = Begin 'c | Step nat | Other 'e

fun pool_step :: "('c \<Rightarrow> ('st, 'r) act) \<Rightarrow> ('e \<Rightarrow> 'st \<Rightarrow> 'st) \<Rightarrow> ('c, 'e) move
    \<Rightarrow> ('c \<times> ('st, 'r) act) list \<times> 'st \<Rightarrow> ('c \<times> ('st, 'r) act) list \<times> 'st" where
  "pool_step spawn other (Begin c) (pool, s) = (pool @ [(c, spawn c)], s)"
| "pool_step spawn other (Step i) (pool, s) =
     (if i < length pool then
        (let (c, act) = pool ! i; (act', s') = advance act s in (pool[i := (c, act')], s'))
      else (pool, s))"
| "pool_step spawn other (Other e) (pool, s) = (pool, other e s)"

definition run_pool :: "('c \<Rightarrow> ('st, 'r) act) \<Rightarrow> ('e \<Rightarrow> 'st \<Rightarrow> 'st) \<Rightarrow> ('c, 'e) move list
    \<Rightarrow> ('c \<times> ('st, 'r) act) list \<times> 'st \<Rightarrow> ('c \<times> ('st, 'r) act) list \<times> 'st" where
  "run_pool spawn other = fold (pool_step spawn other)"

text \<open>A condition on every turn of a schedule and the configuration after it.\<close>

fun always :: "(('c, 'e) move \<Rightarrow> ('c \<times> ('st, 'r) act) list \<times> 'st \<Rightarrow> bool)
    \<Rightarrow> ('c \<Rightarrow> ('st, 'r) act) \<Rightarrow> ('e \<Rightarrow> 'st \<Rightarrow> 'st) \<Rightarrow> ('c, 'e) move list
    \<Rightarrow> ('c \<times> ('st, 'r) act) list \<times> 'st \<Rightarrow> bool" where
  "always P spawn other [] conf = True"
| "always P spawn other (t # ts) conf =
     (P t (pool_step spawn other t conf) \<and> always P spawn other ts (pool_step spawn other t conf))"

text \<open>What a schedule begins.\<close>

fun begun :: "('c, 'e) move list \<Rightarrow> 'c list" where
  "begun [] = []"
| "begun (Begin c # ts) = c # begun ts"
| "begun (_ # ts) = begun ts"

definition in_flight :: "('c \<times> ('st, 'r) act) list \<Rightarrow> nat" where
  "in_flight pool = length (filter (\<lambda>(c, act). answer act = None) pool)"

fun steps_of :: "nat \<Rightarrow> ('c, 'e) move list \<Rightarrow> nat" where
  "steps_of i [] = 0"
| "steps_of i (Step j # ts) = (if j = i then Suc (steps_of i ts) else steps_of i ts)"
| "steps_of i (t # ts) = steps_of i ts"

lemma run_pool_Nil [simp]: "run_pool spawn other [] conf = conf"
  by (simp add: run_pool_def)

lemma run_pool_Cons: "run_pool spawn other (t # ts) conf = run_pool spawn other ts (pool_step spawn other t conf)"
  by (simp add: run_pool_def)

lemma run_pool_append: "run_pool spawn other (xs @ ys) conf = run_pool spawn other ys (run_pool spawn other xs conf)"
  by (simp add: run_pool_def)

lemma always_True [simp]: "always (\<lambda>t c. True) spawn other ts conf"
  by (induction ts arbitrary: conf) simp_all

lemma always_begun:
  assumes "\<forall>c \<in> set (begun ts). \<forall>conf. P (Begin c) conf" and "\<And>i conf. P (Step i) conf" and "\<And>e conf. P (Other e) conf"
  shows "always P spawn other ts conf"
  using assms(1)
proof (induction ts arbitrary: conf)
  case (Cons t ts)
  then show ?case by (cases t) (simp_all add: assms(2,3) del: split_paired_All)
qed simp

lemma always_append:
  "always P spawn other (xs @ ys) conf \<longleftrightarrow>
    always P spawn other xs conf \<and> always P spawn other ys (run_pool spawn other xs conf)"
  by (induction xs arbitrary: conf) (simp_all add: run_pool_Cons)

lemma pool_step_last:
  "pool_step spawn other (Step (length p)) (p @ [(c, act)], s) =
    (p @ [(c, fst (advance act s))], snd (advance act s))"
  by (simp add: case_prod_unfold Let_def)

section \<open>Threads in flight\<close>

lemma in_flight_simps [simp]:
  "in_flight (xs @ ys) = in_flight xs + in_flight ys"
  "in_flight [] = 0" "in_flight [(c, Ret r)] = 0"
  by (simp_all add: in_flight_def)

lemma in_flight_le: "in_flight xs \<le> length xs"
  by (simp add: in_flight_def)

lemma in_flight_update:
  "i < length pool \<Longrightarrow> pool ! i = (c, act) \<Longrightarrow> (answer act \<noteq> None \<Longrightarrow> answer act' \<noteq> None)
    \<Longrightarrow> in_flight (pool[i := (c, act')]) \<le> in_flight pool"
proof (induction pool arbitrary: i)
  case Nil
  then show ?case by simp
next
  case (Cons x pool)
  then show ?case by (cases i) (auto simp: in_flight_def)
qed

lemma step_in_flight: "in_flight (fst (pool_step spawn other (Step i) (pool, s))) \<le> in_flight pool"
proof (cases "i < length pool")
  case True
  obtain c act where c: "pool ! i = (c, act)" by fastforce
  have "answer act \<noteq> None \<Longrightarrow> answer (fst (advance act s)) \<noteq> None" by (cases act) auto
  then show ?thesis using in_flight_update [OF True c] True c by (simp add: case_prod_unfold Let_def)
qed simp

section \<open>Threads that end\<close>

text \<open>At most \<open>n\<close> actions remain.\<close>

primrec ends_by :: "('st, 'r) act \<Rightarrow> nat \<Rightarrow> bool" where
  "ends_by (Ret r) = (\<lambda>n. True)"
| "ends_by (Act nxt eff) = (\<lambda>n. 0 < n \<and> (\<forall>s. ends_by (nxt s) (n - 1)))"

lemma ends_by_atomically [simp]:
  "ends_by (atomically f k) n \<longleftrightarrow> 0 < n \<and> (\<forall>s. ends_by (k (fst (f s))) (n - 1))"
  by (simp add: atomically_def)

lemma ends_by_0: "ends_by act 0 \<Longrightarrow> \<exists>r. act = Ret r"
  by (cases act) auto

lemma advance_ends_by: "ends_by act n \<Longrightarrow> ends_by (fst (advance act s)) (n - 1)"
  by (cases act) auto

lemma pool_step_thread:
  assumes "i < length pool" and "pool ! i = (c, act)" and "ends_by act n"
    and "pool_step spawn other t (pool, s) = (pool', s')"
  shows "i < length pool' \<and> (\<exists>act'. pool' ! i = (c, act') \<and> ends_by act' (n - steps_of i [t]))"
  using assms advance_ends_by [OF assms(3), of s]
  by (cases t) (auto simp: nth_append nth_list_update split: if_splits prod.splits)

lemma run_pool_thread:
  assumes "i < length pool" and "pool ! i = (c, act)" and "ends_by act n"
    and "run_pool spawn other ts (pool, s) = (pool', s')"
  shows "i < length pool' \<and> (\<exists>act'. pool' ! i = (c, act') \<and> ends_by act' (n - steps_of i ts))"
  using assms
proof (induction ts arbitrary: pool s act n)
  case Nil
  then show ?case by auto
next
  case (Cons t ts)
  obtain p1 s1 where t: "pool_step spawn other t (pool, s) = (p1, s1)" by fastforce
  then have "run_pool spawn other ts (p1, s1) = (pool', s')" using Cons.prems(4) by (simp add: run_pool_Cons)
  moreover obtain act1 where "i < length p1" "p1 ! i = (c, act1)" "ends_by act1 (n - steps_of i [t])"
    using pool_step_thread [OF Cons.prems(1-3) t] by auto
  moreover have "n - steps_of i [t] - steps_of i ts = n - steps_of i (t # ts)"
    by (cases t) auto
  ultimately show ?case using Cons.IH by metis
qed

text \<open>A thread that is alone runs to its end.\<close>

lemma run_alone:
  "i < length pool \<Longrightarrow> pool ! i = (c, act) \<Longrightarrow>
    \<exists>n. run_pool spawn other (replicate n (Step i)) (pool, s) =
      (pool[i := (c, Ret (fst (run act s)))], snd (run act s))"
proof (induction act arbitrary: pool s)
  case (Ret r)
  then have "pool[i := (c, Ret r)] = pool" by (metis list_update_id)
  then show ?case by (intro exI [of _ 0]) simp
next
  case (Act nxt eff)
  then obtain n where "run_pool spawn other (replicate n (Step i)) (pool[i := (c, nxt s)], eff s) =
      (pool[i := (c, Ret (fst (run (nxt s) (eff s))))], snd (run (nxt s) (eff s)))"
    using Act.IH [of "nxt s" "pool[i := (c, nxt s)]" "eff s"] by auto
  then show ?case using Act.prems by (intro exI [of _ "Suc n"]) (simp add: run_pool_Cons)
qed

section \<open>Ghost values along a sequence of actions\<close>

text \<open>
  \<open>along I R F act q\<close>: starting with the ghost \<open>q\<close>, in whatever states satisfying \<open>I\<close> the actions of
  \<open>act\<close> happen, a ghost can be chosen after each action so that \<open>R\<close> relates the states and ghosts
  around it, and \<open>F\<close> holds of the last ghost and the answer.
\<close>

primrec along :: "('st \<Rightarrow> bool) \<Rightarrow> ('st \<Rightarrow> 'q \<Rightarrow> 'st \<Rightarrow> 'q \<Rightarrow> bool) \<Rightarrow> ('q \<Rightarrow> 'r \<Rightarrow> bool) \<Rightarrow> ('st, 'r) act
    \<Rightarrow> 'q \<Rightarrow> bool" where
  "along I R F (Ret r) = (\<lambda>q. F q r)"
| "along I R F (Act nxt eff) = (\<lambda>q. \<forall>s. I s \<longrightarrow> (\<exists>q'. R s q (eff s) q' \<and> along I R F (nxt s) q'))"

lemma along_atomically:
  "along I R F (atomically f k) q \<longleftrightarrow>
    (\<forall>s. I s \<longrightarrow> (\<exists>q'. R s q (snd (f s)) q' \<and> along I R F (k (fst (f s))) q'))"
  by (simp add: atomically_def)

text \<open>An action that keeps the ghost.\<close>

lemma along_same:
  assumes "\<And>s. I s \<Longrightarrow> R s q (snd (f s)) q" and "\<And>a. along I R F (k a) q"
  shows "along I R F (atomically f k) q"
  using assms by (auto simp: along_atomically)

section \<open>An invariant of the pool\<close>

locale pool_invariant =
  fixes spawn :: "'c \<Rightarrow> ('st, 'r) act"
    and other :: "'e \<Rightarrow> 'st \<Rightarrow> 'st"
    and I :: "'st \<Rightarrow> bool"
    and R :: "'st \<Rightarrow> 'q \<Rightarrow> 'st \<Rightarrow> 'q \<Rightarrow> bool"
    and F :: "'c \<Rightarrow> 'q \<Rightarrow> 'r \<Rightarrow> bool"
    and start :: "'c \<Rightarrow> 'q"
    and allowed :: "('c, 'e) move \<Rightarrow> ('c \<times> ('st, 'r) act) list \<times> 'st \<Rightarrow> bool"
    and G :: "('c \<times> ('st, 'r) act) list \<Rightarrow> 'q list \<Rightarrow> 'st \<Rightarrow> bool"
  assumes call: "allowed (Begin c) conf \<Longrightarrow> along I R (F c) (spawn c) (start c)"
    and holds: "G pool qs s \<Longrightarrow> I s"
    and begin_inv: "G pool qs s \<Longrightarrow> length qs = length pool \<Longrightarrow> allowed (Begin c) (pool @ [(c, spawn c)], s)
      \<Longrightarrow> G (pool @ [(c, spawn c)]) (qs @ [start c]) s"
    and step_inv: "G pool qs s \<Longrightarrow> length qs = length pool \<Longrightarrow> i < length pool
      \<Longrightarrow> pool ! i = (c, Act nxt eff) \<Longrightarrow> R s (qs ! i) (eff s) q \<Longrightarrow> along I R (F c) (nxt s) q
      \<Longrightarrow> allowed (Step i) (pool[i := (c, nxt s)], eff s)
      \<Longrightarrow> G (pool[i := (c, nxt s)]) (qs[i := q]) (eff s)"
    and other_inv: "G pool qs s \<Longrightarrow> length qs = length pool \<Longrightarrow> allowed (Other e) (pool, other e s)
      \<Longrightarrow> G pool qs (other e s)"
begin

definition aligned :: "('c \<times> ('st, 'r) act) list \<Rightarrow> 'q list \<Rightarrow> bool" where
  "aligned pool qs \<longleftrightarrow> length qs = length pool \<and>
     (\<forall>i<length pool. along I R (F (fst (pool ! i))) (snd (pool ! i)) (qs ! i))"

lemma turn_inv:
  assumes al: "aligned pool qs" and G: "G pool qs s" and ok: "allowed t (pool_step spawn other t (pool, s))"
  shows "\<exists>qs'. aligned (fst (pool_step spawn other t (pool, s))) qs' \<and>
    G (fst (pool_step spawn other t (pool, s))) qs' (snd (pool_step spawn other t (pool, s)))"
proof -
  have len: "length qs = length pool" using al by (simp add: aligned_def)
  show ?thesis
  proof (cases t)
    case (Begin c)
    then have "aligned (pool @ [(c, spawn c)]) (qs @ [start c])"
      using al ok call by (auto simp: aligned_def nth_append less_Suc_eq)
    then show ?thesis using begin_inv [OF G len] Begin ok by auto
  next
    case (Step i)
    show ?thesis
    proof (cases "i < length pool")
      case True
      obtain c act where c: "pool ! i = (c, act)" by fastforce
      show ?thesis
      proof (cases act)
        case (Ret r)
        then have "pool[i := (c, Ret r)] = pool" using c True by (metis list_update_id)
        then show ?thesis using Step True c Ret al G by auto
      next
        case (Act nxt eff)
        then have "along I R (F c) (Act nxt eff) (qs ! i)" using al True c by (auto simp: aligned_def)
        then obtain q where q: "R s (qs ! i) (eff s) q" "along I R (F c) (nxt s) q" using holds [OF G] by auto
        have "aligned (pool[i := (c, nxt s)]) (qs[i := q])"
          using al q(2) True by (auto simp: aligned_def nth_list_update)
        moreover have "G (pool[i := (c, nxt s)]) (qs[i := q]) (eff s)"
          by (rule step_inv [where nxt = nxt and eff = eff and q = q])
            (use G len True c Act q Step ok in simp_all)
        ultimately show ?thesis using c Act Step True by auto
      qed
    next
      case False
      then show ?thesis using Step al G by auto
    qed
  next
    case (Other e)
    then show ?thesis using al other_inv [OF G len] ok by auto
  qed
qed

lemma turns_inv:
  assumes "aligned pool qs" and "G pool qs s" and "always allowed spawn other ts (pool, s)"
    and "run_pool spawn other ts (pool, s) = (pool', s')"
  shows "\<exists>qs'. aligned pool' qs' \<and> G pool' qs' s'"
  using assms
proof (induction ts arbitrary: pool qs s)
  case Nil
  then show ?case by auto
next
  case (Cons t ts)
  obtain p1 s1 where t: "pool_step spawn other t (pool, s) = (p1, s1)" by fastforce
  obtain qs1 where "aligned p1 qs1" "G p1 qs1 s1"
    using turn_inv [OF Cons.prems(1,2), of t] Cons.prems(3) t by auto
  then show ?case using Cons.IH Cons.prems(3,4) t by (auto simp: run_pool_Cons)
qed

lemma from_start:
  assumes "G [] [] s" and "always allowed spawn other ts ([], s)"
    and "run_pool spawn other ts ([], s) = (pool', s')"
  shows "\<exists>qs'. aligned pool' qs' \<and> G pool' qs' s'"
  by (rule turns_inv [OF _ assms]) (simp add: aligned_def)

end

end
