(* ===== verification/Interleave.thy ===== *)
theory Interleave
  imports ToolFacts Pool
begin

text \<open>
  Tool calls that run at the same time. Each call runs in a goroutine of its own; what its handler
  does to the shared state is a sequence of calls of components, each of which holds its own mutex
  (the pending map, the limiter, the transport, the logger). Here a handler is such a sequence of
  atomic actions, and a gateway runs a pool of them under an arbitrary schedule, with the clean-up
  of the pending map in between. Run without interruption, a sequence is the handler of \<open>Tools\<close>.
\<close>

section \<open>The actions of a gateway\<close>

text \<open>Actions on the limiter, the network, the log and the pending map.\<close>

definition on_lim :: "('lim \<Rightarrow> 'a \<times> 'lim) \<Rightarrow> ('a \<Rightarrow> (('lim, 'log, 'net) gw_state, 'r) act)
    \<Rightarrow> (('lim, 'log, 'net) gw_state, 'r) act" where
  "on_lim f = atomically (\<lambda>s. let (a, l) = f (lim s) in (a, s\<lparr>lim := l\<rparr>))"

definition on_net :: "('net \<Rightarrow> 'a \<times> 'net) \<Rightarrow> ('a \<Rightarrow> (('lim, 'log, 'net) gw_state, 'r) act)
    \<Rightarrow> (('lim, 'log, 'net) gw_state, 'r) act" where
  "on_net f = atomically (\<lambda>s. let (a, n) = f (net s) in (a, s\<lparr>net := n\<rparr>))"

definition log_entry :: "'log MessageLogger \<Rightarrow> MessageLogEntry \<Rightarrow> (('lim, 'log, 'net) gw_state, 'r) act
    \<Rightarrow> (('lim, 'log, 'net) gw_state, 'r) act" where
  "log_entry lg e k = atomically (\<lambda>s. ((), s\<lparr>logs := Log lg e (logs s)\<rparr>)) (\<lambda>u. k)"

definition count_pending :: "string \<Rightarrow> (nat \<Rightarrow> (('lim, 'log, 'net) gw_state, 'r) act)
    \<Rightarrow> (('lim, 'log, 'net) gw_state, 'r) act" where
  "count_pending agent = atomically (\<lambda>s. (CountByAgent agent (pending s), s))"

definition store_token :: "time \<Rightarrow> string \<Rightarrow> string \<Rightarrow> string \<Rightarrow> (('lim, 'log, 'net) gw_state, 'r) act
    \<Rightarrow> (('lim, 'log, 'net) gw_state, 'r) act" where
  "store_token t taskID tp mid k =
     atomically (\<lambda>s. ((), s\<lparr>pending := Store t taskID tp mid (pending s)\<rparr>)) (\<lambda>u. k)"

definition take_token :: "string \<Rightarrow> ((string \<times> string) option \<Rightarrow> (('lim, 'log, 'net) gw_state, 'r) act)
    \<Rightarrow> (('lim, 'log, 'net) gw_state, 'r) act" where
  "take_token taskID =
     atomically (\<lambda>s. let (tok, p) = LoadAndDelete taskID (pending s) in (tok, s\<lparr>pending := p\<rparr>))"

lemma run_actions [simp]:
  "run (on_lim fl k1) st = (let (a, l) = fl (lim st) in run (k1 a) (st\<lparr>lim := l\<rparr>))"
  "run (on_net fn k2) st = (let (a, n) = fn (net st) in run (k2 a) (st\<lparr>net := n\<rparr>))"
  "run (log_entry lg e k3) st = run k3 (st\<lparr>logs := Log lg e (logs st)\<rparr>)"
  "run (count_pending agent k4) st = run (k4 (CountByAgent agent (pending st))) st"
  "run (store_token t taskID tp mid k3) st = run k3 (st\<lparr>pending := Store t taskID tp mid (pending st)\<rparr>)"
  "run (take_token taskID k5) st =
     (let (tok, p) = LoadAndDelete taskID (pending st) in run (k5 tok) (st\<lparr>pending := p\<rparr>))"
  by (simp_all add: atomically_def on_lim_def on_net_def log_entry_def count_pending_def store_token_def
      take_token_def case_prod_unfold Let_def)

section \<open>The handlers\<close>

type_synonym ('lim, 'log, 'net) handler_act = "(('lim, 'log, 'net) gw_state, gw_error + tool_out) act"

text \<open>The checks at the head of a handler, which touch no shared state of the gateway.\<close>

definition guarded :: "('w, 'lim, 'log, 'net, 'ch) Gateway \<Rightarrow> ('w, 'a, 'j, 'c, 's) call_env \<Rightarrow> string \<Rightarrow> string
    \<Rightarrow> ('lim, 'log, 'net) handler_act \<Rightarrow> ('lim, 'log, 'net) handler_act" where
  "guarded g env agent apiKey k =
     (if \<not> IsValidAgentID agent then Ret (Inl (InvalidAgentID agent))
      else case authenticateAgent (auth g) (world env) agent apiKey of
        Some err \<Rightarrow> Ret (Inl (AuthError err))
      | None \<Rightarrow> k)"

definition permitted_to :: "('w, 'lim, 'log, 'net, 'ch) Gateway \<Rightarrow> ('w, 'a, 'j, 'c, 's) call_env \<Rightarrow> string \<Rightarrow> string
    \<Rightarrow> ('lim, 'log, 'net) handler_act \<Rightarrow> ('lim, 'log, 'net) handler_act" where
  "permitted_to g env agent target k =
     (case Allowed (enforcer g) (world env) agent target of
        Inl err \<Rightarrow> Ret (Inl (PolicyCheck err))
      | Inr allowed \<Rightarrow> if \<not> allowed then Ret (Inl (NotAllowed agent)) else k)"

definition get_task_act :: "('w, 'lim, 'log, 'net, 'ch) Gateway \<Rightarrow> ('w, 'a, 'j, 'c, 's) call_env
    \<Rightarrow> getTaskIn \<Rightarrow> ('lim, 'log, 'net) handler_act" where
  "get_task_act g env i =
     (let (agent, apiKey) = applyDefaults (cfg g) (gt_Agent i) (gt_APIKey i); topic = ''agent.tasks.'' @ agent
      in guarded g env agent apiKey (permitted_to g env agent PolicyTargetOrchestrator (
         count_pending agent (\<lambda>n.
         on_lim (CheckPendingTasks (limiter g) (world env) (clk1 env) agent (int n)) (\<lambda>limErr.
         case limErr of Some err \<Rightarrow> Ret (Inl (LimitError err)) | None \<Rightarrow>
         on_net (Subscribe (trans g) topic) (\<lambda>sub.
         case sub of Inl err \<Rightarrow> Ret (Inl (SubscribeError topic err)) | Inr ch \<Rightarrow>
         on_net (Receive (trans g) ch) (\<lambda>outcome.
         case outcome of
           ChannelClosed \<Rightarrow> Ret (Inr (OutGetTask no_task))
         | TimedOut \<Rightarrow> Ret (Inr (OutGetTask no_task))
         | Delivered delivery \<Rightarrow>
             store_token (now env) (MsgID delivery) topic (MsgID delivery) (
             log_entry (logger g) (receipt_entry (Doc delivery) agent ''get_task'') (
             Ret (Inr (OutGetTask \<lparr>TaskID = MsgID delivery, TaskBody = Body (Doc delivery)\<rparr>)))))))))))"

text \<open>The common course of \<open>complete_task\<close> and \<open>fail_task\<close>.\<close>

definition report_act :: "('w, 'lim, 'log, 'net, 'ch) Gateway \<Rightarrow> ('w, 'a, 'j, 'c, 's) call_env
    \<Rightarrow> string \<times> string \<Rightarrow> string \<Rightarrow> string \<Rightarrow> MessageType \<Rightarrow> string \<Rightarrow> string \<Rightarrow> string \<Rightarrow> tool_out
    \<Rightarrow> ('lim, 'log, 'net) handler_act" where
  "report_act g env caller_key taskID body mt step_name dest tool ok =
     (let (agent, apiKey) = caller_key
      in guarded g env agent apiKey (permitted_to g env agent PolicyTargetOrchestrator (
         if int (length body) > MaxDocumentBytes then Ret (Inl BodyTooLarge)
         else on_lim (CheckSend (limiter g) (world env) (clk1 env) agent (int (length body))) (\<lambda>limErr.
         case limErr of Some err \<Rightarrow> Ret (Inl (LimitError err)) | None \<Rightarrow>
         take_token taskID (\<lambda>token.
         case token of None \<Rightarrow> Ret (Inl (UnknownTaskID taskID)) | Some (tp, mid) \<Rightarrow>
         (case Build (doclib env) (docValidator env) (created env)
                 (task_report mt step_name (uuid env) (AgentID (cfg g)) agent taskID body) of
            Inl err \<Rightarrow> Ret (Inl (BuildDoc err))
          | Inr doc \<Rightarrow>
         on_lim (GetStreamMaxLen (limiter g) (world env) (clk2 env) agent) (\<lambda>maxLen.
         on_net (Publish (trans g) dest doc [\<lparr>MaxLen = maxLen\<rparr>]) (\<lambda>pubErr.
         case pubErr of Some err \<Rightarrow> Ret (Inl (PublishError err)) | None \<Rightarrow>
         on_lim (\<lambda>l. ((), RecordSend (limiter g) agent l)) (\<lambda>u.
         on_net (Ack (trans g) tp mid) (\<lambda>ackErr.
         case ackErr of Some err \<Rightarrow> Ret (Inl (AckError err)) | None \<Rightarrow>
         log_entry (logger g)
           \<lparr>EnvelopeID = ID doc, LE_ThreadID = ThreadID doc, FromAgent = agent,
            ToAgent = PolicyTargetOrchestrator, MsgType = mt, LE_Direction = ''send'', ToolName = tool,
            BodySize = int (length body), LE_Body = body\<rparr> (Ret (Inr ok))))))))))))"

definition send_act :: "('w, 'lim, 'log, 'net, 'ch) Gateway \<Rightarrow> ('w, 'a, 'j, 'c, 's) call_env
    \<Rightarrow> sendMessageIn \<Rightarrow> ('lim, 'log, 'net) handler_act" where
  "send_act g env i =
     (let (agent, apiKey) = applyDefaults (cfg g) (sm_Agent i) (sm_APIKey i)
      in if \<not> IsValidAgentID agent then Ret (Inl (InvalidAgentID agent))
         else if \<not> IsValidAgentID (sm_To i) then Ret (Inl (InvalidRecipientID (sm_To i)))
         else guarded g env agent apiKey (permitted_to g env agent (sm_To i) (
         if int (length (sm_Body i)) > MaxDocumentBytes then Ret (Inl BodyTooLarge)
         else on_lim (CheckSend (limiter g) (world env) (clk1 env) agent (int (length (sm_Body i)))) (\<lambda>limErr.
         case limErr of Some err \<Rightarrow> Ret (Inl (LimitError err)) | None \<Rightarrow>
         (case Build (doclib env) (docValidator env) (created env)
                 (message_builder (uuid env) agent (sm_To i) (sm_Body i)) of
            Inl err \<Rightarrow> Ret (Inl (BuildDoc err))
          | Inr doc \<Rightarrow>
         on_lim (GetStreamMaxLen (limiter g) (world env) (clk2 env) (sm_To i)) (\<lambda>maxLen.
         on_net (Publish (trans g) (''agent.messages.'' @ sm_To i) doc [\<lparr>MaxLen = maxLen\<rparr>]) (\<lambda>pubErr.
         case pubErr of Some err \<Rightarrow> Ret (Inl (PublishError err)) | None \<Rightarrow>
         on_lim (\<lambda>l. ((), RecordSend (limiter g) agent l)) (\<lambda>u.
         log_entry (logger g)
           \<lparr>EnvelopeID = ID doc, LE_ThreadID = ThreadID doc, FromAgent = agent, ToAgent = sm_To i,
            MsgType = AgentMessage, LE_Direction = ''send'', ToolName = ''send_message'',
            BodySize = int (length (sm_Body i)), LE_Body = sm_Body i\<rparr>
           (Ret (Inr (OutSendMessage \<lparr>sm_Status = ''ok''\<rparr>)))))))))))"

definition receive_act :: "('w, 'lim, 'log, 'net, 'ch) Gateway \<Rightarrow> ('w, 'a, 'j, 'c, 's) call_env
    \<Rightarrow> receiveMessageIn \<Rightarrow> ('lim, 'log, 'net) handler_act" where
  "receive_act g env i =
     (let (agent, apiKey) = applyDefaults (cfg g) (rm_Agent i) (rm_APIKey i); topic = ''agent.messages.'' @ agent
      in guarded g env agent apiKey (permitted_to g env agent PolicyTargetOrchestrator (
         on_net (Subscribe (trans g) topic) (\<lambda>sub.
         case sub of Inl err \<Rightarrow> Ret (Inl (SubscribeError topic err)) | Inr ch \<Rightarrow>
         on_net (Receive (trans g) ch) (\<lambda>outcome.
         case outcome of
           ChannelClosed \<Rightarrow> Ret (Inr (OutReceiveMessage no_message))
         | TimedOut \<Rightarrow> Ret (Inr (OutReceiveMessage no_message))
         | Delivered delivery \<Rightarrow>
             on_net (Ack (trans g) topic (MsgID delivery)) (\<lambda>ackErr.
             case ackErr of Some err \<Rightarrow> Ret (Inl (AckError err)) | None \<Rightarrow>
             if int (length (Body (Doc delivery))) > MaxDocumentBytes then Ret (Inl BodyTooLarge)
             else log_entry (logger g) (receipt_entry (Doc delivery) agent ''receive_message'') (
               Ret (Inr (OutReceiveMessage \<lparr>MsgFrom = From (Doc delivery), MsgBody = Body (Doc delivery)\<rparr>)))))))))"

definition my_limits_act :: "('w, 'lim, 'log, 'net, 'ch) Gateway \<Rightarrow> ('w, 'a, 'j, 'c, 's) call_env
    \<Rightarrow> getMyLimitsIn \<Rightarrow> ('lim, 'log, 'net) handler_act" where
  "my_limits_act g env i =
     (let (agent, apiKey) = applyDefaults (cfg g) (gl_Agent i) (gl_APIKey i)
      in guarded g env agent apiKey (
         on_lim (GetEffectiveLimits (limiter g) (world env) (clk1 env) agent) (\<lambda>r.
         case r of
           Inl err \<Rightarrow> Ret (Inl (GetLimitsError err))
         | Inr info \<Rightarrow>
             Ret (Inr (OutGetMyLimits \<lparr>O_MaxBodyBytes = I_MaxBodyBytes info, O_MaxSendPerMin = I_MaxSendPerMin info,
               O_MaxPendingTasks = I_MaxPendingTasks info, O_MaxStreamLen = I_MaxStreamLen info\<rparr>)))))"

text \<open>\<open>heartbeat\<close> and \<open>get_my_policies\<close> touch no shared state: their handlers answer at once.\<close>

definition heartbeat_act :: "('w, 'lim, 'log, 'net, 'ch) Gateway \<Rightarrow> ('w, 'a, 'j, 'c, 's) call_env
    \<Rightarrow> heartbeatIn \<Rightarrow> ('lim, 'log, 'net) handler_act" where
  "heartbeat_act g env i =
     (let (agent, apiKey) = applyDefaults (cfg g) (hb_Agent i) (hb_APIKey i);
          ok = Ret (Inr (OutHeartbeat \<lparr>hb_Status = ''ok''\<rparr>))
      in if auth g \<noteq> None \<and> agent = '''' then Ret (Inl AgentRequired)
         else if agent \<noteq> '''' then
           (case authenticateAgent (auth g) (world env) agent apiKey of
              Some err \<Rightarrow> Ret (Inl (AuthError err))
            | None \<Rightarrow> ok)
         else ok)"

definition my_policies_act :: "('w, 'lim, 'log, 'net, 'ch) Gateway \<Rightarrow> ('w, 'a, 'j, 'c, 's) call_env
    \<Rightarrow> getMyPoliciesIn \<Rightarrow> ('lim, 'log, 'net) handler_act" where
  "my_policies_act g env i =
     (let (agent, apiKey) = applyDefaults (cfg g) (gp_Agent i) (gp_APIKey i)
      in guarded g env agent apiKey (
         case PolicyQuerier (enforcer g) of
           None \<Rightarrow> Ret (Inr (OutGetMyPolicies \<lparr>Policies = []\<rparr>))
         | Some ListPoliciesFor \<Rightarrow>
         (case ListPoliciesFor (world env) agent of
            Inl err \<Rightarrow> Ret (Inl (ListPoliciesError err))
          | Inr policies \<Rightarrow> Ret (Inr (OutGetMyPolicies \<lparr>Policies = map policy_info policies\<rparr>)))))"

fun call_act :: "('w, 'lim, 'log, 'net, 'ch) Gateway \<Rightarrow> ('w, 'a, 'j, 'c, 's) call_env \<Rightarrow> tool_call
    \<Rightarrow> ('lim, 'log, 'net) handler_act" where
  "call_act g env (GetTask i) = get_task_act g env i"
| "call_act g env (CompleteTask i) =
     report_act g env (applyDefaults (cfg g) (ct_Agent i) (ct_APIKey i)) (ct_TaskID i) (Result i) TaskResult
       ''result'' ''agent.events.completed'' ''complete_task'' (OutCompleteTask \<lparr>ct_Status = ''ok''\<rparr>)"
| "call_act g env (FailTask i) =
     report_act g env (applyDefaults (cfg g) (ft_Agent i) (ft_APIKey i)) (ft_TaskID i) (ErrorBody i) TaskFail
       ''fail'' ''agent.events.failed'' ''fail_task'' (OutFailTask \<lparr>ft_Status = ''ok''\<rparr>)"
| "call_act g env (Heartbeat i) = heartbeat_act g env i"
| "call_act g env (SendMessage i) = send_act g env i"
| "call_act g env (ReceiveMessage i) = receive_act g env i"
| "call_act g env (GetMyLimits i) = my_limits_act g env i"
| "call_act g env (GetMyPolicies i) = my_policies_act g env i"

lemmas call_acts = get_task_act_def report_act_def send_act_def receive_act_def my_limits_act_def
  heartbeat_act_def my_policies_act_def guarded_def permitted_to_def

section \<open>The pool of calls in flight\<close>

text \<open>
  Between the actions of the calls the sweeper sweeps the pending map, and anything else happens:
  another goroutine, gateway or process changes the limiter, the log or the network in any way. Only
  the pending map belongs to the gateway's calls and its sweeper alone.
\<close>

datatype ('lim, 'log, 'net) gw_event = Sweep time | Others 'lim 'log 'net

fun gw_other :: "('w, 'lim, 'log, 'net, 'ch) Gateway \<Rightarrow> ('lim, 'log, 'net) gw_event
    \<Rightarrow> ('lim, 'log, 'net) gw_state \<Rightarrow> ('lim, 'log, 'net) gw_state" where
  "gw_other g (Sweep t) s = s\<lparr>pending := evict t (PendingTTL (cfg g)) (pending s)\<rparr>"
| "gw_other g (Others l lg n) s = s\<lparr>lim := l, logs := lg, net := n\<rparr>"

fun spawn_call :: "('w, 'lim, 'log, 'net, 'ch) Gateway \<Rightarrow> ('w, 'a, 'j, 'c, 's) call_env \<times> tool_call
    \<Rightarrow> ('lim, 'log, 'net) handler_act" where
  "spawn_call g (env, call) = call_act g env call"

type_synonym ('w, 'a, 'j, 'c, 's, 'lim, 'log, 'net) gw_turn =
  "(('w, 'a, 'j, 'c, 's) call_env \<times> tool_call, ('lim, 'log, 'net) gw_event) move"

abbreviation "turn_step g \<equiv> pool_step (spawn_call g) (gw_other g)"
abbreviation "run_turns g \<equiv> run_pool (spawn_call g) (gw_other g)"
abbreviation "throughout P g \<equiv> always P (spawn_call g) (gw_other g)"

section \<open>Uninterrupted, a sequence is the handler\<close>

lemma run_call_act: "run (call_act g env call) s = call_tool g env call s"
  by (cases call)
    (simp_all add: call_acts handlers task_report_def message_builder_def receipt_entry_def Let_def
      split: prod.split option.split sum.split received.split)

end
