(* ===== verification/InterleaveFacts.thy ===== *)
theory InterleaveFacts
  imports Interleave
begin

text \<open>
  What holds under every schedule of the calls in flight: the locale \<open>pool_invariant\<close> is interpreted
  twice, for the tokens that threads store and take, and for the permits to fetch one more task.
\<close>

section \<open>Ghosts along the actions of a gateway\<close>

text \<open>Actions that keep the ghost.\<close>

lemma along_on_lim:
  assumes "\<And>s. I s \<Longrightarrow> R s q (s\<lparr>lim := snd (fl (lim s))\<rparr>) q" and "\<And>a. along I R F (k a) q"
  shows "along I R F (on_lim fl k) q"
  unfolding on_lim_def by (rule along_same) (use assms in \<open>simp_all add: case_prod_unfold Let_def\<close>)

lemma along_on_net:
  assumes "\<And>s n. I s \<Longrightarrow> R s q (s\<lparr>net := n\<rparr>) q" and "\<And>a. along I R F (k a) q"
  shows "along I R F (on_net fn k) q"
  unfolding on_net_def by (rule along_same) (use assms in \<open>simp_all add: case_prod_unfold Let_def\<close>)

lemma along_log_entry:
  assumes "\<And>s l. I s \<Longrightarrow> R s q (s\<lparr>logs := l\<rparr>) q" and "along I R F k q"
  shows "along I R F (log_entry lg e k) q"
  unfolding log_entry_def by (rule along_same) (use assms in simp_all)

lemma along_guarded:
  assumes "\<And>e. F q (Inl e)" and "along I R F k q"
  shows "along I R F (guarded g env agent apiKey k) q"
  using assms by (auto simp: guarded_def split: option.split)

lemma along_permitted_to:
  assumes "\<And>e. F q (Inl e)" and "along I R F k q"
  shows "along I R F (permitted_to g env agent target k) q"
  using assms by (auto simp: permitted_to_def split: sum.split)

lemmas along_intros = along_on_lim along_on_net along_log_entry along_guarded along_permitted_to

section \<open>Tokens stored and taken\<close>

text \<open>
  The ghost of a thread: how often it stored and how often it took the token of \<open>k\<close>. \<open>held\<close> tells
  whether the map holds the token.
\<close>

definition held :: "string \<Rightarrow> ('lim, 'log, 'net) gw_state \<Rightarrow> nat" where
  "held k s = (if Load k (pending s) = None then 0 else 1)"

definition token_rel :: "string \<Rightarrow> ('lim, 'log, 'net) gw_state \<Rightarrow> nat \<times> nat \<Rightarrow> ('lim, 'log, 'net) gw_state
    \<Rightarrow> nat \<times> nat \<Rightarrow> bool" where
  "token_rel k s q s' q' \<longleftrightarrow> held k s' + snd q' + fst q \<le> held k s + snd q + fst q'"

definition token_end :: "string \<Rightarrow> tool_call \<Rightarrow> nat \<times> nat \<Rightarrow> gw_error + tool_out \<Rightarrow> bool" where
  "token_end k call q r \<longleftrightarrow> fst q \<le> (if delivered k r then 1 else 0) \<and> (reported k call r \<longrightarrow> 1 \<le> snd q)"

lemma held_same [simp]:
  "held k (s\<lparr>lim := l\<rparr>) = held k s" "held k (s\<lparr>net := n\<rparr>) = held k s" "held k (s\<lparr>logs := lg\<rparr>) = held k s"
  by (simp_all add: held_def)

lemma held_evict: "held k (s\<lparr>pending := evict t ttl (pending s)\<rparr>) \<le> held k s"
  by (simp add: held_def Load_def fmlookup_evict split: option.split)

lemma token_rel_refl [simp]: "held k s' = held k s \<Longrightarrow> token_rel k s q s' q"
  by (simp add: token_rel_def)

lemma along_count_pending:
  assumes "\<And>n. along (\<lambda>s. True) (token_rel k) F (c n) q" shows "along (\<lambda>s. True) (token_rel k) F (count_pending agent c) q"
  unfolding count_pending_def by (rule along_same) (use assms in simp_all)

lemma along_store_token:
  assumes "along (\<lambda>s. True) (token_rel k) F c (fst q + (if taskID = k then 1 else 0), snd q)"
  shows "along (\<lambda>s. True) (token_rel k) F (store_token t taskID tp mid c) q"
  unfolding store_token_def along_atomically
  using assms by (intro allI impI exI [of _ "(fst q + (if taskID = k then 1 else 0), snd q)"])
    (auto simp: token_rel_def held_def Load_def Store_def)

lemma along_take_token:
  assumes "along (\<lambda>s. True) (token_rel k) F (c None) q"
    and "\<And>tp mid. along (\<lambda>s. True) (token_rel k) F (c (Some (tp, mid))) (fst q, snd q + (if taskID = k then 1 else 0))"
  shows "along (\<lambda>s. True) (token_rel k) F (take_token taskID c) q"
  unfolding take_token_def along_atomically
proof (intro allI impI)
  fix s :: "('a, 'b, 'c) gw_state"
  show "\<exists>q'. token_rel k s q (snd (let (tok, p) = LoadAndDelete taskID (pending s) in (tok, s\<lparr>pending := p\<rparr>))) q' \<and>
      along (\<lambda>s. True) (token_rel k) F (c (fst (let (tok, p) = LoadAndDelete taskID (pending s) in (tok, s\<lparr>pending := p\<rparr>)))) q'"
  proof (cases "fmlookup (pending s) taskID")
    case None
    then show ?thesis using assms(1) by (intro exI [of _ q]) (simp add: LoadAndDelete_def)
  next
    case (Some e)
    then show ?thesis using assms(2)
      by (intro exI [of _ "(fst q, snd q + (if taskID = k then 1 else 0))"])
        (auto simp: LoadAndDelete_def token_rel_def held_def Load_def)
  qed
qed

lemma along_tokens: "along (\<lambda>s. True) (token_rel k) (token_end k call) (call_act g env call) (0, 0)"
  by (cases call)
    (auto simp: get_task_act_def report_act_def send_act_def receive_act_def my_limits_act_def
      heartbeat_act_def my_policies_act_def token_end_def no_task_def Let_def
      intro!: along_intros along_count_pending along_store_token along_take_token
      split: option.split sum.split received.split prod.split)

definition token_inv :: "string \<Rightarrow> nat \<Rightarrow> 'p \<Rightarrow> (nat \<times> nat) list \<Rightarrow> ('lim, 'log, 'net) gw_state \<Rightarrow> bool" where
  "token_inv k h pool qs s \<longleftrightarrow> held k s + sum_list (map snd qs) \<le> sum_list (map fst qs) + h"

lemma sum_list_update:
  "i < length xs \<Longrightarrow> sum_list (xs[i := x]) + xs ! i = sum_list xs + (x :: nat)"
  by (induction xs arbitrary: i) (auto split: nat.split)

interpretation tokens: pool_invariant "spawn_call g" "gw_other g" "\<lambda>s. True" "token_rel k" "\<lambda>c. token_end k (snd c)"
  "\<lambda>c. (0, 0)" "\<lambda>t c. True" "token_inv k h"
proof unfold_locales
  show "along (\<lambda>s. True) (token_rel k) (token_end k (snd c)) (spawn_call g c) (0, 0)" for c
    by (cases c) (simp add: along_tokens)
  fix pool :: "((('a, 'f, 'g, 'h, 'i) call_env \<times> tool_call) \<times> ('b, 'c, 'd) handler_act) list" and qs
    and s :: "('b, 'c, 'd) gw_state"
  assume G: "token_inv k h pool qs s" and len: "length qs = length pool"
  show "token_inv k h (pool @ [(c, spawn_call g c)]) (qs @ [(0, 0)]) s" for c
    using G by (simp add: token_inv_def)
  show "token_inv k h pool qs (gw_other g e s)" for e
  proof (cases e)
    case (Sweep t)
    then show ?thesis using G held_evict [of k t "PendingTTL (cfg g)" s] by (simp add: token_inv_def)
  next
    case (Others l lg n)
    then show ?thesis using G by (simp add: token_inv_def held_def)
  qed
  show "token_inv k h (pool[i := (c, nxt s)]) (qs[i := q]) (eff s)"
    if "i < length pool" and r: "token_rel k s (qs ! i) (eff s) q" for i c nxt and eff :: "('b, 'c, 'd) gw_state \<Rightarrow> _" and q
  proof -
    have i: "i < length qs" using that len by simp
    then show ?thesis
      using G r sum_list_update [of i "map snd qs" "snd q"] sum_list_update [of i "map fst qs" "fst q"]
      by (simp add: token_inv_def token_rel_def map_update)
  qed
qed simp

text \<open>Summed over the threads that ended, the ghosts bound the reports and the deliveries.\<close>

lemma ended_reports:
  assumes "list_all2 (\<lambda>(c, act) r. act = Ret r) pool rs"
    and "list_all2 (\<lambda>(c, act) q. along (\<lambda>s. True) (token_rel k) (token_end k (snd c)) act q) pool qs"
  shows "reports_of k (map fst pool) rs \<le> sum_list (map snd qs) \<and>
    sum_list (map fst qs) \<le> deliveries_of k rs"
  using assms
proof (induction pool arbitrary: rs qs)
  case Nil
  then show ?case by (simp add: reports_of_def deliveries_of_def)
next
  case (Cons x pool)
  obtain c r rs' where x: "x = (c, Ret r)" "rs = r # rs'"
    and rs: "list_all2 (\<lambda>(c, act) r. act = Ret r) pool rs'"
    using Cons.prems(1) by (auto simp: list_all2_Cons1)
  obtain q qs' where q: "qs = q # qs'" "token_end k (snd c) q r"
    and qs: "list_all2 (\<lambda>(c, act) q. along (\<lambda>s. True) (token_rel k) (token_end k (snd c)) act q) pool qs'"
    using Cons.prems(2) x by (auto simp: list_all2_Cons1)
  show ?case
    using Cons.IH [OF rs qs] q(2)
    by (auto simp: x q(1) reports_of_def deliveries_of_def token_end_def split: if_splits)
qed

lemma answered:
  "map (\<lambda>x. answer (snd x)) pool = map Some rs \<longleftrightarrow> list_all2 (\<lambda>(c, act) r. act = Ret r) pool rs"
  by (induction pool arbitrary: rs) (auto simp: Cons_eq_map_conv list_all2_Cons1)

lemma schedule_reports:
  assumes "run_turns g ts ([], s) = (pool, s')" and "map (\<lambda>x. answer (snd x)) pool = map Some rs"
  shows "reports_of k (map fst pool) rs \<le> deliveries_of k rs + held k s"
proof -
  have "token_inv k (held k s) [] [] s" by (simp add: token_inv_def)
  from tokens.from_start [OF this _ assms(1)] obtain qs where
    al: "tokens.aligned k pool qs" and inv: "token_inv k (held k s) pool qs s'" by auto
  have "list_all2 (\<lambda>(c, act) q. along (\<lambda>s. True) (token_rel k) (token_end k (snd c)) act q) pool qs"
    using al by (auto simp: tokens.aligned_def list_all2_conv_all_nth case_prod_unfold)
  from ended_reports [OF assms(2) [unfolded answered] this] inv
  show ?thesis by (simp add: token_inv_def)
qed

section \<open>Every call answers\<close>

lemma ends_by_guarded: "ends_by k n \<Longrightarrow> ends_by (guarded g env agent apiKey k) n"
  by (auto simp: guarded_def split: option.split)

lemma ends_by_permitted_to: "ends_by k n \<Longrightarrow> ends_by (permitted_to g env agent target k) n"
  by (auto simp: permitted_to_def split: sum.split)

lemma call_ends_by_7: "ends_by (call_act g env call) 7"
  by (cases call)
    (auto simp: get_task_act_def report_act_def send_act_def receive_act_def my_limits_act_def
      heartbeat_act_def my_policies_act_def on_lim_def on_net_def log_entry_def count_pending_def
      store_token_def take_token_def Let_def
      intro!: ends_by_guarded ends_by_permitted_to
      split: option.split sum.split received.split prod.split)

section \<open>One call after another is a schedule\<close>

lemma sequential:
  "\<exists>ts. run_turns g ts (pool, s) =
     (pool @ zip calls (map Ret (fst (run_calls g calls s))), snd (run_calls g calls s))"
proof (induction calls arbitrary: pool s)
  case Nil
  then show ?case by (intro exI [of _ "[]"]) simp
next
  case (Cons x calls)
  obtain env call where x: "x = (env, call)" by fastforce
  obtain r s1 where r: "call_tool g env call s = (r, s1)" by fastforce
  let ?i = "length pool"
  obtain n where n: "run_turns g (replicate n (Step ?i)) (pool @ [((env, call), call_act g env call)], s) =
      (pool @ [((env, call), Ret r)], s1)"
    using run_alone [of ?i "pool @ [((env, call), call_act g env call)]" "(env, call)" "call_act g env call" "spawn_call g" "gw_other g" s]
    by (auto simp: run_call_act r)
  obtain ts where ts: "run_turns g ts (pool @ [((env, call), Ret r)], s1) =
      (pool @ [((env, call), Ret r)] @ zip calls (map Ret (fst (run_calls g calls s1))), snd (run_calls g calls s1))"
    using Cons.IH [of "pool @ [((env, call), Ret r)]" s1] by auto
  have "run_turns g (Begin (env, call) # replicate n (Step ?i)) (pool, s) = (pool @ [((env, call), Ret r)], s1)"
    using n by (simp add: run_pool_Cons)
  then show ?case using ts
    by (intro exI [of _ "(Begin (env, call) # replicate n (Step ?i)) @ ts"])
      (simp add: run_pool_append x r case_prod_unfold Let_def del: append_Cons)
qed

section \<open>Permits to fetch a task\<close>

text \<open>
  The limits of the agent \<open>a\<close> are the same throughout: the store gives a positive maximum \<open>M\<close> of pending
  tasks (\<open>gives_cap\<close>), and what the enforcer has cached for \<open>a\<close> says the same (\<open>capped\<close>).
\<close>

definition gives_cap :: "'w limit_getter \<Rightarrow> string \<Rightarrow> string \<Rightarrow> int \<Rightarrow> 'w \<Rightarrow> bool" where
  "gives_cap getter org a M w = (0 < M \<and>
     (case fst (getter w org a) of None \<Rightarrow> False | Some l \<Rightarrow> MaxPendingTasks l = M))"

definition capped :: "string \<Rightarrow> string \<Rightarrow> int \<Rightarrow> EmbeddedLimitEnforcer \<Rightarrow> bool" where
  "capped org a M e = (orgID e = org \<and>
     (case fmlookup (cache e) a of
        None \<Rightarrow> True
      | Some entry \<Rightarrow> (case limits entry of None \<Rightarrow> False | Some l \<Rightarrow> MaxPendingTasks l = M)))"

lemma capped_effectiveLimits:
  "gives_cap getter org a M w \<Longrightarrow> capped org a M e \<Longrightarrow> capped org a M (snd (effectiveLimits getter w clk b e))"
  by (auto simp: gives_cap_def capped_def effectiveLimits_def Let_def split: option.splits prod.splits)

lemma effectiveLimits_cap:
  assumes "gives_cap getter org a M w" and "capped org a M e"
  shows "\<exists>l. fst (effectiveLimits getter w clk a e) = Some l \<and> MaxPendingTasks l = M"
  using assms
  by (auto simp: gives_cap_def capped_def effectiveLimits_def case_prod_unfold Let_def split: option.splits)

lemma capped_bucket: "capped org a M e \<Longrightarrow> capped org a M (snd (bucket b e))"
  by (auto simp: capped_def bucket_def split: option.splits)

lemma capped_use_bucket: "capped org a M e \<Longrightarrow> capped org a M (snd (use_bucket n clk ref e))"
  by (cases ref) (auto simp: capped_def Let_def split: prod.splits option.splits)

lemma capped_CheckSend:
  assumes "gives_cap getter org a M w" and "capped org a M e"
  shows "capped org a M (snd (emb_CheckSend getter w clk b n e))"
proof -
  obtain l e1 where l: "effectiveLimits getter w clk b e = (l, e1)" by fastforce
  have e1: "capped org a M e1" using capped_effectiveLimits [OF assms, of clk b] l by simp
  obtain ref e2 where r: "bucket b e1 = (ref, e2)" by fastforce
  have e2: "capped org a M e2" using capped_bucket [OF e1, of b] r by simp
  show ?thesis
    using e1 capped_use_bucket [OF e2]
    by (auto simp: emb_CheckSend_def l r Let_def split: option.split prod.split) (metis snd_conv)+
qed

lemma capped_others:
  assumes "gives_cap getter org a M w" and "capped org a M e"
  shows "capped org a M (snd (emb_CheckPendingTasks getter w clk b n e))"
    and "capped org a M (snd (emb_GetStreamMaxLen getter w clk b e))"
    and "capped org a M (snd (emb_GetEffectiveLimits getter w clk b e))"
  using capped_effectiveLimits [OF assms, of clk b]
  by (auto simp: emb_CheckPendingTasks_def emb_GetStreamMaxLen_def emb_GetEffectiveLimits_def Let_def
      split: option.split prod.split)

lemma check_refuses:
  assumes "gives_cap getter org a M w" and "capped org a M e" and "M < int n"
  shows "fst (emb_CheckPendingTasks getter w clk a (int n) e) \<noteq> None"
proof -
  obtain l where "fst (effectiveLimits getter w clk a e) = Some l" "MaxPendingTasks l = M"
    using effectiveLimits_cap [OF assms(1,2)] by blast
  then show ?thesis using assms(1,3)
    by (auto simp: emb_CheckPendingTasks_def gives_cap_def case_prod_unfold split: option.splits)
qed

text \<open>
  The ghost of a thread is 1 between a count of at most \<open>M\<close> and its store, and 0 otherwise: a thread
  that has seen room may still add one task.
\<close>

definition permit_rel :: "string \<Rightarrow> string \<Rightarrow> int \<Rightarrow> (EmbeddedLimitEnforcer, 'log, 'net) gw_state \<Rightarrow> nat
    \<Rightarrow> (EmbeddedLimitEnforcer, 'log, 'net) gw_state \<Rightarrow> nat \<Rightarrow> bool" where
  "permit_rel org a M s q s' q' \<longleftrightarrow> q' \<le> 1 \<and> capped org a M (lim s') \<and>
     (CountByAgent a (pending s') + q' \<le> CountByAgent a (pending s) + q \<or>
      pending s' = pending s \<and> int (CountByAgent a (pending s)) \<le> M)"

lemma permit_rel_same:
  "q \<le> 1 \<Longrightarrow> capped org a M (lim s') \<Longrightarrow> pending s' = pending s \<Longrightarrow> permit_rel org a M s q s' q"
  by (simp add: permit_rel_def)

abbreviation "paced org a M act q \<equiv>
  along (\<lambda>s. capped org a M (lim s)) (permit_rel org a M) (\<lambda>q r. True) act q"

lemma paced_take_token:
  assumes "\<And>x. paced org a M (c x) q" and "q \<le> 1"
  shows "paced org a M (take_token taskID c) q"
  unfolding take_token_def
  by (rule along_same) (use assms CountByAgent_LoadAndDelete in \<open>auto simp: permit_rel_def case_prod_unfold Let_def\<close>)

lemma paced_store_token:
  assumes "paced org a M c 0" and "tp \<noteq> task_topic a \<or> q = 1" and "q \<le> 1"
  shows "paced org a M (store_token t taskID tp mid c) q"
  unfolding store_token_def along_atomically
  using assms CountByAgent_Store_le [of a t taskID tp mid] CountByAgent_Store_other [of tp a t taskID mid]
  by (intro allI impI exI [of _ 0]) (auto simp: permit_rel_def le_SucI intro: trans_le_add1)

lemma paced_check:
  assumes w: "gives_cap getter org a M w"
    and room: "\<And>q. q \<le> 1 \<Longrightarrow> agent \<noteq> a \<or> q = 1 \<Longrightarrow> paced org a M (k None) q"
    and refusal: "\<And>e q. q \<le> 1 \<Longrightarrow> paced org a M (k (Some e)) q"
  shows "paced org a M (count_pending agent
    (\<lambda>n. on_lim (emb_CheckPendingTasks getter w clk agent (int n)) k)) 0"
proof -
  let ?rest = "\<lambda>n. on_lim (emb_CheckPendingTasks getter w clk agent (int n)) k"
  have go: "paced org a M (?rest n) q" if "q \<le> 1" "agent \<noteq> a \<or> q = 1" for n q
  proof (rule along_on_lim)
    show "permit_rel org a M s q (s\<lparr>lim := snd (emb_CheckPendingTasks getter w clk agent (int n) (lim s))\<rparr>) q"
      if "capped org a M (lim s)" for s :: "(EmbeddedLimitEnforcer, 'b, 'c) gw_state"
      by (rule permit_rel_same) (use \<open>q \<le> 1\<close> capped_others(1) [OF w that] in simp_all)
    show "paced org a M (k x) q" for x
      using that room refusal by (cases x) auto
  qed
  have stop: "paced org a M (?rest n) 0" if n: "M < int n" "agent = a" for n
    unfolding on_lim_def along_atomically
  proof (intro allI impI)
    fix s :: "(EmbeddedLimitEnforcer, 'b, 'c) gw_state"
    let ?x = "emb_CheckPendingTasks getter w clk agent (int n) (lim s)"
    let ?s' = "s\<lparr>lim := snd ?x\<rparr>"
    assume c: "capped org a M (lim s)"
    obtain e where "fst ?x = Some e" using check_refuses [OF w c n(1), of clk] n(2) by auto
    moreover have "permit_rel org a M s 0 ?s' 0"
      by (rule permit_rel_same) (use capped_others(1) [OF w c] in simp_all)
    ultimately show "\<exists>q'. permit_rel org a M s 0 (snd (let (a, l) = ?x in (a, s\<lparr>lim := l\<rparr>))) q' \<and>
        paced org a M (k (fst (let (a, l) = ?x in (a, s\<lparr>lim := l\<rparr>)))) q'"
      using refusal by (intro exI [of _ 0]) (simp add: case_prod_unfold Let_def)
  qed
  show ?thesis
    unfolding count_pending_def along_atomically
  proof (intro allI impI)
    fix s :: "(EmbeddedLimitEnforcer, 'b, 'c) gw_state"
    let ?n = "CountByAgent agent (pending s)"
    assume c: "capped org a M (lim s)"
    show "\<exists>q'. permit_rel org a M s 0 (snd (?n, s)) q' \<and> paced org a M (?rest (fst (?n, s))) q'"
    proof (cases "agent = a \<and> int ?n \<le> M")
      case True
      then have "permit_rel org a M s 0 s 1" using c by (auto simp: permit_rel_def)
      then show ?thesis using go [of 1 ?n] by (intro exI [of _ 1]) simp
    next
      case False
      have "paced org a M (?rest ?n) 0"
        by (cases "agent = a") (use False stop [of ?n] go [of 0 ?n] in auto)
      then show ?thesis using c by (intro exI [of _ 0]) (simp add: permit_rel_same)
    qed
  qed
qed

lemma embedded_methods:
  "CheckSend (embeddedLimitEnforcer getter) = emb_CheckSend getter"
  "RecordSend (embeddedLimitEnforcer getter) = emb_RecordSend"
  "CheckPendingTasks (embeddedLimitEnforcer getter) = emb_CheckPendingTasks getter"
  "GetStreamMaxLen (embeddedLimitEnforcer getter) = emb_GetStreamMaxLen getter"
  "GetEffectiveLimits (embeddedLimitEnforcer getter) = emb_GetEffectiveLimits getter"
  by (simp_all add: embeddedLimitEnforcer_def)

lemma permit_rel_actions:
  assumes w: "gives_cap getter org a M w" and q: "q \<le> 1" and c: "capped org a M (lim s)"
  shows "permit_rel org a M s q (s\<lparr>lim := snd (emb_CheckSend getter w clk b n (lim s))\<rparr>) q"
    and "permit_rel org a M s q (s\<lparr>lim := snd (emb_GetStreamMaxLen getter w clk b (lim s))\<rparr>) q"
    and "permit_rel org a M s q (s\<lparr>lim := snd (emb_GetEffectiveLimits getter w clk b (lim s))\<rparr>) q"
    and "permit_rel org a M s q (s\<lparr>lim := emb_RecordSend b (lim s)\<rparr>) q"
    and "permit_rel org a M s q (s\<lparr>net := n'\<rparr>) q" and "permit_rel org a M s q (s\<lparr>logs := lg\<rparr>) q"
  by (rule permit_rel_same; use q c capped_CheckSend [OF w c] capped_others [OF w c] in
        \<open>simp add: emb_RecordSend_def\<close>)+

lemma paced_call:
  assumes w: "gives_cap getter org a M (world env)"
  shows "paced org a M (call_act (g\<lparr>limiter := embeddedLimitEnforcer getter\<rparr>) env call) 0"
  by (cases call)
    (auto simp: get_task_act_def report_act_def send_act_def receive_act_def my_limits_act_def
      heartbeat_act_def my_policies_act_def task_topic_def embedded_methods Let_def
      intro!: along_intros paced_check [OF w] paced_store_token paced_take_token permit_rel_actions [OF w]
      split: option.split sum.split received.split prod.split)

text \<open>The permits of the calls in flight, and the invariant they satisfy.\<close>

definition permits :: "('c \<times> ('st, 'r) act) list \<Rightarrow> nat list \<Rightarrow> nat" where
  "permits pool qs = sum_list (map2 (\<lambda>(c, act) q. if answer act = None then q else 0) pool qs)"

definition permit_inv :: "string \<Rightarrow> string \<Rightarrow> int \<Rightarrow> nat \<Rightarrow> nat \<Rightarrow> ('c \<times> ('gw, 'r) act) list \<Rightarrow> nat list
    \<Rightarrow> (EmbeddedLimitEnforcer, 'log, 'net) gw_state \<Rightarrow> bool" where
  "permit_inv org a M w n0 pool qs s \<longleftrightarrow> (\<forall>q\<in>set qs. q \<le> 1) \<and> capped org a M (lim s) \<and>
     int (CountByAgent a (pending s) + permits pool qs) \<le> max (int n0) (M + int w)"

definition within_width :: "'w limit_getter \<Rightarrow> string \<Rightarrow> string \<Rightarrow> int \<Rightarrow> nat
    \<Rightarrow> ('w, 'a, 'j, 'c, 's, EmbeddedLimitEnforcer, 'log, 'net) gw_turn
    \<Rightarrow> ('p \<times> ('gw, 'r) act) list \<times> (EmbeddedLimitEnforcer, 'log, 'net) gw_state \<Rightarrow> bool" where
  "within_width getter org a M w t conf \<longleftrightarrow> in_flight (fst conf) \<le> w \<and>
     (case t of Begin c \<Rightarrow> gives_cap getter org a M (world (fst c)) | Step i \<Rightarrow> True
      | Other e \<Rightarrow> (case e of Others l lg n \<Rightarrow> capped org a M l | Sweep x \<Rightarrow> True))"

lemma permits_simps [simp]:
  "permits [] [] = 0"
  "permits (x # pool) (q # qs) = (if answer (snd x) = None then q else 0) + permits pool qs"
  by (simp add: permits_def) (cases "answer (snd x)"; simp add: permits_def case_prod_unfold)

lemma permits_le_in_flight:
  "length qs = length pool \<Longrightarrow> \<forall>q\<in>set qs. q \<le> 1 \<Longrightarrow> permits pool qs \<le> in_flight pool"
proof (induction qs pool rule: list_induct2)
  case Nil
  then show ?case by (simp add: in_flight_def)
next
  case (Cons q qs x pool)
  then show ?case by (cases "answer (snd x)") (auto simp: in_flight_def case_prod_unfold)
qed

lemma permits_append:
  "length qs = length pool \<Longrightarrow> permits (pool @ [x]) (qs @ [0]) = permits pool qs"
  by (simp add: permits_def case_prod_unfold)

lemma permits_update:
  "length qs = length pool \<Longrightarrow> i < length pool \<Longrightarrow>
    permits (pool[i := (c, act)]) (qs[i := q]) + (if answer (snd (pool ! i)) = None then qs ! i else 0) =
    permits pool qs + (if answer act = None then q else 0)"
proof (induction qs pool arbitrary: i rule: list_induct2)
  case Nil
  then show ?case by simp
next
  case (Cons q0 qs x pool)
  show ?case
  proof (cases i)
    case (Suc j)
    then show ?thesis using Cons.IH [of j] Cons.prems by (auto simp: answer_None split: if_splits)
  qed (auto simp: answer_None)
qed

interpretation permits: pool_invariant "spawn_call (g\<lparr>limiter := embeddedLimitEnforcer getter\<rparr>)"
  "gw_other (g\<lparr>limiter := embeddedLimitEnforcer getter\<rparr>)" "\<lambda>s. capped org a M (lim s)" "permit_rel org a M"
  "\<lambda>c q r. True" "\<lambda>c. 0" "within_width getter org a M w" "permit_inv org a M w n0"
proof unfold_locales
  let ?g = "g\<lparr>limiter := embeddedLimitEnforcer getter\<rparr>"
  show "paced org a M (spawn_call ?g c) 0" if "within_width getter org a M w (Begin c) conf" for c conf
    using that paced_call [of getter org a M "fst c" g "snd c"] by (cases c) (simp add: within_width_def)
  show "capped org a M (lim s)" if "permit_inv org a M w n0 pool qs s"
    for s :: "(EmbeddedLimitEnforcer, 'b, 'c) gw_state"
      and pool :: "((('a, 'e, 'f, 'g, 'h) call_env \<times> tool_call) \<times> (EmbeddedLimitEnforcer, 'b, 'c) handler_act) list"
      and qs
    using that by (simp add: permit_inv_def)
  fix pool :: "((('a, 'e, 'f, 'g, 'h) call_env \<times> tool_call) \<times> (EmbeddedLimitEnforcer, 'b, 'c) handler_act) list"
    and qs and s :: "(EmbeddedLimitEnforcer, 'b, 'c) gw_state"
  assume G: "permit_inv org a M w n0 pool qs s" and len: "length qs = length pool"
  show "permit_inv org a M w n0 (pool @ [(c, spawn_call ?g c)]) (qs @ [0]) s" for c
    using G by (simp add: permit_inv_def permits_append len)
  show "permit_inv org a M w n0 pool qs (gw_other ?g e s)"
    if "within_width getter org a M w (Other e) (pool, gw_other ?g e s)" for e
  proof (cases e)
    case (Sweep t)
    then show ?thesis using G CountByAgent_evict [of a t "PendingTTL (cfg g)" "pending s"]
      by (simp add: permit_inv_def)
  next
    case (Others l lg n)
    then show ?thesis using G that by (simp add: permit_inv_def within_width_def)
  qed
  show "permit_inv org a M w n0 (pool[i := (c, nxt s)]) (qs[i := q]) (eff s)"
    if i: "i < length pool" and p: "pool ! i = (c, Act nxt eff)" and r: "permit_rel org a M s (qs ! i) (eff s) q"
      and ok: "within_width getter org a M w (Step i) (pool[i := (c, nxt s)], eff s)" for i c nxt eff q
  proof -
    have qs: "\<forall>q\<in>set (qs[i := q]). q \<le> 1"
      using G r set_update_subset_insert [of qs i q] by (auto simp: permit_inv_def permit_rel_def)
    have "permits (pool[i := (c, nxt s)]) (qs[i := q]) \<le> in_flight (pool[i := (c, nxt s)])"
      by (rule permits_le_in_flight) (use len qs in simp_all)
    then have le: "permits (pool[i := (c, nxt s)]) (qs[i := q]) \<le> w" using ok by (simp add: within_width_def)
    show ?thesis
      using G r qs le permits_update [OF len i, of c "nxt s" q]
      by (auto simp: permit_inv_def permit_rel_def p split: if_splits)
  qed
qed

lemma schedule_pending:
  assumes "limiter g = embeddedLimitEnforcer getter" and "capped org a M (lim s)"
    and "throughout (within_width getter org a M w) g ts ([], s)" and "run_turns g ts ([], s) = (pool, s')"
  shows "int (CountByAgent a (pending s')) \<le> max (int (CountByAgent a (pending s))) (M + int w)"
proof -
  have g: "g\<lparr>limiter := embeddedLimitEnforcer getter\<rparr> = g" using assms(1) by (cases g) simp
  have "permit_inv org a M w (CountByAgent a (pending s)) [] [] s"
    using assms(2) by (simp add: permit_inv_def permits_def)
  from permits.from_start [of org a M w "CountByAgent a (pending s)" s getter g, unfolded g, OF this assms(3,4)]
  show ?thesis by (auto simp: permit_inv_def)
qed

end
