(* ===== verification/InterleaveProps.thy ===== *)
theory InterleaveProps
  imports Sample InterleaveFacts
begin

text \<open>
  The properties of a gateway whose calls run at the same time, under every schedule of their
  actions, of the sweeper and of whatever else changes the limiter, the log and the network.
\<close>

section \<open>Sequential runs\<close>

text \<open>
  The interleaved gateway refines the sequential one: there is a schedule under which the calls
  run one after another, and then each answers what its handler answers and the state is the one the
  handlers leave.
\<close>

theorem sequential_schedule:
  "\<exists>ts. run_turns g ts ([], s) =
     (zip calls (map Ret (fst (run_calls g calls s))), snd (run_calls g calls s))"
  using sequential [of g "[]" s calls] by simp

section \<open>Answers\<close>

text \<open>
  Every call answers. Once a call has had seven actions, it has its answer, whatever the other
  calls, the sweeper and the rest of the world do in between.
\<close>

theorem calls_answer:
  assumes "i < length pool" and "pool ! i = ((env, call), call_act g env call)"
    and "7 \<le> steps_of i ts" and "run_turns g ts (pool, s) = (pool', s')"
  shows "i < length pool' \<and> (\<exists>r. pool' ! i = ((env, call), Ret r))"
  using run_pool_thread [OF assms(1,2) call_ends_by_7 assms(4)] assms(3) ends_by_0
  by (metis diff_is_0_eq)

lemma calls_answer_witness:
  "\<exists>r. fst (run_turns (sample_gateway (sample_trans None) noopLimitEnforcer)
       [Step 0, Step 0, Other (Sweep 0), Step 0, Other (Others () [] []), Step 0, Step 0, Step 0, Step 0]
       ([((sample_env, GetTask get_call),
          call_act (sample_gateway (sample_trans None) noopLimitEnforcer) sample_env (GetTask get_call))],
        sample_start () [])) ! 0 = ((sample_env, GetTask get_call), Ret r)"
  by (rule calls_answer [THEN conjunct2, OF _ _ _ prod.collapse [symmetric]]) simp_all

section \<open>Reports\<close>

text \<open>
  C2: A delivered task is reported at most once, however the calls interleave. When every call of a
  schedule has answered, the successful \<open>complete_task\<close> and \<open>fail_task\<close> calls for a task id are no
  more than the deliveries of that id by \<open>get_task\<close>, plus one if it was pending at the start.
\<close>

theorem interleaved_at_most_once:
  assumes "run_turns g ts ([], s) = (pool, s')" and "map (\<lambda>x. answer (snd x)) pool = map Some rs"
  shows "reports_of k (map fst pool) rs \<le>
    deliveries_of k rs + (if Load k (pending s) = None then 0 else 1)"
  using schedule_reports [OF assms, of k] by (simp add: held_def)

lemma zip_answers:
  "length cs = length rs \<Longrightarrow> map (\<lambda>x. answer (snd x)) (zip cs (map Ret rs)) = map Some rs"
  by (induction cs rs rule: list_induct2) simp_all

lemma zip_calls: "length cs = length rs \<Longrightarrow> map fst (zip cs (map Ret rs)) = cs"
  by (simp add: map_fst_zip)

lemma length_run_calls [simp]: "length (fst (run_calls g calls s)) = length calls"
  by (induction calls arbitrary: s) (auto simp: case_prod_unfold Let_def)

lemma interleaved_at_most_once_witness:
  "\<exists>ts pool s'. run_turns (sample_gateway (sample_trans None) noopLimitEnforcer) ts ([], sample_busy () []) = (pool, s') \<and>
     map fst pool = [(sample_env, CompleteTask complete_call), (sample_env, CompleteTask complete_call)] \<and>
     reports_of ''1-0'' (map fst pool) (map (\<lambda>x. the (answer (snd x))) pool) \<le>
       deliveries_of ''1-0'' (map (\<lambda>x. the (answer (snd x))) pool) + 1"
proof -
  let ?g = "sample_gateway (sample_trans None) noopLimitEnforcer"
  let ?cs = "[(sample_env, CompleteTask complete_call), (sample_env, CompleteTask complete_call)]"
  define rs where "rs = fst (run_calls ?g ?cs (sample_busy () []))"
  obtain ts pool s' where ts: "run_turns ?g ts ([], sample_busy () []) = (pool, s')"
    and pool: "pool = zip ?cs (map Ret rs)"
    unfolding rs_def using sequential [of ?g "[]" "sample_busy () []" ?cs] by auto
  have len: "length ?cs = length rs" by (simp add: rs_def del: run_calls.simps)
  have ans: "map (\<lambda>x. answer (snd x)) pool = map Some rs" "map fst pool = ?cs"
    unfolding pool by (rule zip_answers [OF len], rule zip_calls [OF len])
  have "map (\<lambda>x. the (answer (snd x))) pool = rs"
    using arg_cong [OF ans(1), of "map the"] by (simp add: comp_def)
  moreover have "Load ''1-0'' (pending (sample_busy () [])) \<noteq> None"
    by (simp add: sample_busy_def Load_def Store_def)
  ultimately show ?thesis
    using ts ans interleaved_at_most_once [OF ts ans(1), of "''1-0''"]
    by (intro exI [of _ ts] exI [of _ pool] exI [of _ s']) (auto split: if_splits)
qed

section \<open>The bound on pending tasks\<close>

text \<open>
  C17: The bound on pending tasks under concurrency. If the limits of an agent give it a positive
  maximum \<open>M\<close> of pending tasks throughout, and at most \<open>w\<close> calls are in flight at any time, the agent
  never has more than \<open>M + w\<close> pending tasks (unless it had more at the start): each call in flight may
  have counted the tasks before the others stored theirs.
\<close>

theorem interleaved_pending_bounded:
  assumes "limiter g = embeddedLimitEnforcer getter" and "capped org a M (lim s)"
    and "throughout (within_width getter org a M w) g ts ([], s)" and "run_turns g ts ([], s) = (pool, s')"
  shows "int (CountByAgent a (pending s')) \<le> max (int (CountByAgent a (pending s))) (M + int w)"
  by (rule schedule_pending [OF assms])

section \<open>The bound is attained\<close>

text \<open>A network that hands out a task with a fresh entry id at each receipt.\<close>

definition busy_trans :: "(nat, string) Transport" where
  "busy_trans =
     \<lparr>Publish = (\<lambda>t d opts n. (None, n)), Subscribe = (\<lambda>t n. (Inr t, n)),
      Receive = (\<lambda>ch n. (Delivered \<lparr>Doc = sample_doc, MsgID = replicate n CHR ''1'', RecvedAt = 0\<rparr>, Suc n)),
      Ack = (\<lambda>t mid n. (None, n))\<rparr>"

abbreviation "busy_gateway \<equiv> sample_gateway busy_trans (embeddedLimitEnforcer sample_getter)"

abbreviation "fetch \<equiv> (sample_env, GetTask get_call)"

definition busy_state :: "nat \<Rightarrow> nat \<Rightarrow> (EmbeddedLimitEnforcer, MessageLogEntry list, nat) gw_state \<Rightarrow> bool" where
  "busy_state m n s \<longleftrightarrow> capped ''o'' ''a1'' 1 (lim s) \<and> CountByAgent ''a1'' (pending s) = m \<and> net s = n \<and>
     (\<forall>k. k |\<in>| fmdom (pending s) \<longrightarrow> length k < n)"

text \<open>What is left of a \<open>get_task\<close> call that has counted the pending tasks of \<open>s\<close>.\<close>

definition counted :: "(EmbeddedLimitEnforcer, MessageLogEntry list, nat) gw_state
    \<Rightarrow> (EmbeddedLimitEnforcer, MessageLogEntry list, nat) handler_act" where
  "counted s = fst (advance (call_act busy_gateway sample_env (GetTask get_call)) s)"

lemma fetch_counts: "advance (call_act busy_gateway sample_env (GetTask get_call)) s = (counted s, s)"
proof (rule prod_eqI)
  show "snd (advance (call_act busy_gateway sample_env (GetTask get_call)) s) = snd (counted s, s)"
    by (simp add: get_task_act_def guarded_def permitted_to_def get_call_def applyDefaults_def
        ab_valid sample_auth sample_allowed PolicyTargetOrchestrator_def sample_gateway_def sample_env_def
        count_pending_def atomically_def Let_def)
qed (simp add: counted_def)

lemma sample_cap: "gives_cap sample_getter org ''a1'' 1 w"
  by (simp add: gives_cap_def sample_getter_def sample_limits_def)

lemma check_passes:
  assumes "capped ''o'' ''a1'' 1 e" and "n \<le> 1"
  obtains e' where "emb_CheckPendingTasks sample_getter w clk ''a1'' (int n) e = (None, e')" "capped ''o'' ''a1'' 1 e'"
proof -
  obtain l where "fst (effectiveLimits sample_getter w clk ''a1'' e) = Some l" "MaxPendingTasks l = 1"
    using effectiveLimits_cap [OF sample_cap assms(1), of w clk] by blast
  then have "fst (emb_CheckPendingTasks sample_getter w clk ''a1'' (int n) e) = None"
    using assms(2) by (simp add: emb_CheckPendingTasks_def case_prod_unfold)
  moreover have "capped ''o'' ''a1'' 1 (snd (emb_CheckPendingTasks sample_getter w clk ''a1'' (int n) e))"
    by (rule capped_others(1) [OF sample_cap assms(1)])
  ultimately show thesis using that by (cases "emb_CheckPendingTasks sample_getter w clk ''a1'' (int n) e") simp
qed

lemma run_counted:
  assumes s: "busy_state m n s" and "CountByAgent ''a1'' (pending s0) \<le> 1"
  shows "busy_state (Suc m) (Suc n) (snd (run (counted s0) s))"
proof -
  obtain e' where e: "emb_CheckPendingTasks sample_getter sample_policies sample_clock ''a1''
      (int (CountByAgent ''a1'' (pending s0))) (lim s) = (None, e')" "capped ''o'' ''a1'' 1 e'"
    by (rule check_passes [OF _ assms(2), of "lim s"]) (use s in \<open>auto simp: busy_state_def\<close>)
  have fresh: "replicate n CHR ''1'' |\<notin>| fmdom (pending s)" using s by (auto simp: busy_state_def)
  show ?thesis
    using s e fresh CountByAgent_Store [OF fresh, of "''a1''" 1 "''agent.tasks.a1''" "replicate n CHR ''1''"]
    by (auto simp: counted_def get_task_act_def guarded_def permitted_to_def get_call_def applyDefaults_def
        ab_valid sample_auth sample_allowed PolicyTargetOrchestrator_def sample_gateway_def sample_env_def
        embedded_methods busy_trans_def busy_state_def count_pending_def atomically_def task_topic_def
        Store_def Let_def less_Suc_eq)
qed

lemma throughout_steps:
  "in_flight pool \<le> w \<Longrightarrow> throughout (within_width getter org a M w) g (replicate n (Step i)) (pool, s)"
proof (induction n arbitrary: pool s)
  case (Suc n)
  obtain p1 s1 where t: "turn_step g (Step i) (pool, s) = (p1, s1)" by fastforce
  then have "in_flight p1 \<le> w" using Suc.prems step_in_flight [of "spawn_call g" "gw_other g" i pool s] by simp
  then show ?case using Suc.IH [of p1 s1] t by (simp add: within_width_def del: pool_step.simps)
qed simp

text \<open>First everyone counts, then everyone goes on.\<close>

lemma crowd_counts:
  assumes "in_flight pool + j \<le> w"
  shows "\<exists>ts. run_turns busy_gateway ts (pool, s) = (pool @ replicate j (fetch, counted s), s) \<and>
    throughout (within_width sample_getter org ''a1'' 1 w) busy_gateway ts (pool, s)"
  using assms
proof (induction j)
  case 0
  then show ?case by (intro exI [of _ "[]"]) simp
next
  case (Suc j)
  let ?p = "pool @ replicate j (fetch, counted s)"
  let ?act = "call_act busy_gateway sample_env (GetTask get_call)"
  obtain ts where ts: "run_turns busy_gateway ts (pool, s) = (?p, s)"
    "throughout (within_width sample_getter org ''a1'' 1 w) busy_gateway ts (pool, s)"
    using Suc by auto
  have b: "turn_step busy_gateway (Begin fetch) (?p, s) = (?p @ [(fetch, ?act)], s)"
    by simp
  have st: "turn_step busy_gateway (Step (length ?p)) (?p @ [(fetch, ?act)], s) =
      (pool @ replicate (Suc j) (fetch, counted s), s)"
    unfolding pool_step_last by (simp add: fetch_counts replicate_append_same del: call_act.simps)
  have "in_flight (pool @ replicate (Suc j) (fetch, counted s)) \<le> w" "in_flight (?p @ [(fetch, ?act)]) \<le> w"
    using in_flight_le [of "replicate (Suc j) (fetch, counted s)"]
      in_flight_le [of "replicate j (fetch, counted s) @ [(fetch, ?act)]"] Suc.prems by simp_all
  then have "throughout (within_width sample_getter org ''a1'' 1 w) busy_gateway
      [Begin fetch, Step (length ?p)] (?p, s)"
    by (simp add: b st within_width_def sample_cap del: pool_step.simps call_act.simps length_append append_assoc)
  moreover have "run_turns busy_gateway [Begin fetch, Step (length ?p)] (?p, s) =
      (pool @ replicate (Suc j) (fetch, counted s), s)"
    by (simp add: run_pool_def b st del: pool_step.simps call_act.simps length_append append_assoc)
  ultimately show ?case using ts
    by (intro exI [of _ "ts @ [Begin fetch, Step (length ?p)]"])
      (simp add: run_pool_append always_append del: always.simps pool_step.simps)
qed

lemma crowd_stores:
  assumes "in_flight pool + j \<le> w" and "busy_state m n s" and "CountByAgent ''a1'' (pending s0) \<le> 1"
  shows "\<exists>ts pool' s'. run_turns busy_gateway ts (pool @ replicate j (fetch, counted s0), s) = (pool', s') \<and>
    throughout (within_width sample_getter org ''a1'' 1 w) busy_gateway ts
      (pool @ replicate j (fetch, counted s0), s) \<and>
    busy_state (m + j) (n + j) s' \<and> in_flight pool' = in_flight pool"
  using assms(1,2)
proof (induction j arbitrary: pool m n s)
  case 0
  then show ?case
    by (intro exI [of _ "[]"] exI [of _ pool] exI [of _ s]) simp
next
  case (Suc j)
  let ?rest = "replicate j (fetch, counted s0)"
  let ?p = "pool @ (fetch, counted s0) # ?rest"
  let ?s1 = "snd (run (counted s0) s)" and ?r = "Ret (fst (run (counted s0) s))"
  have nth: "length pool < length ?p" "?p ! length pool = (fetch, counted s0)" by simp_all
  obtain k where "run_turns busy_gateway (replicate k (Step (length pool))) (?p, s) =
      (?p[length pool := (fetch, ?r)], ?s1)"
    using run_alone [OF nth, of "spawn_call busy_gateway" "gw_other busy_gateway" s] by blast
  moreover have "?p[length pool := (fetch, ?r)] = (pool @ [(fetch, ?r)]) @ ?rest" by simp
  ultimately have k: "run_turns busy_gateway (replicate k (Step (length pool))) (?p, s) =
      ((pool @ [(fetch, ?r)]) @ ?rest, ?s1)" by simp
  have "in_flight ?p \<le> w"
    using in_flight_le [of "replicate (Suc j) (fetch, counted s0)"] Suc.prems(1) by simp
  then have w: "throughout (within_width sample_getter org ''a1'' 1 w) busy_gateway
      (replicate k (Step (length pool))) (?p, s)" by (rule throughout_steps)
  have "in_flight (pool @ [(fetch, ?r)]) + j \<le> w" using Suc.prems(1) by simp
  from Suc.IH [OF this run_counted [OF Suc.prems(2) assms(3)]] obtain ts pool' s' where
    ts: "run_turns busy_gateway ts ((pool @ [(fetch, ?r)]) @ ?rest, ?s1) = (pool', s')"
      "throughout (within_width sample_getter org ''a1'' 1 w) busy_gateway ts ((pool @ [(fetch, ?r)]) @ ?rest, ?s1)"
      "busy_state (Suc m + j) (Suc n + j) s'" "in_flight pool' = in_flight (pool @ [(fetch, ?r)])"
    by blast
  show ?case
    using k w ts
    by (intro exI [of _ "replicate k (Step (length pool)) @ ts"] exI [of _ pool'] exI [of _ s'])
      (simp add: run_pool_append always_append)
qed

abbreviation "idle \<equiv> sample_start (NewEmbeddedLimitEnforcer ''o'') (0 :: nat)"

lemma idle_capped: "capped ''o'' ''a1'' 1 (lim idle)"
  by (simp add: capped_def New_def NewEmbeddedLimitEnforcer_def NewEmbeddedLimitEnforcerWithCacheTTL_def)

lemma idle_count: "CountByAgent a (pending idle) = 0"
  by (simp add: New_def NewPendingMap_def CountByAgent_def)

lemma idle_busy: "busy_state 0 0 idle"
  unfolding busy_state_def by (intro conjI idle_capped idle_count) (simp_all add: New_def NewPendingMap_def)

type_synonym busy_turn =
  "(CommunicationPolicy list, unit, unit, unit, unit, EmbeddedLimitEnforcer, MessageLogEntry list, nat) gw_turn"

lemma crowd:
  "\<exists>(ts :: busy_turn list) pool s'. run_turns busy_gateway ts ([], idle) = (pool, s') \<and>
     throughout (within_width sample_getter org ''a1'' 1 (Suc w)) busy_gateway ts ([], idle) \<and>
     busy_state (1 + Suc w) (1 + Suc w) s' \<and> in_flight pool = 0"
proof -
  let ?P = "within_width sample_getter org ''a1'' 1 (Suc w) :: busy_turn \<Rightarrow> _"
  have wave: "\<exists>ts pool' s'. run_turns busy_gateway ts (pool, s) = (pool', s') \<and>
      throughout ?P busy_gateway ts (pool, s) \<and> busy_state (m + j) (m + j) s' \<and> in_flight pool' = 0"
    if w: "in_flight pool + j \<le> Suc w" and m: "m \<le> 1" "busy_state m m s" "in_flight pool = 0" for pool j m s
  proof -
    obtain ts1 where 1: "run_turns busy_gateway ts1 (pool, s) = (pool @ replicate j (fetch, counted s), s)"
      "throughout ?P busy_gateway ts1 (pool, s)"
      using crowd_counts [OF w] by blast
    have "CountByAgent ''a1'' (pending s) \<le> 1" using m by (simp add: busy_state_def)
    from crowd_stores [OF w m(2) this] obtain ts2 pool' s' where
      2: "run_turns busy_gateway ts2 (pool @ replicate j (fetch, counted s), s) = (pool', s')"
        "throughout ?P busy_gateway ts2 (pool @ replicate j (fetch, counted s), s)"
        "busy_state (m + j) (m + j) s'" "in_flight pool' = in_flight pool" by blast
    show ?thesis
      using 1 2 m(3) by (intro exI [of _ "ts1 @ ts2"] exI [of _ pool'] exI [of _ s'])
        (simp add: run_pool_append always_append)
  qed
  from wave [of "[]" 1 0 idle] idle_busy obtain ts1 p1 s1 where
    1: "run_turns busy_gateway ts1 ([], idle) = (p1, s1)" "throughout ?P busy_gateway ts1 ([], idle)"
      "busy_state 1 1 s1" "in_flight p1 = 0" by auto
  from wave [of p1 "Suc w" 1 s1] 1(3,4) obtain ts2 p2 s2 where
    2: "run_turns busy_gateway ts2 (p1, s1) = (p2, s2)" "throughout ?P busy_gateway ts2 (p1, s1)"
      "busy_state (1 + Suc w) (1 + Suc w) s2" "in_flight p2 = 0" by auto
  show ?thesis
    using 1 2 by (intro exI [of _ "ts1 @ ts2"] exI [of _ p2] exI [of _ s2])
      (simp add: run_pool_append always_append)
qed

lemma interleaved_pending_bounded_witness:
  "\<exists>(ts :: busy_turn list) pool s'. run_turns busy_gateway ts ([], idle) = (pool, s') \<and> in_flight pool = 0 \<and>
     CountByAgent ''a1'' (pending s') = 4 \<and> int (CountByAgent ''a1'' (pending s')) \<le> 1 + int 3"
proof -
  obtain ts :: "busy_turn list" and pool s' where c: "run_turns busy_gateway ts ([], idle) = (pool, s')"
    "throughout (within_width sample_getter ''o'' ''a1'' 1 3) busy_gateway ts ([], idle)"
    "busy_state 4 4 s'" "in_flight pool = 0"
    using crowd [of "''o''" 2] by auto
  have "limiter busy_gateway = embeddedLimitEnforcer sample_getter" by (simp add: sample_gateway_def)
  from interleaved_pending_bounded [OF this idle_capped c(2,1)] show ?thesis
    using c(1,3,4) by (intro exI [of _ ts] exI [of _ pool] exI [of _ s']) (simp add: busy_state_def idle_count)
qed

text \<open>
  C36: The check and the store are not one step. For every width \<open>w\<close>, under a maximum of one pending
  task, there is a schedule with at most \<open>w + 1\<close> calls of \<open>get_task\<close> in flight after which the agent has
  \<open>w + 2\<close> pending tasks: the maximum of the store bounds nothing when calls run at the same time, and
  the bound above cannot be improved.
\<close>

theorem pending_limit_race:
  "\<exists>(ts :: busy_turn list) pool s'. throughout (within_width sample_getter ''o'' ''a1'' 1 (Suc w)) busy_gateway ts ([], idle) \<and>
     run_turns busy_gateway ts ([], idle) = (pool, s') \<and> in_flight pool = 0 \<and>
     CountByAgent ''a1'' (pending s') = 1 + Suc w"
  using crowd [of "''o''" w] unfolding busy_state_def by blast

end
