(* ===== verification/LimiterRuns.thy ===== *)
theory LimiterRuns
  imports Pool Limiter
begin

text \<open>
  The embedded enforcer of \<open>internal/gateway/limiter.go\<close> as the goroutines run it: each method is the
  sequence of its critical sections (the lookup under \<open>e.mu\<close>, the query of the store outside it, the
  caching under \<open>e.mu\<close>, \<open>bucket\<close> under \<open>e.mu\<close>, \<open>tryRecord\<close> under the bucket's mutex), and calls of all
  agents interleave while time passes. Uninterrupted, a sequence is the method of \<open>Limiter\<close>.
\<close>

section \<open>The critical sections\<close>

text \<open>
  The state: the enforcer, the clock, how long the next critical section on a bucket will take, and, for
  the specification, the sends let through by their agents and times. The admin store is a function
  of time (\<open>history\<close>).
\<close>

record lim_sys =
  enf :: EmbeddedLimitEnforcer
  instant :: time
  lag :: nat
  passed :: "(string \<times> time) list"

definition cache_lookup :: "string \<Rightarrow> lim_sys \<Rightarrow> AgentLimits option option \<times> lim_sys" where
  "cache_lookup a s =
     ((case fmlookup (cache (enf s)) a of
         None \<Rightarrow> None
       | Some entry \<Rightarrow> if instant s - fetchAt entry < cacheTTL (enf s) then Some (limits entry) else None), s)"

definition store_query :: "'st limit_getter \<Rightarrow> (time \<Rightarrow> 'st) \<Rightarrow> string \<Rightarrow> lim_sys \<Rightarrow> AgentLimits option \<times> lim_sys" where
  "store_query getter history a s = (fst (getter (history (instant s)) (orgID (enf s)) a), s)"

definition cache_store :: "string \<Rightarrow> AgentLimits option \<Rightarrow> lim_sys \<Rightarrow> unit \<times> lim_sys" where
  "cache_store a l s =
     ((), if fmlen (cache (enf s)) < maxMapEntries
          then s\<lparr>enf := (enf s)\<lparr>cache := fmupd a \<lparr>limits = l, fetchAt = instant s\<rparr> (cache (enf s))\<rparr>\<rparr>
          else s)"

definition get_bucket :: "string \<Rightarrow> lim_sys \<Rightarrow> bucket_ref \<times> lim_sys" where
  "get_bucket a s = (let (ref, e) = bucket a (enf s) in (ref, s\<lparr>enf := e\<rparr>))"

definition now_clock :: "lim_sys \<Rightarrow> clock" where
  "now_clock s = \<lparr>c_since = instant s, c_fetch = instant s, c_cutoff = instant s, c_send = instant s + int (lag s)\<rparr>"

definition try_record :: "string \<Rightarrow> int \<Rightarrow> bucket_ref \<Rightarrow> lim_sys \<Rightarrow> bool \<times> lim_sys" where
  "try_record a limit ref s =
     (let (ok, e) = use_bucket limit (now_clock s) ref (enf s);
          t = instant s + int (lag s)
      in (ok, s\<lparr>enf := e, instant := t, passed := (if ok then passed s @ [(a, t)] else passed s)\<rparr>))"

section \<open>The methods\<close>

definition effective_act :: "'st limit_getter \<Rightarrow> (time \<Rightarrow> 'st) \<Rightarrow> string \<Rightarrow> (AgentLimits option \<Rightarrow> (lim_sys, 'r) act)
    \<Rightarrow> (lim_sys, 'r) act" where
  "effective_act getter history a k =
     atomically (cache_lookup a) (\<lambda>hit.
       case hit of
         Some l \<Rightarrow> k l
       | None \<Rightarrow>
           atomically (store_query getter history a) (\<lambda>l.
           atomically (cache_store a l) (\<lambda>u. k l)))"

datatype lim_op = DoCheckSend string int | DoCheckPending string int | DoStreamMaxLen string | DoEffective string

datatype lim_answer = Checked "limit_error option" | Len int | Info LimitInfo

fun lim_act :: "'st limit_getter \<Rightarrow> (time \<Rightarrow> 'st) \<Rightarrow> lim_op \<Rightarrow> (lim_sys, lim_answer) act" where
  "lim_act getter history (DoCheckSend a n) =
     effective_act getter history a (\<lambda>lo.
       case lo of
         None \<Rightarrow> Ret (Checked None)
       | Some l \<Rightarrow>
           if MaxBodyBytes l > 0 \<and> n > MaxBodyBytes l
           then Ret (Checked (Some (BodySizeExceeds n (MaxBodyBytes l) a)))
           else if MaxSendPerMin l > 0 then
             atomically (get_bucket a) (\<lambda>ref.
             atomically (try_record a (MaxSendPerMin l) ref) (\<lambda>ok.
             Ret (Checked (if \<not> ok then Some (SendRateExceeded (MaxSendPerMin l) a) else None))))
           else Ret (Checked None))"
| "lim_act getter history (DoCheckPending a n) =
     effective_act getter history a (\<lambda>lo.
       case lo of
         None \<Rightarrow> Ret (Checked None)
       | Some l \<Rightarrow>
           if MaxPendingTasks l > 0 \<and> n > MaxPendingTasks l
           then Ret (Checked (Some (PendingLimitReached (MaxPendingTasks l) a)))
           else Ret (Checked None))"
| "lim_act getter history (DoStreamMaxLen a) =
     effective_act getter history a (\<lambda>lo. Ret (Len (case lo of None \<Rightarrow> 0 | Some l \<Rightarrow> MaxStreamLen l)))"
| "lim_act getter history (DoEffective a) =
     effective_act getter history a (\<lambda>lo. Ret (Info (info_of lo)))"

text \<open>Time passes between the critical sections.\<close>

datatype lim_event = Pass nat nat

fun lim_other :: "lim_event \<Rightarrow> lim_sys \<Rightarrow> lim_sys" where
  "lim_other (Pass d l) s = s\<lparr>instant := instant s + int d, lag := l\<rparr>"

lemmas lim_sections = cache_lookup_def store_query_def cache_store_def get_bucket_def try_record_def

lemma run_effective:
  "run (effective_act getter history a k) s =
     (let (l, e) = effectiveLimits getter (history (instant s)) (now_clock s) a (enf s)
      in run (k l) (s\<lparr>enf := e\<rparr>))"
  by (auto simp: effective_act_def lim_sections effectiveLimits_def now_clock_def Let_def
      split: option.split prod.split)

lemma now_clock_enf [simp]: "now_clock (s\<lparr>enf := e\<rparr>) = now_clock s"
  by (simp add: now_clock_def)

text \<open>Uninterrupted, the sequences are the methods of the enforcer.\<close>

lemma run_lim_act:
  "fst (run (lim_act getter history (DoCheckSend a n)) s) =
     Checked (fst (emb_CheckSend getter (history (instant s)) (now_clock s) a n (enf s)))"
  "enf (snd (run (lim_act getter history (DoCheckSend a n)) s)) =
     snd (emb_CheckSend getter (history (instant s)) (now_clock s) a n (enf s))"
  "fst (run (lim_act getter history (DoCheckPending a n)) s) =
     Checked (fst (emb_CheckPendingTasks getter (history (instant s)) (now_clock s) a n (enf s)))"
  "fst (run (lim_act getter history (DoStreamMaxLen a)) s) =
     Len (fst (emb_GetStreamMaxLen getter (history (instant s)) (now_clock s) a (enf s)))"
  "fst (run (lim_act getter history (DoEffective a)) s) =
     Info (case fst (emb_GetEffectiveLimits getter (history (instant s)) (now_clock s) a (enf s)) of Inr i \<Rightarrow> i)"
  by (auto simp: run_effective emb_CheckSend_def emb_CheckPendingTasks_def emb_GetStreamMaxLen_def
      emb_GetEffectiveLimits_def get_bucket_def try_record_def Let_def split: prod.split option.split)

fun agent_of :: "lim_op \<Rightarrow> string" where
  "agent_of (DoCheckSend a n) = a"
| "agent_of (DoCheckPending a n) = a"
| "agent_of (DoStreamMaxLen a) = a"
| "agent_of (DoEffective a) = a"

section \<open>The rate limit under interleaving\<close>

definition sends_of :: "string \<Rightarrow> (string \<times> time) list \<Rightarrow> time list" where
  "sends_of a ps = map snd (filter (\<lambda>p. fst p = a) ps)"

text \<open>
  \<open>bucket_sound\<close>: the bucket of \<open>a\<close> holds its sends later than some moment at least a minute ago, there is
  none before the first send, and at none of its sends were there more than \<open>L\<close> in the minute up to it.
\<close>

definition bucket_sound :: "string \<Rightarrow> int \<Rightarrow> lim_sys \<Rightarrow> bool" where
  "bucket_sound a L s \<longleftrightarrow>
     (case fmlookup (rate (enf s)) a of
        None \<Rightarrow> sends_of a (passed s) = []
      | Some b \<Rightarrow> \<exists>k. b = filter (\<lambda>t. t > k) (sends_of a (passed s)) \<and> k \<le> instant s - Minute) \<and>
     (\<forall>t\<in>set (sends_of a (passed s)). t \<le> instant s) \<and>
     (\<forall>t\<in>set (sends_of a (passed s)). int (length (in_window t (sends_of a (passed s)))) \<le> L)"

definition rate_limited :: "int \<Rightarrow> AgentLimits option \<Rightarrow> bool" where
  "rate_limited L lo = (case lo of None \<Rightarrow> False | Some l \<Rightarrow> 0 < MaxSendPerMin l \<and> MaxSendPerMin l \<le> L)"

text \<open>
  The buckets belong to agents of a set \<open>A\<close> that the map has room for, so that \<open>bucket\<close> hands out no
  throwaway bucket.
\<close>

definition rate_state :: "string \<Rightarrow> string set \<Rightarrow> string \<Rightarrow> int \<Rightarrow> lim_sys \<Rightarrow> bool" where
  "rate_state org A a L s \<longleftrightarrow> orgID (enf s) = org \<and> bucket_sound a L s \<and>
     (case fmlookup (cache (enf s)) a of None \<Rightarrow> True | Some entry \<Rightarrow> rate_limited L (limits entry)) \<and>
     fmdom' (rate (enf s)) \<subseteq> A \<and> finite A \<and> a \<in> A \<and> card A \<le> maxMapEntries"

text \<open>The ghost of a call says whether it holds the bucket of \<open>a\<close>, which then is in the map.\<close>

definition has_bucket :: "string \<Rightarrow> lim_sys \<Rightarrow> bool" where
  "has_bucket a s \<longleftrightarrow> fmlookup (rate (enf s)) a \<noteq> None"

definition rate_rel :: "string \<Rightarrow> string set \<Rightarrow> string \<Rightarrow> int \<Rightarrow> lim_sys \<Rightarrow> bool \<Rightarrow> lim_sys \<Rightarrow> bool \<Rightarrow> bool" where
  "rate_rel org A a L s q s' q' \<longleftrightarrow> (q \<longrightarrow> has_bucket a s) \<longrightarrow>
     rate_state org A a L s' \<and> (has_bucket a s \<longrightarrow> has_bucket a s') \<and> (q' \<longrightarrow> has_bucket a s')"

abbreviation "rated org A a L \<equiv> along (rate_state org A a L) (rate_rel org A a L) (\<lambda>q r. True)"

lemma rated_atomically:
  assumes "\<And>s. rate_state org A a L s \<Longrightarrow> rate_state org A a L (snd (f s)) \<and> (has_bucket a s \<longrightarrow> has_bucket a (snd (f s))) \<and>
    rated org A a L (k (fst (f s))) False"
  shows "rated org A a L (atomically f k) False"
  using assms by (auto simp: along_atomically rate_rel_def)

lemma rated_effective:
  assumes g: "\<And>t. rate_limited L (fst (getter (history t) org a))"
    and k: "\<And>l. b = a \<Longrightarrow> rate_limited L l \<Longrightarrow> rated org A a L (k l) False"
    and k': "\<And>l. b \<noteq> a \<Longrightarrow> rated org A a L (k l) False"
  shows "rated org A a L (effective_act getter history b k) False"
  unfolding effective_act_def
proof (rule rated_atomically, intro conjI)
  fix s assume s: "rate_state org A a L s"
  show "rate_state org A a L (snd (cache_lookup b s))" "has_bucket a s \<longrightarrow> has_bucket a (snd (cache_lookup b s))"
    using s by (simp_all add: cache_lookup_def)
  have miss: "rated org A a L (atomically (store_query getter history b) (\<lambda>l. atomically (cache_store b l) (\<lambda>u. k l))) False"
  proof (rule rated_atomically, intro conjI)
    fix s assume s: "rate_state org A a L s"
    show "rate_state org A a L (snd (store_query getter history b s))"
      "has_bucket a s \<longrightarrow> has_bucket a (snd (store_query getter history b s))" using s by (simp_all add: store_query_def)
    let ?l = "fst (store_query getter history b s)"
    have l: "b = a \<Longrightarrow> rate_limited L ?l" using g s by (simp add: store_query_def rate_state_def)
    show "rated org A a L (atomically (cache_store b ?l) (\<lambda>u. k ?l)) False"
    proof (rule rated_atomically, intro conjI)
      fix s assume "rate_state org A a L s"
      then show "rate_state org A a L (snd (cache_store b ?l s))"
        using l by (auto simp: cache_store_def rate_state_def bucket_sound_def split: option.splits)
      show "has_bucket a s \<longrightarrow> has_bucket a (snd (cache_store b ?l s))" by (simp add: cache_store_def has_bucket_def)
      show "rated org A a L (k ?l) False" using k k' l by (cases "b = a") auto
    qed
  qed
  show "rated org A a L (case fst (cache_lookup b s) of Some l \<Rightarrow> k l
      | None \<Rightarrow> atomically (store_query getter history b) (\<lambda>l. atomically (cache_store b l) (\<lambda>u. k l))) False"
    using miss s k k'
    by (cases "b = a") (auto simp: cache_lookup_def rate_state_def split: option.splits)
qed

lemma try_record_other:
  assumes s: "rate_state org A a L s" and "b \<noteq> a" and ref: "ref = Throwaway \<or> ref = InMap b"
  shows "rate_state org A a L (snd (try_record b limit ref s)) \<and> (has_bucket a s \<longrightarrow> has_bucket a (snd (try_record b limit ref s)))"
proof -
  let ?s = "snd (try_record b limit ref s)"
  have e: "sends_of a (passed ?s) = sends_of a (passed s)" "fmlookup (rate (enf ?s)) a = fmlookup (rate (enf s)) a"
    "cache (enf ?s) = cache (enf s)" "orgID (enf ?s) = orgID (enf s)" "instant ?s = instant s + int (lag s)"
    "fmdom' (rate (enf ?s)) = fmdom' (rate (enf s))"
    using assms(2) ref
    by (auto simp: try_record_def sends_of_def case_prod_unfold Let_def fmdom'I insert_absorb split: option.splits)
  then show ?thesis using s
    by (auto simp: rate_state_def bucket_sound_def has_bucket_def split: option.splits)
qed

lemma try_record_has: "has_bucket a s \<Longrightarrow> has_bucket a (snd (try_record b limit ref s))"
  by (cases ref) (auto simp: try_record_def has_bucket_def case_prod_unfold Let_def split: option.split)

lemma try_record_rate:
  assumes s: "rate_state org A a L s" and lim: "0 < limit" "limit \<le> L" and has: "has_bucket a s"
  shows "rate_state org A a L (snd (try_record a limit (InMap a) s))"
proof -
  obtain bk where bk: "fmlookup (rate (enf s)) a = Some bk" using has by (auto simp: has_bucket_def)
  then obtain k where b: "bk = filter (\<lambda>t. t > k) (sends_of a (passed s))" "k \<le> instant s - Minute"
    and past: "\<forall>t\<in>set (sends_of a (passed s)). t \<le> instant s"
    and win: "\<forall>t\<in>set (sends_of a (passed s)). int (length (in_window t (sends_of a (passed s)))) \<le> L"
    using s by (auto simp: rate_state_def bucket_sound_def)
  let ?acc = "sends_of a (passed s)" and ?c = "instant s - Minute" and ?n = "instant s + int (lag s)"
  let ?fr = "filter (\<lambda>t. t > ?c) ?acc"
  have fr: "filter (\<lambda>t. t > ?c) bk = ?fr" unfolding b(1) by (rule filter_filter_ge) (rule b(2))
  have past': "\<forall>t\<in>set ?acc. t \<le> ?n" using past by force
  have dom: "fmdom' (fmupd a x (rate (enf s))) = fmdom' (rate (enf s))" for x
    using bk by (simp add: fmdom'I insert_absorb)
  have tr: "try_record a limit (InMap a) s =
      (if limit \<le> int (length ?fr)
       then (False, s\<lparr>enf := (enf s)\<lparr>rate := fmupd a ?fr (rate (enf s))\<rparr>, instant := ?n\<rparr>)
       else (True, s\<lparr>enf := (enf s)\<lparr>rate := fmupd a (?fr @ [?n]) (rate (enf s))\<rparr>, instant := ?n,
              passed := passed s @ [(a, ?n)]\<rparr>))"
    using lim(1) by (simp add: try_record_def now_clock_def bk tryRecord_def fr Let_def)
  show ?thesis
  proof (cases "limit \<le> int (length ?fr)")
    case refused: True
    then show ?thesis
      using s past' win dom unfolding tr
      by (auto simp: rate_state_def bucket_sound_def intro!: exI [of _ ?c])
  next
    case False
    have acc: "sends_of a (passed s @ [(a, ?n)]) = ?acc @ [?n]" by (simp add: sends_of_def)
    have kept: "?fr @ [?n] = filter (\<lambda>t. t > ?c) (?acc @ [?n])"
    proof -
      have "?c < ?n" using Minute_pos by linarith
      then show ?thesis by simp
    qed
    have "\<forall>t\<in>set (?acc @ [?n]). int (length (in_window t (?acc @ [?n]))) \<le> L"
      by (rule window_step [OF win past', of "instant s"]) (use False lim in simp_all)
    moreover have "\<forall>t\<in>set (?acc @ [?n]). t \<le> ?n" using past' by simp
    moreover define s' where "s' = snd (try_record a limit (InMap a) s)"
    have s': "fmlookup (rate (enf s')) a = Some (?fr @ [?n])" "passed s' = passed s @ [(a, ?n)]" "instant s' = ?n"
      "cache (enf s') = cache (enf s)" "orgID (enf s') = orgID (enf s)" "fmdom' (rate (enf s')) = fmdom' (rate (enf s))"
      using False dom by (simp_all add: s'_def tr)
    ultimately have "bucket_sound a L s'"
      unfolding bucket_sound_def s' acc option.case by (intro conjI exI [of _ ?c] kept) simp_all
    then show ?thesis using s s' by (simp add: rate_state_def flip: s'_def)
  qed
qed

lemma get_bucket_rate:
  assumes "rate_state org A a L s" and "b \<in> A"
  shows "rate_state org A a L (snd (get_bucket b s))"
    and "has_bucket a s \<longrightarrow> has_bucket a (snd (get_bucket b s))"
    and "fst (get_bucket b s) = Throwaway \<or> fst (get_bucket b s) = InMap b"
    and "b = a \<Longrightarrow> fst (get_bucket b s) = InMap a \<and> has_bucket a (snd (get_bucket b s))"
proof -
  have room: "fmlen (rate (enf s)) < maxMapEntries" if "fmlookup (rate (enf s)) x = None" "x \<in> A" for x
  proof -
    have "fmdom' (rate (enf s)) \<subset> A" using assms(1) that by (auto simp: rate_state_def fmlookup_dom'_iff)
    then have "card (fmdom' (rate (enf s))) < card A" using assms(1) by (simp add: rate_state_def psubset_card_mono)
    then show ?thesis using assms(1) by (simp add: fmlen_def fcard.rep_eq rate_state_def fmdom'_alt_def)
  qed
  show "rate_state org A a L (snd (get_bucket b s))" "has_bucket a s \<longrightarrow> has_bucket a (snd (get_bucket b s))"
    "fst (get_bucket b s) = Throwaway \<or> fst (get_bucket b s) = InMap b"
    using assms
    by (auto simp: get_bucket_def bucket_def rate_state_def bucket_sound_def has_bucket_def Let_def split: option.split)
  show "b = a \<Longrightarrow> fst (get_bucket b s) = InMap a \<and> has_bucket a (snd (get_bucket b s))"
    using room [of a] assms by (auto simp: get_bucket_def bucket_def has_bucket_def Let_def split: option.split)
qed

lemma rated_send:
  assumes l: "b = a \<Longrightarrow> 0 < limit \<and> limit \<le> L" and "b \<in> A"
  shows "rated org A a L (atomically (get_bucket b) (\<lambda>ref. atomically (try_record b limit ref) (\<lambda>ok. Ret (r ok)))) False"
proof (cases "b = a")
  case True
  show ?thesis unfolding True
  proof (subst along_atomically, intro allI impI exI [of _ True] conjI)
    fix s assume s: "rate_state org A a L s"
    have "a \<in> A" using assms(2) True by simp
    note g = get_bucket_rate [OF s this]
    show "rate_rel org A a L s False (snd (get_bucket a s)) True" using g by (simp add: rate_rel_def)
    show "rated org A a L (atomically (try_record a limit (fst (get_bucket a s))) (\<lambda>ok. Ret (r ok))) True"
      unfolding conjunct1 [OF g(4) [OF refl]]
      using try_record_rate try_record_has l True by (auto simp: along_atomically rate_rel_def)
  qed
next
  case False
  show ?thesis
  proof (rule rated_atomically, intro conjI)
    fix s assume s: "rate_state org A a L s"
    note g = get_bucket_rate [OF s assms(2)]
    show "rate_state org A a L (snd (get_bucket b s))" "has_bucket a s \<longrightarrow> has_bucket a (snd (get_bucket b s))"
      by (rule g)+
    show "rated org A a L (atomically (try_record b limit (fst (get_bucket b s))) (\<lambda>ok. Ret (r ok))) False"
      by (rule rated_atomically) (use try_record_other [OF _ False g(3)] in simp)
  qed
qed

lemma rated_call:
  assumes "\<And>t. rate_limited L (fst (getter (history t) org a))" and "agent_of opn \<in> A"
  shows "rated org A a L (lim_act getter history opn) False"
  using assms(2)
  by (cases opn)
    (auto simp: rate_limited_def Let_def intro!: rated_effective [of L getter history org a, OF assms(1)] rated_send
      split: option.split)

lemma pass_rate: "rate_state org A a L s \<Longrightarrow> rate_state org A a L (lim_other e s)"
  by (cases e) (fastforce simp: rate_state_def bucket_sound_def split: option.splits)

fun agent_within :: "string set \<Rightarrow> (lim_op, lim_event) move \<Rightarrow> bool" where
  "agent_within A (Begin c) = (agent_of c \<in> A)"
| "agent_within A _ = True"

interpretation rate_pool: pool_invariant "lim_act getter history" lim_other "rate_state org A a L"
  "rate_rel org A a L" "\<lambda>c q r. True" "\<lambda>c. False"
  "\<lambda>t conf. (\<forall>x. rate_limited L (fst (getter (history x) org a))) \<and> agent_within A t"
  "\<lambda>pool qs s. rate_state org A a L s \<and> (True \<in> set qs \<longrightarrow> has_bucket a s)"
proof unfold_locales
  show "rate_state org A a L (lim_other e s) \<and> (True \<in> set qs \<longrightarrow> has_bucket a (lim_other e s))"
    if "rate_state org A a L s \<and> (True \<in> set qs \<longrightarrow> has_bucket a s)" for qs s e
    using that pass_rate [of org A a L s e] by (cases e) (simp add: has_bucket_def)
  show "rate_state org A a L (eff s) \<and> (True \<in> set (qs[i := q]) \<longrightarrow> has_bucket a (eff s))"
    if "rate_state org A a L s \<and> (True \<in> set qs \<longrightarrow> has_bucket a s)" "length qs = length pool" "i < length pool"
      "rate_rel org A a L s (qs ! i) (eff s) q" for pool :: "(lim_op \<times> (lim_sys, lim_answer) act) list" and qs s i eff q
  proof -
    have "qs ! i \<longrightarrow> True \<in> set qs" using that(2,3) nth_mem [of i qs] by (cases "qs ! i") auto
    then show ?thesis using that set_update_subset_insert [of qs i q] unfolding rate_rel_def by auto
  qed
qed (simp_all add: rated_call)

lemma interleaved_rate:
  assumes "\<And>x. rate_limited L (fst (getter (history x) org a))" and "rate_state org A a L s"
    and "\<forall>c \<in> set (begun ts). agent_of c \<in> A"
    and "run_pool (lim_act getter history) lim_other ts ([], s) = (pool, s')"
  shows "rate_state org A a L s'"
proof -
  have "always (\<lambda>t conf. (\<forall>x. rate_limited L (fst (getter (history x) org a))) \<and> agent_within A t)
      (lim_act getter history) lim_other ts ([], s)"
    by (rule always_begun) (use assms(1,3) in simp_all)
  from rate_pool.from_start [OF _ this assms(4)] assms(2) show ?thesis by auto
qed

section \<open>The age of the limits under interleaving\<close>

text \<open>
  Every thread is begun with the time of its beginning, and none takes longer than \<open>D\<close>. Then what the
  cache holds was in the store at most \<open>D\<close> before its time of caching (\<open>aged\<close>). The ghost of a thread
  is its beginning and where it has its limits from: read by itself at some time, or found in the cache
  and then read by someone at some time.
\<close>

datatype view = Nothing | ReadAt time | HitFrom time

definition aged :: "'st limit_getter \<Rightarrow> (time \<Rightarrow> 'st) \<Rightarrow> string \<Rightarrow> duration \<Rightarrow> duration \<Rightarrow> lim_sys \<Rightarrow> bool" where
  "aged getter history org ttl D s \<longleftrightarrow> orgID (enf s) = org \<and> cacheTTL (enf s) = ttl \<and>
     (\<forall>a entry. fmlookup (cache (enf s)) a = Some entry \<longrightarrow>
        (\<exists>t. limits entry = fst (getter (history t) org a) \<and> fetchAt entry - D \<le> t \<and> t \<le> fetchAt entry \<and>
           fetchAt entry \<le> instant s))"

fun view_ok :: "duration \<Rightarrow> duration \<Rightarrow> time \<Rightarrow> view \<Rightarrow> time \<Rightarrow> bool" where
  "view_ok ttl D t0 Nothing now = True"
| "view_ok ttl D t0 (ReadAt t) now = (t0 \<le> t \<and> t \<le> now)"
| "view_ok ttl D t0 (HitFrom t) now = (t0 - ttl - D < t \<and> t \<le> now)"

definition age_rel :: "'st limit_getter \<Rightarrow> (time \<Rightarrow> 'st) \<Rightarrow> string \<Rightarrow> duration \<Rightarrow> duration
    \<Rightarrow> lim_sys \<Rightarrow> time \<times> view \<Rightarrow> lim_sys \<Rightarrow> time \<times> view \<Rightarrow> bool" where
  "age_rel getter history org ttl D s q s' q' \<longleftrightarrow> fst q' = fst q \<and> instant s \<le> instant s' \<and>
     (fst q \<le> instant s \<and> instant s \<le> fst q + D \<and> view_ok ttl D (fst q) (snd q) (instant s) \<longrightarrow>
        aged getter history org ttl D s' \<and> view_ok ttl D (fst q) (snd q') (instant s'))"

text \<open>What an answer says of the limits it was given under.\<close>

fun agrees :: "lim_op \<Rightarrow> AgentLimits option \<Rightarrow> lim_answer \<Rightarrow> bool" where
  "agrees (DoCheckSend a n) lo (Checked e) =
     (e = None \<longrightarrow> \<not> (0 < I_MaxBodyBytes (info_of lo) \<and> I_MaxBodyBytes (info_of lo) < n))"
| "agrees (DoCheckPending a n) lo (Checked e) =
     (e = None \<longleftrightarrow> \<not> (0 < I_MaxPendingTasks (info_of lo) \<and> I_MaxPendingTasks (info_of lo) < n))"
| "agrees (DoStreamMaxLen a) lo (Len m) = (m = I_MaxStreamLen (info_of lo))"
| "agrees (DoEffective a) lo (Info i) = (i = info_of lo)"
| "agrees _ _ _ = False"

definition age_end :: "'st limit_getter \<Rightarrow> (time \<Rightarrow> 'st) \<Rightarrow> string \<Rightarrow> lim_op \<Rightarrow> time \<times> view \<Rightarrow> lim_answer \<Rightarrow> bool" where
  "age_end getter history org opn q r \<longleftrightarrow>
     (\<exists>t. (snd q = ReadAt t \<or> snd q = HitFrom t) \<and>
        agrees opn (fst (getter (history t) org (agent_of opn))) r)"

lemma aged_same:
  "aged getter history org ttl D s \<Longrightarrow> cache (enf s') = cache (enf s) \<Longrightarrow> orgID (enf s') = orgID (enf s)
    \<Longrightarrow> cacheTTL (enf s') = cacheTTL (enf s) \<Longrightarrow> instant s \<le> instant s' \<Longrightarrow> aged getter history org ttl D s'"
  unfolding aged_def by (metis order_trans)

lemma view_ok_mono: "view_ok ttl D t0 v now \<Longrightarrow> now \<le> now' \<Longrightarrow> view_ok ttl D t0 v now'"
  by (cases v) auto

lemma age_rel_same:
  assumes "aged getter history org ttl D s" and "cache (enf s') = cache (enf s)" and "orgID (enf s') = orgID (enf s)"
    and "cacheTTL (enf s') = cacheTTL (enf s)" and "instant s \<le> instant s'"
  shows "age_rel getter history org ttl D s q s' q"
  using aged_same [OF assms] assms(5) view_ok_mono by (auto simp: age_rel_def)

lemma along_effective:
  fixes getter :: "'st limit_getter" and k :: "AgentLimits option \<Rightarrow> (lim_sys, 'r) act"
  assumes k: "\<And>t v. v = ReadAt t \<or> v = HitFrom t \<Longrightarrow>
    along (aged getter history org ttl D) (age_rel getter history org ttl D) F (k (fst (getter (history t) org a))) (t0, v)"
  shows "along (aged getter history org ttl D) (age_rel getter history org ttl D) F
    (effective_act getter history a k) (t0, Nothing)"
  unfolding effective_act_def
proof (subst along_atomically, intro allI impI)
  let ?A = "along (aged getter history org ttl D) (age_rel getter history org ttl D) F"
  let ?R = "age_rel getter history org ttl D"
  let ?miss = "atomically (store_query getter history a) (\<lambda>l. atomically (cache_store a l) (\<lambda>u. k l))"
  fix s assume s: "aged getter history org ttl D s"
  have miss: "?A ?miss (t0, Nothing)"
  proof (subst along_atomically, intro allI impI)
    fix s assume s: "aged getter history org ttl D s"
    let ?t = "instant s" and ?l = "fst (store_query getter history a s)"
    have l: "?l = fst (getter (history ?t) org a)" using s by (simp add: store_query_def aged_def)
    have "?R s (t0, Nothing) (snd (store_query getter history a s)) (t0, ReadAt ?t)"
      using s by (simp add: age_rel_def store_query_def)
    moreover have "?A (atomically (cache_store a ?l) (\<lambda>u. k ?l)) (t0, ReadAt ?t)"
    proof (subst along_atomically, intro allI impI)
      fix s' assume s': "aged getter history org ttl D s'"
      have "t0 \<le> ?t \<and> ?t \<le> instant s' \<and> instant s' \<le> t0 + D \<Longrightarrow> aged getter history org ttl D (snd (cache_store a ?l s'))"
        using s' l by (auto simp: cache_store_def aged_def intro!: exI [of _ ?t])
      then have "?R s' (t0, ReadAt ?t) (snd (cache_store a ?l s')) (t0, ReadAt ?t)"
        by (auto simp: age_rel_def cache_store_def)
      then show "\<exists>q'. ?R s' (t0, ReadAt ?t) (snd (cache_store a ?l s')) q' \<and> ?A (k ?l) q'"
        using k [of "ReadAt ?t" ?t] l by auto
    qed
    ultimately show "\<exists>q'. ?R s (t0, Nothing) (snd (store_query getter history a s)) q' \<and>
        ?A (atomically (cache_store a ?l) (\<lambda>u. k ?l)) q'" by blast
  qed
  show "\<exists>q'. ?R s (t0, Nothing) (snd (cache_lookup a s)) q' \<and>
      ?A (case fst (cache_lookup a s) of None \<Rightarrow> ?miss | Some l \<Rightarrow> k l) q'"
  proof (cases "fst (cache_lookup a s)")
    case None
    then show ?thesis using miss age_rel_same [OF s, of s "(t0, Nothing)"]
      by (intro exI [of _ "(t0, Nothing)"]) (simp add: cache_lookup_def)
  next
    case (Some l)
    then obtain entry where e: "fmlookup (cache (enf s)) a = Some entry" "instant s - fetchAt entry < ttl" "l = limits entry"
      using s by (auto simp: cache_lookup_def aged_def split: option.splits if_splits)
    then obtain t where t: "limits entry = fst (getter (history t) org a)" "fetchAt entry - D \<le> t" "t \<le> fetchAt entry"
      "fetchAt entry \<le> instant s" using s unfolding aged_def by blast
    have "?R s (t0, Nothing) (snd (cache_lookup a s)) (t0, HitFrom t)"
      using s e(2) t by (auto simp: age_rel_def cache_lookup_def)
    then show ?thesis using k [of "HitFrom t" t] Some e(3) t(1)
      by (intro exI [of _ "(t0, HitFrom t)"]) simp
  qed
qed

lemma along_mono:
  assumes "along I R F act q" and "\<And>q r. F q r \<Longrightarrow> F' q r"
  shows "along I R F' act q"
  using assms(1) by (induction act arbitrary: q) (auto simp: assms(2), (metis rangeI)+)

lemma along_call:
  "along (aged getter history org ttl D) (age_rel getter history org ttl D)
     (age_end getter history org opn) (lim_act getter history opn) (t0, Nothing)"
proof -
  let ?A = "\<lambda>op. along (aged getter history org ttl D) (age_rel getter history org ttl D) (age_end getter history org op)"
  have send: "?A op (atomically (get_bucket b) (\<lambda>ref. atomically (try_record b limit ref) (\<lambda>ok. Ret (r ok)))) (t0, v)"
    if "\<And>ok. age_end getter history org op (t0, v) (r ok)" for op b limit v and r :: "bool \<Rightarrow> lim_answer"
  proof (rule along_same)
    fix s assume s: "aged getter history org ttl D s"
    show "age_rel getter history org ttl D s (t0, v) (snd (get_bucket b s)) (t0, v)"
      by (rule age_rel_same [OF s]) (auto simp: get_bucket_def bucket_def Let_def split: option.split)
  next
    fix ref
    show "?A op (atomically (try_record b limit ref) (\<lambda>ok. Ret (r ok))) (t0, v)"
    proof (rule along_same)
      fix s assume s: "aged getter history org ttl D s"
      show "age_rel getter history org ttl D s (t0, v) (snd (try_record b limit ref s)) (t0, v)"
        by (rule age_rel_same [OF s]; cases ref) (auto simp: try_record_def case_prod_unfold Let_def split: option.split)
    qed (use that in simp)
  qed
  show ?thesis
    by (cases opn)
      (auto simp: age_end_def zero_LimitInfo_def Let_def intro!: along_effective send split: option.split)
qed

text \<open>The time a call takes, and the invariant of the pool.\<close>

definition in_time :: "duration \<Rightarrow> (lim_op \<times> time, lim_event) move
    \<Rightarrow> ((lim_op \<times> time) \<times> (lim_sys, lim_answer) act) list \<times> lim_sys \<Rightarrow> bool" where
  "in_time D t conf \<longleftrightarrow>
     (case t of Begin c \<Rightarrow> snd c = instant (snd conf) | _ \<Rightarrow> True) \<and>
     list_all (\<lambda>x. answer (snd x) = None \<longrightarrow> instant (snd conf) \<le> snd (fst x) + D) (fst conf)"

fun spawn_lim :: "'st limit_getter \<Rightarrow> (time \<Rightarrow> 'st) \<Rightarrow> lim_op \<times> time \<Rightarrow> (lim_sys, lim_answer) act" where
  "spawn_lim getter history (opn, t0) = lim_act getter history opn"

definition age_ok :: "duration \<Rightarrow> duration \<Rightarrow> time \<Rightarrow> ('o \<times> time) \<times> ('st, 'r) act \<Rightarrow> time \<times> view \<Rightarrow> bool" where
  "age_ok ttl D now x q \<longleftrightarrow> fst q = snd (fst x) \<and> snd (fst x) \<le> now \<and>
     (answer (snd x) = None \<longrightarrow> now \<le> snd (fst x) + D) \<and> view_ok ttl D (snd (fst x)) (snd q) now"

definition age_inv :: "'st limit_getter \<Rightarrow> (time \<Rightarrow> 'st) \<Rightarrow> string \<Rightarrow> duration \<Rightarrow> duration
    \<Rightarrow> ((lim_op \<times> time) \<times> (lim_sys, lim_answer) act) list \<Rightarrow> (time \<times> view) list \<Rightarrow> lim_sys \<Rightarrow> bool" where
  "age_inv getter history org ttl D pool qs s \<longleftrightarrow> aged getter history org ttl D s \<and>
     list_all2 (age_ok ttl D (instant s)) pool qs"

lemma age_ok_later:
  assumes "list_all2 (age_ok ttl D now) pool qs" and "now \<le> now'"
    and "list_all (\<lambda>x. answer (snd x) = None \<longrightarrow> now' \<le> snd (fst x) + D) pool"
  shows "list_all2 (age_ok ttl D now') pool qs"
  using assms(1,3)
proof (induction rule: list_all2_induct)
  case (Cons x xs q qs)
  then show ?case using assms(2) view_ok_mono [OF _ assms(2), of ttl D _ "snd q"] by (auto simp: age_ok_def)
qed simp

interpretation ages: pool_invariant "spawn_lim getter history" lim_other "aged getter history org ttl D"
  "age_rel getter history org ttl D" "\<lambda>c. age_end getter history org (fst c)" "\<lambda>c. (snd c, Nothing)"
  "in_time D" "age_inv getter history org ttl D"
proof unfold_locales
  show "along (aged getter history org ttl D) (age_rel getter history org ttl D)
      (age_end getter history org (fst c)) (spawn_lim getter history c) (snd c, Nothing)" for c
    by (cases c) (simp add: along_call)
  show "aged getter history org ttl D s" if "age_inv getter history org ttl D pool qs s" for pool qs s
    using that by (simp add: age_inv_def)
  fix pool qs s assume G: "age_inv getter history org ttl D pool qs s" and len: "length qs = length pool"
  show "age_inv getter history org ttl D (pool @ [(c, spawn_lim getter history c)]) (qs @ [(snd c, Nothing)]) s"
    if "in_time D (Begin c) (pool @ [(c, spawn_lim getter history c)], s)" for c
    using G that len by (auto simp: age_inv_def in_time_def age_ok_def list_all2_append)
  show "age_inv getter history org ttl D pool qs (lim_other e s)" if ok: "in_time D (Other e) (pool, lim_other e s)" for e
  proof -
    obtain d l where e: "e = Pass d l" by (cases e)
    have "aged getter history org ttl D (lim_other e s)"
      using G aged_same [of getter history org ttl D s "lim_other e s"] by (simp add: age_inv_def e)
    then show ?thesis
      using G ok age_ok_later [of ttl D "instant s" pool qs "instant s + int d"]
      by (simp add: age_inv_def in_time_def e)
  qed
  show "age_inv getter history org ttl D (pool[i := (c, nxt s)]) (qs[i := q]) (eff s)"
    if i: "i < length pool" and p: "pool ! i = (c, Act nxt eff)" and r: "age_rel getter history org ttl D s (qs ! i) (eff s) q"
      and ok: "in_time D (Step i) (pool[i := (c, nxt s)], eff s)" for i c nxt eff q
  proof -
    have "age_ok ttl D (instant s) (c, Act nxt eff) (qs ! i)"
      using G i p by (metis age_inv_def list_all2_nthD)
    then have new: "aged getter history org ttl D (eff s)" "instant s \<le> instant (eff s)"
        "fst q = snd c" "snd c \<le> instant s" "view_ok ttl D (snd c) (snd q) (instant (eff s))"
      using r by (auto simp: age_ok_def age_rel_def)
    have "list_all2 (age_ok ttl D (instant s)) (pool[i := (c, Ret (Checked None))]) (qs[i := (snd c, Nothing)])"
      using G new by (intro list_all2_update_cong) (simp_all add: age_inv_def age_ok_def)
    moreover have "list_all (\<lambda>x. answer (snd x) = None \<longrightarrow> instant (eff s) \<le> snd (fst x) + D)
        (pool[i := (c, Ret (Checked None))])"
      using ok i by (auto simp: in_time_def list_all_length nth_list_update split: if_splits)
    ultimately have "list_all2 (age_ok ttl D (instant (eff s))) (pool[i := (c, Ret (Checked None))]) (qs[i := (snd c, Nothing)])"
      using new(2) age_ok_later by blast
    moreover have "age_ok ttl D (instant (eff s)) (c, nxt s) q"
      using ok new i by (auto simp: in_time_def age_ok_def list_all_length)
    ultimately have "list_all2 (age_ok ttl D (instant (eff s))) ((pool[i := (c, Ret (Checked None))])[i := (c, nxt s)])
        ((qs[i := (snd c, Nothing)])[i := q])" by (rule list_all2_update_cong)
    then show ?thesis using new(1) by (simp add: age_inv_def)
  qed
qed

lemma ended_ages:
  assumes "aged getter history org ttl D s"
    and "always (in_time D) (spawn_lim getter history) lim_other ts ([], s)"
    and "run_pool (spawn_lim getter history) lim_other ts ([], s) = (pool, s')"
    and "((opn, t0), Ret r) \<in> set pool" and "0 < ttl + D"
  shows "\<exists>t. t0 - ttl - D < t \<and> t \<le> instant s' \<and> agrees opn (fst (getter (history t) org (agent_of opn))) r"
proof -
  have "age_inv getter history org ttl D [] [] s" using assms(1) by (simp add: age_inv_def)
  from ages.from_start [OF this assms(2,3)] obtain qs where
    al: "\<forall>i<length pool. along (aged getter history org ttl D) (age_rel getter history org ttl D)
      (age_end getter history org (fst (fst (pool ! i)))) (snd (pool ! i)) (qs ! i)"
    and inv: "age_inv getter history org ttl D pool qs s'" unfolding ages.aligned_def by blast
  obtain i where i: "i < length pool" "pool ! i = ((opn, t0), Ret r)" using assms(4) by (auto simp: in_set_conv_nth)
  have e: "age_end getter history org opn (qs ! i) r" using al i by auto
  have "age_ok ttl D (instant s') ((opn, t0), Ret r :: (lim_sys, lim_answer) act) (qs ! i)"
    using inv i by (metis age_inv_def list_all2_nthD)
  moreover obtain t where t: "snd (qs ! i) = ReadAt t \<or> snd (qs ! i) = HitFrom t"
    "agrees opn (fst (getter (history t) org (agent_of opn))) r" using e by (auto simp: age_end_def)
  ultimately have "t0 - ttl - D < t \<and> t \<le> instant s'" using assms(5) by (auto simp: age_ok_def)
  then show ?thesis using t(2) by blast
qed

end
