(* ===== verification/LimiterProps.thy ===== *)
theory LimiterProps
  imports LimiterRuns GatewayProps
begin

text \<open>
  The properties of the embedded enforcer whose methods are called by many goroutines at once.
\<close>

section \<open>The rate limit\<close>

text \<open>
  C18: The rate limit under concurrency. Whatever calls of a fresh enforcer interleave and however time
  passes between their critical sections: if the store gives an agent a limit of at most \<open>L\<close> sends a minute
  throughout, then at no moment at which one of its sends is let through were there more than \<open>L\<close> of them,
  itself included, within the minute up to it. The calls are for at most \<open>maxMapEntries\<close> (10000) agents, that
  one included: once the map holds as many buckets, the code counts the sends of a new agent in throwaway
  buckets and lets all of them through.
\<close>

theorem interleaved_rate_limit:
  assumes "\<And>x. rate_limited L (fst (getter (store_at x) org a))"
    and "enf s = NewEmbeddedLimitEnforcerWithCacheTTL org ttl" and "passed s = []"
    and "card (insert a (agent_of ` set (begun ts))) \<le> maxMapEntries"
    and "run_pool (lim_act getter store_at) lim_other ts ([], s) = (pool, s')"
    and "t \<in> set (sends_of a (passed s'))"
  shows "int (length (in_window t (sends_of a (passed s')))) \<le> L"
proof -
  have "rate_state org (insert a (agent_of ` set (begun ts))) a L s"
    using assms(2-4)
    by (simp add: rate_state_def bucket_sound_def sends_of_def NewEmbeddedLimitEnforcerWithCacheTTL_def)
  from interleaved_rate [OF assms(1) this _ assms(5)] assms(6) show ?thesis
    by (simp add: rate_state_def bucket_sound_def)
qed

definition sample_lim :: lim_sys where
  "sample_lim = \<lparr>enf = NewEmbeddedLimitEnforcer ''o'', instant = 0, lag = 1, passed = []\<rparr>"

definition sample_sends :: "(lim_op, lim_event) move list" where
  "sample_sends = [Begin (DoCheckSend ''a1'' 7), Begin (DoCheckSend ''a1'' 7), Begin (DoCheckSend ''a1'' 7),
     Step 0, Step 0, Step 1, Step 0, Step 0, Other (Pass 1 2), Step 1, Step 0, Step 1, Step 2, Step 1, Step 1,
     Other (Pass 1 2), Step 2, Step 2]"

lemmas run_sample =
  run_pool_Cons sample_lim_def NewEmbeddedLimitEnforcer_def NewEmbeddedLimitEnforcerWithCacheTTL_def bucket_def
  fmlen_upd maxMapEntries_def lim_sections effective_act_def atomically_def sample_getter_def
  sample_limits_def tryRecord_def now_clock_def defaultLimitCacheTTL_def Second_def Minute_def

lemma sample_lim_fields:
  "enf sample_lim = \<lparr>orgID = ''o'', cacheTTL = 30000000000, cache = fmempty, rate = fmempty\<rparr>"
  "passed sample_lim = []"
  by (simp_all add: sample_lim_def NewEmbeddedLimitEnforcer_def NewEmbeddedLimitEnforcerWithCacheTTL_def
      defaultLimitCacheTTL_def Second_def)

lemma sample_sends_run:
  "passed (snd (run_pool (lim_act sample_getter (\<lambda>t. ())) lim_other sample_sends ([], sample_lim))) =
     [(''a1'', 3), (''a1'', 5)]"
  by (simp add: sample_sends_def run_sample)

lemma interleaved_rate_limit_witness:
  "int (length (in_window 5 (sends_of ''a1'' (passed (snd
     (run_pool (lim_act sample_getter (\<lambda>t. ())) lim_other sample_sends ([], sample_lim))))))) \<le> 2"
proof -
  have "begun sample_sends = replicate 3 (DoCheckSend ''a1'' 7)" by (simp add: sample_sends_def numeral_3_eq_3)
  then have "card (insert ''a1'' (agent_of ` set (begun sample_sends))) \<le> maxMapEntries" by (simp add: maxMapEntries_def)
  moreover have "enf sample_lim = NewEmbeddedLimitEnforcerWithCacheTTL ''o'' (30 * Second)"
    by (simp add: sample_lim_def NewEmbeddedLimitEnforcer_def defaultLimitCacheTTL_def)
  ultimately show ?thesis
    using interleaved_rate_limit [of 2 sample_getter "\<lambda>t. ()" "''o''" "''a1''" sample_lim "30 * Second" sample_sends _ _ 5,
        OF _ _ _ _ prod.collapse [symmetric]]
    by (simp add: sample_lim_fields rate_limited_def sample_getter_def sample_limits_def sample_sends_run sends_of_def)
qed

section \<open>The age of the limits\<close>

text \<open>
  C19: The age of the limits under concurrency. Whatever calls interleave on an enforcer whose cache is
  empty, if no call of the whole pool is under way for longer than \<open>D\<close>, then every call that has ended answered by
  limits that the store held for the agent at one moment later than \<open>cacheTTL + D\<close> before the call
  began. The cache alone does not give \<open>cacheTTL\<close>: an entry is dated when it is cached, after the query.
\<close>

theorem limits_age:
  assumes "cache (enf s) = fmempty" and "0 < cacheTTL (enf s) + D"
    and "always (in_time D) (spawn_lim getter store_at) lim_other ts ([], s)"
    and "run_pool (spawn_lim getter store_at) lim_other ts ([], s) = (pool, s')"
    and "((opn, t0), Ret r) \<in> set pool"
  shows "\<exists>t. t0 - cacheTTL (enf s) - D < t \<and> t \<le> instant s' \<and>
    agrees opn (fst (getter (store_at t) (orgID (enf s)) (agent_of opn))) r"
  by (rule ended_ages [OF _ assms(3-5,2)]) (simp add: aged_def assms(1))

text \<open>The limit of the store is lifted at 1, after the query of the first call: the second still answers by it.\<close>

definition sample_history :: "time \<Rightarrow> bool" where "sample_history t = (t < 1)"

definition changing_getter :: "bool limit_getter" where
  "changing_getter limited org a = (if limited then sample_getter () org a else (None, None))"

definition sample_reads :: "(lim_op \<times> time, lim_event) move list" where
  "sample_reads = [Begin (DoStreamMaxLen ''a1'', 0), Step 0, Step 0, Other (Pass 3 0), Step 0,
     Other (Pass 29999999999 0), Begin (DoStreamMaxLen ''a1'', 30000000002), Step 1]"

lemma sample_reads_run:
  "always (in_time 3) (spawn_lim changing_getter sample_history) lim_other sample_reads ([], sample_lim)"
  "fst (run_pool (spawn_lim changing_getter sample_history) lim_other sample_reads ([], sample_lim)) =
     [((DoStreamMaxLen ''a1'', 0), Ret (Len 50)), ((DoStreamMaxLen ''a1'', 30000000002), Ret (Len 50))]"
  "instant (snd (run_pool (spawn_lim changing_getter sample_history) lim_other sample_reads ([], sample_lim))) =
     30000000002"
  by (simp_all add: sample_reads_def run_sample in_time_def sample_history_def changing_getter_def)

lemma limits_age_witness:
  "\<exists>t. -1 < t \<and> t \<le> 30000000002 \<and> agrees (DoStreamMaxLen ''a1'')
     (fst (changing_getter (sample_history t) ''o'' ''a1'')) (Len 50)"
proof -
  let ?pool = "[((DoStreamMaxLen ''a1'', 0), Ret (Len 50)), ((DoStreamMaxLen ''a1'', 30000000002), Ret (Len 50))]"
  obtain s' where s': "run_pool (spawn_lim changing_getter sample_history) lim_other sample_reads ([], sample_lim) =
      (?pool, s')" "instant s' = 30000000002"
    using sample_reads_run(2,3) by (metis prod.collapse)
  have "\<exists>t. 30000000002 - cacheTTL (enf sample_lim) - 3 < t \<and> t \<le> instant s' \<and> agrees (DoStreamMaxLen ''a1'')
      (fst (changing_getter (sample_history t) (orgID (enf sample_lim)) (agent_of (DoStreamMaxLen ''a1'')))) (Len 50)"
    by (rule limits_age [OF _ _ sample_reads_run(1) s'(1)]) (simp_all add: sample_lim_fields)
  then show ?thesis by (simp only: s'(2) sample_lim_fields agent_of.simps) simp
qed

end
