(* ===== verification/MessageProps.thy ===== *)
theory MessageProps
  imports Sample
begin








end
