(* ===== verification/Sql.thy ===== *)
theory Sql
  imports SQLite "HOL-Library.AList"
begin

text \<open>
  The database under \<open>internal/admin/sqlite.go\<close>: as much of SQLite as the statements in that file use,
  the schema that \<open>migrate\<close> creates or completes, and the opening of a database file. A table has
  columns, constraints and rows; a row gives each column name a value. The REFERENCES clauses are
  recorded and, as in SQLite by default, not enforced. ORDER BY is stable, the one order among those
  SQL allows in which rows that compare equal stay as they were inserted.
\<close>

section \<open>Tables\<close>

datatype sql_value = SText string | SInt int | SNull

type_synonym row = "string \<Rightarrow> sql_value"

datatype sql_type = TEXT | INTEGER | DATETIME

record column =
  c_name :: string
  c_type :: sql_type
  c_notnull :: bool
  c_default :: "sql_value option"
  c_references :: "string option"

record table =
  t_columns :: "column list"
  t_uniques :: "string list list"
  t_rows :: "row list"

record sql_db =
  sq_tables :: "(string \<times> table) list"
  sq_indexes :: "string list"
  sq_failure :: "string option"

datatype sql_error = Failed string | NoSuchTable string | NoSuchColumn string | DuplicateColumn string
  | NotNullViolated string | UniqueViolated | CannotAddNotNull string

definition column_names :: "table \<Rightarrow> string list" where
  "column_names tb = map c_name (t_columns tb)"

definition set_table :: "string \<Rightarrow> table \<Rightarrow> sql_db \<Rightarrow> sql_db" where
  "set_table t tb sq = sq\<lparr>sq_tables := AList.update t tb (sq_tables sq)\<rparr>"

section \<open>Statements\<close>

datatype cond = CEq string sql_value | CNotNewer string sql_value | CNotOlder string sql_value | COlder string sql_value
  | CNullOrEmpty string | COr cond cond

datatype stmt = Insert string "(string \<times> sql_value) list"
  | Upsert string "(string \<times> sql_value) list" "string list" "string list"
  | Update string "(string \<times> sql_value) list" "cond list"
  | Delete string "cond list"

datatype dir = Asc | Desc

text \<open>\<open>SELECT columns FROM table WHERE conditions ORDER BY column LIMIT n\<close>\<close>

datatype select = Select "string list" string "cond list" "(string \<times> dir) option" "int option"

fun value_less :: "sql_value \<Rightarrow> sql_value \<Rightarrow> bool" where
  "value_less (SText x) (SText y) = text_less x y"
| "value_less (SInt x) (SInt y) = (x < y)"
| "value_less SNull v = (v \<noteq> SNull)"
| "value_less (SInt x) (SText y) = True"
| "value_less _ _ = False"

text \<open>A comparison with NULL does not hold.\<close>

fun holds_cond :: "row \<Rightarrow> cond \<Rightarrow> bool" where
  "holds_cond r (CEq c v) = (v \<noteq> SNull \<and> r c = v)"
| "holds_cond r (CNotOlder c v) = (v \<noteq> SNull \<and> r c \<noteq> SNull \<and> \<not> value_less (r c) v)"
| "holds_cond r (CNotNewer c v) = (v \<noteq> SNull \<and> r c \<noteq> SNull \<and> \<not> value_less v (r c))"
| "holds_cond r (COlder c v) = (v \<noteq> SNull \<and> r c \<noteq> SNull \<and> value_less (r c) v)"
| "holds_cond r (CNullOrEmpty c) = (r c = SNull \<or> r c = SText '''')"
| "holds_cond r (COr p q) = (holds_cond r p \<or> holds_cond r q)"

definition where_holds :: "cond list \<Rightarrow> row \<Rightarrow> bool" where
  "where_holds cs r = list_all (holds_cond r) cs"

definition default_row :: "table \<Rightarrow> row" where
  "default_row tb = fold (\<lambda>c r. r(c_name c := (case c_default c of None \<Rightarrow> SNull | Some v \<Rightarrow> v))) (t_columns tb) (\<lambda>c. SNull)"

definition assign :: "(string \<times> sql_value) list \<Rightarrow> row \<Rightarrow> row" where
  "assign sets r = fold (\<lambda>(c, v) r. r(c := v)) sets r"

definition clash :: "string list list \<Rightarrow> row \<Rightarrow> row \<Rightarrow> bool" where
  "clash keys r r' = list_ex (\<lambda>k. map r k = map r' k) keys"

definition keys_distinct :: "string list list \<Rightarrow> row list \<Rightarrow> bool" where
  "keys_distinct keys rows = list_all (\<lambda>k. distinct (map (\<lambda>r. map r k) rows)) keys"

definition null_in :: "table \<Rightarrow> row \<Rightarrow> string option" where
  "null_in tb r = map_option c_name (find (\<lambda>c. c_notnull c \<and> r (c_name c) = SNull) (t_columns tb))"

definition add_row :: "table \<Rightarrow> row \<Rightarrow> (sql_error + nat) \<times> table" where
  "add_row tb r =
     (case null_in tb r of
        Some c \<Rightarrow> (Inl (NotNullViolated c), tb)
      | None \<Rightarrow> if list_ex (clash (t_uniques tb) r) (t_rows tb) then (Inl UniqueViolated, tb)
                else (Inr 1, tb\<lparr>t_rows := t_rows tb @ [r]\<rparr>))"

fun exec_on :: "stmt \<Rightarrow> table \<Rightarrow> (sql_error + nat) \<times> table" where
  "exec_on (Insert t vals) tb = add_row tb (assign vals (default_row tb))"
| "exec_on (Upsert t vals target sets) tb =
     (let new = assign vals (default_row tb);
          same = (\<lambda>r. map r target = map new target);
          upd = (\<lambda>r. assign (map (\<lambda>c. (c, new c)) sets) r)
      in if list_ex same (t_rows tb) then
           (if list_ex (\<lambda>r. \<not> same r \<and> clash (t_uniques tb) (upd new) r) (t_rows tb) then (Inl UniqueViolated, tb)
            else (Inr (length (filter same (t_rows tb))),
                  tb\<lparr>t_rows := map (\<lambda>r. if same r then upd r else r) (t_rows tb)\<rparr>))
         else add_row tb new)"
| "exec_on (Update t sets cs) tb =
     (let rows = map (\<lambda>r. if where_holds cs r then assign sets r else r) (t_rows tb)
      in if list_ex (\<lambda>k. list_ex (\<lambda>c. c \<in> set (map fst sets)) k) (t_uniques tb) \<and> \<not> keys_distinct (t_uniques tb) rows
         then (Inl UniqueViolated, tb)
         else (Inr (length (filter (where_holds cs) (t_rows tb))), tb\<lparr>t_rows := rows\<rparr>))"
| "exec_on (Delete t cs) tb =
     (Inr (length (filter (where_holds cs) (t_rows tb))), tb\<lparr>t_rows := filter (\<lambda>r. \<not> where_holds cs r) (t_rows tb)\<rparr>)"

fun cond_columns :: "cond \<Rightarrow> string list" where
  "cond_columns (CEq c v) = [c]"
| "cond_columns (CNotOlder c v) = [c]"
| "cond_columns (CNotNewer c v) = [c]"
| "cond_columns (COlder c v) = [c]"
| "cond_columns (CNullOrEmpty c) = [c]"
| "cond_columns (COr p q) = cond_columns p @ cond_columns q"

fun stmt_table :: "stmt \<Rightarrow> string" where
  "stmt_table (Insert t vals) = t" | "stmt_table (Upsert t vals tg sets) = t"
| "stmt_table (Update t sets cs) = t" | "stmt_table (Delete t cs) = t"

fun stmt_columns :: "stmt \<Rightarrow> string list" where
  "stmt_columns (Insert t vals) = map fst vals"
| "stmt_columns (Upsert t vals tg sets) = map fst vals @ tg @ sets"
| "stmt_columns (Update t sets cs) = map fst sets @ concat (map cond_columns cs)"
| "stmt_columns (Delete t cs) = concat (map cond_columns cs)"

fun select_columns :: "select \<Rightarrow> string list" where
  "select_columns (Select cols t cs ord lim) =
     cols @ concat (map cond_columns cs) @ (case ord of None \<Rightarrow> [] | Some (c, d) \<Rightarrow> [c])"

text \<open>A statement is compiled against the schema before it runs.\<close>

definition compile :: "string \<Rightarrow> string list \<Rightarrow> sql_db \<Rightarrow> sql_error + table" where
  "compile t cols sq =
     (case sq_failure sq of
        Some e \<Rightarrow> Inl (Failed e)
      | None \<Rightarrow>
     (case map_of (sq_tables sq) t of
        None \<Rightarrow> Inl (NoSuchTable t)
      | Some tb \<Rightarrow>
     (case find (\<lambda>c. c \<notin> set (column_names tb)) cols of
        Some c \<Rightarrow> Inl (NoSuchColumn c)
      | None \<Rightarrow> Inr tb)))"

definition Exec :: "stmt \<Rightarrow> sql_db \<Rightarrow> (sql_error + nat) \<times> sql_db" where
  "Exec st sq =
     (case compile (stmt_table st) (stmt_columns st) sq of
        Inl e \<Rightarrow> (Inl e, sq)
      | Inr tb \<Rightarrow>
          (case exec_on st tb of
             (Inl e, tb') \<Rightarrow> (Inl e, sq)
           | (Inr n, tb') \<Rightarrow> (Inr n, set_table (stmt_table st) tb' sq)))"

fun order_rows :: "(string \<times> dir) option \<Rightarrow> row list \<Rightarrow> row list" where
  "order_rows None rows = rows"
| "order_rows (Some (c, Asc)) rows = insertion_sort (\<lambda>x y. value_less (x c) (y c)) rows"
| "order_rows (Some (c, Desc)) rows = insertion_sort (\<lambda>x y. value_less (y c) (x c)) rows"

fun Query :: "select \<Rightarrow> sql_db \<Rightarrow> sql_error + sql_value list list" where
  "Query (Select cols t cs ord lim) sq =
     (case compile t (select_columns (Select cols t cs ord lim)) sq of
        Inl e \<Rightarrow> Inl e
      | Inr tb \<Rightarrow>
          (let rows = order_rows ord (filter (where_holds cs) (t_rows tb));
               rows = (case lim of None \<Rightarrow> rows | Some n \<Rightarrow> sql_limit n rows)
           in Inr (map (\<lambda>r. map r cols) rows)))"

section \<open>The schema\<close>

datatype ddl = CreateTable string "column list" "string list list"
  | CreateIndex string string "string list" | AddColumn string column

definition text_col :: "string \<Rightarrow> column" where
  "text_col c = \<lparr>c_name = c, c_type = TEXT, c_notnull = True, c_default = None, c_references = None\<rparr>"

definition ref_col :: "string \<Rightarrow> string \<Rightarrow> column" where
  "ref_col c t = (text_col c)\<lparr>c_references := Some t\<rparr>"

definition text_default :: "string \<Rightarrow> column" where
  "text_default c = (text_col c)\<lparr>c_default := Some (SText '''')\<rparr>"

definition int_default :: "string \<Rightarrow> column" where
  "int_default c = (text_col c)\<lparr>c_type := INTEGER, c_default := Some (SInt 0)\<rparr>"

definition date_col :: "string \<Rightarrow> column" where
  "date_col c = (text_col c)\<lparr>c_type := DATETIME\<rparr>"

definition primary_col :: column where
  "primary_col = (text_col ''id'')\<lparr>c_notnull := False\<rparr>"

text \<open>The statements of \<open>migrate\<close>: \<open>CREATE TABLE IF NOT EXISTS\<close>, \<open>CREATE INDEX IF NOT EXISTS\<close>.\<close>

definition schema :: "ddl list" where
  "schema =
    [CreateTable ''organizations'' [primary_col, text_col ''name'', date_col ''created_at''] [[''id''], [''name'']],
     CreateTable ''users''
       [primary_col, ref_col ''org_id'' ''organizations'', text_col ''username'', text_col ''password'', text_col ''role'', date_col ''created_at'']
       [[''id''], [''username'']],
     CreateTable ''registered_agents''
       [primary_col, ref_col ''org_id'' ''organizations'', text_col ''agent_id'', text_default ''display_name'', text_col ''status'',
        ref_col ''registered_by'' ''users'', date_col ''registered_at'']
       [[''id''], [''org_id'', ''agent_id'']],
     CreateTable ''audit_events''
       [primary_col, ref_col ''org_id'' ''organizations'', text_col ''user_id'', text_col ''username'', text_col ''action'', text_col ''target_type'',
        text_col ''target_id'', text_default ''detail'', date_col ''created_at'']
       [[''id'']],
     CreateTable ''api_keys''
       [primary_col, ref_col ''org_id'' ''organizations'', text_col ''name'', text_col ''key_hash'', text_col ''role'', text_default ''agent_id'',
        ref_col ''created_by'' ''users'', date_col ''created_at'', (date_col ''revoked_at'')\<lparr>c_default := Some (SText '''')\<rparr>]
       [[''id''], [''key_hash'']],
     CreateTable ''communication_policies''
       [primary_col, ref_col ''org_id'' ''organizations'', text_col ''source_id'', text_col ''target_id'', text_col ''direction'', text_col ''action'',
        int_default ''priority'', ref_col ''created_by'' ''users'', date_col ''created_at'']
       [[''id'']],
     CreateTable ''message_logs''
       [primary_col, ref_col ''org_id'' ''organizations'', text_default ''envelope_id'', text_default ''thread_id'',
        text_col ''from_agent'', text_col ''to_agent'', text_col ''msg_type'', text_col ''direction'', text_col ''tool_name'',
        int_default ''body_size'', text_default ''body'', date_col ''created_at'']
       [[''id'']],
     CreateIndex ''idx_message_logs_org_time'' ''message_logs'' [''org_id'', ''created_at''],
     CreateIndex ''idx_message_logs_agent'' ''message_logs'' [''org_id'', ''from_agent'', ''to_agent''],
     CreateTable ''agent_limits''
       [primary_col, ref_col ''org_id'' ''organizations'', text_col ''agent_id'', int_default ''max_body_bytes'',
        int_default ''max_send_per_min'', int_default ''max_pending_tasks'', int_default ''max_stream_len'',
        date_col ''updated_at'', ref_col ''updated_by'' ''users'']
       [[''id''], [''org_id'', ''agent_id'']]]"

fun exec_ddl :: "ddl \<Rightarrow> sql_db \<Rightarrow> sql_error option \<times> sql_db" where
  "exec_ddl (CreateTable t cols keys) sq =
     (case sq_failure sq of Some e \<Rightarrow> (Some (Failed e), sq) | None \<Rightarrow>
      case map_of (sq_tables sq) t of
        Some tb \<Rightarrow> (None, sq)
      | None \<Rightarrow> (None, set_table t \<lparr>t_columns = cols, t_uniques = keys, t_rows = []\<rparr> sq))"
| "exec_ddl (CreateIndex i t cols) sq =
     (case compile t cols sq of
        Inl e \<Rightarrow> (Some e, sq)
      | Inr tb \<Rightarrow> (None, if i \<in> set (sq_indexes sq) then sq else sq\<lparr>sq_indexes := sq_indexes sq @ [i]\<rparr>))"
| "exec_ddl (AddColumn t c) sq =
     (case compile t [] sq of
        Inl e \<Rightarrow> (Some e, sq)
      | Inr tb \<Rightarrow>
          if c_name c \<in> set (column_names tb) then (Some (DuplicateColumn (c_name c)), sq)
          else (case c_default c of
                  None \<Rightarrow> if c_notnull c then (Some (CannotAddNotNull (c_name c)), sq)
                          else (None, set_table t (tb\<lparr>t_columns := t_columns tb @ [c]\<rparr>) sq)
                | Some v \<Rightarrow>
                    (None, set_table t (tb\<lparr>t_columns := t_columns tb @ [c],
                             t_rows := map (\<lambda>r. r(c_name c := v)) (t_rows tb)\<rparr>) sq)))"

text \<open>A text of several statements stops at the first that fails.\<close>

fun exec_all :: "ddl list \<Rightarrow> sql_db \<Rightarrow> sql_error option \<times> sql_db" where
  "exec_all [] sq = (None, sq)"
| "exec_all (x # xs) sq =
     (case exec_ddl x sq of (Some e, sq) \<Rightarrow> (Some e, sq) | (None, sq) \<Rightarrow> exec_all xs sq)"

section \<open>Opening a database\<close>

text \<open>\<open>err_Error\<close> is the driver's text of an error.\<close>

definition isDuplicateColumnErr :: "(sql_error \<Rightarrow> string) \<Rightarrow> sql_error option \<Rightarrow> bool" where
  "isDuplicateColumnErr err_Error err =
     (case err of None \<Rightarrow> False | Some e \<Rightarrow> bytes_Index (err_Error e) ''duplicate column name'' \<noteq> None)"

datatype migrate_error = SchemaFailed sql_error | AgentIDFailed sql_error

definition migrate :: "(sql_error \<Rightarrow> string) \<Rightarrow> sql_db \<Rightarrow> migrate_error option \<times> sql_db" where
  "migrate err_Error sq =
     (case exec_all schema sq of
        (Some e, sq) \<Rightarrow> (Some (SchemaFailed e), sq)
      | (None, sq) \<Rightarrow>
     (case exec_ddl (AddColumn ''api_keys'' (text_default ''agent_id'')) sq of
        (Some e, sq) \<Rightarrow>
          if \<not> isDuplicateColumnErr err_Error (Some e) then (Some (AgentIDFailed e), sq) else (None, sq)
      | (None, sq) \<Rightarrow> (None, sq)))"

datatype open_error = OpenFailed string | MigrateFailed migrate_error

text \<open>\<open>sql.Open\<close> fails or gives the database at the path.\<close>

definition NewSQLiteStore :: "(string \<Rightarrow> string + sql_db) \<Rightarrow> (sql_error \<Rightarrow> string) \<Rightarrow> string \<Rightarrow> open_error + sql_db" where
  "NewSQLiteStore sql_Open err_Error path =
     (case sql_Open path of
        Inl e \<Rightarrow> Inl (OpenFailed e)
      | Inr sq \<Rightarrow>
          (case migrate err_Error sq of
             (Some e, sq) \<Rightarrow> Inl (MigrateFailed e)
           | (None, sq) \<Rightarrow> Inr sq))"

definition new_file :: sql_db where
  "new_file = \<lparr>sq_tables = [], sq_indexes = [], sq_failure = None\<rparr>"

end
