(* ===== verification/Rows.thy ===== *)
theory Rows
  imports Sql
begin

text \<open>
  How \<open>internal/admin/sqlite.go\<close> turns the structs of \<open>pkg/admin/types.go\<close> into columns and back: the
  arguments of its INSERT statements, its \<open>scan\<close> functions and \<open>parseRFC3339\<close>. The locale \<open>row_codec\<close> is what
  the store needs of such a pair; it is interpreted for all eight tables.
\<close>

section \<open>A pair of writing and scanning\<close>

definition enc :: "('r \<Rightarrow> (string \<times> sql_value) list) \<Rightarrow> 'r \<Rightarrow> row" where
  "enc vals r = assign (vals r) (\<lambda>c. SNull)"

lemma assign_simps [simp]: "assign [] r = r" "assign ((c, v) # vs) r = assign vs (r(c := v))"
  by (simp_all add: assign_def)

lemma assign_other: "c \<notin> set (map fst vs) \<Longrightarrow> assign vs r c = r c"
proof (induction vs arbitrary: r)
  case (Cons x vs)
  then show ?case by (cases x) auto
qed simp

lemma assign_lookup: "distinct (map fst vs) \<Longrightarrow> (c, v) \<in> set vs \<Longrightarrow> assign vs r c = v"
proof (induction vs arbitrary: r)
  case (Cons x vs)
  then show ?case by (cases x) (auto simp: assign_other)
qed simp

lemma assign_cong:
  assumes "\<And>c. c \<notin> set (map fst vs) \<Longrightarrow> r c = r' c" shows "assign vs r = assign vs r'"
proof -
  have "(\<And>c. c \<notin> set (map fst vs) \<Longrightarrow> r c = r' c) \<Longrightarrow> assign vs r c = assign vs r' c" for c
  proof (induction vs arbitrary: r r')
    case (Cons x vs)
    obtain d v where x: "x = (d, v)" by (cases x)
    show ?case unfolding x assign_simps by (rule Cons.IH) (use Cons.prems x in auto)
  qed simp
  with assms show ?thesis by blast
qed

lemma default_row_other: "c \<notin> set (column_names tb) \<Longrightarrow> default_row tb c = SNull"
proof -
  have "c \<notin> set (map c_name cs) \<Longrightarrow>
      fold (\<lambda>c r. r(c_name c := (case c_default c of None \<Rightarrow> SNull | Some v \<Rightarrow> v))) cs r c = r c" for cs r
    by (induction cs arbitrary: r) auto
  then show "c \<notin> set (column_names tb) \<Longrightarrow> default_row tb c = SNull"
    by (simp add: column_names_def default_row_def)
qed

text \<open>
  A table holds typed rows: it has the columns and constraints, and its rows are what the typed rows
  are written as. \<open>norm\<close> is what a value is after it has been stored (times to the second), and \<open>ok\<close> what
  the columns can represent.
\<close>

definition holds_rows :: "('r \<Rightarrow> (string \<times> sql_value) list) \<Rightarrow> string list \<Rightarrow> ('r \<Rightarrow> 'r) \<Rightarrow> ('r \<Rightarrow> bool)
    \<Rightarrow> string list list \<Rightarrow> 'r list \<Rightarrow> table \<Rightarrow> bool" where
  "holds_rows vals cols norm ok keys rs tb \<longleftrightarrow> set (column_names tb) = set cols \<and> t_uniques tb = keys \<and>
     t_rows tb = map (enc vals) rs \<and> (\<forall>r\<in>set rs. ok r \<and> norm r = r)"

fun scan_all :: "(sql_value list \<Rightarrow> store_error + 'r) \<Rightarrow> sql_value list list \<Rightarrow> store_error + 'r list" where
  "scan_all scan [] = Inr []"
| "scan_all scan (r # rs) =
     (case scan r of Inl e \<Rightarrow> Inl e | Inr x \<Rightarrow>
      case scan_all scan rs of Inl e \<Rightarrow> Inl e | Inr xs \<Rightarrow> Inr (x # xs))"

lemma insert_less_map:
  "(\<And>y. y \<in> set ys \<Longrightarrow> lt' (f x) (f y) = lt x y) \<Longrightarrow>
    insert_less lt' (f x) (map f ys) = map f (insert_less lt x ys)"
  by (induction ys) auto

lemma insertion_sort_map:
  assumes "\<And>x y. x \<in> set xs \<Longrightarrow> y \<in> set xs \<Longrightarrow> lt' (f x) (f y) = lt x y"
  shows "insertion_sort lt' (map f xs) = map f (insertion_sort lt xs)"
proof -
  have "set xs \<subseteq> S \<Longrightarrow> set acc \<subseteq> S \<Longrightarrow> (\<And>x y. x \<in> S \<Longrightarrow> y \<in> S \<Longrightarrow> lt' (f x) (f y) = lt x y) \<Longrightarrow>
      fold (insert_less lt') (map f xs) (map f acc) = map f (fold (insert_less lt) xs acc)" for S acc
  proof (induction xs arbitrary: acc)
    case (Cons x xs)
    have "insert_less lt' (f x) (map f acc) = map f (insert_less lt x acc)"
      by (rule insert_less_map) (use Cons.prems in auto)
    then show ?case using Cons.IH [of "insert_less lt x acc"] Cons.prems by simp
  qed simp
  from this [of "set xs" "[]"] assms show ?thesis by (simp add: insertion_sort_def rev_map)
qed

lemma set_insertion_sort [simp]: "set (insertion_sort lt xs) = set xs"
proof -
  have "mset (insertion_sort lt xs) = mset xs" by (simp add: insertion_sort_def mset_fold_insert_less)
  then show ?thesis by (metis set_mset_mset)
qed

lemma sql_limit_map [simp]: "sql_limit n (map f xs) = map f (sql_limit n xs)"
  by (simp add: sql_limit_def take_map)

lemma set_sql_limit: "set (sql_limit n xs) \<subseteq> set xs"
  by (auto simp: sql_limit_def dest: in_set_takeD)

locale row_codec =
  fixes vals :: "'r \<Rightarrow> (string \<times> sql_value) list"
    and cols :: "string list"
    and scan :: "sql_value list \<Rightarrow> store_error + 'r"
    and norm :: "'r \<Rightarrow> 'r"
    and ok :: "'r \<Rightarrow> bool"
  assumes columns: "map fst (vals r) = cols"
    and distinct_columns: "distinct cols"
    and no_null: "SNull \<notin> snd ` set (vals r)"
    and scan_back: "ok r \<Longrightarrow> scan (map snd (vals r)) = Inr (norm r)"
    and vals_norm: "vals (norm r) = vals r"
    and ok_norm: "ok (norm r) = ok r"
    and norm_norm: "norm (norm r) = norm r"
begin

lemma enc_columns: "map (enc vals r) cols = map snd (vals r)"
proof -
  have "map (enc vals r) (map fst (vals r)) = map snd (vals r)"
    using columns [of r] distinct_columns by (auto simp: enc_def intro!: assign_lookup)
  then show ?thesis by (simp only: columns)
qed

lemma enc_norm: "enc vals (norm r) = enc vals r"
  by (simp add: enc_def vals_norm)

lemma enc_not_null: "c \<in> set cols \<Longrightarrow> enc vals r c \<noteq> SNull"
  using no_null [of r] enc_columns [of r] by (metis image_eqI image_set nth_map in_set_conv_nth set_map)

lemma scan_enc: "ok r \<Longrightarrow> norm r = r \<Longrightarrow> scan (map (enc vals r) cols) = Inr r"
  by (simp add: enc_columns scan_back)

lemma scan_all_enc:
  "(\<forall>r\<in>set rs. ok r \<and> norm r = r) \<Longrightarrow> scan_all scan (map (\<lambda>r. map r cols) (map (enc vals) rs)) = Inr rs"
  by (induction rs) (simp_all add: scan_enc)

text \<open>Each statement on a table that holds typed rows.\<close>

lemma insert_rows:
  assumes "holds_rows vals cols norm ok keys rs tb" and "ok r"
    and "\<And>x. x \<in> set rs \<Longrightarrow> clash keys (enc vals r) (enc vals x) = same x"
  shows "if list_ex same rs then add_row tb (assign (vals r) (default_row tb)) = (Inl UniqueViolated, tb)
    else \<exists>tb'. add_row tb (assign (vals r) (default_row tb)) = (Inr 1, tb') \<and>
      holds_rows vals cols norm ok keys (rs @ [norm r]) tb'"
proof -
  have h: "set (column_names tb) = set cols" "t_uniques tb = keys" "t_rows tb = map (enc vals) rs"
    "\<forall>r\<in>set rs. ok r \<and> norm r = r" using assms(1) by (auto simp: holds_rows_def)
  have new: "assign (vals r) (default_row tb) = enc vals r"
    unfolding enc_def by (rule assign_cong) (use h(1) columns [of r] default_row_other [of _ tb] in simp)
  have "null_in tb (enc vals r) = None"
    using enc_not_null [of _ r] h(1) by (auto simp: null_in_def column_names_def find_None_iff)
  moreover have "list_ex (clash keys (enc vals r)) (map (enc vals) rs) = list_ex same rs"
    using assms(3) by (auto simp: list_ex_iff)
  ultimately show ?thesis
    using h assms(2) by (auto simp: new add_row_def holds_rows_def column_names_def enc_norm ok_norm norm_norm)
qed

lemma update_rows:
  assumes "holds_rows vals cols norm ok keys rs tb"
    and "\<And>x. x \<in> set rs \<Longrightarrow> where_holds cs (enc vals x) = P x"
    and "\<And>x. x \<in> set rs \<Longrightarrow> P x \<Longrightarrow> assign sets (enc vals x) = enc vals (f x) \<and> ok (f x) \<and> norm (f x) = f x"
    and "\<not> list_ex (\<lambda>k. list_ex (\<lambda>c. c \<in> set (map fst sets)) k) keys"
  shows "\<exists>tb'. exec_on (Update t sets cs) tb = (Inr (length (filter P rs)), tb') \<and>
    holds_rows vals cols norm ok keys (map (\<lambda>x. if P x then f x else x) rs) tb'"
proof -
  have h: "set (column_names tb) = set cols" "t_uniques tb = keys" "t_rows tb = map (enc vals) rs"
    "\<forall>r\<in>set rs. ok r \<and> norm r = r" using assms(1) by (auto simp: holds_rows_def)
  show ?thesis
    using h assms(3,4)
    by (auto simp: Let_def holds_rows_def column_names_def assms(2) filter_map comp_def cong: filter_cong)
qed

lemma delete_rows:
  assumes "holds_rows vals cols norm ok keys rs tb"
    and "\<And>x. x \<in> set rs \<Longrightarrow> where_holds cs (enc vals x) = P x"
  shows "\<exists>tb'. exec_on (Delete t cs) tb = (Inr (length (filter P rs)), tb') \<and>
    holds_rows vals cols norm ok keys (filter (\<lambda>x. \<not> P x) rs) tb'"
  using assms by (auto simp: holds_rows_def column_names_def filter_map comp_def cong: filter_cong)

lemma upsert_rows:
  assumes "holds_rows vals cols norm ok keys rs tb" and "ok r"
    and same: "\<And>x. (map (enc vals x) target = map (enc vals r) target) = same x"
    and upd: "\<And>x. same x \<Longrightarrow> assign (map (\<lambda>c. (c, enc vals r c)) sets) (enc vals x) = enc vals r"
    and cl: "\<And>x. clash keys (enc vals r) (enc vals x) = cl x" and "\<And>x. same x \<Longrightarrow> cl x"
  shows "if list_ex (\<lambda>x. cl x \<and> \<not> same x) rs then exec_on (Upsert t (vals r) target sets) tb = (Inl UniqueViolated, tb)
    else \<exists>n tb'. exec_on (Upsert t (vals r) target sets) tb = (Inr n, tb') \<and>
      holds_rows vals cols norm ok keys
        (if list_ex same rs then map (\<lambda>x. if same x then norm r else x) rs else rs @ [norm r]) tb'"
proof -
  let ?U = "map (\<lambda>c. (c, enc vals r c)) sets" and ?new = "enc vals r"
  have h: "set (column_names tb) = set cols" "t_uniques tb = keys" "t_rows tb = map (enc vals) rs"
    "\<forall>r\<in>set rs. ok r \<and> norm r = r" using assms(1) by (auto simp: holds_rows_def)
  have new: "assign (vals r) (default_row tb) = ?new"
    unfolding enc_def by (rule assign_cong) (use h(1) columns [of r] default_row_other [of _ tb] in simp)
  have self: "assign ?U ?new = ?new" using upd same by blast
  have some: "list_ex (\<lambda>x. map x target = map ?new target) (map (enc vals) rs) = list_ex same rs"
    by (simp add: list_ex_iff same del: map_eq_conv)
  have other: "list_ex (\<lambda>x. map x target \<noteq> map ?new target \<and> clash keys (assign ?U ?new) x) (map (enc vals) rs) =
      list_ex (\<lambda>x. cl x \<and> \<not> same x) rs"
    by (auto simp: list_ex_iff same self cl simp del: map_eq_conv)
  have rows: "map (\<lambda>x. if map x target = map ?new target then assign ?U x else x) (map (enc vals) rs) =
      map (enc vals) (map (\<lambda>x. if same x then norm r else x) rs)"
    by (induction rs) (simp_all add: same upd enc_norm del: map_eq_conv)
  show ?thesis
  proof (cases "list_ex same rs")
    case True
    then show ?thesis
      using h assms(2) unfolding exec_on.simps Let_def new h(3) some h(2) other rows
      by (auto simp: holds_rows_def column_names_def ok_norm norm_norm h(2))
  next
    case False
    then have "list_ex cl rs = list_ex (\<lambda>x. cl x \<and> \<not> same x) rs" by (auto simp: list_ex_iff)
    moreover from False have "exec_on (Upsert t (vals r) target sets) tb = add_row tb (assign (vals r) (default_row tb))"
      unfolding exec_on.simps Let_def new h(3) some by simp
    ultimately show ?thesis
      using insert_rows [OF assms(1,2) cl] False by (auto split: if_splits)
  qed
qed

lemma select_rows:
  assumes "holds_rows vals cols norm ok keys rs tb"
    and "\<And>x. x \<in> set rs \<Longrightarrow> where_holds cs (enc vals x) = P x"
  shows "filter (where_holds cs) (t_rows tb) = map (enc vals) (filter P rs) \<and> (\<forall>r\<in>set (filter P rs). ok r \<and> norm r = r)"
  using assms by (auto simp: holds_rows_def filter_map comp_def cong: filter_cong)

end

section \<open>Times in the columns\<close>

definition parseRFC3339 :: "string \<Rightarrow> time" where
  "parseRFC3339 s = (case time_Parse_RFC3339 s of None \<Rightarrow> zero_time | Some t \<Rightarrow> t)"

abbreviation "when t \<equiv> SText (time_Format_RFC3339 t)"

lemma rfc3339_div [simp]: "rfc3339 t div Second = t div Second"
  by (simp add: rfc3339_def)

lemma rfc3339_rfc3339 [simp]: "rfc3339 (rfc3339 t) = rfc3339 t"
  by (simp add: rfc3339_def)

lemma format_rfc3339 [simp]: "time_Format_RFC3339 (rfc3339 t) = time_Format_RFC3339 t"
  by (simp add: time_Format_RFC3339_def)

lemma in_years_rfc3339 [simp]: "in_years (rfc3339 t) = in_years t"
proof -
  have le: "a * Second \<le> t \<longleftrightarrow> a \<le> t div Second" for a t
  proof
    assume "a * Second \<le> t"
    from zdiv_mono1 [OF this, of Second] show "a \<le> t div Second" by (simp add: Second_def)
  next
    assume "a \<le> t div Second"
    then have "a * Second \<le> t div Second * Second" by (simp add: Second_def)
    then show "a * Second \<le> t" using div_mult_mod_eq [of t Second] pos_mod_sign [of Second t] by (simp add: Second_def)
  qed
  have day: "date_time y m dd = (day_number y m dd - 719162) * 86400 * Second" for y m dd
    by (simp add: date_time_def Day_def Minute_def)
  show ?thesis
    unfolding in_years_def day le not_le [symmetric] rfc3339_div ..
qed

lemma parse_stored: "in_years t \<Longrightarrow> parseRFC3339 (time_Format_RFC3339 t) = rfc3339 t"
  by (simp add: parseRFC3339_def parse_format rfc3339_def)

lemma stored_less:
  "in_years x \<Longrightarrow> in_years y \<Longrightarrow> value_less (when x) (when y) \<longleftrightarrow> rfc3339 x < rfc3339 y"
  by (simp add: text_less_def format_less rfc3339_def)

lemma format_not_empty [simp]: "time_Format_RFC3339 t \<noteq> ''''"
  by (simp add: time_Format_RFC3339_def Let_def split: prod.split)

section \<open>The tables\<close>

text \<open>\<open>Scan\<close> of a value into a variable of another type fails.\<close>

definition scan_failed :: "store_error + 'r" where
  "scan_failed = Inl (DBError ''Scan'')"

text \<open>\<open>revoked_at\<close> is empty while the key is active.\<close>

definition revoked_text :: "time option \<Rightarrow> string" where
  "revoked_text r = (case r of None \<Rightarrow> '''' | Some t \<Rightarrow> time_Format_RFC3339 t)"

definition revoked_time :: "string \<Rightarrow> time option" where
  "revoked_time s =
     (if s \<noteq> '''' then (if parseRFC3339 s = zero_time then None else Some (parseRFC3339 s)) else None)"

definition organization_cols :: "string list" where
  "organization_cols = [''id'', ''name'', ''created_at'']"

definition organization_vals :: "Organization \<Rightarrow> (string \<times> sql_value) list" where
  "organization_vals org =
     [(''id'', SText (Org_ID org)), (''name'', SText (Org_Name org)), (''created_at'', when (Org_CreatedAt org))]"

definition scanOrg :: "sql_value list \<Rightarrow> store_error + Organization" where
  "scanOrg row =
     (case row of
       [SText x1, SText x2, SText x3] \<Rightarrow>
         Inr \<lparr>Org_ID = x1, Org_Name = x2, Org_CreatedAt = parseRFC3339 x3\<rparr>
     | _ \<Rightarrow> scan_failed)"

definition organization_norm :: "Organization \<Rightarrow> Organization" where
  "organization_norm org = org\<lparr>Org_CreatedAt := rfc3339 (Org_CreatedAt org)\<rparr>"

definition organization_ok :: "Organization \<Rightarrow> bool" where
  "organization_ok org \<longleftrightarrow> in_years (Org_CreatedAt org)"

definition user_cols :: "string list" where
  "user_cols = [''id'', ''org_id'', ''username'', ''password'', ''role'', ''created_at'']"

definition user_vals :: "User \<Rightarrow> (string \<times> sql_value) list" where
  "user_vals u =
     [(''id'', SText (U_ID u)), (''org_id'', SText (U_OrgID u)), (''username'', SText (Username u)),
      (''password'', SText (Password u)), (''role'', SText (U_Role u)), (''created_at'', when (U_CreatedAt u))]"

definition scanUser :: "sql_value list \<Rightarrow> store_error + User" where
  "scanUser row =
     (case row of
       [SText x1, SText x2, SText x3, SText x4, SText x5, SText x6] \<Rightarrow>
         Inr \<lparr>U_ID = x1, U_OrgID = x2, Username = x3, Password = x4, U_Role = x5, U_CreatedAt = parseRFC3339 x6\<rparr>
     | _ \<Rightarrow> scan_failed)"

definition user_norm :: "User \<Rightarrow> User" where
  "user_norm u = u\<lparr>U_CreatedAt := rfc3339 (U_CreatedAt u)\<rparr>"

definition user_ok :: "User \<Rightarrow> bool" where
  "user_ok u \<longleftrightarrow> in_years (U_CreatedAt u)"

definition agent_cols :: "string list" where
  "agent_cols = [''id'', ''org_id'', ''agent_id'', ''display_name'', ''status'', ''registered_by'', ''registered_at'']"

definition agent_vals :: "RegisteredAgent \<Rightarrow> (string \<times> sql_value) list" where
  "agent_vals a =
     [(''id'', SText (A_ID a)), (''org_id'', SText (A_OrgID a)), (''agent_id'', SText (A_AgentID a)),
      (''display_name'', SText (DisplayName a)), (''status'', SText (A_Status a)),
      (''registered_by'', SText (RegisteredBy a)), (''registered_at'', when (RegisteredAt a))]"

definition scanAgent :: "sql_value list \<Rightarrow> store_error + RegisteredAgent" where
  "scanAgent row =
     (case row of
       [SText x1, SText x2, SText x3, SText x4, SText x5, SText x6, SText x7] \<Rightarrow>
         Inr \<lparr>A_ID = x1, A_OrgID = x2, A_AgentID = x3, DisplayName = x4, A_Status = x5, RegisteredBy = x6,
              RegisteredAt = parseRFC3339 x7\<rparr>
     | _ \<Rightarrow> scan_failed)"

definition agent_norm :: "RegisteredAgent \<Rightarrow> RegisteredAgent" where
  "agent_norm a = a\<lparr>RegisteredAt := rfc3339 (RegisteredAt a)\<rparr>"

definition agent_ok :: "RegisteredAgent \<Rightarrow> bool" where
  "agent_ok a \<longleftrightarrow> in_years (RegisteredAt a)"

definition audit_cols :: "string list" where
  "audit_cols = [''id'', ''org_id'', ''user_id'', ''username'', ''action'', ''target_type'', ''target_id'', ''detail'',
     ''created_at'']"

definition audit_vals :: "AuditEvent \<Rightarrow> (string \<times> sql_value) list" where
  "audit_vals e =
     [(''id'', SText (E_ID e)), (''org_id'', SText (E_OrgID e)), (''user_id'', SText (E_UserID e)),
      (''username'', SText (E_Username e)), (''action'', SText (E_Action e)),
      (''target_type'', SText (E_TargetType e)), (''target_id'', SText (E_TargetID e)),
      (''detail'', SText (E_Detail e)), (''created_at'', when (E_CreatedAt e))]"

definition scanAuditEvent :: "sql_value list \<Rightarrow> store_error + AuditEvent" where
  "scanAuditEvent row =
     (case row of
       [SText x1, SText x2, SText x3, SText x4, SText x5, SText x6, SText x7, SText x8, SText x9] \<Rightarrow>
         Inr \<lparr>E_ID = x1, E_OrgID = x2, E_UserID = x3, E_Username = x4, E_Action = x5, E_TargetType = x6,
              E_TargetID = x7, E_Detail = x8, E_CreatedAt = parseRFC3339 x9\<rparr>
     | _ \<Rightarrow> scan_failed)"

definition audit_norm :: "AuditEvent \<Rightarrow> AuditEvent" where
  "audit_norm e = e\<lparr>E_CreatedAt := rfc3339 (E_CreatedAt e)\<rparr>"

definition audit_ok :: "AuditEvent \<Rightarrow> bool" where
  "audit_ok e \<longleftrightarrow> in_years (E_CreatedAt e)"

definition key_cols :: "string list" where
  "key_cols = [''id'', ''org_id'', ''name'', ''key_hash'', ''role'', ''agent_id'', ''created_by'', ''created_at'',
     ''revoked_at'']"

definition key_vals :: "APIKey \<Rightarrow> (string \<times> sql_value) list" where
  "key_vals k =
     [(''id'', SText (K_ID k)), (''org_id'', SText (K_OrgID k)), (''name'', SText (K_Name k)),
      (''key_hash'', SText (KeyHash k)), (''role'', SText (K_Role k)), (''agent_id'', SText (K_AgentID k)),
      (''created_by'', SText (K_CreatedBy k)), (''created_at'', when (K_CreatedAt k)),
      (''revoked_at'', SText (revoked_text (RevokedAt k)))]"

definition scanAPIKey :: "sql_value list \<Rightarrow> store_error + APIKey" where
  "scanAPIKey row =
     (case row of
       [SText x1, SText x2, SText x3, SText x4, SText x5, SText x6, SText x7, SText x8, SText x9] \<Rightarrow>
         Inr \<lparr>K_ID = x1, K_OrgID = x2, K_Name = x3, KeyHash = x4, K_Role = x5, K_AgentID = x6,
              K_CreatedBy = x7, K_CreatedAt = parseRFC3339 x8, RevokedAt = revoked_time x9\<rparr>
     | _ \<Rightarrow> scan_failed)"

definition key_norm :: "APIKey \<Rightarrow> APIKey" where
  "key_norm k = k\<lparr>K_CreatedAt := rfc3339 (K_CreatedAt k), RevokedAt := map_option rfc3339 (RevokedAt k)\<rparr>"

definition key_ok :: "APIKey \<Rightarrow> bool" where
  "key_ok k \<longleftrightarrow> in_years (K_CreatedAt k) \<and> (case RevokedAt k of None \<Rightarrow> True | Some t \<Rightarrow> in_years t \<and> rfc3339 t \<noteq> zero_time)"

definition policy_cols :: "string list" where
  "policy_cols = [''id'', ''org_id'', ''source_id'', ''target_id'', ''direction'', ''action'', ''priority'', ''created_by'',
     ''created_at'']"

definition policy_vals :: "CommunicationPolicy \<Rightarrow> (string \<times> sql_value) list" where
  "policy_vals p =
     [(''id'', SText (PolicyID p)), (''org_id'', SText (PolicyOrgID p)), (''source_id'', SText (SourceID p)),
      (''target_id'', SText (TargetID p)), (''direction'', SText (Direction p)),
      (''action'', SText (Action p)), (''priority'', SInt (Priority p)),
      (''created_by'', SText (PolicyCreatedBy p)), (''created_at'', when (PolicyCreatedAt p))]"

definition scanPolicy :: "sql_value list \<Rightarrow> store_error + CommunicationPolicy" where
  "scanPolicy row =
     (case row of
       [SText x1, SText x2, SText x3, SText x4, SText x5, SText x6, SInt x7, SText x8, SText x9] \<Rightarrow>
         Inr \<lparr>PolicyID = x1, PolicyOrgID = x2, SourceID = x3, TargetID = x4, Direction = x5, Action = x6,
              Priority = x7, PolicyCreatedBy = x8, PolicyCreatedAt = parseRFC3339 x9\<rparr>
     | _ \<Rightarrow> scan_failed)"

definition policy_norm :: "CommunicationPolicy \<Rightarrow> CommunicationPolicy" where
  "policy_norm p = p\<lparr>PolicyCreatedAt := rfc3339 (PolicyCreatedAt p)\<rparr>"

definition policy_ok :: "CommunicationPolicy \<Rightarrow> bool" where
  "policy_ok p \<longleftrightarrow> in_years (PolicyCreatedAt p)"

definition log_cols :: "string list" where
  "log_cols = [''id'', ''org_id'', ''envelope_id'', ''thread_id'', ''from_agent'', ''to_agent'', ''msg_type'',
     ''direction'', ''tool_name'', ''body_size'', ''body'', ''created_at'']"

definition log_vals :: "MessageLog \<Rightarrow> (string \<times> sql_value) list" where
  "log_vals m =
     [(''id'', SText (ML_ID m)), (''org_id'', SText (ML_OrgID m)), (''envelope_id'', SText (ML_EnvelopeID m)),
      (''thread_id'', SText (ML_ThreadID m)), (''from_agent'', SText (ML_FromAgent m)),
      (''to_agent'', SText (ML_ToAgent m)), (''msg_type'', SText (ML_MsgType m)),
      (''direction'', SText (ML_Direction m)), (''tool_name'', SText (ML_ToolName m)),
      (''body_size'', SInt (ML_BodySize m)), (''body'', SText (ML_Body m)),
      (''created_at'', when (ML_CreatedAt m))]"

definition scanMessageLog :: "sql_value list \<Rightarrow> store_error + MessageLog" where
  "scanMessageLog row =
     (case row of
       [SText x1, SText x2, SText x3, SText x4, SText x5, SText x6, SText x7, SText x8, SText x9, SInt x10,
        SText x11, SText x12] \<Rightarrow>
         Inr \<lparr>ML_ID = x1, ML_OrgID = x2, ML_EnvelopeID = x3, ML_ThreadID = x4, ML_FromAgent = x5,
              ML_ToAgent = x6, ML_MsgType = x7, ML_Direction = x8, ML_ToolName = x9, ML_BodySize = x10,
              ML_Body = x11, ML_CreatedAt = parseRFC3339 x12\<rparr>
     | _ \<Rightarrow> scan_failed)"

definition log_norm :: "MessageLog \<Rightarrow> MessageLog" where
  "log_norm m = m\<lparr>ML_CreatedAt := rfc3339 (ML_CreatedAt m)\<rparr>"

definition log_ok :: "MessageLog \<Rightarrow> bool" where
  "log_ok m \<longleftrightarrow> in_years (ML_CreatedAt m)"

definition limits_cols :: "string list" where
  "limits_cols = [''id'', ''org_id'', ''agent_id'', ''max_body_bytes'', ''max_send_per_min'', ''max_pending_tasks'',
     ''max_stream_len'', ''updated_at'', ''updated_by'']"

definition limits_vals :: "AgentLimits \<Rightarrow> (string \<times> sql_value) list" where
  "limits_vals l =
     [(''id'', SText (L_ID l)), (''org_id'', SText (L_OrgID l)), (''agent_id'', SText (L_AgentID l)),
      (''max_body_bytes'', SInt (MaxBodyBytes l)), (''max_send_per_min'', SInt (MaxSendPerMin l)),
      (''max_pending_tasks'', SInt (MaxPendingTasks l)), (''max_stream_len'', SInt (MaxStreamLen l)),
      (''updated_at'', when (L_UpdatedAt l)), (''updated_by'', SText (L_UpdatedBy l))]"

definition scanAgentLimits :: "sql_value list \<Rightarrow> store_error + AgentLimits" where
  "scanAgentLimits row =
     (case row of
       [SText x1, SText x2, SText x3, SInt x4, SInt x5, SInt x6, SInt x7, SText x8, SText x9] \<Rightarrow>
         Inr \<lparr>L_ID = x1, L_OrgID = x2, L_AgentID = x3, MaxBodyBytes = x4, MaxSendPerMin = x5,
              MaxPendingTasks = x6, MaxStreamLen = x7, L_UpdatedAt = parseRFC3339 x8, L_UpdatedBy = x9\<rparr>
     | _ \<Rightarrow> scan_failed)"

definition limits_norm :: "AgentLimits \<Rightarrow> AgentLimits" where
  "limits_norm l = l\<lparr>L_UpdatedAt := rfc3339 (L_UpdatedAt l)\<rparr>"

definition limits_ok :: "AgentLimits \<Rightarrow> bool" where
  "limits_ok l \<longleftrightarrow> in_years (L_UpdatedAt l)"

lemmas cols_defs = organization_cols_def user_cols_def agent_cols_def audit_cols_def key_cols_def policy_cols_def
  log_cols_def limits_cols_def
lemmas vals_defs = organization_vals_def user_vals_def agent_vals_def audit_vals_def key_vals_def policy_vals_def
  log_vals_def limits_vals_def
lemmas norm_defs = organization_norm_def user_norm_def agent_norm_def audit_norm_def key_norm_def policy_norm_def
  log_norm_def limits_norm_def
lemmas ok_defs = organization_ok_def user_ok_def agent_ok_def audit_ok_def key_ok_def policy_ok_def log_ok_def
  limits_ok_def
lemmas scan_defs = scanOrg_def scanUser_def scanAgent_def scanAuditEvent_def scanAPIKey_def scanPolicy_def
  scanMessageLog_def scanAgentLimits_def

lemma revoked_back:
  "(case r of None \<Rightarrow> True | Some t \<Rightarrow> in_years t \<and> rfc3339 t \<noteq> zero_time) \<Longrightarrow>
    revoked_time (revoked_text r) = map_option rfc3339 r"
  by (auto simp: revoked_text_def revoked_time_def parse_stored split: option.splits)

lemma revoked_text_norm [simp]: "revoked_text (map_option rfc3339 r) = revoked_text r"
  by (cases r) (simp_all add: revoked_text_def)

lemma map_rfc3339_norm [simp]: "map_option rfc3339 (map_option rfc3339 r) = map_option rfc3339 r"
  by (cases r) simp_all

lemmas codec_defs = cols_defs vals_defs norm_defs ok_defs scan_defs

interpretation organization_rows: row_codec organization_vals organization_cols scanOrg organization_norm organization_ok
  by unfold_locales (auto simp: organization_vals_def organization_cols_def scanOrg_def organization_norm_def organization_ok_def parse_stored revoked_back
      split: option.splits)

interpretation user_rows: row_codec user_vals user_cols scanUser user_norm user_ok
  by unfold_locales (auto simp: user_vals_def user_cols_def scanUser_def user_norm_def user_ok_def parse_stored revoked_back
      split: option.splits)

interpretation agent_rows: row_codec agent_vals agent_cols scanAgent agent_norm agent_ok
  by unfold_locales (auto simp: agent_vals_def agent_cols_def scanAgent_def agent_norm_def agent_ok_def parse_stored revoked_back
      split: option.splits)

interpretation audit_rows: row_codec audit_vals audit_cols scanAuditEvent audit_norm audit_ok
  by unfold_locales (auto simp: audit_vals_def audit_cols_def scanAuditEvent_def audit_norm_def audit_ok_def parse_stored revoked_back
      split: option.splits)

interpretation key_rows: row_codec key_vals key_cols scanAPIKey key_norm key_ok
  by unfold_locales (auto simp: key_vals_def key_cols_def scanAPIKey_def key_norm_def key_ok_def parse_stored revoked_back
      split: option.splits)

interpretation policy_rows: row_codec policy_vals policy_cols scanPolicy policy_norm policy_ok
  by unfold_locales (auto simp: policy_vals_def policy_cols_def scanPolicy_def policy_norm_def policy_ok_def parse_stored revoked_back
      split: option.splits)

interpretation log_rows: row_codec log_vals log_cols scanMessageLog log_norm log_ok
  by unfold_locales (auto simp: log_vals_def log_cols_def scanMessageLog_def log_norm_def log_ok_def parse_stored revoked_back
      split: option.splits)

interpretation limits_rows: row_codec limits_vals limits_cols scanAgentLimits limits_norm limits_ok
  by unfold_locales (auto simp: limits_vals_def limits_cols_def scanAgentLimits_def limits_norm_def limits_ok_def parse_stored revoked_back
      split: option.splits)

end
