(* ===== verification/SqlStore.thy ===== *)
theory SqlStore
  imports Rows
begin

text \<open>
  The methods of \<open>SQLiteStore\<close> (\<open>internal/admin/sqlite.go\<close>) by the statements they send, on the database of
  \<open>Sql\<close>. Those of \<open>SQLite\<close> are their effect on typed rows; \<open>SqlRefine\<close> shows that.
\<close>

section \<open>Running a statement\<close>

definition err_of :: "sql_error \<Rightarrow> store_error" where
  "err_of e =
     (case e of Failed m \<Rightarrow> DBError m | UniqueViolated \<Rightarrow> UniqueViolation | NoSuchTable t \<Rightarrow> DBError t
      | NoSuchColumn c \<Rightarrow> DBError c | DuplicateColumn c \<Rightarrow> DBError c | NotNullViolated c \<Rightarrow> DBError c
      | CannotAddNotNull c \<Rightarrow> DBError c)"

text \<open>\<open>db.ExecContext\<close> with the rows affected, and without.\<close>

definition ExecContext :: "stmt \<Rightarrow> sql_db \<Rightarrow> (store_error + nat) \<times> sql_db" where
  "ExecContext st sq = (case Exec st sq of (Inl e, sq) \<Rightarrow> (Inl (err_of e), sq) | (Inr n, sq) \<Rightarrow> (Inr n, sq))"

definition ExecErr :: "stmt \<Rightarrow> sql_db \<Rightarrow> store_error option \<times> sql_db" where
  "ExecErr st sq = (case ExecContext st sq of (Inl e, sq) \<Rightarrow> (Some e, sq) | (Inr n, sq) \<Rightarrow> (None, sq))"

text \<open>\<open>db.QueryRowContext\<close> with its \<open>Scan\<close>, and \<open>db.QueryContext\<close> with the loop over its rows.\<close>

definition QueryRow :: "(sql_value list \<Rightarrow> store_error + 'r) \<Rightarrow> select \<Rightarrow> sql_db \<Rightarrow> store_error + 'r" where
  "QueryRow scan q sq =
     (case Query q sq of Inl e \<Rightarrow> Inl (err_of e) | Inr [] \<Rightarrow> Inl ErrNoRows | Inr (r # rs) \<Rightarrow> scan r)"

definition QueryRows :: "(sql_value list \<Rightarrow> store_error + 'r) \<Rightarrow> select \<Rightarrow> sql_db \<Rightarrow> store_error + 'r list" where
  "QueryRows scan q sq = (case Query q sq of Inl e \<Rightarrow> Inl (err_of e) | Inr rs \<Rightarrow> scan_all scan rs)"

section \<open>Organizations and users\<close>

definition sql_CreateOrg :: "Organization \<Rightarrow> sql_db \<Rightarrow> store_error option \<times> sql_db" where
  "sql_CreateOrg org = ExecErr (Insert ''organizations'' (organization_vals org))"

definition sql_GetOrgByID :: "string \<Rightarrow> sql_db \<Rightarrow> store_error + Organization" where
  "sql_GetOrgByID i = QueryRow scanOrg (Select organization_cols ''organizations'' [CEq ''id'' (SText i)] None None)"

definition sql_CreateUser :: "User \<Rightarrow> sql_db \<Rightarrow> store_error option \<times> sql_db" where
  "sql_CreateUser u = ExecErr (Insert ''users'' (user_vals u))"

definition sql_GetUserByUsername :: "string \<Rightarrow> sql_db \<Rightarrow> store_error + User" where
  "sql_GetUserByUsername n = QueryRow scanUser (Select user_cols ''users'' [CEq ''username'' (SText n)] None None)"

definition sql_GetUserByID :: "string \<Rightarrow> sql_db \<Rightarrow> store_error + User" where
  "sql_GetUserByID i = QueryRow scanUser (Select user_cols ''users'' [CEq ''id'' (SText i)] None None)"

definition sql_UpdateUserPassword :: "string \<Rightarrow> string \<Rightarrow> sql_db \<Rightarrow> store_error option \<times> sql_db" where
  "sql_UpdateUserPassword i hashedPassword sq =
     (case ExecContext (Update ''users'' [(''password'', SText hashedPassword)] [CEq ''id'' (SText i)]) sq of
        (Inl e, sq) \<Rightarrow> (Some e, sq)
      | (Inr n, sq) \<Rightarrow> (if n = 0 then Some (UserNotFound i) else None, sq))"

section \<open>Agents\<close>

definition sql_RegisterAgent :: "RegisteredAgent \<Rightarrow> sql_db \<Rightarrow> store_error option \<times> sql_db" where
  "sql_RegisterAgent a = ExecErr (Insert ''registered_agents'' (agent_vals a))"

definition sql_GetAgent :: "string \<Rightarrow> string \<Rightarrow> sql_db \<Rightarrow> store_error + RegisteredAgent" where
  "sql_GetAgent org a =
     QueryRow scanAgent (Select agent_cols ''registered_agents''
       [CEq ''org_id'' (SText org), CEq ''agent_id'' (SText a)] None None)"

definition sql_ListAgents :: "string \<Rightarrow> sql_db \<Rightarrow> store_error + RegisteredAgent list" where
  "sql_ListAgents org =
     QueryRows scanAgent (Select agent_cols ''registered_agents'' [CEq ''org_id'' (SText org)]
       (Some (''registered_at'', Desc)) None)"

definition sql_UpdateAgentStatus :: "string \<Rightarrow> string \<Rightarrow> AgentStatus \<Rightarrow> sql_db \<Rightarrow> store_error option \<times> sql_db" where
  "sql_UpdateAgentStatus org a status =
     ExecErr (Update ''registered_agents'' [(''status'', SText status)]
       [CEq ''org_id'' (SText org), CEq ''agent_id'' (SText a)])"

section \<open>Policies\<close>

definition sql_CreatePolicy :: "CommunicationPolicy \<Rightarrow> sql_db \<Rightarrow> store_error option \<times> sql_db" where
  "sql_CreatePolicy p = ExecErr (Insert ''communication_policies'' (policy_vals p))"

definition sql_GetPolicy :: "string \<Rightarrow> sql_db \<Rightarrow> store_error + CommunicationPolicy" where
  "sql_GetPolicy i =
     QueryRow scanPolicy (Select policy_cols ''communication_policies'' [CEq ''id'' (SText i)] None None)"

definition sql_ListPolicies :: "string \<Rightarrow> sql_db \<Rightarrow> store_error + CommunicationPolicy list" where
  "sql_ListPolicies org =
     QueryRows scanPolicy (Select policy_cols ''communication_policies'' [CEq ''org_id'' (SText org)]
       (Some (''priority'', Desc)) None)"

definition sql_UpdatePolicy :: "CommunicationPolicy \<Rightarrow> sql_db \<Rightarrow> store_error option \<times> sql_db" where
  "sql_UpdatePolicy p =
     ExecErr (Update ''communication_policies''
       [(''source_id'', SText (SourceID p)), (''target_id'', SText (TargetID p)), (''direction'', SText (Direction p)),
        (''action'', SText (Action p)), (''priority'', SInt (Priority p))]
       [CEq ''id'' (SText (PolicyID p))])"

definition sql_DeletePolicy :: "string \<Rightarrow> sql_db \<Rightarrow> store_error option \<times> sql_db" where
  "sql_DeletePolicy i = ExecErr (Delete ''communication_policies'' [CEq ''id'' (SText i)])"

section \<open>Audit events\<close>

definition sql_AppendAuditEvent :: "AuditEvent \<Rightarrow> sql_db \<Rightarrow> store_error option \<times> sql_db" where
  "sql_AppendAuditEvent e = ExecErr (Insert ''audit_events'' (audit_vals e))"

definition sql_ListAuditEvents :: "string \<Rightarrow> int \<Rightarrow> sql_db \<Rightarrow> store_error + AuditEvent list" where
  "sql_ListAuditEvents org n =
     QueryRows scanAuditEvent (Select audit_cols ''audit_events'' [CEq ''org_id'' (SText org)]
       (Some (''created_at'', Desc)) (Some n))"

section \<open>API keys\<close>

text \<open>A new key is written with an empty \<open>revoked_at\<close>.\<close>

definition sql_CreateAPIKey :: "APIKey \<Rightarrow> sql_db \<Rightarrow> store_error option \<times> sql_db" where
  "sql_CreateAPIKey k = ExecErr (Insert ''api_keys'' (key_vals (k\<lparr>RevokedAt := None\<rparr>)))"

definition sql_GetAPIKeyByHash :: "string \<Rightarrow> sql_db \<Rightarrow> store_error + APIKey" where
  "sql_GetAPIKeyByHash h = QueryRow scanAPIKey (Select key_cols ''api_keys'' [CEq ''key_hash'' (SText h)] None None)"

definition sql_GetAPIKeyByAgentID :: "string \<Rightarrow> string \<Rightarrow> sql_db \<Rightarrow> store_error + APIKey" where
  "sql_GetAPIKeyByAgentID org a =
     QueryRow scanAPIKey (Select key_cols ''api_keys''
       [CEq ''org_id'' (SText org), CEq ''agent_id'' (SText a), CNullOrEmpty ''revoked_at'']
       (Some (''created_at'', Desc)) (Some 1))"

definition sql_ListAPIKeys :: "string \<Rightarrow> sql_db \<Rightarrow> store_error + APIKey list" where
  "sql_ListAPIKeys org =
     QueryRows scanAPIKey (Select key_cols ''api_keys'' [CEq ''org_id'' (SText org), CNullOrEmpty ''revoked_at'']
       (Some (''created_at'', Desc)) None)"

definition sql_RevokeAPIKey :: "time \<Rightarrow> string \<Rightarrow> string \<Rightarrow> sql_db \<Rightarrow> store_error option \<times> sql_db" where
  "sql_RevokeAPIKey now org i sq =
     (case ExecContext (Update ''api_keys'' [(''revoked_at'', when now)]
         [CEq ''id'' (SText i), CEq ''org_id'' (SText org)]) sq of
        (Inl e, sq) \<Rightarrow> (Some e, sq)
      | (Inr n, sq) \<Rightarrow> (if n = 0 then Some (KeyNotInOrg i org) else None, sq))"

section \<open>Message logs\<close>

definition sql_AppendMessageLog :: "MessageLog \<Rightarrow> sql_db \<Rightarrow> store_error option \<times> sql_db" where
  "sql_AppendMessageLog m = ExecErr (Insert ''message_logs'' (log_vals m))"

text \<open>The conditions that \<open>ListMessageLogs\<close> appends to its query.\<close>

definition log_conditions :: "string \<Rightarrow> MessageLogFilter \<Rightarrow> cond list" where
  "log_conditions org f =
     [CEq ''org_id'' (SText org)] @
     (if F_AgentID f \<noteq> ''''
      then [COr (CEq ''from_agent'' (SText (F_AgentID f))) (CEq ''to_agent'' (SText (F_AgentID f)))] else []) @
     (if F_ToolName f \<noteq> '''' then [CEq ''tool_name'' (SText (F_ToolName f))] else []) @
     (case Since f of None \<Rightarrow> [] | Some t \<Rightarrow> [CNotOlder ''created_at'' (when t)]) @
     (case Until f of None \<Rightarrow> [] | Some t \<Rightarrow> [CNotNewer ''created_at'' (when t)])"

definition sql_ListMessageLogs :: "string \<Rightarrow> MessageLogFilter \<Rightarrow> sql_db \<Rightarrow> store_error + MessageLog list" where
  "sql_ListMessageLogs org f =
     (let n = (if F_Limit f \<le> 0 then defaultMessageLogLimit else F_Limit f)
      in QueryRows scanMessageLog (Select log_cols ''message_logs'' (log_conditions org f)
           (Some (''created_at'', Desc)) (Some n)))"

definition sql_DeleteMessageLogsBefore :: "string \<Rightarrow> time \<Rightarrow> sql_db \<Rightarrow> (store_error + int) \<times> sql_db" where
  "sql_DeleteMessageLogsBefore org before sq =
     (case ExecContext (Delete ''message_logs'' [CEq ''org_id'' (SText org), COlder ''created_at'' (when before)]) sq of
        (Inl e, sq) \<Rightarrow> (Inl e, sq)
      | (Inr n, sq) \<Rightarrow> (Inr (int n), sq))"

section \<open>Limits\<close>

definition sql_UpsertAgentLimits :: "AgentLimits \<Rightarrow> sql_db \<Rightarrow> store_error option \<times> sql_db" where
  "sql_UpsertAgentLimits l =
     ExecErr (Upsert ''agent_limits'' (limits_vals l) [''org_id'', ''agent_id'']
       [''id'', ''max_body_bytes'', ''max_send_per_min'', ''max_pending_tasks'', ''max_stream_len'', ''updated_at'',
        ''updated_by''])"

definition sql_GetEffectiveLimits :: "sql_db \<Rightarrow> string \<Rightarrow> string \<Rightarrow> AgentLimits option \<times> store_error option" where
  "sql_GetEffectiveLimits sq org a =
     (case QueryRow scanAgentLimits (Select limits_cols ''agent_limits''
         [CEq ''org_id'' (SText org), CEq ''agent_id'' (SText a)] None None) sq of
        Inr l \<Rightarrow> (Some l, None)
      | Inl err \<Rightarrow>
          if err \<noteq> ErrNoRows then (None, Some err)
          else
            (case QueryRow scanAgentLimits (Select limits_cols ''agent_limits''
                [CEq ''org_id'' (SText org), CEq ''agent_id'' (SText ''*'')] None None) sq of
               Inl err \<Rightarrow> if err = ErrNoRows then (None, None) else (None, Some err)
             | Inr l \<Rightarrow> (Some l, None)))"

definition sql_ListAgentLimits :: "string \<Rightarrow> sql_db \<Rightarrow> store_error + AgentLimits list" where
  "sql_ListAgentLimits org =
     QueryRows scanAgentLimits (Select limits_cols ''agent_limits'' [CEq ''org_id'' (SText org)]
       (Some (''agent_id'', Asc)) None)"

definition sql_DeleteAgentLimits :: "string \<Rightarrow> sql_db \<Rightarrow> store_error option \<times> sql_db" where
  "sql_DeleteAgentLimits i = ExecErr (Delete ''agent_limits'' [CEq ''id'' (SText i)])"

end
