(* ===== verification/SqlRefine.thy ===== *)
theory SqlRefine
  imports SqlStore
begin

text \<open>
  The store on typed rows (\<open>SQLite\<close>) is refined by the statements of the code (\<open>SqlStore\<close>): under the
  relation \<open>sim\<close>, which says that each table holds what its typed rows are written as, every operation
  gives the same answer and keeps the relation.
\<close>

section \<open>Tables that hold typed rows\<close>

definition table_holds :: "('r \<Rightarrow> (string \<times> sql_value) list) \<Rightarrow> string list \<Rightarrow> ('r \<Rightarrow> 'r) \<Rightarrow> ('r \<Rightarrow> bool)
    \<Rightarrow> string list list \<Rightarrow> 'r list \<Rightarrow> string \<Rightarrow> sql_db \<Rightarrow> bool" where
  "table_holds vals cols norm ok keys rs t sq \<longleftrightarrow>
     (case map_of (sq_tables sq) t of None \<Rightarrow> False | Some tb \<Rightarrow> holds_rows vals cols norm ok keys rs tb)"

lemma table_holdsE:
  assumes "table_holds vals cols norm ok keys rs t sq"
  obtains tb where "map_of (sq_tables sq) t = Some tb" and "holds_rows vals cols norm ok keys rs tb"
  using assms by (auto simp: table_holds_def split: option.splits)

lemma table_holds_set [simp]:
  "table_holds vals cols norm ok keys rs t (set_table t' tb sq) \<longleftrightarrow>
    (if t = t' then holds_rows vals cols norm ok keys rs tb else table_holds vals cols norm ok keys rs t sq)"
  by (simp add: table_holds_def set_table_def update_conv')

lemma compile_holds:
  assumes "map_of (sq_tables sq) t = Some tb" and "holds_rows vals cols norm ok keys rs tb"
    and "sq_failure sq = None" and "set cs \<subseteq> set cols"
  shows "compile t cs sq = Inr tb"
proof -
  have "find (\<lambda>c. c \<notin> set (column_names tb)) cs = None"
    using assms(2,4) by (auto simp: find_None_iff holds_rows_def)
  then show ?thesis using assms(1,3) by (simp add: compile_def)
qed

lemma failure_set [simp]: "sq_failure (set_table t tb sq) = sq_failure sq"
  by (simp add: set_table_def)

lemma exec_failed: "sq_failure sq = Some e \<Longrightarrow> ExecContext st sq = (Inl (DBError e), sq)"
  by (simp add: ExecContext_def Exec_def compile_def err_of_def)

lemma query_failed:
  "sq_failure sq = Some e \<Longrightarrow> QueryRow scan q sq = Inl (DBError e)"
  "sq_failure sq = Some e \<Longrightarrow> QueryRows scan q sq = Inl (DBError e)"
  by (cases q; simp add: QueryRow_def QueryRows_def compile_def err_of_def)+

lemma one_row_filter: "one_row P rows = (case filter P rows of [] \<Rightarrow> Inl ErrNoRows | r # rs \<Rightarrow> Inr r)"
  by (induction rows) (auto simp: one_row_def)

context row_codec
begin

lemma exec_refines:
  assumes "map_of (sq_tables sq) t = Some tb" and "holds_rows vals cols norm ok keys rs tb"
    and "sq_failure sq = None" and "stmt_table st = t" and "set (stmt_columns st) \<subseteq> set cols"
  shows "ExecContext st sq =
    (case exec_on st tb of (Inl e, tb') \<Rightarrow> (Inl (err_of e), sq) | (Inr n, tb') \<Rightarrow> (Inr n, set_table t tb' sq))"
  using compile_holds [OF assms(1-3,5)]
  by (simp add: ExecContext_def Exec_def assms(4) split: prod.split sum.split)

lemma insert_refines:
  assumes "table_holds vals cols norm ok keys rs t sq" and "sq_failure sq = None" and "ok r"
    and "\<And>x. x \<in> set rs \<Longrightarrow> clash keys (enc vals r) (enc vals x) = same x"
  shows "if list_ex same rs then ExecErr (Insert t (vals r)) sq = (Some UniqueViolation, sq)
    else \<exists>tb. ExecErr (Insert t (vals r)) sq = (None, set_table t tb sq) \<and>
      holds_rows vals cols norm ok keys (rs @ [norm r]) tb"
proof -
  obtain tb where tb: "map_of (sq_tables sq) t = Some tb" "holds_rows vals cols norm ok keys rs tb"
    by (rule table_holdsE [OF assms(1)])
  have "set (stmt_columns (Insert t (vals r))) \<subseteq> set cols" by (simp add: columns)
  from exec_refines [OF tb assms(2) _ this] insert_rows [OF tb(2) assms(3,4)] show ?thesis
    by (cases "list_ex same rs") (fastforce simp: ExecErr_def err_of_def)+
qed

lemma update_refines:
  assumes "table_holds vals cols norm ok keys rs t sq" and "sq_failure sq = None"
    and "set (stmt_columns (Update t sets cs)) \<subseteq> set cols"
    and "\<And>x. x \<in> set rs \<Longrightarrow> where_holds cs (enc vals x) = P x"
    and "\<And>x. x \<in> set rs \<Longrightarrow> P x \<Longrightarrow> assign sets (enc vals x) = enc vals (f x) \<and> ok (f x) \<and> norm (f x) = f x"
    and "\<not> list_ex (\<lambda>k. list_ex (\<lambda>c. c \<in> set (map fst sets)) k) keys"
  shows "\<exists>tb. ExecContext (Update t sets cs) sq = (Inr (length (filter P rs)), set_table t tb sq) \<and>
    holds_rows vals cols norm ok keys (map (\<lambda>x. if P x then f x else x) rs) tb"
proof -
  obtain tb where tb: "map_of (sq_tables sq) t = Some tb" "holds_rows vals cols norm ok keys rs tb"
    by (rule table_holdsE [OF assms(1)])
  obtain tb' where u: "exec_on (Update t sets cs) tb = (Inr (length (filter P rs)), tb')"
    "holds_rows vals cols norm ok keys (map (\<lambda>x. if P x then f x else x) rs) tb'"
    using update_rows [of keys rs tb cs P sets f t, OF tb(2) assms(4-6)] by blast
  have "ExecContext (Update t sets cs) sq = (Inr (length (filter P rs)), set_table t tb' sq)"
    using exec_refines [OF tb assms(2) _ assms(3)] u(1) by (simp del: exec_on.simps)
  then show ?thesis using u(2) by blast
qed

lemma delete_refines:
  assumes "table_holds vals cols norm ok keys rs t sq" and "sq_failure sq = None"
    and "set (stmt_columns (Delete t cs)) \<subseteq> set cols"
    and "\<And>x. x \<in> set rs \<Longrightarrow> where_holds cs (enc vals x) = P x"
  shows "\<exists>tb. ExecContext (Delete t cs) sq = (Inr (length (filter P rs)), set_table t tb sq) \<and>
    holds_rows vals cols norm ok keys (filter (\<lambda>x. \<not> P x) rs) tb"
proof -
  obtain tb where tb: "map_of (sq_tables sq) t = Some tb" "holds_rows vals cols norm ok keys rs tb"
    by (rule table_holdsE [OF assms(1)])
  obtain tb' where u: "exec_on (Delete t cs) tb = (Inr (length (filter P rs)), tb')"
    "holds_rows vals cols norm ok keys (filter (\<lambda>x. \<not> P x) rs) tb'"
    using delete_rows [of keys rs tb cs P t, OF tb(2) assms(4)] by blast
  have "ExecContext (Delete t cs) sq = (Inr (length (filter P rs)), set_table t tb' sq)"
    using exec_refines [OF tb assms(2) _ assms(3)] u(1) by (simp del: exec_on.simps)
  then show ?thesis using u(2) by blast
qed

lemma query_refines:
  assumes "table_holds vals cols norm ok keys rs t sq" and "sq_failure sq = None"
    and "set (select_columns (Select cols t cs ord lim)) \<subseteq> set cols"
    and "\<And>x. x \<in> set rs \<Longrightarrow> where_holds cs (enc vals x) = P x"
    and "order_rows ord (map (enc vals) (filter P rs)) = map (enc vals) ys" and "set ys \<subseteq> set rs"
  defines "zs \<equiv> (case lim of None \<Rightarrow> ys | Some n \<Rightarrow> sql_limit n ys)"
  shows "QueryRows scan (Select cols t cs ord lim) sq = Inr zs"
    and "QueryRow scan (Select cols t cs ord lim) sq = (case zs of [] \<Rightarrow> Inl ErrNoRows | r # rs \<Rightarrow> Inr r)"
proof -
  obtain tb where tb: "map_of (sq_tables sq) t = Some tb" "holds_rows vals cols norm ok keys rs tb"
    by (rule table_holdsE [OF assms(1)])
  have zs: "set zs \<subseteq> set rs" using assms(6) set_sql_limit by (fastforce simp: zs_def split: option.splits)
  then have good: "\<forall>r\<in>set zs. ok r \<and> norm r = r" using tb(2) by (auto simp: holds_rows_def)
  have rows: "(case lim of None \<Rightarrow> map (enc vals) ys | Some n \<Rightarrow> sql_limit n (map (enc vals) ys)) = map (enc vals) zs"
    by (simp add: zs_def split: option.split)
  have q: "Query (Select cols t cs ord lim) sq = Inr (map (\<lambda>r. map r cols) (map (enc vals) zs))"
    using compile_holds [OF tb assms(2,3)] select_rows [OF tb(2) assms(4)] assms(5)
    by (simp add: rows Let_def del: map_map select_columns.simps)
  show "QueryRows scan (Select cols t cs ord lim) sq = Inr zs"
    using scan_all_enc [OF good] by (simp add: QueryRows_def q del: map_map Query.simps)
  show "QueryRow scan (Select cols t cs ord lim) sq = (case zs of [] \<Rightarrow> Inl ErrNoRows | r # rs \<Rightarrow> Inr r)"
    using good by (cases zs) (simp_all add: QueryRow_def q scan_enc del: Query.simps)
qed

lemmas row_refines = query_refines(2) [where ord = None and lim = None, simplified]

end

section \<open>The simulation\<close>

definition sim :: "sql_db \<Rightarrow> db \<Rightarrow> bool" where
  "sim sq d \<longleftrightarrow> sq_failure sq = db_failure d \<and>
     table_holds organization_vals organization_cols organization_norm organization_ok [[''id''], [''name'']]
       (t_organizations d) ''organizations'' sq \<and>
     table_holds user_vals user_cols user_norm user_ok [[''id''], [''username'']] (t_users d) ''users'' sq \<and>
     table_holds agent_vals agent_cols agent_norm agent_ok [[''id''], [''org_id'', ''agent_id'']]
       (t_agents d) ''registered_agents'' sq \<and>
     table_holds audit_vals audit_cols audit_norm audit_ok [[''id'']] (t_audit d) ''audit_events'' sq \<and>
     table_holds key_vals key_cols key_norm key_ok [[''id''], [''key_hash'']] (t_keys d) ''api_keys'' sq \<and>
     table_holds policy_vals policy_cols policy_norm policy_ok [[''id'']] (t_policies d) ''communication_policies'' sq \<and>
     table_holds log_vals log_cols log_norm log_ok [[''id'']] (t_logs d) ''message_logs'' sq \<and>
     table_holds limits_vals limits_cols limits_norm limits_ok [[''id''], [''org_id'', ''agent_id'']]
       (t_limits d) ''agent_limits'' sq"

definition refines :: "('e \<times> sql_db) \<Rightarrow> ('e \<times> db) \<Rightarrow> bool" where
  "refines r r' \<longleftrightarrow> fst r = fst r' \<and> sim (snd r) (snd r')"

lemma refines_Pair [simp]: "refines (e, sq) (e', d) \<longleftrightarrow> e = e' \<and> sim sq d"
  by (simp add: refines_def)

lemma sim_failed:
  assumes "sim sq d" and "db_failure d = Some e"
  shows "sq_failure sq = Some e" and "exec stmt d = (Some (DBError e), d)" and "query q d = Inl (DBError e)"
  using assms by (simp_all add: sim_def exec_def query_def)

lemma sim_works:
  assumes "sim sq d" and "db_failure d = None"
  shows "sq_failure sq = None" and "exec stmt d = stmt d" and "query q d = q d"
  using assms by (simp_all add: sim_def exec_def query_def)

lemma exec_refinesI:
  assumes "sim sq d"
    and "db_failure d = None \<Longrightarrow> sq_failure sq = None \<Longrightarrow> refines (ExecErr st sq) (stmt d)"
  shows "refines (ExecErr st sq) (exec stmt d)"
proof (cases "db_failure d")
  case None
  then show ?thesis using assms sim_works by simp
next
  case (Some e)
  then show ?thesis
    using sim_failed [OF assms(1) Some] exec_failed assms(1) by (simp add: ExecErr_def)
qed

text \<open>What a condition says of a written row is computed from the columns.\<close>

lemmas columns_of = enc_def cols_defs vals_defs where_holds_def clash_def

section \<open>Writing\<close>

context row_codec
begin

lemma insert_sim:
  assumes "ok r" and "sim sq d" and "sq_failure sq = None" and "table_holds vals cols norm ok keys rs t sq"
    and "\<And>x. clash keys (enc vals r) (enc vals x) = same x"
    and "\<And>tb. holds_rows vals cols norm ok keys (rs @ [norm r]) tb \<Longrightarrow> sim (set_table t tb sq) d'"
  shows "refines (ExecErr (Insert t (vals r)) sq) (if list_ex same rs then (Some UniqueViolation, d) else (None, d'))"
  using insert_refines [OF assms(4,3,1), of same] assms(2,5,6) by (cases "list_ex same rs") auto

lemma update_sim:
  assumes "sq_failure sq = None" and "table_holds vals cols norm ok keys rs t sq"
    and "set (stmt_columns (Update t sets cs)) \<subseteq> set cols"
    and "\<not> list_ex (\<lambda>k. list_ex (\<lambda>c. c \<in> set (map fst sets)) k) keys"
    and "\<And>x. where_holds cs (enc vals x) = P x"
    and "\<And>x. P x \<Longrightarrow> ok x \<Longrightarrow> norm x = x \<Longrightarrow> assign sets (enc vals x) = enc vals (f x) \<and> ok (f x) \<and> norm (f x) = f x"
    and "\<And>tb. holds_rows vals cols norm ok keys (map (\<lambda>x. if P x then f x else x) rs) tb
      \<Longrightarrow> sim (set_table t tb sq) d'"
  shows "refines (ExecErr (Update t sets cs) sq) (None, d')"
    and "\<exists>sq'. ExecContext (Update t sets cs) sq = (Inr (length (filter P rs)), sq') \<and> sim sq' d'"
proof -
  have "\<forall>x\<in>set rs. ok x \<and> norm x = x"
    using assms(2) by (auto simp: table_holds_def holds_rows_def split: option.splits)
  then obtain tb where tb: "ExecContext (Update t sets cs) sq = (Inr (length (filter P rs)), set_table t tb sq)"
      "holds_rows vals cols norm ok keys (map (\<lambda>x. if P x then f x else x) rs) tb"
    using update_refines [OF assms(2,1,3), of P f] assms(4-6) by blast
  then show "refines (ExecErr (Update t sets cs) sq) (None, d')"
    and "\<exists>sq'. ExecContext (Update t sets cs) sq = (Inr (length (filter P rs)), sq') \<and> sim sq' d'"
    using assms(7) by (simp_all add: ExecErr_def)
qed

lemma delete_sim:
  assumes "sq_failure sq = None" and "table_holds vals cols norm ok keys rs t sq"
    and "set (stmt_columns (Delete t cs)) \<subseteq> set cols"
    and "\<And>x. ok x \<Longrightarrow> norm x = x \<Longrightarrow> where_holds cs (enc vals x) = P x"
    and "\<And>tb. holds_rows vals cols norm ok keys (filter (\<lambda>x. \<not> P x) rs) tb \<Longrightarrow> sim (set_table t tb sq) d'"
  shows "refines (ExecErr (Delete t cs) sq) (None, d')"
    and "\<exists>sq'. ExecContext (Delete t cs) sq = (Inr (length (filter P rs)), sq') \<and> sim sq' d'"
proof -
  have "\<forall>x\<in>set rs. ok x \<and> norm x = x"
    using assms(2) by (auto simp: table_holds_def holds_rows_def split: option.splits)
  then obtain tb where tb: "ExecContext (Delete t cs) sq = (Inr (length (filter P rs)), set_table t tb sq)"
      "holds_rows vals cols norm ok keys (filter (\<lambda>x. \<not> P x) rs) tb"
    using delete_refines [OF assms(2,1,3), of P] assms(4) by blast
  then show "refines (ExecErr (Delete t cs) sq) (None, d')"
    and "\<exists>sq'. ExecContext (Delete t cs) sq = (Inr (length (filter P rs)), sq') \<and> sim sq' d'"
    using assms(5) by (simp_all add: ExecErr_def)
qed

end

lemma refines_CreateOrg: "sim sq d \<Longrightarrow> organization_ok x \<Longrightarrow> refines (sql_CreateOrg x sq) (CreateOrg x d)"
  unfolding sql_CreateOrg_def CreateOrg_def
  by (rule exec_refinesI, assumption, rule organization_rows.insert_sim)
    (auto simp: sim_def columns_of organization_norm_def)

lemma refines_CreateUser: "sim sq d \<Longrightarrow> user_ok x \<Longrightarrow> refines (sql_CreateUser x sq) (CreateUser x d)"
  unfolding sql_CreateUser_def CreateUser_def
  by (rule exec_refinesI, assumption, rule user_rows.insert_sim) (auto simp: sim_def columns_of user_norm_def)

lemma refines_RegisterAgent: "sim sq d \<Longrightarrow> agent_ok x \<Longrightarrow> refines (sql_RegisterAgent x sq) (RegisterAgent x d)"
  unfolding sql_RegisterAgent_def RegisterAgent_def
  by (rule exec_refinesI, assumption, rule agent_rows.insert_sim) (auto simp: sim_def columns_of agent_norm_def)

lemma refines_CreatePolicy: "sim sq d \<Longrightarrow> policy_ok x \<Longrightarrow> refines (sql_CreatePolicy x sq) (CreatePolicy x d)"
  unfolding sql_CreatePolicy_def CreatePolicy_def
  by (rule exec_refinesI, assumption, rule policy_rows.insert_sim) (auto simp: sim_def columns_of policy_norm_def)

lemma refines_AppendAuditEvent:
  "sim sq d \<Longrightarrow> audit_ok x \<Longrightarrow> refines (sql_AppendAuditEvent x sq) (AppendAuditEvent x d)"
  unfolding sql_AppendAuditEvent_def AppendAuditEvent_def
  by (rule exec_refinesI, assumption, rule audit_rows.insert_sim) (auto simp: sim_def columns_of audit_norm_def)

lemma refines_CreateAPIKey:
  "sim sq d \<Longrightarrow> in_years (K_CreatedAt x) \<Longrightarrow> refines (sql_CreateAPIKey x sq) (CreateAPIKey x d)"
  unfolding sql_CreateAPIKey_def CreateAPIKey_def
  by (rule exec_refinesI, assumption, rule key_rows.insert_sim)
    (auto simp: sim_def columns_of key_norm_def key_ok_def)

lemma refines_AppendMessageLog:
  "sim sq d \<Longrightarrow> log_ok x \<Longrightarrow> refines (sql_AppendMessageLog x sq) (AppendMessageLog x d)"
  unfolding sql_AppendMessageLog_def AppendMessageLog_def
  by (rule exec_refinesI, assumption, rule log_rows.insert_sim) (auto simp: sim_def columns_of log_norm_def)

text \<open>The two updates that look at the number of rows affected.\<close>

lemma counted:
  assumes "sim sq d"
    and "db_failure d = None \<Longrightarrow> sq_failure sq = None \<Longrightarrow>
      \<exists>sq'. ExecContext st sq = (Inr (length (filter P rs)), sq') \<and> sim sq' d'"
  shows "refines (case ExecContext st sq of (Inl e, sq) \<Rightarrow> (Some e, sq) | (Inr n, sq) \<Rightarrow> (if n = 0 then Some err else None, sq))
    (exec (\<lambda>d. (if length (filter P rs) = 0 then Some err else None, d')) d)"
proof (cases "db_failure d")
  case None
  then show ?thesis using assms(2) sim_works [OF assms(1) None] by auto
next
  case (Some e)
  then show ?thesis using sim_failed [OF assms(1) Some] exec_failed assms(1) by simp
qed

lemma exec_const: "exec stmt d = exec (\<lambda>x. stmt d) d"
  by (simp add: exec_def split: option.split)

lemma norm_iff:
  "user_norm u = u \<longleftrightarrow> rfc3339 (U_CreatedAt u) = U_CreatedAt u"
  "agent_norm a = a \<longleftrightarrow> rfc3339 (RegisteredAt a) = RegisteredAt a"
  "policy_norm p = p \<longleftrightarrow> rfc3339 (PolicyCreatedAt p) = PolicyCreatedAt p"
  "key_norm k = k \<longleftrightarrow> rfc3339 (K_CreatedAt k) = K_CreatedAt k \<and> map_option rfc3339 (RevokedAt k) = RevokedAt k"
  "log_norm m = m \<longleftrightarrow> rfc3339 (ML_CreatedAt m) = ML_CreatedAt m"
  "audit_norm e = e \<longleftrightarrow> rfc3339 (E_CreatedAt e) = E_CreatedAt e"
  "limits_norm l = l \<longleftrightarrow> rfc3339 (L_UpdatedAt l) = L_UpdatedAt l"
  by (cases u, simp add: user_norm_def, cases a, simp add: agent_norm_def, cases p, simp add: policy_norm_def,
      cases k, simp add: key_norm_def, cases m, simp add: log_norm_def, cases e, simp add: audit_norm_def,
      cases l, simp add: limits_norm_def)

lemma refines_UpdateUserPassword: "sim sq d \<Longrightarrow> refines (sql_UpdateUserPassword i h sq) (UpdateUserPassword i h d)"
  unfolding sql_UpdateUserPassword_def UpdateUserPassword_def
  by (subst exec_const, rule counted, assumption, rule user_rows.update_sim(2))
    (auto simp: sim_def columns_of norm_iff user_ok_def fun_upd_twist)

lemma refines_RevokeAPIKey:
  "sim sq d \<Longrightarrow> in_years now \<Longrightarrow> rfc3339 now \<noteq> zero_time \<Longrightarrow>
    refines (sql_RevokeAPIKey now org i sq) (RevokeAPIKey now org i d)"
  unfolding sql_RevokeAPIKey_def RevokeAPIKey_def
  by (subst exec_const, rule counted, assumption, rule key_rows.update_sim(2))
    (auto simp: sim_def columns_of norm_iff key_ok_def revoked_text_def fun_upd_twist)

lemma refines_UpdateAgentStatus: "sim sq d \<Longrightarrow> refines (sql_UpdateAgentStatus org a s sq) (UpdateAgentStatus org a s d)"
  unfolding sql_UpdateAgentStatus_def UpdateAgentStatus_def
  by (rule exec_refinesI, assumption, rule agent_rows.update_sim(1))
    (auto simp: sim_def columns_of norm_iff agent_ok_def fun_upd_twist)

lemma refines_UpdatePolicy: "sim sq d \<Longrightarrow> refines (sql_UpdatePolicy p sq) (UpdatePolicy p d)"
  unfolding sql_UpdatePolicy_def UpdatePolicy_def
  by (rule exec_refinesI, assumption, rule policy_rows.update_sim(1))
    (auto simp: sim_def columns_of norm_iff policy_ok_def fun_upd_twist)

lemma refines_DeletePolicy: "sim sq d \<Longrightarrow> refines (sql_DeletePolicy i sq) (DeletePolicy i d)"
  unfolding sql_DeletePolicy_def DeletePolicy_def
  by (rule exec_refinesI, assumption, rule policy_rows.delete_sim(1) [where P = "\<lambda>r. PolicyID r = i"])
    (auto simp: sim_def columns_of)

lemma refines_DeleteAgentLimits: "sim sq d \<Longrightarrow> refines (sql_DeleteAgentLimits i sq) (DeleteAgentLimits i d)"
  unfolding sql_DeleteAgentLimits_def DeleteAgentLimits_def
  by (rule exec_refinesI, assumption, rule limits_rows.delete_sim(1) [where P = "\<lambda>r. L_ID r = i"])
    (auto simp: sim_def columns_of)

lemma refines_DeleteMessageLogsBefore:
  assumes "sim sq d" and "in_years before"
  shows "refines (sql_DeleteMessageLogsBefore org before sq) (DeleteMessageLogsBefore org before d)"
proof (cases "db_failure d")
  case None
  have "\<exists>sq'. ExecContext (Delete ''message_logs'' [CEq ''org_id'' (SText org), COlder ''created_at'' (when before)]) sq =
      (Inr (length (filter (\<lambda>r. ML_OrgID r = org \<and> ML_CreatedAt r < rfc3339 before) (t_logs d))), sq') \<and>
      sim sq' (d\<lparr>t_logs := filter (\<lambda>r. \<not> (ML_OrgID r = org \<and> ML_CreatedAt r < rfc3339 before)) (t_logs d)\<rparr>)"
    by (rule log_rows.delete_sim(2))
      (use assms sim_works [OF assms(1) None] in \<open>auto simp: sim_def columns_of norm_iff log_ok_def stored_less
         simp del: value_less.simps\<close>)
  then show ?thesis
    using None by (auto simp: sql_DeleteMessageLogsBefore_def DeleteMessageLogsBefore_def Let_def)
next
  case (Some e)
  then show ?thesis
    using assms(1) exec_failed [OF sim_failed(1) [OF assms(1) Some]]
    by (simp add: sql_DeleteMessageLogsBefore_def DeleteMessageLogsBefore_def)
qed

text \<open>The upsert: it replaces the row of the organization and agent by the new one.\<close>

lemma upsert_row:
  assumes "L_OrgID x = L_OrgID l" and "L_AgentID x = L_AgentID l"
  shows "assign (map (\<lambda>c. (c, enc limits_vals l c)) [''id'', ''max_body_bytes'', ''max_send_per_min'',
      ''max_pending_tasks'', ''max_stream_len'', ''updated_at'', ''updated_by'']) (enc limits_vals x) = enc limits_vals l"
  using assms by (simp add: enc_def limits_vals_def fun_upd_twist)

lemma refines_UpsertAgentLimits:
  assumes "sim sq d" and "limits_ok l"
  shows "refines (sql_UpsertAgentLimits l sq) (UpsertAgentLimits l d)"
  unfolding sql_UpsertAgentLimits_def UpsertAgentLimits_def
proof (rule exec_refinesI [OF assms(1)])
  assume f: "db_failure d = None" "sq_failure sq = None"
  let ?keys = "[[''id''], [''org_id'', ''agent_id'']]" and ?target = "[''org_id'', ''agent_id'']"
    and ?sets = "[''id'', ''max_body_bytes'', ''max_send_per_min'', ''max_pending_tasks'', ''max_stream_len'',
      ''updated_at'', ''updated_by'']"
  let ?st = "Upsert ''agent_limits'' (limits_vals l) ?target ?sets"
  let ?same = "\<lambda>r. L_OrgID r = L_OrgID l \<and> L_AgentID r = L_AgentID l"
  let ?cl = "\<lambda>r. L_ID r = L_ID l \<or> ?same r"
  obtain tb where tb: "map_of (sq_tables sq) ''agent_limits'' = Some tb"
    "holds_rows limits_vals limits_cols limits_norm limits_ok ?keys (t_limits d) tb"
    using assms(1) by (auto simp: sim_def elim: table_holdsE)
  have row: "l\<lparr>L_UpdatedAt := rfc3339 (L_UpdatedAt l)\<rparr> = limits_norm l" by (simp add: limits_norm_def)
  have cl: "list_ex (\<lambda>r. ?cl r \<and> \<not> ?same r) rs = list_ex (\<lambda>r. L_ID r = L_ID l \<and> \<not> ?same r) rs" for rs
    by (auto simp: list_ex_iff)
  have up: "if list_ex (\<lambda>r. ?cl r \<and> \<not> ?same r) (t_limits d) then exec_on ?st tb = (Inl UniqueViolated, tb)
    else \<exists>n tb'. exec_on ?st tb = (Inr n, tb') \<and> holds_rows limits_vals limits_cols limits_norm limits_ok ?keys
      (if list_ex ?same (t_limits d) then map (\<lambda>x. if ?same x then limits_norm l else x) (t_limits d)
       else t_limits d @ [limits_norm l]) tb'"
    by (rule limits_rows.upsert_rows [OF tb(2) assms(2)])
      (simp_all only: upsert_row, auto simp: columns_of)
  have "ExecContext ?st sq = (case exec_on ?st tb of (Inl e, tb') \<Rightarrow> (Inl (err_of e), sq)
      | (Inr n, tb') \<Rightarrow> (Inr n, set_table ''agent_limits'' tb' sq))"
    by (rule limits_rows.exec_refines [OF tb f(2)]) (simp_all add: limits_cols_def limits_vals_def)
  with up assms(1) show "refines (ExecErr ?st sq)
      (let same = ?same; row = l\<lparr>L_UpdatedAt := rfc3339 (L_UpdatedAt l)\<rparr>
       in if list_ex (\<lambda>r. L_ID r = L_ID l \<and> \<not> same r) (t_limits d) then (Some UniqueViolation, d)
          else if list_ex same (t_limits d) then (None, d\<lparr>t_limits := map (\<lambda>r. if same r then row else r) (t_limits d)\<rparr>)
          else (None, d\<lparr>t_limits := t_limits d @ [row]\<rparr>))"
    unfolding row cl Let_def by (auto simp: ExecErr_def err_of_def sim_def split: if_splits)
qed

section \<open>Reading\<close>

context row_codec
begin

definition sorted_by :: "string \<times> dir \<Rightarrow> ('r \<Rightarrow> 'r \<Rightarrow> bool) \<Rightarrow> bool" where
  "sorted_by ord lt \<longleftrightarrow> (\<forall>x y. ok x \<longrightarrow> norm x = x \<longrightarrow> ok y \<longrightarrow> norm y = y \<longrightarrow>
     lt x y = (case ord of (c, Asc) \<Rightarrow> value_less (enc vals x c) (enc vals y c)
                         | (c, Desc) \<Rightarrow> value_less (enc vals y c) (enc vals x c)))"

lemma order_enc:
  assumes "\<forall>x\<in>set rs. ok x \<and> norm x = x" and "sorted_by ord lt"
  shows "order_rows (Some ord) (map (enc vals) rs) = map (enc vals) (insertion_sort lt rs)"
proof -
  obtain c di where ord: "ord = (c, di)" by (cases ord)
  show ?thesis
    using assms unfolding ord by (cases di) (auto simp: sorted_by_def intro!: insertion_sort_map)
qed

lemma read_row:
  assumes "sq_failure sq = None" and "table_holds vals cols norm ok keys rs t sq"
    and "set (select_columns (Select cols t cs None None)) \<subseteq> set cols"
    and "\<And>x. ok x \<Longrightarrow> norm x = x \<Longrightarrow> where_holds cs (enc vals x) = P x"
  shows "QueryRow scan (Select cols t cs None None) sq = one_row P rs"
proof -
  have "\<forall>x\<in>set rs. ok x \<and> norm x = x"
    using assms(2) by (auto simp: table_holds_def holds_rows_def split: option.splits)
  then show ?thesis
    using query_refines(2) [OF assms(2,1,3), of P "filter P rs"] assms(4) by (auto simp: one_row_filter)
qed

lemma read_rows:
  assumes "sq_failure sq = None" and "table_holds vals cols norm ok keys rs t sq"
    and "set (select_columns (Select cols t cs (Some ord) lim)) \<subseteq> set cols"
    and "\<And>x. ok x \<Longrightarrow> norm x = x \<Longrightarrow> where_holds cs (enc vals x) = P x" and "sorted_by ord lt"
  defines "zs \<equiv> (case lim of None \<Rightarrow> insertion_sort lt (filter P rs) | Some n \<Rightarrow> sql_limit n (insertion_sort lt (filter P rs)))"
  shows "QueryRows scan (Select cols t cs (Some ord) lim) sq = Inr zs"
    and "QueryRow scan (Select cols t cs (Some ord) lim) sq = (case zs of [] \<Rightarrow> Inl ErrNoRows | r # rs \<Rightarrow> Inr r)"
proof -
  have good: "\<forall>x\<in>set rs. ok x \<and> norm x = x"
    using assms(2) by (auto simp: table_holds_def holds_rows_def split: option.splits)
  then have w: "\<And>x. x \<in> set rs \<Longrightarrow> where_holds cs (enc vals x) = P x" using assms(4) by blast
  have o: "order_rows (Some ord) (map (enc vals) (filter P rs)) = map (enc vals) (insertion_sort lt (filter P rs))"
    by (rule order_enc [OF _ assms(5)]) (use good in auto)
  have s: "set (insertion_sort lt (filter P rs)) \<subseteq> set rs" by auto
  show "QueryRows scan (Select cols t cs (Some ord) lim) sq = Inr zs"
    and "QueryRow scan (Select cols t cs (Some ord) lim) sq = (case zs of [] \<Rightarrow> Inl ErrNoRows | r # rs \<Rightarrow> Inr r)"
    unfolding zs_def by (rule query_refines [OF assms(2,1,3) w o s], assumption)+
qed

end

lemma query_refinesI:
  assumes "sim sq d" and "db_failure d = None \<Longrightarrow> sq_failure sq = None \<Longrightarrow> QueryRow scan q sq = stmt d"
  shows "QueryRow scan q sq = query stmt d"
  using assms by (cases "db_failure d") (simp_all add: sim_def query_def query_failed)

lemma queries_refinesI:
  assumes "sim sq d" and "db_failure d = None \<Longrightarrow> sq_failure sq = None \<Longrightarrow> QueryRows scan q sq = stmt d"
  shows "QueryRows scan q sq = query stmt d"
  using assms by (cases "db_failure d") (simp_all add: sim_def query_def query_failed)

lemma read_GetOrgByID: "sim sq d \<Longrightarrow> sql_GetOrgByID i sq = GetOrgByID i d"
  unfolding sql_GetOrgByID_def GetOrgByID_def
  by (rule query_refinesI, assumption, rule organization_rows.read_row) (auto simp: sim_def columns_of)

lemma read_GetUserByUsername: "sim sq d \<Longrightarrow> sql_GetUserByUsername n sq = GetUserByUsername n d"
  unfolding sql_GetUserByUsername_def GetUserByUsername_def
  by (rule query_refinesI, assumption, rule user_rows.read_row) (auto simp: sim_def columns_of)

lemma read_GetUserByID: "sim sq d \<Longrightarrow> sql_GetUserByID i sq = GetUserByID i d"
  unfolding sql_GetUserByID_def GetUserByID_def
  by (rule query_refinesI, assumption, rule user_rows.read_row) (auto simp: sim_def columns_of)

lemma read_GetAgent: "sim sq d \<Longrightarrow> sql_GetAgent org a sq = GetAgent org a d"
  unfolding sql_GetAgent_def GetAgent_def
  by (rule query_refinesI, assumption, rule agent_rows.read_row) (auto simp: sim_def columns_of)

lemma read_GetPolicy: "sim sq d \<Longrightarrow> sql_GetPolicy i sq = GetPolicy i d"
  unfolding sql_GetPolicy_def GetPolicy_def
  by (rule query_refinesI, assumption, rule policy_rows.read_row) (auto simp: sim_def columns_of)

lemma read_GetAPIKeyByHash: "sim sq d \<Longrightarrow> sql_GetAPIKeyByHash h sq = GetAPIKeyByHash h d"
  unfolding sql_GetAPIKeyByHash_def GetAPIKeyByHash_def
  by (rule query_refinesI, assumption, rule key_rows.read_row) (auto simp: sim_def columns_of)

lemma read_ListAgents: "sim sq d \<Longrightarrow> sql_ListAgents org sq = ListAgents insertion_sort org d"
  unfolding sql_ListAgents_def ListAgents_def
  by (rule queries_refinesI, assumption, subst agent_rows.read_rows(1) [where P = "\<lambda>r. A_OrgID r = org"
        and lt = "\<lambda>x y. RegisteredAt x > RegisteredAt y"])
    (auto simp: sim_def columns_of agent_rows.sorted_by_def stored_less norm_iff agent_ok_def simp del: value_less.simps)

lemma read_ListPolicies: "sim sq d \<Longrightarrow> sql_ListPolicies org sq = ListPolicies insertion_sort org d"
  unfolding sql_ListPolicies_def ListPolicies_def
  by (rule queries_refinesI, assumption, subst policy_rows.read_rows(1) [where P = "\<lambda>r. PolicyOrgID r = org"
        and lt = "\<lambda>x y. Priority x > Priority y"])
    (auto simp: sim_def columns_of policy_rows.sorted_by_def)

lemma read_ListAuditEvents: "sim sq d \<Longrightarrow> sql_ListAuditEvents org n sq = ListAuditEvents insertion_sort org n d"
  unfolding sql_ListAuditEvents_def ListAuditEvents_def
  by (rule queries_refinesI, assumption, subst audit_rows.read_rows(1) [where P = "\<lambda>r. E_OrgID r = org"
        and lt = "\<lambda>x y. E_CreatedAt x > E_CreatedAt y"])
    (auto simp: sim_def columns_of audit_rows.sorted_by_def stored_less norm_iff audit_ok_def simp del: value_less.simps)

lemma revoked_text_empty: "revoked_text r = '''' \<longleftrightarrow> r = None"
  by (auto simp: revoked_text_def split: option.split)

lemma read_ListAPIKeys: "sim sq d \<Longrightarrow> sql_ListAPIKeys org sq = ListAPIKeys insertion_sort org d"
  unfolding sql_ListAPIKeys_def ListAPIKeys_def
  by (rule queries_refinesI, assumption, subst key_rows.read_rows(1) [where P = "\<lambda>r. K_OrgID r = org \<and> RevokedAt r = None"
        and lt = "\<lambda>x y. K_CreatedAt x > K_CreatedAt y"])
    (auto simp: sim_def columns_of key_rows.sorted_by_def stored_less norm_iff key_ok_def revoked_text_empty
      simp del: value_less.simps)

lemma one_row_first: "one_row (\<lambda>r. True) rs = (case sql_limit 1 rs of [] \<Rightarrow> Inl ErrNoRows | r # rs \<Rightarrow> Inr r)"
  by (cases rs) (simp_all add: one_row_def sql_limit_def)

lemma read_GetAPIKeyByAgentID:
  "sim sq d \<Longrightarrow> sql_GetAPIKeyByAgentID org a sq = GetAPIKeyByAgentID insertion_sort org a d"
  unfolding sql_GetAPIKeyByAgentID_def GetAPIKeyByAgentID_def
  by (rule query_refinesI, assumption, subst key_rows.read_rows(2) [where lim = "Some 1"
        and P = "\<lambda>r. K_OrgID r = org \<and> K_AgentID r = a \<and> RevokedAt r = None" and lt = "\<lambda>x y. K_CreatedAt x > K_CreatedAt y"])
    (auto simp: sim_def columns_of key_rows.sorted_by_def stored_less norm_iff key_ok_def revoked_text_empty one_row_first
      simp del: value_less.simps)

lemma log_conditions_hold:
  assumes "log_ok r" and "log_norm r = r" and "\<And>t. Since f = Some t \<Longrightarrow> in_years t" and "\<And>t. Until f = Some t \<Longrightarrow> in_years t"
  shows "where_holds (log_conditions org f) (enc log_vals r) = log_matches org f r"
  using assms by (auto simp: log_conditions_def log_matches_def columns_of log_ok_def norm_iff stored_less not_less
      simp del: value_less.simps split: option.split)

lemma log_condition_columns:
  "set (concat (map cond_columns (log_conditions org f))) \<subseteq> {''org_id'', ''from_agent'', ''to_agent'', ''tool_name'', ''created_at''}"
  by (auto simp: log_conditions_def split: option.split)

lemma read_ListMessageLogs:
  assumes "sim sq d" and "\<And>t. Since f = Some t \<or> Until f = Some t \<Longrightarrow> in_years t"
  shows "sql_ListMessageLogs org f sq = ListMessageLogs insertion_sort org f d"
  unfolding sql_ListMessageLogs_def ListMessageLogs_def Let_def
proof (rule queries_refinesI [OF assms(1)], subst log_rows.read_rows(1) [where P = "log_matches org f"
      and lt = "\<lambda>x y. ML_CreatedAt x > ML_CreatedAt y"])
  show "where_holds (log_conditions org f) (enc log_vals x) = log_matches org f x" if "log_ok x" "log_norm x = x" for x
    using log_conditions_hold [OF that] assms(2) by blast
  show "set (select_columns (Select log_cols ''message_logs'' (log_conditions org f) (Some (''created_at'', Desc))
      (Some (if F_Limit f \<le> 0 then defaultMessageLogLimit else F_Limit f)))) \<subseteq> set log_cols"
  proof -
    have "set (concat (map cond_columns (log_conditions org f))) \<subseteq> set log_cols"
      by (rule subset_trans [OF log_condition_columns]) (simp add: log_cols_def)
    moreover have "set [''created_at''] \<subseteq> set log_cols" by (simp add: log_cols_def)
    ultimately show ?thesis
      by (simp only: select_columns.simps set_append Un_subset_iff option.case prod.case subset_refl)
  qed
qed (use assms(1) in \<open>auto simp: sim_def columns_of log_rows.sorted_by_def stored_less norm_iff log_ok_def
    simp del: value_less.simps\<close>)

lemma read_ListAgentLimits: "sim sq d \<Longrightarrow> sql_ListAgentLimits org sq = ListAgentLimits insertion_sort org d"
  unfolding sql_ListAgentLimits_def ListAgentLimits_def
  by (rule queries_refinesI, assumption, subst limits_rows.read_rows(1) [where P = "\<lambda>r. L_OrgID r = org"
        and lt = "\<lambda>x y. text_less (L_AgentID x) (L_AgentID y)"])
    (auto simp: sim_def columns_of limits_rows.sorted_by_def)

lemma read_GetEffectiveLimits: "sim sq d \<Longrightarrow> sql_GetEffectiveLimits sq org a = GetEffectiveLimits_db d org a"
proof -
  assume s: "sim sq d"
  have "QueryRow scanAgentLimits (Select limits_cols ''agent_limits'' [CEq ''org_id'' (SText org), CEq ''agent_id'' (SText x)]
      None None) sq = query (\<lambda>d. one_row (\<lambda>r. L_OrgID r = org \<and> L_AgentID r = x) (t_limits d)) d" for x
    by (rule query_refinesI [OF s], rule limits_rows.read_row) (use s in \<open>auto simp: sim_def columns_of\<close>)
  then show ?thesis unfolding sql_GetEffectiveLimits_def GetEffectiveLimits_db_def by (simp only:)
qed

end
