(* ===== verification/Migration.thy ===== *)
theory Migration
  imports SqlRefine
begin

text \<open>
  The opening of a database file (\<open>NewSQLiteStore\<close>, \<open>migrate\<close>): a database written by the present or an
  earlier version becomes one whose tables hold the rows it represented (\<open>sim\<close>). Tables that an earlier
  version did not have are empty; keys of a version without the column \<open>agent_id\<close> are bound to no agent.
\<close>

section \<open>Databases of earlier versions\<close>

definition older_table :: "('r \<Rightarrow> (string \<times> sql_value) list) \<Rightarrow> string list \<Rightarrow> ('r \<Rightarrow> 'r) \<Rightarrow> ('r \<Rightarrow> bool)
    \<Rightarrow> string list list \<Rightarrow> 'r list \<Rightarrow> string \<Rightarrow> sql_db \<Rightarrow> bool" where
  "older_table vals cols norm ok keys rs t sq \<longleftrightarrow>
     (case map_of (sq_tables sq) t of None \<Rightarrow> rs = [] | Some tb \<Rightarrow> holds_rows vals cols norm ok keys rs tb)"

definition old_key_cols :: "string list" where
  "old_key_cols = filter (\<lambda>c. c \<noteq> ''agent_id'') key_cols"

definition old_key_vals :: "APIKey \<Rightarrow> (string \<times> sql_value) list" where
  "old_key_vals k = filter (\<lambda>(c, v). c \<noteq> ''agent_id'') (key_vals k)"

definition unbound_keys :: "APIKey list \<Rightarrow> table \<Rightarrow> bool" where
  "unbound_keys ks tb \<longleftrightarrow> holds_rows old_key_vals old_key_cols key_norm key_ok [[''id''], [''key_hash'']] ks tb \<and>
     (\<forall>k\<in>set ks. K_AgentID k = '''')"

definition keys_table :: "APIKey list \<Rightarrow> table \<Rightarrow> bool" where
  "keys_table ks tb \<longleftrightarrow> holds_rows key_vals key_cols key_norm key_ok [[''id''], [''key_hash'']] ks tb \<or> unbound_keys ks tb"

definition older_keys :: "APIKey list \<Rightarrow> sql_db \<Rightarrow> bool" where
  "older_keys ks sq \<longleftrightarrow>
     (case map_of (sq_tables sq) ''api_keys'' of None \<Rightarrow> ks = [] | Some tb \<Rightarrow> keys_table ks tb)"

definition written_by_some_version :: "sql_db \<Rightarrow> db \<Rightarrow> bool" where
  "written_by_some_version sq d \<longleftrightarrow> sq_failure sq = None \<and> db_failure d = None \<and>
     older_table organization_vals organization_cols organization_norm organization_ok [[''id''], [''name'']]
       (t_organizations d) ''organizations'' sq \<and>
     older_table user_vals user_cols user_norm user_ok [[''id''], [''username'']] (t_users d) ''users'' sq \<and>
     older_table agent_vals agent_cols agent_norm agent_ok [[''id''], [''org_id'', ''agent_id'']]
       (t_agents d) ''registered_agents'' sq \<and>
     older_table audit_vals audit_cols audit_norm audit_ok [[''id'']] (t_audit d) ''audit_events'' sq \<and>
     older_keys (t_keys d) sq \<and>
     older_table policy_vals policy_cols policy_norm policy_ok [[''id'']] (t_policies d) ''communication_policies'' sq \<and>
     older_table log_vals log_cols log_norm log_ok [[''id'']] (t_logs d) ''message_logs'' sq \<and>
     older_table limits_vals limits_cols limits_norm limits_ok [[''id''], [''org_id'', ''agent_id'']]
       (t_limits d) ''agent_limits'' sq"

section \<open>Creating what is missing\<close>

definition ensure :: "string \<Rightarrow> column list \<Rightarrow> string list list \<Rightarrow> sql_db \<Rightarrow> sql_db" where
  "ensure t cols keys sq =
     (if map_of (sq_tables sq) t = None then set_table t \<lparr>t_columns = cols, t_uniques = keys, t_rows = []\<rparr> sq else sq)"

lemma exec_create [simp]:
  "sq_failure sq = None \<Longrightarrow> exec_ddl (CreateTable t cols keys) sq = (None, ensure t cols keys sq)"
  by (auto simp: ensure_def split: option.split)

lemma failure_ensure [simp]: "sq_failure (ensure t cols keys sq) = sq_failure sq"
  by (simp add: ensure_def)

lemma map_of_ensure:
  "map_of (sq_tables (ensure t cols keys sq)) t' =
    (if t' = t \<and> map_of (sq_tables sq) t = None then Some \<lparr>t_columns = cols, t_uniques = keys, t_rows = []\<rparr>
     else map_of (sq_tables sq) t')"
  by (simp add: ensure_def set_table_def update_conv')

lemma ensure_other [simp]:
  "t' \<noteq> t \<Longrightarrow> map_of (sq_tables (ensure t cols keys sq)) t' = map_of (sq_tables sq) t'"
  by (simp add: map_of_ensure)

lemma older_ensure:
  assumes "older_table vals cs norm ok keys rs t sq" and "set (map c_name cols) = set cs"
  shows "table_holds vals cs norm ok keys rs t (ensure t cols keys sq)"
  using assms by (auto simp: older_table_def table_holds_def map_of_ensure holds_rows_def column_names_def
      split: option.splits)

lemma older_keys_ensure:
  assumes "older_keys ks sq" and "set (map c_name cols) = set key_cols"
  shows "\<exists>tb. map_of (sq_tables (ensure ''api_keys'' cols [[''id''], [''key_hash'']] sq)) ''api_keys'' = Some tb \<and> keys_table ks tb"
  using assms by (auto simp: older_keys_def map_of_ensure keys_table_def holds_rows_def column_names_def split: option.splits)

lemma ensure_others [simp]:
  assumes "t \<noteq> t'"
  shows "older_table vals cs norm ok keys rs t (ensure t' cols ks sq) = older_table vals cs norm ok keys rs t sq"
    and "table_holds vals cs norm ok keys rs t (ensure t' cols ks sq) = table_holds vals cs norm ok keys rs t sq"
  using assms by (simp_all add: older_table_def table_holds_def)

lemma older_keys_other [simp]: "t' \<noteq> ''api_keys'' \<Longrightarrow> older_keys ks (ensure t' cols keys sq) = older_keys ks sq"
  by (simp add: older_keys_def)

lemma index_created:
  assumes "table_holds vals cs norm ok keys rs t sq" and "sq_failure sq = None" and "set cols \<subseteq> set cs"
  shows "\<exists>sq'. exec_ddl (CreateIndex i t cols) sq = (None, sq') \<and> sq_tables sq' = sq_tables sq \<and> sq_failure sq' = None"
proof -
  obtain tb where "map_of (sq_tables sq) t = Some tb" "holds_rows vals cs norm ok keys rs tb"
    by (rule table_holdsE [OF assms(1)])
  from compile_holds [OF this assms(2,3)] show ?thesis using assms(2) by auto
qed

section \<open>The column \<open>agent_id\<close>\<close>

lemma unbound_completed:
  assumes "unbound_keys ks tb"
  shows "holds_rows key_vals key_cols key_norm key_ok [[''id''], [''key_hash'']] ks
    (tb\<lparr>t_columns := t_columns tb @ [text_default ''agent_id''],
        t_rows := map (\<lambda>r. r(''agent_id'' := SText '''')) (t_rows tb)\<rparr>)"
proof -
  have row: "(enc old_key_vals k)(''agent_id'' := SText '''') = enc key_vals k" if "K_AgentID k = ''''" for k
    using that by (simp add: enc_def old_key_vals_def key_vals_def fun_upd_twist)
  show ?thesis
    using assms row
    by (auto simp: unbound_keys_def holds_rows_def column_names_def old_key_cols_def key_cols_def text_default_def
        text_col_def)
qed

lemma agent_id_added:
  assumes "map_of (sq_tables sq) ''api_keys'' = Some tb" and "keys_table ks tb" and "sq_failure sq = None"
    and "isDuplicateColumnErr err_Error (Some (DuplicateColumn ''agent_id''))"
  shows "\<exists>sq'. (case exec_ddl (AddColumn ''api_keys'' (text_default ''agent_id'')) sq of
      (Some e, sq) \<Rightarrow> if \<not> isDuplicateColumnErr err_Error (Some e) then (Some (AgentIDFailed e), sq) else (None, sq)
    | (None, sq) \<Rightarrow> (None, sq)) = (None, sq') \<and> sq_failure sq' = None \<and>
    table_holds key_vals key_cols key_norm key_ok [[''id''], [''key_hash'']] ks ''api_keys'' sq' \<and>
    (\<forall>t. t \<noteq> ''api_keys'' \<longrightarrow> map_of (sq_tables sq') t = map_of (sq_tables sq) t)"
proof -
  have c: "compile ''api_keys'' [] sq = Inr tb" using assms(1,3) by (simp add: compile_def)
  have n: "c_name (text_default ''agent_id'') = ''agent_id''" "c_default (text_default ''agent_id'') = Some (SText '''')"
    by (simp_all add: text_default_def text_col_def)
  show ?thesis
  proof (cases "''agent_id'' \<in> set (column_names tb)")
    case True
    then have "\<not> unbound_keys ks tb" by (auto simp: unbound_keys_def holds_rows_def old_key_cols_def)
    then have "table_holds key_vals key_cols key_norm key_ok [[''id''], [''key_hash'']] ks ''api_keys'' sq"
      using assms(1,2) by (simp add: keys_table_def table_holds_def)
    then show ?thesis using assms(3,4) True by (simp add: c n)
  next
    case False
    moreover have "''agent_id'' \<in> set key_cols" by (simp add: key_cols_def)
    ultimately have "unbound_keys ks tb" using assms(2) unfolding keys_table_def holds_rows_def by blast
    define tb' where "tb' = tb\<lparr>t_columns := t_columns tb @ [text_default ''agent_id''],
      t_rows := map (\<lambda>r. r(''agent_id'' := SText '''')) (t_rows tb)\<rparr>"
    have "holds_rows key_vals key_cols key_norm key_ok [[''id''], [''key_hash'']] ks tb'"
      unfolding tb'_def by (rule unbound_completed) fact
    moreover have "exec_ddl (AddColumn ''api_keys'' (text_default ''agent_id'')) sq = (None, set_table ''api_keys'' tb' sq)"
      using False by (simp add: c n tb'_def)
    moreover have "map_of (sq_tables (set_table ''api_keys'' tb' sq)) t = map_of (sq_tables sq) t" if "t \<noteq> ''api_keys''" for t
      using that by (simp add: set_table_def update_conv')
    ultimately show ?thesis using assms(3) by (intro exI [of _ "set_table ''api_keys'' tb' sq"]) simp
  qed
qed

section \<open>Opening\<close>

lemma exec_all_create:
  "sq_failure sq = None \<Longrightarrow> exec_all (CreateTable t cols keys # xs) sq = exec_all xs (ensure t cols keys sq)"
  by (simp add: exec_create del: exec_ddl.simps)

lemma same_tables:
  assumes "sq_tables sq' = sq_tables sq"
  shows "older_table vals cs norm ok keys rs t sq' = older_table vals cs norm ok keys rs t sq"
    and "table_holds vals cs norm ok keys rs t sq' = table_holds vals cs norm ok keys rs t sq"
  using assms by (simp_all add: older_table_def table_holds_def)

lemmas column_defs = primary_col_def text_col_def ref_col_def text_default_def int_default_def date_col_def cols_defs

lemma schema_executed:
  assumes "written_by_some_version sq d"
  shows "\<exists>sq' tb. exec_all schema sq = (None, sq') \<and> sq_failure sq' = None \<and>
    map_of (sq_tables sq') ''api_keys'' = Some tb \<and> keys_table (t_keys d) tb \<and>
    table_holds organization_vals organization_cols organization_norm organization_ok [[''id''], [''name'']]
       (t_organizations d) ''organizations'' sq' \<and>
    table_holds user_vals user_cols user_norm user_ok [[''id''], [''username'']] (t_users d) ''users'' sq' \<and>
    table_holds agent_vals agent_cols agent_norm agent_ok [[''id''], [''org_id'', ''agent_id'']]
       (t_agents d) ''registered_agents'' sq' \<and>
    table_holds audit_vals audit_cols audit_norm audit_ok [[''id'']] (t_audit d) ''audit_events'' sq' \<and>
    table_holds policy_vals policy_cols policy_norm policy_ok [[''id'']] (t_policies d) ''communication_policies'' sq' \<and>
    table_holds log_vals log_cols log_norm log_ok [[''id'']] (t_logs d) ''message_logs'' sq' \<and>
    table_holds limits_vals limits_cols limits_norm limits_ok [[''id''], [''org_id'', ''agent_id'']]
       (t_limits d) ''agent_limits'' sq'"
proof -
  have w: "sq_failure sq = None" using assms by (simp add: written_by_some_version_def)
  let ?logs = "table_holds log_vals log_cols log_norm log_ok [[''id'']] (t_logs d) ''message_logs''"
  obtain s7 lim where s7: "exec_all schema sq = exec_all
      [CreateIndex ''idx_message_logs_org_time'' ''message_logs'' [''org_id'', ''created_at''],
       CreateIndex ''idx_message_logs_agent'' ''message_logs'' [''org_id'', ''from_agent'', ''to_agent''],
       CreateTable ''agent_limits'' lim [[''id''], [''org_id'', ''agent_id'']]] s7"
    and lim: "set (map c_name lim) = set limits_cols" and f7: "sq_failure s7 = None"
    and h7: "table_holds organization_vals organization_cols organization_norm organization_ok [[''id''], [''name'']]
       (t_organizations d) ''organizations'' s7"
    "table_holds user_vals user_cols user_norm user_ok [[''id''], [''username'']] (t_users d) ''users'' s7"
    "table_holds agent_vals agent_cols agent_norm agent_ok [[''id''], [''org_id'', ''agent_id'']]
       (t_agents d) ''registered_agents'' s7"
    "table_holds audit_vals audit_cols audit_norm audit_ok [[''id'']] (t_audit d) ''audit_events'' s7"
    "table_holds policy_vals policy_cols policy_norm policy_ok [[''id'']] (t_policies d) ''communication_policies'' s7"
    "?logs s7" "\<exists>tb. map_of (sq_tables s7) ''api_keys'' = Some tb \<and> keys_table (t_keys d) tb"
    "older_table limits_vals limits_cols limits_norm limits_ok [[''id''], [''org_id'', ''agent_id'']]
       (t_limits d) ''agent_limits'' s7"
    by (rule that, unfold schema_def, (rule exec_all_create [THEN trans], simp only: failure_ensure w)+, rule refl)
      (use assms in \<open>simp_all add: written_by_some_version_def older_ensure older_keys_ensure column_defs w\<close>)
  obtain s8 where s8: "exec_ddl (CreateIndex ''idx_message_logs_org_time'' ''message_logs'' [''org_id'', ''created_at'']) s7 =
      (None, s8)" "sq_tables s8 = sq_tables s7" "sq_failure s8 = None"
    using index_created [OF h7(6) f7, of "[''org_id'', ''created_at'']"] by (auto simp: log_cols_def)
  have logs: "?logs s8" using h7(6) by (simp add: same_tables(2) [OF s8(2)])
  obtain s9 where s9: "exec_ddl (CreateIndex ''idx_message_logs_agent'' ''message_logs'' [''org_id'', ''from_agent'', ''to_agent'']) s8 =
      (None, s9)" "sq_tables s9 = sq_tables s8" "sq_failure s9 = None"
    using index_created [OF logs s8(3), of "[''org_id'', ''from_agent'', ''to_agent'']"] by (auto simp: log_cols_def)
  let ?s = "ensure ''agent_limits'' lim [[''id''], [''org_id'', ''agent_id'']] s9"
  have "exec_all schema sq = (None, ?s)"
    unfolding s7 by (simp add: s8(1) s9(1,3) exec_create del: exec_ddl.simps)
  moreover have t: "sq_tables s9 = sq_tables s7" using s8(2) s9(2) by simp
  moreover have "table_holds limits_vals limits_cols limits_norm limits_ok [[''id''], [''org_id'', ''agent_id'']]
      (t_limits d) ''agent_limits'' ?s"
    by (rule older_ensure [OF _ lim]) (simp add: same_tables(1) [OF t] h7(8))
  ultimately show ?thesis
    using h7 s9(3) by (auto simp: same_tables [OF t] t)
qed

lemma migrate_sim:
  assumes "written_by_some_version sq d" and "isDuplicateColumnErr err_Error (Some (DuplicateColumn ''agent_id''))"
  shows "\<exists>sq'. migrate err_Error sq = (None, sq') \<and> sim sq' d"
proof -
  obtain s1 tb where s1: "exec_all schema sq = (None, s1)" "sq_failure s1 = None"
    "map_of (sq_tables s1) ''api_keys'' = Some tb" "keys_table (t_keys d) tb"
    and h: "table_holds organization_vals organization_cols organization_norm organization_ok [[''id''], [''name'']]
       (t_organizations d) ''organizations'' s1"
    "table_holds user_vals user_cols user_norm user_ok [[''id''], [''username'']] (t_users d) ''users'' s1"
    "table_holds agent_vals agent_cols agent_norm agent_ok [[''id''], [''org_id'', ''agent_id'']]
       (t_agents d) ''registered_agents'' s1"
    "table_holds audit_vals audit_cols audit_norm audit_ok [[''id'']] (t_audit d) ''audit_events'' s1"
    "table_holds policy_vals policy_cols policy_norm policy_ok [[''id'']] (t_policies d) ''communication_policies'' s1"
    "table_holds log_vals log_cols log_norm log_ok [[''id'']] (t_logs d) ''message_logs'' s1"
    "table_holds limits_vals limits_cols limits_norm limits_ok [[''id''], [''org_id'', ''agent_id'']]
       (t_limits d) ''agent_limits'' s1"
    using schema_executed [OF assms(1)] by blast
  obtain s2 where s2: "(case exec_ddl (AddColumn ''api_keys'' (text_default ''agent_id'')) s1 of
      (Some e, sq) \<Rightarrow> if \<not> isDuplicateColumnErr err_Error (Some e) then (Some (AgentIDFailed e), sq) else (None, sq)
    | (None, sq) \<Rightarrow> (None, sq)) = (None, s2)" "sq_failure s2 = None"
    "table_holds key_vals key_cols key_norm key_ok [[''id''], [''key_hash'']] (t_keys d) ''api_keys'' s2"
    "\<forall>t. t \<noteq> ''api_keys'' \<longrightarrow> map_of (sq_tables s2) t = map_of (sq_tables s1) t"
    using agent_id_added [OF s1(3,4,2) assms(2)] by blast
  have "migrate err_Error sq = (None, s2)" unfolding migrate_def s1(1) using s2(1) by simp
  moreover have "sim s2 d"
    using h s2(2,3,4) assms(1) by (simp add: sim_def table_holds_def written_by_some_version_def)
  ultimately show ?thesis by blast
qed

text \<open>A new file represents the empty store, and what is open represents itself again.\<close>

lemma new_file_written: "written_by_some_version new_file empty_db"
  by (simp add: written_by_some_version_def new_file_def empty_db_def older_table_def older_keys_def)

lemma sim_written: "sim sq d \<Longrightarrow> db_failure d = None \<Longrightarrow> written_by_some_version sq d"
  by (auto simp: written_by_some_version_def sim_def older_table_def table_holds_def older_keys_def keys_table_def
      split: option.splits)

end
