(* ===== verification/StoreAPI.thy ===== *)
theory StoreAPI
  imports SqlStore
begin

text \<open>
  The interfaces of \<open>pkg/admin/store.go\<close> over a state \<open>'s\<close>, and two implementations: \<open>SQLiteStore\<close> by its
  statements (\<open>SqlStore\<close>), and the store of typed rows (\<open>SQLite\<close>) on which the rest of the development
  stands. An interface is the record of its methods; \<open>AdminStore\<close> (the interface \<open>Store\<close>) embeds the others. A method that reads the
  clock takes its reading.
\<close>

section \<open>The interfaces\<close>

type_synonym 's writing = "'s \<Rightarrow> store_error option \<times> 's"
type_synonym ('s, 'a) reading = "'s \<Rightarrow> store_error + 'a"

record 's UserStore =
  m_CreateUser :: "User \<Rightarrow> 's writing"
  m_GetUserByUsername :: "string \<Rightarrow> ('s, User) reading"
  m_GetUserByID :: "string \<Rightarrow> ('s, User) reading"
  m_UpdateUserPassword :: "string \<Rightarrow> string \<Rightarrow> 's writing"

record 's AgentStore =
  m_RegisterAgent :: "RegisteredAgent \<Rightarrow> 's writing"
  m_GetAgent :: "string \<Rightarrow> string \<Rightarrow> ('s, RegisteredAgent) reading"
  m_ListAgents :: "string \<Rightarrow> ('s, RegisteredAgent list) reading"
  m_UpdateAgentStatus :: "string \<Rightarrow> string \<Rightarrow> AgentStatus \<Rightarrow> 's writing"

record 's PolicyStore =
  m_CreatePolicy :: "CommunicationPolicy \<Rightarrow> 's writing"
  m_GetPolicy :: "string \<Rightarrow> ('s, CommunicationPolicy) reading"
  m_ListPolicies :: "string \<Rightarrow> ('s, CommunicationPolicy list) reading"
  m_UpdatePolicy :: "CommunicationPolicy \<Rightarrow> 's writing"
  m_DeletePolicy :: "string \<Rightarrow> 's writing"

record 's OrgStore =
  m_CreateOrg :: "Organization \<Rightarrow> 's writing"
  m_GetOrgByID :: "string \<Rightarrow> ('s, Organization) reading"

record 's AuditStore =
  m_AppendAuditEvent :: "AuditEvent \<Rightarrow> 's writing"
  m_ListAuditEvents :: "string \<Rightarrow> int \<Rightarrow> ('s, AuditEvent list) reading"

record 's APIKeyStore =
  m_CreateAPIKey :: "APIKey \<Rightarrow> 's writing"
  m_GetAPIKeyByHash :: "string \<Rightarrow> ('s, APIKey) reading"
  m_ListAPIKeys :: "string \<Rightarrow> ('s, APIKey list) reading"
  m_RevokeAPIKey :: "time \<Rightarrow> string \<Rightarrow> string \<Rightarrow> 's writing"

record 's MessageLogStore =
  m_AppendMessageLog :: "MessageLog \<Rightarrow> 's writing"
  m_ListMessageLogs :: "string \<Rightarrow> MessageLogFilter \<Rightarrow> ('s, MessageLog list) reading"
  m_DeleteMessageLogsBefore :: "string \<Rightarrow> time \<Rightarrow> 's \<Rightarrow> (store_error + int) \<times> 's"

record 's LimitStore =
  m_UpsertAgentLimits :: "AgentLimits \<Rightarrow> 's writing"
  m_GetEffectiveLimits :: "'s \<Rightarrow> string \<Rightarrow> string \<Rightarrow> AgentLimits option \<times> store_error option"
  m_ListAgentLimits :: "string \<Rightarrow> ('s, AgentLimits list) reading"
  m_DeleteAgentLimits :: "string \<Rightarrow> 's writing"

record 's AdminStore =
  as_OrgStore :: "'s OrgStore"
  as_UserStore :: "'s UserStore"
  as_AgentStore :: "'s AgentStore"
  as_PolicyStore :: "'s PolicyStore"
  as_AuditStore :: "'s AuditStore"
  as_APIKeyStore :: "'s APIKeyStore"
  as_MessageLogStore :: "'s MessageLogStore"
  as_LimitStore :: "'s LimitStore"

section \<open>Two implementations\<close>

definition SQLiteStore :: "sql_db AdminStore" where
  "SQLiteStore =
     \<lparr>as_OrgStore = \<lparr>m_CreateOrg = sql_CreateOrg, m_GetOrgByID = sql_GetOrgByID\<rparr>,
      as_UserStore = \<lparr>m_CreateUser = sql_CreateUser, m_GetUserByUsername = sql_GetUserByUsername,
        m_GetUserByID = sql_GetUserByID, m_UpdateUserPassword = sql_UpdateUserPassword\<rparr>,
      as_AgentStore = \<lparr>m_RegisterAgent = sql_RegisterAgent, m_GetAgent = sql_GetAgent, m_ListAgents = sql_ListAgents,
        m_UpdateAgentStatus = sql_UpdateAgentStatus\<rparr>,
      as_PolicyStore = \<lparr>m_CreatePolicy = sql_CreatePolicy, m_GetPolicy = sql_GetPolicy,
        m_ListPolicies = sql_ListPolicies, m_UpdatePolicy = sql_UpdatePolicy, m_DeletePolicy = sql_DeletePolicy\<rparr>,
      as_AuditStore = \<lparr>m_AppendAuditEvent = sql_AppendAuditEvent, m_ListAuditEvents = sql_ListAuditEvents\<rparr>,
      as_APIKeyStore = \<lparr>m_CreateAPIKey = sql_CreateAPIKey, m_GetAPIKeyByHash = sql_GetAPIKeyByHash,
        m_ListAPIKeys = sql_ListAPIKeys, m_RevokeAPIKey = sql_RevokeAPIKey\<rparr>,
      as_MessageLogStore = \<lparr>m_AppendMessageLog = sql_AppendMessageLog, m_ListMessageLogs = sql_ListMessageLogs,
        m_DeleteMessageLogsBefore = sql_DeleteMessageLogsBefore\<rparr>,
      as_LimitStore = \<lparr>m_UpsertAgentLimits = sql_UpsertAgentLimits, m_GetEffectiveLimits = sql_GetEffectiveLimits,
        m_ListAgentLimits = sql_ListAgentLimits, m_DeleteAgentLimits = sql_DeleteAgentLimits\<rparr>\<rparr>"

definition RowStore :: "db AdminStore" where
  "RowStore =
     \<lparr>as_OrgStore = \<lparr>m_CreateOrg = CreateOrg, m_GetOrgByID = GetOrgByID\<rparr>,
      as_UserStore = \<lparr>m_CreateUser = CreateUser, m_GetUserByUsername = GetUserByUsername,
        m_GetUserByID = GetUserByID, m_UpdateUserPassword = UpdateUserPassword\<rparr>,
      as_AgentStore = \<lparr>m_RegisterAgent = RegisterAgent, m_GetAgent = GetAgent, m_ListAgents = ListAgents insertion_sort,
        m_UpdateAgentStatus = UpdateAgentStatus\<rparr>,
      as_PolicyStore = \<lparr>m_CreatePolicy = CreatePolicy, m_GetPolicy = GetPolicy,
        m_ListPolicies = ListPolicies insertion_sort, m_UpdatePolicy = UpdatePolicy, m_DeletePolicy = DeletePolicy\<rparr>,
      as_AuditStore = \<lparr>m_AppendAuditEvent = AppendAuditEvent, m_ListAuditEvents = ListAuditEvents insertion_sort\<rparr>,
      as_APIKeyStore = \<lparr>m_CreateAPIKey = CreateAPIKey, m_GetAPIKeyByHash = GetAPIKeyByHash,
        m_ListAPIKeys = ListAPIKeys insertion_sort, m_RevokeAPIKey = RevokeAPIKey\<rparr>,
      as_MessageLogStore = \<lparr>m_AppendMessageLog = AppendMessageLog, m_ListMessageLogs = ListMessageLogs insertion_sort,
        m_DeleteMessageLogsBefore = DeleteMessageLogsBefore\<rparr>,
      as_LimitStore = \<lparr>m_UpsertAgentLimits = UpsertAgentLimits, m_GetEffectiveLimits = GetEffectiveLimits_db,
        m_ListAgentLimits = ListAgentLimits insertion_sort, m_DeleteAgentLimits = DeleteAgentLimits\<rparr>\<rparr>"

section \<open>Calls of the interface\<close>

datatype store_call = QOrg string | QUserByName string | QUserByID string | QAgent string string | QAgents string
  | QPolicy string | QPolicies string | QAudit string int | QKeyByHash string | QKeys string
  | QLogs string MessageLogFilter | QEffectiveLimits string string | QLimits string

datatype store_answer = AOrg "store_error + Organization" | AUser "store_error + User"
  | AAgent "store_error + RegisteredAgent" | AAgents "store_error + RegisteredAgent list"
  | APolicy "store_error + CommunicationPolicy" | APolicies "store_error + CommunicationPolicy list"
  | AAudit "store_error + AuditEvent list" | AKey "store_error + APIKey" | AKeys "store_error + APIKey list"
  | ALogs "store_error + MessageLog list" | AEffective "AgentLimits option \<times> store_error option"
  | ALimits "store_error + AgentLimits list"

fun ask :: "'s AdminStore \<Rightarrow> store_call \<Rightarrow> 's \<Rightarrow> store_answer" where
  "ask st (QOrg i) s = AOrg (m_GetOrgByID (as_OrgStore st) i s)"
| "ask st (QUserByName n) s = AUser (m_GetUserByUsername (as_UserStore st) n s)"
| "ask st (QUserByID i) s = AUser (m_GetUserByID (as_UserStore st) i s)"
| "ask st (QAgent r a) s = AAgent (m_GetAgent (as_AgentStore st) r a s)"
| "ask st (QAgents r) s = AAgents (m_ListAgents (as_AgentStore st) r s)"
| "ask st (QPolicy i) s = APolicy (m_GetPolicy (as_PolicyStore st) i s)"
| "ask st (QPolicies r) s = APolicies (m_ListPolicies (as_PolicyStore st) r s)"
| "ask st (QAudit r n) s = AAudit (m_ListAuditEvents (as_AuditStore st) r n s)"
| "ask st (QKeyByHash h) s = AKey (m_GetAPIKeyByHash (as_APIKeyStore st) h s)"
| "ask st (QKeys r) s = AKeys (m_ListAPIKeys (as_APIKeyStore st) r s)"
| "ask st (QLogs r f) s = ALogs (m_ListMessageLogs (as_MessageLogStore st) r f s)"
| "ask st (QEffectiveLimits r a) s = AEffective (m_GetEffectiveLimits (as_LimitStore st) s r a)"
| "ask st (QLimits r) s = ALimits (m_ListAgentLimits (as_LimitStore st) r s)"

text \<open>
  A change with its answer: the error, or the number of deleted rows (0 where there is none to report).
  \<open>fails\<close> makes the database fail or recover.
\<close>

definition err_or_none :: "store_error option \<times> 's \<Rightarrow> (store_error + int) \<times> 's" where
  "err_or_none r = (case r of (None, s) \<Rightarrow> (Inr 0, s) | (Some e, s) \<Rightarrow> (Inl e, s))"

fun perform :: "'s AdminStore \<Rightarrow> (string option \<Rightarrow> 's \<Rightarrow> 's) \<Rightarrow> db_op \<Rightarrow> 's \<Rightarrow> (store_error + int) \<times> 's" where
  "perform st fails (DoCreateOrg x) s = err_or_none (m_CreateOrg (as_OrgStore st) x s)"
| "perform st fails (DoCreateUser x) s = err_or_none (m_CreateUser (as_UserStore st) x s)"
| "perform st fails (DoUpdateUserPassword i h) s = err_or_none (m_UpdateUserPassword (as_UserStore st) i h s)"
| "perform st fails (DoRegisterAgent x) s = err_or_none (m_RegisterAgent (as_AgentStore st) x s)"
| "perform st fails (DoUpdateAgentStatus r a v) s = err_or_none (m_UpdateAgentStatus (as_AgentStore st) r a v s)"
| "perform st fails (DoCreatePolicy x) s = err_or_none (m_CreatePolicy (as_PolicyStore st) x s)"
| "perform st fails (DoUpdatePolicy x) s = err_or_none (m_UpdatePolicy (as_PolicyStore st) x s)"
| "perform st fails (DoDeletePolicy i) s = err_or_none (m_DeletePolicy (as_PolicyStore st) i s)"
| "perform st fails (DoAppendAuditEvent x) s = err_or_none (m_AppendAuditEvent (as_AuditStore st) x s)"
| "perform st fails (DoCreateAPIKey x) s = err_or_none (m_CreateAPIKey (as_APIKeyStore st) x s)"
| "perform st fails (DoRevokeAPIKey t r i) s = err_or_none (m_RevokeAPIKey (as_APIKeyStore st) t r i s)"
| "perform st fails (DoAppendMessageLog x) s = err_or_none (m_AppendMessageLog (as_MessageLogStore st) x s)"
| "perform st fails (DoDeleteMessageLogsBefore r t) s = m_DeleteMessageLogsBefore (as_MessageLogStore st) r t s"
| "perform st fails (DoUpsertAgentLimits x) s = err_or_none (m_UpsertAgentLimits (as_LimitStore st) x s)"
| "perform st fails (DoDeleteAgentLimits i) s = err_or_none (m_DeleteAgentLimits (as_LimitStore st) i s)"
| "perform st fails (DbFails e) s = (Inr 0, fails e s)"

fun run_ops :: "(db_op \<Rightarrow> 's \<Rightarrow> 'a \<times> 's) \<Rightarrow> db_op list \<Rightarrow> 's \<Rightarrow> 'a list \<times> 's" where
  "run_ops step [] s = ([], s)"
| "run_ops step (p # ps) s = (let (a, s) = step p s; (as, s) = run_ops step ps s in (a # as, s))"

abbreviation "on_rows \<equiv> perform RowStore (\<lambda>e d. d\<lparr>db_failure := e\<rparr>)"
abbreviation "on_sqlite \<equiv> perform SQLiteStore (\<lambda>e sq. sq\<lparr>sq_failure := e\<rparr>)"

lemma on_rows_apply: "snd (on_rows p d) = apply_op p d"
  by (cases p) (simp_all add: err_or_none_def RowStore_def split: prod.split option.split)

lemma run_ops_apply: "snd (run_ops on_rows ops d) = apply_ops ops d"
  by (induction ops arbitrary: d) (simp_all add: apply_ops_def on_rows_apply case_prod_unfold Let_def)

end
