(* ===== verification/SqlProps.thy ===== *)
theory SqlProps
  imports Migration StoreAPI StoreFacts
begin

text \<open>
  Whole runs of the store on its database: any operations and queries after the opening of a file, and
  the properties of the store's texts, statements and migration.
\<close>

section \<open>The simulation of whole runs\<close>

text \<open>The times of an operation and of a query have years of four digits, and a revocation is not at time zero.\<close>

fun op_ok :: "db_op \<Rightarrow> bool" where
  "op_ok (DoCreateOrg x) = organization_ok x"
| "op_ok (DoCreateUser x) = user_ok x"
| "op_ok (DoRegisterAgent x) = agent_ok x"
| "op_ok (DoCreatePolicy x) = policy_ok x"
| "op_ok (DoAppendAuditEvent x) = audit_ok x"
| "op_ok (DoCreateAPIKey x) = in_years (K_CreatedAt x)"
| "op_ok (DoRevokeAPIKey t r i) = (in_years t \<and> rfc3339 t \<noteq> zero_time)"
| "op_ok (DoAppendMessageLog x) = log_ok x"
| "op_ok (DoDeleteMessageLogsBefore r t) = in_years t"
| "op_ok (DoUpsertAgentLimits x) = limits_ok x"
| "op_ok p = True"

fun query_ok :: "store_call \<Rightarrow> bool" where
  "query_ok (QLogs r f) = (pred_option in_years (Since f) \<and> pred_option in_years (Until f))"
| "query_ok q = True"

lemma refines_err_or_none: "refines r r' \<Longrightarrow> refines (err_or_none r) (err_or_none r')"
  by (cases r; cases r') (auto simp: err_or_none_def split: option.split)

lemma sim_failure: "sim sq d \<Longrightarrow> sim (sq\<lparr>sq_failure := e\<rparr>) (d\<lparr>db_failure := e\<rparr>)"
  by (simp add: sim_def table_holds_def)

lemmas writes = refines_CreateOrg refines_CreateUser refines_UpdateUserPassword refines_RegisterAgent
  refines_UpdateAgentStatus refines_CreatePolicy refines_UpdatePolicy refines_DeletePolicy refines_AppendAuditEvent
  refines_CreateAPIKey refines_RevokeAPIKey refines_AppendMessageLog refines_DeleteMessageLogsBefore
  refines_UpsertAgentLimits refines_DeleteAgentLimits

lemmas reads = read_GetOrgByID read_GetUserByUsername read_GetUserByID read_GetAgent read_ListAgents read_GetPolicy
  read_ListPolicies read_ListAuditEvents read_GetAPIKeyByHash read_GetAPIKeyByAgentID read_ListAPIKeys
  read_ListMessageLogs read_GetEffectiveLimits read_ListAgentLimits

lemma op_refines: "sim sq d \<Longrightarrow> op_ok p \<Longrightarrow> refines (on_sqlite p sq) (on_rows p d)"
  by (cases p) (simp_all add: refines_err_or_none writes sim_failure RowStore_def SQLiteStore_def)

lemma ask_refines: "sim sq d \<Longrightarrow> query_ok q \<Longrightarrow> ask SQLiteStore q sq = ask RowStore q d"
  by (cases q) (auto simp: reads RowStore_def SQLiteStore_def intro!: read_ListMessageLogs)

lemma run_refines:
  "sim sq d \<Longrightarrow> list_all op_ok ops \<Longrightarrow> refines (run_ops on_sqlite ops sq) (run_ops on_rows ops d)"
proof (induction ops arbitrary: sq d)
  case (Cons p ps)
  have "refines (on_sqlite p sq) (on_rows p d)" using op_refines Cons.prems by simp
  moreover from this have "refines (run_ops on_sqlite ps (snd (on_sqlite p sq))) (run_ops on_rows ps (snd (on_rows p d)))"
    using Cons.IH Cons.prems(2) by (simp add: refines_def)
  ultimately show ?case by (simp add: refines_def case_prod_unfold Let_def)
qed simp

section \<open>The statements\<close>

text \<open>
  C15: The store as its statements. \<open>NewSQLiteStore\<close> opens every database that the present or an earlier
  version has written, creating and completing tables. After that, whatever operations are performed,
  each statement of the code gives the answer that the operation of \<open>SQLite\<close> gives on the typed rows the
  file represented, errors and numbers of rows included, and every query afterwards does, too.
\<close>

theorem opened_store_behaves:
  assumes "sql_Open path = Inr file" and "written_by_some_version file d"
    and "isDuplicateColumnErr err_Error (Some (DuplicateColumn ''agent_id''))"
    and "list_all op_ok ops" and "query_ok q"
  shows "\<exists>sq. NewSQLiteStore sql_Open err_Error path = Inr sq \<and>
    fst (run_ops on_sqlite ops sq) = fst (run_ops on_rows ops d) \<and>
    ask SQLiteStore q (snd (run_ops on_sqlite ops sq)) = ask RowStore q (apply_ops ops d)"
proof -
  obtain sq where sq: "migrate err_Error file = (None, sq)" "sim sq d"
    using migrate_sim [OF assms(2,3)] by blast
  have "refines (run_ops on_sqlite ops sq) (run_ops on_rows ops d)" by (rule run_refines [OF sq(2) assms(4)])
  then show ?thesis
    using ask_refines [OF _ assms(5)] sq(1) assms(1) by (auto simp: NewSQLiteStore_def refines_def run_ops_apply)
qed

definition sample_err :: "sql_error \<Rightarrow> string" where
  "sample_err e = (case e of DuplicateColumn c \<Rightarrow> ''duplicate column name: '' @ c | _ \<Rightarrow> ''error'')"

lemma sample_err_duplicate: "isDuplicateColumnErr sample_err (Some (DuplicateColumn ''agent_id''))"
  by (simp add: isDuplicateColumnErr_def sample_err_def)

lemma sample_instants: "in_years 951782399999999999" "in_years 951782400000000000"
  by (simp_all add: in_years_def date_time_def day_number_def days_before_year_def days_before_month_def Day_def
      Minute_def Second_def)

lemma opened_store_behaves_witness:
  "\<exists>sq. NewSQLiteStore (\<lambda>p. Inr new_file) sample_err ''admin.db'' = Inr sq \<and>
    ask SQLiteStore (QOrg ''o'') (snd (run_ops on_sqlite [DoCreateOrg \<lparr>Org_ID = ''o'', Org_Name = ''n'', Org_CreatedAt = 951782399999999999\<rparr>] sq)) =
      AOrg (Inr \<lparr>Org_ID = ''o'', Org_Name = ''n'', Org_CreatedAt = 951782399000000000\<rparr>)"
proof -
  let ?op = "DoCreateOrg \<lparr>Org_ID = ''o'', Org_Name = ''n'', Org_CreatedAt = 951782399999999999\<rparr>"
  have "ask RowStore (QOrg ''o'') (apply_ops [?op] empty_db) =
      AOrg (Inr \<lparr>Org_ID = ''o'', Org_Name = ''n'', Org_CreatedAt = 951782399000000000\<rparr>)"
    by (simp add: apply_ops_def RowStore_def CreateOrg_def exec_def empty_db_def GetOrgByID_def query_def one_row_def rfc3339_def Second_def)
  then show ?thesis
    using opened_store_behaves [of "\<lambda>p. Inr new_file" "''admin.db''", OF refl new_file_written sample_err_duplicate,
        of "[?op]" "QOrg ''o''"] sample_instants(1)
    by (auto simp add: organization_ok_def simp del: ask.simps run_ops.simps)
qed

section \<open>The message log\<close>

text \<open>
  What a reader asks for, in terms of the messages as they were logged: the filters by time are meant to the
  second, in which RFC 3339 writes a time.
\<close>

definition log_wanted :: "string \<Rightarrow> MessageLogFilter \<Rightarrow> MessageLog \<Rightarrow> bool" where
  "log_wanted org f m \<longleftrightarrow> ML_OrgID m = org \<and>
     (F_AgentID f \<noteq> '''' \<longrightarrow> F_AgentID f \<in> {ML_FromAgent m, ML_ToAgent m}) \<and>
     (F_ToolName f \<noteq> '''' \<longrightarrow> F_ToolName f = ML_ToolName m) \<and>
     (\<forall>t. Since f = Some t \<longrightarrow> t div Second \<le> ML_CreatedAt m div Second) \<and>
     (\<forall>t. Until f = Some t \<longrightarrow> ML_CreatedAt m div Second \<le> t div Second)"

definition to_second :: "MessageLog \<Rightarrow> MessageLog" where
  "to_second m = m\<lparr>ML_CreatedAt := ML_CreatedAt m div Second * Second\<rparr>"

lemma log_matches_wanted: "log_matches org f (log_norm m) = log_wanted org f m"
  by (auto simp: log_matches_def log_wanted_def log_norm_def rfc3339_def Second_def split: option.splits)

lemma appended_logs:
  "db_failure d = None \<Longrightarrow> distinct (map ML_ID (t_logs d @ ms)) \<Longrightarrow>
    t_logs (apply_ops (map DoAppendMessageLog ms) d) = t_logs d @ map log_norm ms \<and>
    db_failure (apply_ops (map DoAppendMessageLog ms) d) = None"
proof (induction ms arbitrary: d)
  case (Cons m ms)
  let ?d = "d\<lparr>t_logs := t_logs d @ [log_norm m]\<rparr>"
  have "apply_op (DoAppendMessageLog m) d = ?d"
  proof -
    have "\<not> list_ex (\<lambda>r. ML_ID r = ML_ID m) (t_logs d)" using Cons.prems(2) unfolding list_ex_iff
      by (simp add: image_iff) metis
    then show ?thesis using Cons.prems(1) by (simp add: AppendMessageLog_def exec_def log_norm_def)
  qed
  moreover have "t_logs (apply_ops (map DoAppendMessageLog ms) ?d) = t_logs ?d @ map log_norm ms \<and>
      db_failure (apply_ops (map DoAppendMessageLog ms) ?d) = None"
    by (rule Cons.IH) (use Cons.prems in \<open>simp_all add: log_norm_def\<close>)
  ultimately show ?case by (simp add: apply_ops_def)
qed (simp add: apply_ops_def)

text \<open>
  C30: The message log over its statements. After messages with distinct ids were appended to a new database
  file, with times of the years 0 to 9999, \<open>ListMessageLogs\<close> returns those that the reader asked for, each as
  it was logged with its time cut to the second: newest first, as many as there are up to the limit (200 by
  default), and none it leaves out is newer than any it returns. The file stores and compares the times as texts.
\<close>

theorem logged_messages_listed:
  assumes "NewSQLiteStore (\<lambda>p. Inr new_file) err_Error path = Inr sq0"
    and "isDuplicateColumnErr err_Error (Some (DuplicateColumn ''agent_id''))"
    and "list_all log_ok ms" and "distinct (map ML_ID ms)" and "query_ok (QLogs org f)"
    and "run_ops on_sqlite (map DoAppendMessageLog ms) sq0 = (answers, sq)"
  defines "rows \<equiv> map to_second (filter (log_wanted org f) ms)"
  shows "\<exists>ls. sql_ListMessageLogs org f sq = Inr ls \<and> mset ls \<subseteq># mset rows \<and>
    sorted_wrt (\<lambda>x y. ML_CreatedAt y \<le> ML_CreatedAt x) ls \<and>
    length ls = min (nat (if F_Limit f \<le> 0 then 200 else F_Limit f)) (length rows) \<and>
    (\<forall>x y. x \<in># mset rows - mset ls \<longrightarrow> y \<in> set ls \<longrightarrow> ML_CreatedAt x \<le> ML_CreatedAt y)"
proof -
  let ?ops = "map DoAppendMessageLog ms" and ?d = "apply_ops (map DoAppendMessageLog ms) empty_db"
  have "sim sq0 empty_db"
    using migrate_sim [OF new_file_written assms(2)] assms(1) by (auto simp: NewSQLiteStore_def split: option.splits)
  moreover have "list_all op_ok ?ops" using assms(3) by (simp add: list_all_iff)
  ultimately have "refines (run_ops on_sqlite ?ops sq0) (run_ops on_rows ?ops empty_db)" by (rule run_refines)
  then have sim: "sim sq ?d" using assms(6) by (simp add: refines_def run_ops_apply)
  have d: "t_logs ?d = map log_norm ms" "db_failure ?d = None"
    using appended_logs [of empty_db ms] assms(4) by (simp_all add: empty_db_def)
  have rows: "filter (log_matches org f) (map log_norm ms) = rows"
  proof -
    have n: "to_second = log_norm" by (rule ext) (simp add: to_second_def log_norm_def rfc3339_def)
    show ?thesis unfolding rows_def n by (simp add: filter_map comp_def log_matches_wanted)
  qed
  define ls where "ls = take (nat (if F_Limit f \<le> 0 then 200 else F_Limit f))
    (insertion_sort (\<lambda>x y. ML_CreatedAt y < ML_CreatedAt x) rows)"
  have "sql_ListMessageLogs org f sq = ListMessageLogs insertion_sort org f ?d"
    by (rule read_ListMessageLogs [OF sim]) (use assms(5) in auto)
  also have "\<dots> = Inr ls" unfolding ListMessageLogs_def query_def d rows
    by (simp add: sql_limit_def defaultMessageLogLimit_def ls_def Let_def)
  finally show ?thesis using go_sort.take_newest [OF ls_def] by blast
qed

definition sample_log :: "string \<Rightarrow> time \<Rightarrow> MessageLog" where
  "sample_log i t = \<lparr>ML_ID = i, ML_OrgID = ''o'', ML_EnvelopeID = ''e'', ML_ThreadID = '''', ML_FromAgent = ''a1'',
     ML_ToAgent = ''b1'', ML_MsgType = ''agent.message'', ML_Direction = ''send'', ML_ToolName = ''send_message'',
     ML_BodySize = 2, ML_Body = ''hi'', ML_CreatedAt = t\<rparr>"

definition sample_filter :: MessageLogFilter where
  "sample_filter = \<lparr>F_AgentID = ''b1'', F_ToolName = '''', Since = Some 951782399999999999, Until = None, F_Limit = 1\<rparr>"

lemma logged_messages_listed_witness:
  "\<exists>sq0. NewSQLiteStore (\<lambda>p. Inr new_file) sample_err ''admin.db'' = Inr sq0 \<and>
    sql_ListMessageLogs ''o'' sample_filter (snd (run_ops on_sqlite
      (map DoAppendMessageLog [sample_log ''1'' 951782399999999999, sample_log ''2'' 951782400000000000]) sq0)) =
    Inr [sample_log ''2'' 951782400000000000]"
proof -
  let ?ms = "[sample_log ''1'' 951782399999999999, sample_log ''2'' 951782400000000000]"
  obtain sq0 where sq0: "NewSQLiteStore (\<lambda>p. Inr new_file) sample_err ''admin.db'' = Inr sq0"
    using migrate_sim [OF new_file_written sample_err_duplicate] by (auto simp: NewSQLiteStore_def)
  have rows: "map to_second (filter (log_wanted ''o'' sample_filter) ?ms) =
      [sample_log ''1'' 951782399000000000, sample_log ''2'' 951782400000000000]"
    by (simp add: log_wanted_def sample_filter_def sample_log_def to_second_def Second_def)
  have lim: "nat (if F_Limit sample_filter \<le> 0 then 200 else F_Limit sample_filter) = 1" by (simp add: sample_filter_def)
  obtain ls where ls: "sql_ListMessageLogs ''o'' sample_filter (snd (run_ops on_sqlite (map DoAppendMessageLog ?ms) sq0)) = Inr ls"
    "mset ls \<subseteq># {#sample_log ''1'' 951782399000000000, sample_log ''2'' 951782400000000000#}" "length ls = 1"
    "\<forall>x y. x \<in># {#sample_log ''1'' 951782399000000000, sample_log ''2'' 951782400000000000#} - mset ls \<longrightarrow>
       y \<in> set ls \<longrightarrow> ML_CreatedAt x \<le> ML_CreatedAt y"
    using logged_messages_listed [OF sq0 sample_err_duplicate _ _ _ prod.collapse [symmetric],
        where ms = ?ms and f = sample_filter and org = "''o''"]
      sample_instants unfolding rows lim
    by (auto simp: log_ok_def sample_log_def sample_filter_def)
  obtain l where l: "ls = [l]" using ls(3) by (auto simp: length_Suc_conv)
  have "l = sample_log ''2'' 951782400000000000"
    using ls(2,4) unfolding l by (auto simp: sample_log_def insert_DiffM2)
  then show ?thesis using sq0 ls(1) l by blast
qed

section \<open>Keys of earlier versions\<close>

text \<open>
  C29: Keys from before the column \<open>agent_id\<close>. When a database whose keys have no such column is opened, its
  keys are kept but bound to no agent: the embedded authenticator on it lets no agent in with any of them.
\<close>

theorem upgraded_keys_bind_no_agent:
  assumes "sql_Open path = Inr file" and "written_by_some_version file d"
    and "isDuplicateColumnErr err_Error (Some (DuplicateColumn ''agent_id''))"
    and "map_of (sq_tables file) ''api_keys'' = Some tb" and "''agent_id'' \<notin> set (column_names tb)"
    and "agent \<noteq> ''''"
  shows "\<exists>sq. NewSQLiteStore sql_Open err_Error path = Inr sq \<and>
    (\<forall>h. sql_GetAPIKeyByHash h sq = GetAPIKeyByHash h d) \<and>
    authenticateAgent (Some (EmbeddedAuthenticator sha (\<lambda>sq h. wrap_err err_text (sql_GetAPIKeyByHash h sq)))) sq agent rawKey
      \<noteq> None"
proof -
  obtain sq where sq: "migrate err_Error file = (None, sq)" "sim sq d"
    using migrate_sim [OF assms(2,3)] by blast
  have "keys_table (t_keys d) tb" using assms(2,4) by (simp add: written_by_some_version_def older_keys_def)
  moreover have "''agent_id'' \<in> set key_cols" by (simp add: key_cols_def)
  ultimately have "\<forall>k\<in>set (t_keys d). K_AgentID k = ''''"
    using assms(5) unfolding keys_table_def unbound_keys_def holds_rows_def by blast
  then have none: "K_AgentID k = ''''" if "GetAPIKeyByHash h d = Inr k" for h k
    using that by (auto simp: GetAPIKeyByHash_def query_def one_row_def find_Some_iff split: option.splits)
  have "authenticateAgent (Some (EmbeddedAuthenticator sha (\<lambda>sq h. wrap_err err_text (sql_GetAPIKeyByHash h sq)))) sq agent rawKey
      \<noteq> None"
    using none assms(6)
    by (auto simp: authenticateAgent_def EmbeddedAuthenticator_def read_GetAPIKeyByHash [OF sq(2)] Let_def
        ConstantTimeCompare_eq split: sum.splits)
  then show ?thesis using sq assms(1) read_GetAPIKeyByHash [OF sq(2)] by (auto simp: NewSQLiteStore_def)
qed

definition sample_old_key :: APIKey where
  "sample_old_key = \<lparr>K_ID = ''k1'', K_OrgID = ''o'', K_Name = ''n'', KeyHash = ''h'', K_Role = RoleAgent, K_AgentID = '''',
     K_CreatedBy = ''u'', K_CreatedAt = 951782399000000000, RevokedAt = None\<rparr>"

definition sample_old_table :: table where
  "sample_old_table = \<lparr>t_columns = map text_col old_key_cols, t_uniques = [[''id''], [''key_hash'']],
     t_rows = [enc old_key_vals sample_old_key]\<rparr>"

definition sample_old_file :: sql_db where
  "sample_old_file = new_file\<lparr>sq_tables := [(''api_keys'', sample_old_table)]\<rparr>"

lemma sample_old_written: "written_by_some_version sample_old_file (empty_db\<lparr>t_keys := [sample_old_key]\<rparr>)"
proof -
  have "in_years 951782399000000000"
    by (simp add: in_years_def date_time_def day_number_def days_before_year_def days_before_month_def Day_def
        Minute_def Second_def)
  then have "key_ok sample_old_key" "key_norm sample_old_key = sample_old_key"
    by (simp_all add: key_ok_def norm_iff sample_old_key_def rfc3339_def Second_def)
  then have "unbound_keys [sample_old_key] sample_old_table"
    by (simp add: unbound_keys_def holds_rows_def sample_old_table_def column_names_def text_col_def comp_def)
      (simp add: sample_old_key_def)
  then show ?thesis
    by (simp add: written_by_some_version_def sample_old_file_def new_file_def empty_db_def older_table_def older_keys_def
        keys_table_def)
qed

lemma upgraded_keys_bind_no_agent_witness:
  "\<exists>sq. NewSQLiteStore (\<lambda>p. Inr sample_old_file) sample_err ''admin.db'' = Inr sq \<and>
    sql_GetAPIKeyByHash ''h'' sq = Inr sample_old_key \<and>
    authenticateAgent (Some (EmbeddedAuthenticator (\<lambda>k. ''h'') (\<lambda>sq h. wrap_err (\<lambda>e. ''error'') (sql_GetAPIKeyByHash h sq)))) sq
      ''a1'' ''k'' \<noteq> None"
proof -
  let ?d = "empty_db\<lparr>t_keys := [sample_old_key]\<rparr>"
  have tb: "map_of (sq_tables sample_old_file) ''api_keys'' = Some sample_old_table"
    "''agent_id'' \<notin> set (column_names sample_old_table)"
    by (simp_all add: sample_old_file_def sample_old_table_def column_names_def text_col_def old_key_cols_def comp_def)
  have "GetAPIKeyByHash ''h'' ?d = Inr sample_old_key"
    by (simp add: GetAPIKeyByHash_def query_def empty_db_def one_row_def sample_old_key_def)
  then show ?thesis
    using upgraded_keys_bind_no_agent [of "\<lambda>p. Inr sample_old_file" "''admin.db''",
        OF refl sample_old_written sample_err_duplicate tb, of "''a1''" "\<lambda>k. ''h''" "\<lambda>e. ''error''" "''k''"]
    by auto
qed

end
