(* ===== verification/Process.thy ===== *)
theory Process
  imports Deployment Migration StoreAPI
begin

text \<open>
  The two server processes: the admin server (\<open>cmd/admin/main.go\<close> with \<open>NewServer\<close> and \<open>render\<close> of
  \<open>internal/admin/server.go\<close> and \<open>NewSessions\<close> of \<open>session.go\<close>) from the opening of its database over the
  seeding and the session keys to its HTTP server, the services of the gateway (the end of \<open>main\<close> in
  \<open>cmd/gateway/main.go\<close>), and what both do while they serve.
\<close>

section \<open>Seeding a new database\<close>

datatype seed_error = CreateOrgErr store_error | HashPassword string | CreateAdminUser store_error

definition ensureDefaultAdmin :: "'s AdminStore \<Rightarrow> web_env \<Rightarrow> 's \<Rightarrow> seed_error option \<times> 's" where
  "ensureDefaultAdmin st env s =
     (case m_GetOrgByID (as_OrgStore st) ''default'' s of
        Inr _ \<Rightarrow> (None, s)
      | Inl _ \<Rightarrow>
     (let (err, s) = m_CreateOrg (as_OrgStore st) \<lparr>Org_ID = ''default'', Org_Name = ''Default Organization'',
                                                  Org_CreatedAt = t_row env\<rparr> s
      in case err of
        Some err \<Rightarrow> (Some (CreateOrgErr err), s)
      | None \<Rightarrow>
     (case GenerateFromPassword env ''changeme'' of
        Inl err \<Rightarrow> (Some (HashPassword err), s)
      | Inr hash \<Rightarrow>
     (let (err, s) = m_CreateUser (as_UserStore st) \<lparr>U_ID = uuid_row env, U_OrgID = ''default'', Username = ''admin'',
                                 Password = hash, U_Role = RoleAdmin, U_CreatedAt = t_row env\<rparr> s
      in case err of
        Some err \<Rightarrow> (Some (CreateAdminUser err), s)
      | None \<Rightarrow> (None, s)))))"

section \<open>The server and its session keys\<close>

text \<open>The cookie codec that \<open>securecookie.New\<close> makes of a hash key and an encryption key.\<close>

record SecureCookie =
  sc_enc :: "string \<Rightarrow> sessionData \<Rightarrow> string + string"
  sc_dec :: "string \<Rightarrow> string \<Rightarrow> string + sessionData"

record Sessions =
  sessions_sc :: SecureCookie

definition NewSessions :: "(bytes \<Rightarrow> bytes \<Rightarrow> SecureCookie) \<Rightarrow> bytes \<Rightarrow> bytes \<Rightarrow> Sessions" where
  "NewSessions sc_New hashKey blockKey = \<lparr>sessions_sc = sc_New hashKey blockKey\<rparr>"

text \<open>The values the function \<open>string\<close> of the templates converts.\<close>

datatype template_value = VString string | VAgentStatus AgentStatus | VPolicyAction string
  | VPolicyDirection string | VRole Role | VOther

fun template_string :: "template_value \<Rightarrow> string" where
  "template_string (VString s) = s"
| "template_string (VAgentStatus s) = s"
| "template_string (VPolicyAction s) = s"
| "template_string (VPolicyDirection s) = s"
| "template_string (VRole s) = s"
| "template_string VOther = ''''"

record 's Server =
  srv_store :: "'s AdminStore"
  srv_sessions :: Sessions
  srv_funcMap :: "string \<rightharpoonup> (template_value \<Rightarrow> string)"

definition NewServer :: "(bytes \<Rightarrow> bytes \<Rightarrow> SecureCookie) \<Rightarrow> 's AdminStore \<Rightarrow> bytes \<Rightarrow> bytes \<Rightarrow> string + 's Server" where
  "NewServer sc_New st hashKey blockKey =
     Inr \<lparr>srv_store = st, srv_sessions = NewSessions sc_New hashKey blockKey,
          srv_funcMap = [''string'' \<mapsto> template_string]\<rparr>"

text \<open>The sessions that a request meets at the server are the server's own.\<close>

definition server_env :: "'s Server \<Rightarrow> web_env \<Rightarrow> web_env" where
  "server_env srv env =
     env\<lparr>sc_Encode := sc_enc (sessions_sc (srv_sessions srv)), sc_Decode := sc_dec (sessions_sc (srv_sessions srv))\<rparr>"

section \<open>Rendering a page\<close>

text \<open>The template that the handlers name for each kind of page.\<close>

fun page_template :: "page \<Rightarrow> string" where
  "page_template (loginPage err uname) = ''login.html''"
| "page_template (profilePage sd success err) = ''profile.html''"
| "page_template (agentListPage sd agents err) = ''agents_list.html''"
| "page_template (agentDetailPage sd a policies) = ''agent_detail.html''"
| "page_template (agentNewPage sd i n err) = ''agent_new.html''"
| "page_template (policyListPage sd policies b) = ''policies_list.html''"
| "page_template (policyEditPage sd p agents b err) = ''policy_edit.html''"
| "page_template (apiKeyListPage sd keys raw) = ''apikeys.html''"
| "page_template (limitsListPage sd ls b) = ''limits.html''"
| "page_template (limitsEditPage sd l b err) = ''limits_edit.html''"
| "page_template (messageLogPage sd ls f) = ''messages.html''"
| "page_template (auditPage sd es err) = ''audit.html''"
| "page_template (dashboardPage sd st es) = ''dashboard.html''"

text \<open>
  \<open>html/template\<close>: a template set with a root, the functions and the parsed files, or an error;
  executing it writes bytes and may fail, possibly after having written some.
\<close>

record template_lib =
  ParseFS :: "string \<Rightarrow> (string \<rightharpoonup> (template_value \<Rightarrow> string)) \<Rightarrow> string list \<Rightarrow> string option"
  Execute :: "string \<Rightarrow> (string \<rightharpoonup> (template_value \<Rightarrow> string)) \<Rightarrow> string list \<Rightarrow> page \<Rightarrow> bytes \<times> string option"

record rendered =
  rd_status :: int
  rd_type :: string
  rd_body :: bytes

definition template_root :: "string \<Rightarrow> string" where
  "template_root name = (if name = ''login.html'' then name else ''layout.html'')"

definition template_files :: "string \<Rightarrow> string list" where
  "template_files name =
     (if name = ''login.html'' then [''templates/'' @ name] else [''templates/layout.html'', ''templates/'' @ name])"

text \<open>\<open>http.Error\<close> replaces type and status as long as nothing has been written.\<close>

definition http_Error :: "bytes \<Rightarrow> string \<Rightarrow> string \<Rightarrow> rendered" where
  "http_Error sent ctype msg =
     (if sent = [] then \<lparr>rd_status = StatusInternalServerError, rd_type = ''text/plain; charset=utf-8'',
                           rd_body = msg @ [CHR 0x0A]\<rparr>
      else \<lparr>rd_status = StatusOK, rd_type = ctype, rd_body = sent @ msg @ [CHR 0x0A]\<rparr>)"

definition render_page :: "template_lib \<Rightarrow> 's Server \<Rightarrow> page \<Rightarrow> rendered" where
  "render_page lib srv p =
     (let ctype = ''text/html; charset=utf-8'';
          name = page_template p
      in case ParseFS lib (template_root name) (srv_funcMap srv) (template_files name) of
        Some err \<Rightarrow> http_Error [] ctype (''template error: '' @ err)
      | None \<Rightarrow>
     (case Execute lib (template_root name) (srv_funcMap srv) (template_files name) p of
        (sent, Some err) \<Rightarrow> http_Error sent ctype (''template error: '' @ err)
      | (sent, None) \<Rightarrow> \<lparr>rd_status = StatusOK, rd_type = ctype, rd_body = sent\<rparr>))"

section \<open>Serving\<close>

record 'h http_Server =
  Addr :: string
  srv_Handler :: 'h
  ReadTimeout :: duration
  WriteTimeout :: duration
  IdleTimeout :: duration

text \<open>
  What happens to a serving process: a request comes in; \<open>ListenAndServe\<close> returns; SIGINT or SIGTERM
  arrives, after which \<open>Shutdown\<close> lets the open requests complete, within ten seconds, and the process exits.
\<close>

datatype net_error = ErrServerClosed | NetError string

datatype 'q server_event = Request 'q | ListenReturns net_error | Signalled "'q list" "net_error option"

datatype process_state = Serving | Exited | FatalExit string

fun answer_all :: "('q \<Rightarrow> 's \<Rightarrow> 'r \<times> 's) \<Rightarrow> 'q list \<Rightarrow> 's \<Rightarrow> 'r list \<times> 's" where
  "answer_all h [] s = ([], s)"
| "answer_all h (q # qs) s = (let (r, s) = h q s; (rs, s) = answer_all h qs s in (r # rs, s))"

fun serving :: "('q \<Rightarrow> 's \<Rightarrow> 'r \<times> 's) \<Rightarrow> 'q server_event list \<Rightarrow> 's \<Rightarrow> 'r list \<times> 's \<times> process_state" where
  "serving h [] s = ([], s, Serving)"
| "serving h (Request q # es) s = (let (r, s) = h q s; (rs, s, e) = serving h es s in (r # rs, s, e))"
| "serving h (ListenReturns ErrServerClosed # es) s = serving h es s"
| "serving h (ListenReturns (NetError err) # es) s = ([], s, FatalExit err)"
| "serving h (Signalled qs err # es) s = (let (rs, s) = answer_all h qs s in (rs, s, Exited))"

section \<open>The admin process (cmd/admin/main.go)\<close>

text \<open>
  What the process finds: the SQLite driver, the random generator (its reads are numbered), \<open>securecookie\<close>,
  and what the seeding finds. Its flags have the defaults of \<open>flag.String\<close>.
\<close>

record admin_host =
  sql_Open :: "string \<Rightarrow> string + sql_db"
  sqlite_Error :: "sql_error \<Rightarrow> string"
  crypto_Read :: "nat \<Rightarrow> nat \<Rightarrow> string + bytes"
  securecookie_New :: "bytes \<Rightarrow> bytes \<Rightarrow> SecureCookie"
  seed_env :: web_env

record admin_flags =
  flag_addr :: string
  flag_db :: string

definition default_admin_flags :: admin_flags where
  "default_admin_flags = \<lparr>flag_addr = '':8080'', flag_db = ''admin.db''\<rparr>"

datatype admin_fatal = OpenStore open_error | SeedAdmin seed_error | GenerateKey string | CreateServer string

definition mustRandKey :: "admin_host \<Rightarrow> nat \<Rightarrow> nat \<Rightarrow> admin_fatal + bytes" where
  "mustRandKey h i n = (case crypto_Read h i n of Inl err \<Rightarrow> Inl (GenerateKey err) | Inr key \<Rightarrow> Inr key)"

definition admin_main :: "admin_host \<Rightarrow> admin_flags \<Rightarrow> admin_fatal + sql_db Server http_Server \<times> sql_db" where
  "admin_main h f =
     (case NewSQLiteStore (sql_Open h) (sqlite_Error h) (flag_db f) of
        Inl err \<Rightarrow> Inl (OpenStore err)
      | Inr sq \<Rightarrow>
     (case ensureDefaultAdmin SQLiteStore (seed_env h) sq of
        (Some err, sq) \<Rightarrow> Inl (SeedAdmin err)
      | (None, sq) \<Rightarrow>
     (then_do (mustRandKey h 0 32) (\<lambda>hashKey.
      then_do (mustRandKey h 1 32) (\<lambda>blockKey.
      case NewServer (securecookie_New h) SQLiteStore hashKey blockKey of
        Inl err \<Rightarrow> Inl (CreateServer err)
      | Inr srv \<Rightarrow>
          Inr (\<lparr>Addr = flag_addr f, srv_Handler = srv, ReadTimeout = 15 * Second, WriteTimeout = 15 * Second,
                IdleTimeout = 60 * Second\<rparr>, sq))))))"

text \<open>The requests of a served run, each with what it finds outside, on the rows of the database.\<close>

definition handle_at :: "'s Server \<Rightarrow> web_env \<times> WebRequest \<Rightarrow> db \<Rightarrow> WebResponse \<times> db" where
  "handle_at srv q d = Handler (server_env srv (fst q)) (snd q) d"

section \<open>The services of the gateway (cmd/gateway/main.go)\<close>

datatype run_error = ContextCanceled | DeadlineExceeded | RunError string

definition isContextErr :: "run_error \<Rightarrow> bool" where
  "isContextErr err \<longleftrightarrow> err = ContextCanceled \<or> err = DeadlineExceeded"

text \<open>The gateway over stdio ends when \<open>Run\<close> returns; over HTTP it serves.\<close>

definition stdio_end :: "run_error option \<Rightarrow> process_state" where
  "stdio_end res =
     (case res of
        None \<Rightarrow> Exited
      | Some err \<Rightarrow> if isContextErr err then Exited
                   else FatalExit (case err of RunError e \<Rightarrow> e | _ \<Rightarrow> ''''))"

definition gateway_http_server :: "string \<Rightarrow> (string \<Rightarrow> string \<Rightarrow> mcp_route) http_Server" where
  "gateway_http_server addr =
     \<lparr>Addr = addr, srv_Handler = NewMCPHTTPHandler, ReadTimeout = 15 * Second, WriteTimeout = 0,
      IdleTimeout = 60 * Second\<rparr>"

end
