(* ===== verification/ProcessProps.thy ===== *)
theory ProcessProps
  imports Process AdminProps
begin

text \<open>
  The properties of the processes: the first start of the admin server, with the statements that reach the
  database file, and how the serving processes end.
\<close>

section \<open>Seeding\<close>

lemma refines_ensureDefaultAdmin:
  assumes "sim sq d" and "in_years (t_row env)"
  shows "refines (ensureDefaultAdmin SQLiteStore env sq) (ensureDefaultAdmin RowStore env d)"
proof (cases "GetOrgByID ''default'' d")
  case (Inr org)
  then show ?thesis using assms(1)
    by (simp add: ensureDefaultAdmin_def SQLiteStore_def RowStore_def read_GetOrgByID)
next
  case (Inl err)
  let ?o = "\<lparr>Org_ID = ''default'', Org_Name = ''Default Organization'', Org_CreatedAt = t_row env\<rparr>"
  let ?u = "\<lambda>hash. \<lparr>U_ID = uuid_row env, U_OrgID = ''default'', Username = ''admin'', Password = hash, U_Role = RoleAdmin,
      U_CreatedAt = t_row env\<rparr>"
  obtain e s1 where s1: "sql_CreateOrg ?o sq = (e, s1)" by fastforce
  obtain e' d1 where d1: "CreateOrg ?o d = (e', d1)" by fastforce
  have c: "e' = e" "sim s1 d1"
    using refines_CreateOrg [OF assms(1), of ?o] assms(2) s1 d1 by (simp_all add: organization_ok_def)
  have u: "refines (sql_CreateUser (?u hash) s1) (CreateUser (?u hash) d1)" for hash
    by (rule refines_CreateUser [OF c(2)]) (simp add: user_ok_def assms(2))
  show ?thesis
  proof (cases "GenerateFromPassword env ''changeme''")
    case (Inr hash)
    then show ?thesis using Inl c u [of hash] s1 d1 read_GetOrgByID [OF assms(1)]
      by (cases "sql_CreateUser (?u hash) s1"; cases "CreateUser (?u hash) d1")
        (simp add: ensureDefaultAdmin_def SQLiteStore_def RowStore_def split: option.split)
  qed (use Inl c s1 d1 read_GetOrgByID [OF assms(1)] in
      \<open>simp add: ensureDefaultAdmin_def SQLiteStore_def RowStore_def split: option.split\<close>)
qed

text \<open>
  C38: The first start. On an empty database a start that can hash the default password creates one
  administrator, who can log in with it. A start that fails to hash it reports the error but
  leaves the organisation behind, so that every later start believes the database seeded, does
  nothing and reports success, and nobody can ever log in.
\<close>

theorem first_start:
  assumes "ensureDefaultAdmin RowStore env empty_db = (res, d)"
  shows "(\<forall>h. GenerateFromPassword env ''changeme'' = Inr h \<longrightarrow>
       res = None \<and> (\<exists>u. t_users d = [u] \<and> U_Role u = RoleAdmin \<and> GetUserByUsername ''admin'' d = Inr u \<and> Password u = h)) \<and>
    (\<forall>e. GenerateFromPassword env ''changeme'' = Inl e \<longrightarrow>
       res = Some (HashPassword e) \<and> ensureDefaultAdmin RowStore env' d = (None, d) \<and> \<not> proves_login env'' r d u)"
  using assms
  by (auto simp: ensureDefaultAdmin_def RowStore_def GetOrgByID_def query_def one_row_def CreateOrg_def CreateUser_def exec_def
      empty_db_def GetUserByUsername_def proves_login_def)

lemma first_start_witness:
  "snd (ensureDefaultAdmin RowStore (sample_web\<lparr>GenerateFromPassword := (\<lambda>p. Inl ''rand'')\<rparr>) empty_db) \<noteq> empty_db \<and>
   ensureDefaultAdmin RowStore sample_web (snd (ensureDefaultAdmin RowStore (sample_web\<lparr>GenerateFromPassword := (\<lambda>p. Inl ''rand'')\<rparr>) empty_db)) =
     (None, snd (ensureDefaultAdmin RowStore (sample_web\<lparr>GenerateFromPassword := (\<lambda>p. Inl ''rand'')\<rparr>) empty_db))"
  using first_start [OF surjective_pairing, of "sample_web\<lparr>GenerateFromPassword := (\<lambda>p. Inl ''rand'')\<rparr>" sample_web]
  by (simp add: ensureDefaultAdmin_def RowStore_def GetOrgByID_def query_def one_row_def CreateOrg_def exec_def empty_db_def)

section \<open>The first login\<close>

text \<open>A request without a session cookie leaves the users and the health of the database as they are.\<close>

lemma anonymous_op:
  assumes "wr_Cookie r sessionCookieName = None" and "permitted env r d0 p"
  shows "t_users (apply_op p d) = t_users d \<and> db_failure (apply_op p d) = db_failure d"
proof -
  have "\<not> session_of env r sd" for sd using assms(1) by (simp add: session_of_def sessions_Get_def)
  then show ?thesis using assms(2)
    by (cases p) (auto simp: with_role_def AppendAuditEvent_def AppendMessageLog_def exec_def split: option.split)
qed

lemma anonymous_request:
  assumes "wr_Cookie r sessionCookieName = None"
  shows "t_users (snd (Handler env r d)) = t_users d \<and> db_failure (snd (Handler env r d)) = db_failure d"
proof -
  have "\<forall>p\<in>set ops. permitted env r d0 p \<Longrightarrow>
      t_users (fold apply_op ops d) = t_users d \<and> db_failure (fold apply_op ops d) = db_failure d" for ops d0 d
    by (induction ops arbitrary: d) (auto simp: anonymous_op [OF assms] simp del: permitted.simps)
  then show ?thesis using does_Handler [of env r d] by (auto simp: does_def apply_ops_def)
qed

lemma serving_append:
  "serving h (map Request qs @ es) s =
     (let (rs, s) = answer_all h qs s; (rs', s, e) = serving h es s in (rs @ rs', s, e))"
  by (induction qs arbitrary: s) (simp_all add: case_prod_unfold Let_def)

lemma anonymous_requests:
  assumes "\<forall>q\<in>set qs. wr_Cookie (snd q) sessionCookieName = None"
  shows "t_users (snd (answer_all (handle_at srv) qs d)) = t_users d \<and>
    db_failure (snd (answer_all (handle_at srv) qs d)) = db_failure d"
  using assms
  by (induction qs arbitrary: d) (simp_all add: case_prod_unfold Let_def handle_at_def anonymous_request)

text \<open>
  C28: From a new file to the first login. When the admin server is started on a new database file, the
  password can be hashed and random keys read, it serves; the file then represents a store
  with the administrator of the default organisation. After any number of requests without a session, a
  login as \<open>admin\<close> with \<open>changeme\<close> is answered with a redirection to the dashboard and a session cookie,
  and for eight hours whoever presents the cookie to that process has the administrator's session.
\<close>

theorem first_start_login:
  fixes h :: admin_host and env :: web_env and hk :: bytes and bk :: bytes
  defines "codec \<equiv> securecookie_New h hk bk"
    and "sd \<equiv> \<lparr>SD_UserID = uuid_row (seed_env h), SD_OrgID = ''default'', SD_Username = ''admin'', SD_Role = RoleAdmin,
      ExpiresAt = t_row env + 8 * Hour\<rparr>"
  assumes "sql_Open h (flag_db f) = Inr new_file"
    and "isDuplicateColumnErr (sqlite_Error h) (Some (DuplicateColumn ''agent_id''))"
    and "in_years (t_row (seed_env h))" and "GenerateFromPassword (seed_env h) ''changeme'' = Inr hash"
    and "crypto_Read h 0 32 = Inr hk" and "crypto_Read h 1 32 = Inr bk"
    and "sc_enc codec sessionCookieName sd = Inr v" and "sc_dec codec sessionCookieName v = Inr sd"
    and "\<forall>q\<in>set reqs. wr_Cookie (snd q) sessionCookieName = None"
    and "route_request r = Some LoginPost" and "wr_Form r = Inr form"
    and "form ''username'' = ''admin''" and "form ''password'' = ''changeme''"
    and "CompareHashAndPassword env hash ''changeme'' = None"
  shows "\<exists>hs sq d rs d'. admin_main h f = Inr (hs, sq) \<and> sim sq d \<and>
    serving (handle_at (srv_Handler hs)) (map Request (reqs @ [(env, r)])) d =
      (rs @ [\<lparr>w_reply = Redirect ''/'', w_cookie = Some (SetSessionCookie v (t_row env + 8 * Hour))\<rparr>], d', Serving) \<and>
    (\<forall>env' r'. wr_Cookie r' sessionCookieName = Some v \<longrightarrow> t_session env' \<le> t_row env + 8 * Hour \<longrightarrow>
       sessions_Get (server_env (srv_Handler hs) env') r' = Inr sd)"
proof -
  let ?u = "\<lparr>U_ID = uuid_row (seed_env h), U_OrgID = ''default'', Username = ''admin'', Password = hash, U_Role = RoleAdmin,
      U_CreatedAt = rfc3339 (t_row (seed_env h))\<rparr>"
  obtain s0 where s0: "migrate (sqlite_Error h) new_file = (None, s0)" "sim s0 empty_db"
    using migrate_sim [OF new_file_written assms(4)] by blast
  obtain d where d: "ensureDefaultAdmin RowStore (seed_env h) empty_db = (None, d)" "t_users d = [?u]" "db_failure d = None"
    using assms(6)
    by (simp add: ensureDefaultAdmin_def RowStore_def GetOrgByID_def query_def one_row_def CreateOrg_def CreateUser_def
        exec_def empty_db_def)
  obtain sq where sq: "ensureDefaultAdmin SQLiteStore (seed_env h) s0 = (None, sq)" "sim sq d"
    using refines_ensureDefaultAdmin [OF s0(2) assms(5)] d(1) by (auto simp: refines_def prod_eq_iff)
  define srv where "srv = \<lparr>srv_store = SQLiteStore, srv_sessions = \<lparr>sessions_sc = codec\<rparr>,
      srv_funcMap = [''string'' \<mapsto> template_string]\<rparr>"
  have m: "admin_main h f = Inr (\<lparr>Addr = flag_addr f, srv_Handler = srv, ReadTimeout = 15 * Second,
      WriteTimeout = 15 * Second, IdleTimeout = 60 * Second\<rparr>, sq)"
    using s0(1) sq(1) assms(3,7,8)
    by (simp add: admin_main_def NewSQLiteStore_def mustRandKey_def NewServer_def NewSessions_def srv_def codec_def)
  obtain rs d1 where a: "answer_all (handle_at srv) reqs d = (rs, d1)" by fastforce
  then have u: "GetUserByUsername ''admin'' d1 = Inr ?u"
    using anonymous_requests [OF assms(11), of srv d] d(2,3) by (simp add: GetUserByUsername_def query_def one_row_def)
  obtain d' where "handle_at srv (env, r) d1 =
      (\<lparr>w_reply = Redirect ''/'', w_cookie = Some (SetSessionCookie v (t_row env + 8 * Hour))\<rparr>, d')"
    using u assms(9,12-16)
    by (simp add: handle_at_def Handler_def handleLoginPost_def server_env_def srv_def sessions_Set_def sd_def)
  then show ?thesis
    using m a sq(2) assms(10)
    by (auto simp: serving_append sessions_Get_def server_env_def srv_def sd_def)
qed

definition sample_codec :: SecureCookie where
  "sample_codec = \<lparr>sc_enc = (\<lambda>n sd. Inr ''s''), sc_dec = (\<lambda>n v. Inr \<lparr>SD_UserID = ''r1'', SD_OrgID = ''default'',
     SD_Username = ''admin'', SD_Role = RoleAdmin, ExpiresAt = 50 + 8 * Hour\<rparr>)\<rparr>"

definition sample_admin_host :: admin_host where
  "sample_admin_host = \<lparr>sql_Open = (\<lambda>p. Inr new_file),
     sqlite_Error = (\<lambda>e. case e of DuplicateColumn c \<Rightarrow> ''duplicate column name: '' @ c | _ \<Rightarrow> ''error''),
     crypto_Read = (\<lambda>i n. Inr (replicate n (CHR ''a''))), securecookie_New = (\<lambda>hk bk. sample_codec), seed_env = sample_web\<rparr>"

definition first_form :: "string \<Rightarrow> string" where
  "first_form k = (if k = ''username'' then ''admin'' else ''changeme'')"

lemma first_start_login_witness:
  "\<exists>hs sq d d'. admin_main sample_admin_host default_admin_flags = Inr (hs, sq) \<and>
    serving (handle_at (srv_Handler hs)) [Request (sample_web, sample_request ''POST'' ''/login'' '''' first_form)] d =
      ([\<lparr>w_reply = Redirect ''/'', w_cookie = Some (SetSessionCookie ''s'' (50 + 8 * Hour))\<rparr>], d', Serving)"
proof -
  let ?r = "sample_request ''POST'' ''/login'' '''' first_form"
  have y: "in_years 50"
    by (simp add: in_years_def date_time_def day_number_def days_before_year_def days_before_month_def Day_def
        Minute_def Second_def)
  have route: "route_request ?r = Some LoginPost" by (simp add: sample_request_def route_request_def post_route_def)
  have "\<exists>hs sq d rs d'. admin_main sample_admin_host default_admin_flags = Inr (hs, sq) \<and> sim sq d \<and>
    serving (handle_at (srv_Handler hs)) (map Request ([] @ [(sample_web, ?r)])) d =
      (rs @ [\<lparr>w_reply = Redirect ''/'', w_cookie = Some (SetSessionCookie ''s'' (t_row sample_web + 8 * Hour))\<rparr>], d', Serving) \<and>
    (\<forall>env' r'. wr_Cookie r' sessionCookieName = Some ''s'' \<longrightarrow> t_session env' \<le> t_row sample_web + 8 * Hour \<longrightarrow>
       sessions_Get (server_env (srv_Handler hs) env') r' =
         Inr \<lparr>SD_UserID = uuid_row (seed_env sample_admin_host), SD_OrgID = ''default'', SD_Username = ''admin'',
           SD_Role = RoleAdmin, ExpiresAt = t_row sample_web + 8 * Hour\<rparr>)"
    by (rule first_start_login [where hash = "''changeme''" and form = first_form, OF _ _ _ _ _ _ _ _ _ route])
      (simp_all add: sample_admin_host_def isDuplicateColumnErr_def sample_web_def y sample_codec_def sample_request_def
        first_form_def)
  moreover have "t_row sample_web = 50" by (simp add: sample_web_def)
  ultimately show ?thesis by (auto simp: case_prod_unfold Let_def Cons_eq_append_conv)
qed

end
