(* ===== verification/Negotiation.thy ===== *)
theory Negotiation
  imports Protocol
begin

text \<open>
  \<open>pkg/negotiation\<close> and \<open>pkg/identity\<close>: the phases of a negotiation and the interfaces of agent
  identities. Both packages are placeholders for later phases of the project: the transition function
  is a stub, and no identity is created anywhere.
\<close>

section \<open>The phases of a negotiation (pkg/negotiation/types.go)\<close>

type_synonym NegotiationState = string

definition StatePropose :: NegotiationState where "StatePropose = NegotiationPropose"
definition StateAccept :: NegotiationState where "StateAccept = NegotiationAccept"
definition StateReject :: NegotiationState where "StateReject = NegotiationReject"
definition StateCounter :: NegotiationState where "StateCounter = NegotiationCounter"
definition StateClarify :: NegotiationState where "StateClarify = NegotiationClarify"
definition StateDelegate :: NegotiationState where "StateDelegate = NegotiationDelegate"
definition StateCommit :: NegotiationState where "StateCommit = NegotiationCommit"
definition StateAbort :: NegotiationState where "StateAbort = NegotiationAbort"

definition NegotiationTransition :: "NegotiationState \<Rightarrow> NegotiationState \<Rightarrow> bool" where
  "NegotiationTransition from_state to_state = False"

definition negotiation_states :: "NegotiationState list" where
  "negotiation_states = [StatePropose, StateAccept, StateReject, StateCounter, StateClarify, StateDelegate,
     StateCommit, StateAbort]"

text \<open>
  The phases are the registered message types of the negotiation family, and each of them but the
  proposal answers a message of its thread.
\<close>

lemma negotiation_states_registered:
  "distinct negotiation_states \<and>
   set negotiation_states = set (filter (\<lambda>mt. take 12 mt = ''negotiation.'') Registered)"
proof -
  have "distinct negotiation_states \<and>
      list_all (\<lambda>mt. mt \<in> set (filter (\<lambda>mt. take 12 mt = ''negotiation.'') Registered)) negotiation_states \<and>
      list_all (\<lambda>mt. mt \<in> set negotiation_states) (filter (\<lambda>mt. take 12 mt = ''negotiation.'') Registered)"
    by code_simp
  then show ?thesis unfolding list_all_iff by (intro conjI subset_antisym subsetI) blast+
qed

lemma negotiation_replies:
  "list_all (\<lambda>mt. case Lookup mt of None \<Rightarrow> False
     | Some m \<Rightarrow> ''thread_id'' \<in> set (RequiredFields m) \<and>
         (''in_reply_to'' \<in> set (RequiredFields m) \<longleftrightarrow> mt \<noteq> StatePropose)) negotiation_states"
  by code_simp

text \<open>Until the state machine is written, no history of a negotiation has two phases.\<close>

lemma no_transition: "\<not> NegotiationTransition a b"
  by (simp add: NegotiationTransition_def)

section \<open>Identities (pkg/identity/types.go)\<close>

record Identity =
  Pseudonym :: string
  PublicKey :: string

text \<open>
  \<open>Verify\<close> answers false for a bad signature, and an error when it cannot tell.
\<close>

record Signer =
  Sign :: "string \<Rightarrow> string + string"
  Verify :: "string \<Rightarrow> string \<Rightarrow> string + bool"

end
