(* ===== verification/Spec2Isabelle.thy ===== *)
theory Spec2Isabelle
  imports Sample AdminProps DeploymentProps CommandProps InterleaveProps LimiterProps
    MessageProps SqlProps ProcessProps Negotiation
begin

text \<open>
  A verification library for aga2aga, a protocol and a message gateway for agents: documents with
  YAML front matter and a Markdown body (\<open>pkg/document\<close>, \<open>pkg/protocol\<close>), a gateway that
  offers eight MCP tools to agents and moves their tasks and messages over Redis Streams
  (\<open>internal/gateway\<close>, \<open>pkg/transport\<close>), and an admin server with its store, which keeps the
  organisations, users, agents, policies, keys and limits that decide who may talk to whom
  (\<open>internal/admin\<close>, \<open>pkg/admin\<close>).

  How the parts interact. An agent calls a tool with its id and API key. The handler
  (\<open>tools.go\<close>) fills in the defaults, checks the id, authenticates the key, asks the policy
  enforcer, asks the limiter, and only then touches the pending map, builds and validates a
  document, publishes it, acknowledges the delivery it reports on, and logs. On the other side the
  read loop of the transport parses what arrives and hands it to the next \<open>get_task\<close> or
  \<open>receive_message\<close>. What a gateway asks for keys, policies and limits comes from the admin store:
  directly when it is embedded, through the JSON API of the admin server when it is remote. The
  store changes only by the requests the server handles, from browsers with a session and from
  gateways with a key.

  Theories, in the order of their dependency:
  \<^item> \<open>Prelude\<close>: Go's types (strings and byte slices as byte lists, maps as finite maps, instants as
    integers), results of fallible calls, generic lemmas, the rule collections \<open>wire\<close> and \<open>guards\<close>.
  \<^item> \<open>GoLib\<close>: what the code uses of \<open>bytes\<close>, \<open>regexp\<close> and \<open>sort\<close>; the locale \<open>slice_sorter\<close> is the
    contract of \<open>sort.Slice\<close>, interpreted by an insertion sort.
  \<^item> \<open>Protocol\<close> (\<open>pkg/protocol\<close>), \<open>Lifecycle\<close>, \<open>Envelope\<close>, \<open>Parser\<close>, \<open>Validator\<close>, \<open>Builder\<close> (one per
    file of \<open>pkg/document\<close>): the registry; the transition table and the state machine it has to
    be; the document record and typed access; splitting, parsing and serialising; the three
    validation layers; the builder and its sticky error.
  \<^item> \<open>Policy\<close> (\<open>pkg/admin\<close>): identifiers, and policy evaluation against the specification
    \<open>policy_decides\<close>.
  \<^item> \<open>Auth\<close> (\<open>auth.go\<close>, \<open>policy.go\<close>): authenticators and enforcers, embedded and over HTTP. The
    locales \<open>key_check\<close>, \<open>policy_oracle\<close> and their union \<open>access_control\<close> say what a gateway relies
    on; both pairs of implementations are interpretations.
  \<^item> \<open>Pending\<close> (\<open>pending.go\<close>): the map of delivered tasks and its cleanup; the locale \<open>token_store\<close>
    (a token is redeemed at most as often as it was stored) is interpreted on it.
  \<^item> \<open>Limiter\<close> (\<open>limiter.go\<close>): the no-op and the embedded enforcer, the sliding window, the cache;
    the locale \<open>limit_enforcer\<close> is interpreted on both enforcers.
  \<^item> \<open>MsgLog\<close> (\<open>msglog.go\<close>): the message log, its drain goroutine as a step relation; the locale
    \<open>bounded_logger\<close> is interpreted on the three loggers.
  \<^item> \<open>Transport\<close> (\<open>pkg/transport\<close>): the interface and the Redis implementation with its read loop.
  \<^item> \<open>Gateway\<close> (\<open>gateway.go\<close>, \<open>config.go\<close>) and \<open>Tools\<close> (\<open>tools.go\<close>): the wiring, the state, the
    eight handlers and their dispatch \<open>call_tool\<close>.
  \<^item> \<open>ToolFacts\<close>: the gate of a call, the path of each handler on success, the simulation of the
    pending map by token operations, the logging, and that \<open>Build\<close> never fails in a handler.
  \<^item> \<open>Pool\<close>: goroutines as sequences of atomic actions, and a pool of them under a schedule; the locale
    \<open>pool_invariant\<close> (a ghost value per thread and an invariant of the pool). \<open>Interleave\<close>: the handlers
    again, each as such a sequence; uninterrupted, a sequence is the handler of \<open>Tools\<close>
    (\<open>run_call_act\<close>). \<open>InterleaveFacts\<close> interprets the locale for the tokens and for the limit on pending
    tasks. \<open>LimiterRuns\<close>: the methods of the embedded enforcer as the sequences of their critical sections
    (uninterrupted, those of \<open>Limiter\<close>: \<open>run_lim_act\<close>), and the locale for the rate limit and for the age of
    the limits.
  \<^item> \<open>Payload\<close> (\<open>pkg/document/types_*.go\<close>): the structs of the message types as field lists, and how
    \<open>yaml.v3\<close> fills them. \<open>Enveloper\<close> (\<open>cmd/enveloper\<close>): the commands \<open>validate\<close>, \<open>create\<close>, \<open>inspect\<close>.
    \<open>Negotiation\<close> (\<open>pkg/negotiation\<close>, \<open>pkg/identity\<close>): the placeholders of later phases.
  \<^item> \<open>Times\<close>: what the code uses of Go's \<open>time\<close>: the calendar, RFC 3339 as it is written and read, and that
    reading inverts writing and the order of the texts is that of the instants.
  \<^item> \<open>SQLite\<close> (\<open>sqlite.go\<close>, \<open>pkg/admin/types.go\<close>): the tables as lists of rows with their keys, each
    operation of the store as the effect of its statement; \<open>db_op\<close> is the language of its writes and
    \<open>db_ok\<close> its invariant. \<open>StoreFacts\<close>: what the rest relies on; the locale \<open>key_store\<close> (a revoked key
    never binds again) is interpreted on it.
  \<^item> \<open>Sql\<close>: tables of columns and values, the statements that the code uses (with unique keys, defaults and
    NOT NULL), the schema of \<open>migrate\<close>, its upgrade of an older \<open>api_keys\<close>, \<open>NewSQLiteStore\<close>. \<open>Rows\<close>: the
    values that an insertion binds and the scanning of a row, per table; the locale \<open>row_codec\<close> (insert,
    update, delete, upsert and select on rows that encode typed records) is interpreted for the eight
    tables. \<open>SqlStore\<close>: the methods of \<open>SQLiteStore\<close> by their statements. \<open>SqlRefine\<close>: the relation \<open>sim\<close>
    of a database file to the typed tables of \<open>SQLite\<close>, kept by every method, with equal answers.
    \<open>Migration\<close>: opening what some version has written (\<open>written_by_some_version\<close>) leads to \<open>sim\<close>.
    \<open>StoreAPI\<close> (\<open>pkg/admin/store.go\<close>): the interfaces, implemented by the statements and by the rows.
  \<^item> \<open>Admin\<close> (\<open>session.go\<close>, \<open>middleware.go\<close>, \<open>audit.go\<close>): sessions, roles, audit,
    what the handlers use of \<open>net/url\<close> and \<open>strconv\<close>. \<open>AdminHandlers\<close>: the handlers of
    the pages. \<open>AdminAPI\<close>: the JSON API and the routes. \<open>AdminFacts\<close>: what a request is permitted to do to
    the store, and that no handler does more.
  \<^item> \<open>Deployment\<close> (\<open>cmd/gateway/main.go\<close>, \<open>http_handler.go\<close>): the wiring of a gateway, and its requests
    as they arrive at the admin server. \<open>Process\<close> (\<open>cmd/admin/main.go\<close>, \<open>server.go\<close>, the end of
    \<open>cmd/gateway/main.go\<close>): from the opening of the file over seeding and session keys to the serving process,
    which ends by a signal or when it cannot listen; rendering.
  \<^item> \<open>Sample\<close>: a concrete gateway for the instances. \<open>DocumentProps\<close>, \<open>CommandProps\<close>, \<open>GatewayProps\<close>,
    \<open>InterleaveProps\<close>, \<open>LimiterProps\<close>, \<open>AdminProps\<close>, \<open>DeploymentProps\<close>, \<open>SqlProps\<close>,
    \<open>ProcessProps\<close>, \<open>MessageProps\<close> (a message on its whole way) and this theory: the properties (C1 to C40) with
    instances in which their hypotheses hold. Here are those of the gateway as a whole.

  State and operations. Each struct is a record, each method a function on it that returns the
  result and the new state; a mutex that is held for a whole method makes that method one
  step. \<open>gw_state\<close> is the state of a gateway (pending map, limiter, log, network); \<open>call_env\<close> is what
  one call reads from outside (the admin store's state, the document library, a fresh UUID, the
  clock). Errors are values: a call yields \<open>Inl\<close> of an error datatype or \<open>Inr\<close> of its output, and the
  effects before an error stay in the returned state.

  Parameters. Code that is not in the repository is an argument: the YAML, JSON and JSON Schema
  libraries (\<open>doc_lib\<close>, \<open>marshal\<close>, \<open>unmarshal\<close>), the Redis client (\<open>redis_client\<close>), SHA-256, URL
  parsing and HTTP (\<open>http_lib\<close>), bcrypt, the encryption of cookies, random bytes and the server's
  JSON codec (\<open>web_env\<close>). The gateway's components take the queries of the store as arguments, for
  any store; \<open>db_keys\<close>, \<open>db_policies\<close>, \<open>db_limits\<close> and \<open>db_append_log\<close> are those of \<open>SQLite\<close>. No law of
  the parameters is assumed except where a property names it (that a codec reads back what was
  written, that \<open>sort.Slice\<close> sorts, that an entry id is not empty, that the network connects).

  Bounds and loops. The loop of \<open>findClosingDelimiter\<close> is a function with a termination proof, so
  it needs no fuel. The read loop runs for ever in the code; here it follows a list of turns, so
  that a statement about every list covers every finite run. The cleanup ticks are numbered.

  Interleaving. The theories of the handlers run one call after another; \<open>Interleave\<close> runs them at the
  same time. Its grain is a call of a component, which holds the component's mutex (the pending map) or
  is followed by arbitrary changes of the limiter, the log and the network by others, so that finer
  steps inside those components are covered as far as they concern the pending map. A call needs at
  most seven actions, so no fuel is involved. \<open>LimiterRuns\<close> has the finer grain of the limiter, with
  time passing between its critical sections.

  Not modelled. The requests of the admin server run one after another (in the code the statements of
  concurrent requests can alternate, on the one connection); the \<open>select\<close> of a handler on
  its channel is the function \<open>Receive\<close> of the transport; log output for operators; the MCP SDK; the
  HTTP server and the delivery of signals, which \<open>serving\<close> takes as events; the HTML of the pages; flag
  parsing of the command line. The database does not enforce REFERENCES, which SQLite does only when asked;
  rows that ORDER BY does not separate come in the order of insertion in \<open>SqlStore\<close>, and in any order that
  is a sorting in \<open>SQLite\<close>. The handlers are over the typed rows, not over the interface. The
  multiplexer's redirect of paths that are not clean is left out, and so are the other HTTP
  methods it distinguishes in its error. What is left of the code is logging, the text of error
  messages where nothing depends on it, and hand-over to libraries.

  Plan. What could follow is the interleaving of the admin server's requests.
\<close>

section \<open>Who is served\<close>

text \<open>
  C1: Access control. In an embedded gateway with authentication, a call of any of the eight tools
  that succeeds or has any effect on the gateway's state presented the raw key of an active,
  agent-role key bound to exactly the agent it acts for, and, for every tool that is subject to
  policy, the policies of the organisation evaluate to allow for that agent and the tool's target.
\<close>

theorem only_authorised_calls:
  assumes "auth g = Some (EmbeddedAuthenticator sha get)" and "enforcer g = EmbeddedEnforcer srt lister org"
    and "caller (cfg g) call = (agent, apiKey)"
    and "call_tool g env call s = (r, s')" and "s' \<noteq> s \<or> (\<exists>x. r = Inr x)"
  shows "(\<exists>k. get (world env) (sha apiKey) = Inr k \<and> RevokedAt k = None \<and> K_Role k = RoleAgent \<and>
        K_AgentID k = agent) \<and>
    (\<forall>target. policy_target call = Some target \<longrightarrow>
       (\<exists>ps. lister (world env) org = Inr ps \<and> Evaluate srt ps agent target = PolicyActionAllow))"
  using embedded_access.served_only_if_vouched [OF assms]
  by (simp add: key_binds_def policy_permits_def)

lemma only_authorised_calls_witness:
  "(\<exists>k. sample_keys sample_policies ''k'' = Inr k \<and> RevokedAt k = None \<and> K_Role k = RoleAgent \<and>
      K_AgentID k = ''a1'') \<and>
   Evaluate insertion_sort sample_policies ''a1'' PolicyTargetOrchestrator = PolicyActionAllow"
proof -
  let ?g = "sample_gateway (sample_trans None) noopLimitEnforcer"
  obtain s' where c: "call_tool ?g sample_env (GetTask get_call) (sample_start () []) =
      (Inr (OutGetTask \<lparr>TaskID = ''1-0'', TaskBody = ''hello''\<rparr>), s')" using sample_get by blast
  have "caller (cfg ?g) (GetTask get_call) = (''a1'', ''k'')"
    by (simp add: get_call_def applyDefaults_def)
  moreover have "auth ?g = Some (EmbeddedAuthenticator id sample_keys)"
    "enforcer ?g = EmbeddedEnforcer insertion_sort sample_lister ''o''"
    by (simp_all add: sample_gateway_def)
  ultimately show ?thesis
    using only_authorised_calls [of ?g id sample_keys insertion_sort sample_lister "''o''"
        "GetTask get_call" "''a1''" "''k''" sample_env "sample_start () []"] c
    by (auto simp: sample_env_def sample_lister_def)
qed

section \<open>Tasks\<close>

text \<open>
  A delivered task is reported at most once. In every sequence of tool calls, by whatever
  agents, the number of successful \<open>complete_task\<close> and \<open>fail_task\<close> calls for a task id is at most
  the number of times \<open>get_task\<close> delivered that id, plus one if it was pending at the start.
\<close>

theorem reported_at_most_once:
  assumes "gives_ids (trans g)" and "k \<noteq> ''''" and "run_calls g calls s = (rs, s')"
  shows "reports_of k calls rs \<le> deliveries_of k rs + (if Load k (pending s) = None then 0 else 1)"
  by (rule at_most_one_report [OF assms])

lemma reported_at_most_once_witness:
  "reports_of ''1-0''
     [(sample_env, CompleteTask complete_call), (sample_env, CompleteTask complete_call)]
     (fst (run_calls (sample_gateway (sample_trans None) noopLimitEnforcer)
        [(sample_env, CompleteTask complete_call), (sample_env, CompleteTask complete_call)]
        (sample_busy () []))) \<le> 1"
proof -
  let ?g = "sample_gateway (sample_trans None) noopLimitEnforcer"
  let ?cs = "[(sample_env, CompleteTask complete_call), (sample_env, CompleteTask complete_call)]"
  have ids: "gives_ids (trans ?g)"
    by (auto simp: gives_ids_def sample_gateway_def sample_trans_def sample_delivery_def)
  have nd: "\<not> delivered k (fst (out OutCompleteTask p))" for k p
    by (cases p; cases "fst p") auto
  have "deliveries_of ''1-0'' (fst (run_calls ?g ?cs (sample_busy () []))) = 0"
    by (simp add: deliveries_of_def case_prod_unfold nd)
  then show ?thesis
    using reported_at_most_once [OF ids, of "''1-0''" ?cs "sample_busy () []"
        "fst (run_calls ?g ?cs (sample_busy () []))" "snd (run_calls ?g ?cs (sample_busy () []))"]
    by (simp add: sample_busy_def Load_def Store_def New_def del: run_calls.simps)
qed

text \<open>
  C5: What \<open>complete_task\<close> does on success. The task was pending; a \<open>task.result\<close> for it, addressed
  to the agent and carrying the result, which passes validation, was published on
  \<open>agent.events.completed\<close>; then the delivery recorded for the task was acknowledged; the task is
  no longer pending, nothing else in the pending map changed, and one entry was logged.
\<close>

theorem complete_task_effects:
  assumes "handleCompleteTask g env i s = (Inr r, s')"
    and "applyDefaults (cfg g) (ct_Agent i) (ct_APIKey i) = (agent, apiKey)"
  shows "\<exists>tp mid doc maxLen n v. Load (ct_TaskID i) (pending s) = Some (tp, mid) \<and>
    Type doc = TaskResult \<and> ID doc = uuid env \<and> From doc = AgentID (cfg g) \<and> To doc = [agent] \<and>
    ExecID doc = ct_TaskID i \<and> InReplyTo doc = ct_TaskID i \<and> Body doc = Result i \<and>
    docValidator env = Inr v \<and> Validate (doclib env) v (Some doc) = [] \<and>
    Publish (trans g) ''agent.events.completed'' doc [\<lparr>MaxLen = maxLen\<rparr>] (net s) = (None, n) \<and>
    Ack (trans g) tp mid n = (None, net s') \<and>
    pending s' = fmdrop (ct_TaskID i) (pending s) \<and>
    logs s' = Log (logger g) (report_entry (uuid env) agent PolicyTargetOrchestrator TaskResult
                ''complete_task'' (Result i)) (logs s)"
proof -
  from assms obtain tp mid lim1 lim2 maxLen net1 net2 doc where c:
    "Load (ct_TaskID i) (pending s) = Some (tp, mid)"
    "doc = assemble (created env) (task_report TaskResult ''result'' (uuid env) (AgentID (cfg g)) agent
       (ct_TaskID i) (Result i))"
    "Build (doclib env) (docValidator env) (created env) (task_report TaskResult ''result'' (uuid env)
       (AgentID (cfg g)) agent (ct_TaskID i) (Result i)) = Inr doc"
    "Publish (trans g) ''agent.events.completed'' doc [\<lparr>MaxLen = maxLen\<rparr>] (net s) = (None, net1)"
    "Ack (trans g) tp mid net1 = (None, net2)"
    "s' = s\<lparr>pending := fmdrop (ct_TaskID i) (pending s), lim := RecordSend (limiter g) agent lim2,
            logs := Log (logger g) (report_entry (uuid env) agent PolicyTargetOrchestrator TaskResult
                      ''complete_task'' (Result i)) (logs s), net := net2\<rparr>"
    by (rule complete_success)
  obtain v where v: "docValidator env = Inr v" "Validate (doclib env) v (Some doc) = []"
    using c(3) by (auto simp: Build_Inr)
  show ?thesis
    by (intro exI [of _ tp] exI [of _ mid] exI [of _ doc] exI [of _ maxLen] exI [of _ net1] exI [of _ v])
      (use c v in simp)
qed

lemma complete_task_effects_witness:
  "\<exists>doc. Type doc = TaskResult \<and> ExecID doc = ''1-0'' \<and> Body doc = ''done'' \<and>
     Validate sample_lib sample_validator (Some doc) = []"
proof -
  let ?g = "sample_gateway (sample_trans None) noopLimitEnforcer"
  have d: "applyDefaults (cfg ?g) (ct_Agent complete_call) (ct_APIKey complete_call) = (''a1'', ''k'')"
    by (simp add: complete_call_def applyDefaults_def)
  have f: "ct_TaskID complete_call = ''1-0''" "Result complete_call = ''done''"
    "docValidator sample_env = Inr sample_validator" "doclib sample_env = sample_lib"
    by (simp_all add: complete_call_def sample_env_def)
  from complete_task_effects [OF sample_complete [of None, simplified] d] show ?thesis
    unfolding f by auto
qed

text \<open>
  The bound on pending tasks. If the limits in force give an agent a positive maximum of
  pending tasks, no tool call by anyone takes the number of its pending tasks above that
  maximum plus one.
\<close>

theorem pending_tasks_bounded:
  assumes "limiter g = embeddedLimitEnforcer getter" and "call_tool g env call s = (r, s')"
    and "fst (effectiveLimits getter (world env) (clk1 env) a (lim s)) = Some l" and "0 < MaxPendingTasks l"
    and "int (CountByAgent a (pending s)) \<le> MaxPendingTasks l + 1"
  shows "int (CountByAgent a (pending s')) \<le> MaxPendingTasks l + 1"
proof (cases "\<exists>i. call = GetTask i \<and> fst (caller (cfg g) call) = a")
  case False
  then have "CountByAgent a (pending s') \<le> CountByAgent a (pending s)"
    by (intro count_grows_only_by_get [OF assms(2)]) blast
  then show ?thesis using assms(5) by linarith
next
  case True
  then obtain i apiKey where i: "call = GetTask i" "applyDefaults (cfg g) (gt_Agent i) (gt_APIKey i) = (a, apiKey)"
    by (cases "caller (cfg g) call") auto
  show ?thesis
  proof (cases r)
    case (Inl e)
    then show ?thesis using assms(2,5) i get_failed_pending [of g env i s e s'] by (simp add: guards)
  next
    case (Inr x)
    then obtain y where "handleGetTask g env i s = (Inr y, s')" using assms(2) i by (auto simp: guards)
    from embedded.get_within [OF assms(1) this i(2) refl] show ?thesis
      using assms(3,4,5) by simp
  qed
qed

lemma pending_tasks_bounded_witness:
  "int (CountByAgent ''a1'' (pending (snd (call_tool
     (sample_gateway (sample_trans None) (embeddedLimitEnforcer sample_getter)) sample_env (GetTask get_call)
     (sample_start (NewEmbeddedLimitEnforcer ''o'') []))))) \<le> 2"
proof -
  let ?g = "sample_gateway (sample_trans None) (embeddedLimitEnforcer sample_getter)"
  let ?s = "sample_start (NewEmbeddedLimitEnforcer ''o'') []"
  have "fst (effectiveLimits sample_getter (world sample_env) (clk1 sample_env) ''a1'' (lim ?s)) =
      Some sample_limits"
    by (simp add: effectiveLimits_def New_def NewEmbeddedLimitEnforcer_def
        NewEmbeddedLimitEnforcerWithCacheTTL_def sample_getter_def)
  from pending_tasks_bounded [OF _ prod.collapse [symmetric] this, of ?g "GetTask get_call"]
  show ?thesis
    by (simp add: sample_gateway_def sample_limits_def New_def NewPendingMap_def CountByAgent_def)
qed

text \<open>
  C35: A completion whose publication fails loses the task. When \<open>complete_task\<close> returns the error
  of \<open>Publish\<close>, the task was pending and no longer is, although nothing is logged and the network is
  exactly as the failed \<open>Publish\<close> left it: no XACK was sent for the delivery. From that state no later
  call of \<open>complete_task\<close> for it succeeds.
\<close>

theorem failed_publish_loses_task:
  assumes "handleCompleteTask g env i s = (Inl (PublishError e), s')" and "ct_TaskID i' = ct_TaskID i"
  shows "Load (ct_TaskID i) (pending s) \<noteq> None \<and> Load (ct_TaskID i) (pending s') = None \<and>
    logs s' = logs s \<and>
    (\<exists>doc opts. Publish (trans g) ''agent.events.completed'' doc opts (net s) = (Some e, net s')) \<and>
    (\<exists>e. fst (handleCompleteTask g' env' i' s') = Inl e)"
proof -
  have l: "Load (ct_TaskID i) (pending s) \<noteq> None" "Load (ct_TaskID i) (pending s') = None"
    using complete_publish_error [OF assms(1)] by auto
  have "call_tool g env (CompleteTask i) s = (Inl (PublishError e), s')" using assms(1) by simp
  then have "logs s' = logs s" by (rule failure_not_logged)
  then show ?thesis using l assms(2) complete_publish_net [OF assms(1)] by (simp add: complete_unknown)
qed

lemma failed_publish_loses_task_witness:
  "let g = sample_gateway (sample_trans (Some (XAddFailed ''t'' Canceled))) noopLimitEnforcer;
       s' = \<lparr>pending = fmempty, lim = (), logs = [], net = []\<rparr>
   in handleCompleteTask g sample_env complete_call (sample_busy () []) =
        (Inl (PublishError (XAddFailed ''t'' Canceled)), s') \<and>
      Load ''1-0'' (pending s') = None \<and>
      (\<exists>e. fst (handleCompleteTask g sample_env complete_call s') = Inl e)"
  using failed_publish_loses_task [OF sample_complete [of "Some (XAddFailed ''t'' Canceled)", simplified] refl,
      of "sample_gateway (sample_trans (Some (XAddFailed ''t'' Canceled))) noopLimitEnforcer" sample_env]
    sample_complete [of "Some (XAddFailed ''t'' Canceled)"]
  by (simp add: complete_call_def)

section \<open>Messages\<close>

text \<open>
  C32: A message that is accepted but never arrives. The gateway accepts a message body up to 64 KiB
  and publishes it in an entry that also holds the front matter and the delimiters. For every
  body within eight bytes of the limit, \<open>send_message\<close> reports success, yet the entry it wrote is
  rejected by \<open>parseMsg\<close> whatever the YAML library does, so that the read loop discards it.
\<close>

theorem large_message_vanishes:
  assumes "trans g = RedisTransport marshal client opts select_on"
    and "call_tool g env (SendMessage i) s = (Inr x, s')"
    and "MaxDocumentBytes < int (length (sm_Body i)) + 8"
  shows "\<exists>args. XAdd client args (net s) = (None, net s') \<and>
    XA_Stream args = ''agent.messages.'' @ sm_To i \<and>
    (\<forall>unmarshal t mid. parseMsg unmarshal t \<lparr>X_ID = mid, X_Values = XA_Values args\<rparr> = None)"
proof -
  obtain y where h: "handleSendMessage g env i s = (Inr y, s')" using assms(2) by (auto simp: guards)
  obtain agent apiKey where d: "applyDefaults (cfg g) (sm_Agent i) (sm_APIKey i) = (agent, apiKey)"
    by fastforce
  from h d obtain lim1 lim2 maxLen net1 doc where c:
    "doc = assemble (created env) (message_builder (uuid env) agent (sm_To i) (sm_Body i))"
    "Publish (trans g) (''agent.messages.'' @ sm_To i) doc [\<lparr>MaxLen = maxLen\<rparr>] (net s) = (None, net1)"
    "s' = s\<lparr>lim := RecordSend (limiter g) agent lim2,
            logs := Log (logger g) (report_entry (uuid env) agent (sm_To i) AgentMessage
                      ''send_message'' (sm_Body i)) (logs s), net := net1\<rparr>"
    by (rule send_success)
  have "redis_Publish marshal client (''agent.messages.'' @ sm_To i) doc [\<lparr>MaxLen = maxLen\<rparr>] (net s) =
      (None, net s')"
    using c(2,3) assms(1) by (simp add: RedisTransport_def Let_def)
  from redis_Publish_None [OF this] obtain raw args where a: "Serialize marshal (Some doc) = Inr raw"
    "XA_Stream args = ''agent.messages.'' @ sm_To i" "XA_Values args = fmupd ''doc'' (RString raw) fmempty"
    "XAdd client args (net s) = (None, net s')" by blast
  have "length (sm_Body i) + 8 \<le> length raw" using Serialize_length [OF a(1)] c(1) by simp
  then have "MaxDocumentBytes < int (length raw)" using assms(3) by linarith
  then show ?thesis using a by (intro exI [of _ args]) (simp add: parseMsg_oversize)
qed

lemma large_message_vanishes_witness:
  "\<exists>args. XAdd sample_client args [] = (None, []) \<and>
    (\<forall>unmarshal t mid. parseMsg unmarshal t \<lparr>X_ID = mid, X_Values = XA_Values args\<rparr> = None)"
proof -
  let ?g = "sample_gateway sample_redis noopLimitEnforcer"
  let ?b = "replicate 65536 (CHR ''x'')"
  obtain s' where s: "call_tool ?g sample_env (SendMessage (send_call ?b)) (sample_start () []) =
      (Inr (OutSendMessage \<lparr>sm_Status = ''ok''\<rparr>), s')" "net s' = []"
    using sample_send [of ?b noopLimitEnforcer "()" "()" sample_redis "[]" "[]"] sample_redis_publish
    by (auto simp: MaxDocumentBytes_def noopLimitEnforcer_def)
  have "trans ?g = RedisTransport (\<lambda>d. Inr ''id: m1'') sample_client
      \<lparr>ConsumerGroup = '''', Consumer = '''', BlockTimeout = 0\<rparr> (\<lambda>ch r. (TimedOut, r))"
    by (simp add: sample_gateway_def sample_redis_def)
  from large_message_vanishes [OF this s(1)] s(2) show ?thesis
    by (auto simp: send_call_def MaxDocumentBytes_def New_def)
qed

text \<open>
  Bodies within the limits. Under the embedded limiter, a body that \<open>complete_task\<close>, \<open>fail_task\<close>
  or \<open>send_message\<close> accepted is no longer than the maximum the caller's limits in force give.
\<close>

theorem sent_within_limits:
  assumes "limiter g = embeddedLimitEnforcer getter" and "call_tool g env call s = (Inr x, s')"
    and "sent_body call = Some b" and "caller (cfg g) call = (agent, apiKey)"
    and "fst (effectiveLimits getter (world env) (clk1 env) agent (lim s)) = Some l" and "0 < MaxBodyBytes l"
  shows "int (length b) \<le> MaxBodyBytes l"
  using embedded.sent_within [OF assms(1-4)] assms(5,6) by simp

lemma sent_within_limits_witness: "int (length ''hi'') \<le> MaxBodyBytes sample_limits"
proof -
  let ?g = "sample_gateway sample_redis (embeddedLimitEnforcer sample_getter)"
  let ?l = "NewEmbeddedLimitEnforcer ''o''"
  have eff: "fst (effectiveLimits sample_getter st sample_clock ''a1'' ?l) = Some sample_limits" for st
    by (simp add: effectiveLimits_def NewEmbeddedLimitEnforcer_def
        NewEmbeddedLimitEnforcerWithCacheTTL_def sample_getter_def)
  obtain l1 where l1: "CheckSend (embeddedLimitEnforcer sample_getter) sample_policies sample_clock ''a1''
      (int (length ''hi'')) ?l = (None, l1)"
    by (auto simp: embeddedLimitEnforcer_def emb_CheckSend_def effectiveLimits_def bucket_def tryRecord_def
        NewEmbeddedLimitEnforcer_def NewEmbeddedLimitEnforcerWithCacheTTL_def sample_getter_def
        sample_limits_def maxMapEntries_def Let_def)
  obtain s' where s: "call_tool ?g sample_env (SendMessage (send_call ''hi'')) (sample_start ?l []) =
      (Inr (OutSendMessage \<lparr>sm_Status = ''ok''\<rparr>), s')"
    using sample_send [OF _ l1 sample_redis_publish, of "[]"] by (auto simp: MaxDocumentBytes_def)
  have g: "limiter ?g = embeddedLimitEnforcer sample_getter" "sent_body (SendMessage (send_call ''hi'')) = Some ''hi''"
    "caller (cfg ?g) (SendMessage (send_call ''hi'')) = (''a1'', ''k'')"
    by (simp_all add: sample_gateway_def send_call_def applyDefaults_def)
  show ?thesis
    using sent_within_limits [OF g(1) s g(2,3), of sample_limits] eff
    by (simp add: sample_env_def New_def sample_limits_def)
qed

section \<open>Every call\<close>

text \<open>
  C16: What is logged. A call that fails logs nothing. A successful \<open>complete_task\<close>, \<open>fail_task\<close> or
  \<open>send_message\<close> logs exactly one entry: the caller as sender, the tool's name, the body as it
  was given and its true size, which is within 64 KiB.
\<close>

theorem call_logging:
  assumes "call_tool g env call s = (r, s')" and "caller (cfg g) call = (agent, apiKey)"
  shows "(\<forall>e. r = Inl e \<longrightarrow> logs s' = logs s) \<and>
    (\<forall>x b. r = Inr x \<longrightarrow> sent_body call = Some b \<longrightarrow>
       (\<exists>entry. logs s' = Log (logger g) entry (logs s) \<and> FromAgent entry = agent \<and>
          ToolName entry = tool_name call \<and> LE_Body entry = b \<and> BodySize entry = int (length b) \<and>
          BodySize entry \<le> MaxDocumentBytes))"
proof (intro conjI allI impI)
  show "logs s' = logs s" if "r = Inl e" for e
    using failure_not_logged [of g env call s e s'] assms(1) that by simp
  show "\<exists>entry. logs s' = Log (logger g) entry (logs s) \<and> FromAgent entry = agent \<and>
      ToolName entry = tool_name call \<and> LE_Body entry = b \<and> BodySize entry = int (length b) \<and>
      BodySize entry \<le> MaxDocumentBytes" if "r = Inr x" "sent_body call = Some b" for x b
  proof -
    from assms(1) that(1) have "call_tool g env call s = (Inr x, s')" by simp
    from sent_logged [OF this that(2) assms(2)] obtain recipient mt where
      "int (length b) \<le> MaxDocumentBytes"
      "logs s' = Log (logger g) (report_entry (uuid env) agent recipient mt (tool_name call) b) (logs s)"
      by blast
    then show ?thesis
      by (intro exI [of _ "report_entry (uuid env) agent recipient mt (tool_name call) b"])
        (simp add: report_entry_def)
  qed
qed

lemma call_logging_witness:
  "\<exists>entry. [report_entry ''u1'' ''a1'' PolicyTargetOrchestrator TaskResult ''complete_task'' ''done''] =
       ([] :: MessageLogEntry list) @ [entry] \<and>
     FromAgent entry = ''a1'' \<and> ToolName entry = ''complete_task'' \<and> BodySize entry = 4"
proof -
  let ?g = "sample_gateway (sample_trans None) noopLimitEnforcer"
  let ?e = "report_entry ''u1'' ''a1'' PolicyTargetOrchestrator TaskResult ''complete_task'' ''done''"
  obtain s' where c: "call_tool ?g sample_env (CompleteTask complete_call) (sample_busy () []) =
      (Inr (OutCompleteTask \<lparr>ct_Status = ''ok''\<rparr>), s')" "logs s' = [?e]"
    by (simp add: sample_complete)
  have d: "caller (cfg ?g) (CompleteTask complete_call) = (''a1'', ''k'')"
    "sent_body (CompleteTask complete_call) = Some ''done''"
    by (simp_all add: complete_call_def applyDefaults_def)
  have l: "Log (logger ?g) e es = es @ [e]" for e es by (simp add: sample_gateway_def)
  have "logs (sample_busy () [] :: (unit, MessageLogEntry list, (string \<times> Document) list) gw_state) = []"
    by (simp add: sample_busy_def New_def)
  then show ?thesis using call_logging [OF c(1) d(1)] d(2) c(2) by (auto simp: l)
qed

text \<open>
  The gateway's own documents are always valid. With the validator that \<open>NewValidator\<close>
  compiles, a non-empty UUID, a gateway identity, and no empty task id pending, no tool call ever
  fails in \<open>Build\<close>.
\<close>

theorem gateway_documents_build:
  assumes "NewValidator (doclib env) schemaBytes = Inr v" and "docValidator env = Inr v"
    and "uuid env \<noteq> ''''" and "AgentID (cfg g) \<noteq> ''''" and "Load '''' (pending s) = None"
  shows "fst (call_tool g env call s) \<noteq> Inl (BuildDoc e)"
  using NewValidator_schemas [OF assms(1)] by (intro no_build_error [OF _ assms(2-5)]) blast

lemma gateway_documents_build_witness:
  "\<exists>v. NewValidator sample_lib '''' = Inr v \<and>
     fst (call_tool (sample_gateway (sample_trans None) noopLimitEnforcer) (sample_env\<lparr>docValidator := Inr v\<rparr>)
       (SendMessage (send_call ''hi'')) (sample_start () [])) \<noteq> Inl (BuildDoc (FieldErr (ReservedKey ''id'')))"
proof -
  have "\<exists>m. compile_all sample_lib () mts acc = Inr m" for mts acc
    by (induction mts arbitrary: acc) (auto simp: sample_lib_def split: option.split)
  then obtain m where "compile_all sample_lib () Registered fmempty = Inr m" by blast
  then have v: "NewValidator sample_lib '''' = Inr \<lparr>schemas = m\<rparr>"
    by (simp add: NewValidator_def) (simp add: sample_lib_def)
  have "fst (call_tool (sample_gateway (sample_trans None) noopLimitEnforcer)
      (sample_env\<lparr>docValidator := Inr \<lparr>schemas = m\<rparr>\<rparr>) (SendMessage (send_call ''hi'')) (sample_start () []))
      \<noteq> Inl (BuildDoc (FieldErr (ReservedKey ''id'')))"
    by (rule gateway_documents_build [where schemaBytes = "''''" and v = "\<lparr>schemas = m\<rparr>"])
      (simp_all add: v sample_env_def sample_gateway_def DefaultConfig_def New_def NewPendingMap_def Load_def
        del: call_tool.simps)
  with v show ?thesis by blast
qed

text \<open>
  The default credential. A call that names an agent acts for that agent with exactly the key
  it presents; the configured key is used only when the call gives neither an agent nor a key, and
  then only for the configured agent.
\<close>

theorem default_key_scope:
  assumes "given call = (a0, k0)" and "caller c call = (agent, k)"
  shows "(a0 \<noteq> '''' \<longrightarrow> agent = a0 \<and> k = k0) \<and>
    (k \<noteq> k0 \<longrightarrow> a0 = '''' \<and> k0 = '''' \<and> agent = DefaultAgentName c \<and> k = DefaultAgentKey c)"
proof -
  have "applyDefaults c a0 k0 = (agent, k)" using assms by (cases call) simp_all
  then show ?thesis
    using applyDefaults_key [of c a0 k0 agent k] applyDefaults_explicit [of a0 c k0] by auto
qed

lemma default_key_scope_witness:
  "DefaultAgentName (DefaultConfig\<lparr>DefaultAgentName := ''me'', DefaultAgentKey := ''secret''\<rparr>) = ''me'' \<and>
   DefaultAgentKey (DefaultConfig\<lparr>DefaultAgentName := ''me'', DefaultAgentKey := ''secret''\<rparr>) = ''secret''"
  using default_key_scope [of "Heartbeat \<lparr>hb_Agent = '''', hb_APIKey = ''''\<rparr>" "''''" "''''"
      "DefaultConfig\<lparr>DefaultAgentName := ''me'', DefaultAgentKey := ''secret''\<rparr>" "''me''" "''secret''"]
  by (simp add: applyDefaults_def)

end
